theory Spec2Isabelle
  imports Main
begin

unbundle bit_operations_syntax

section \<open>The curve parameters\<close>

text \<open>The module constants of \<^verbatim>\<open>secp256k1.py\<close>, written in decimal:
  \<^verbatim>\<open>P = 0xFFFF...FFFEFFFFFC2F\<close>, \<^verbatim>\<open>B = 7\<close>, and the coordinates \<^verbatim>\<open>GX\<close>, \<^verbatim>\<open>GY\<close>
  of the generator.\<close>

definition P :: int where
  "P = 115792089237316195423570985008687907853269984665640564039457584007908834671663"

definition B :: int where
  "B = 7"

definition GX :: int where
  "GX = 55066263022277343669578718895168534326250603453777594175500187360389116729240"

definition GY :: int where
  "GY = 32670510020758816978083085130507043184471273380659243275938904335757337482424"

section \<open>Errors\<close>

text \<open>The exceptions the module can raise. \<open>ValueError\<close> is the one
  \<^verbatim>\<open>Point.__post_init__\<close> raises; its message is built from the two
  coordinates, which are kept as the payload. The message is an f-string, and
  converting an integer of more than \<^verbatim>\<open>sys.int_info.default_max_str_digits\<close>
  decimal digits to text raises a \<^verbatim>\<open>ValueError\<close> of the interpreter's own
  (\<^verbatim>\<open>Exceeds the limit (4300 digits) for integer string conversion\<close>), which names
  no coordinate: that one is \<open>ValueError_digit_limit\<close>. \<open>AssertionError\<close> comes
  from the \<^verbatim>\<open>assert ... is not None\<close> lines and \<open>ZeroDivisionError\<close> from
  \<^verbatim>\<open>%\<close> with a zero modulus.\<close>

datatype error =
  ValueError "int option" "int option"
| ValueError_digit_limit
| AssertionError
| ZeroDivisionError

text \<open>CPython's default limit on the decimal digits of an integer that is converted
  to a string, and the test the conversion makes: the sign is not counted. A missing
  coordinate is formatted as \<^verbatim>\<open>None\<close>.\<close>

definition int_max_str_digits :: nat where
  "int_max_str_digits = 4300"

definition str_int_ok :: "int \<Rightarrow> bool" where
  "str_int_ok k \<longleftrightarrow> \<bar>k\<bar> < 10 ^ int_max_str_digits"

fun format_ok :: "int option \<Rightarrow> bool" where
  "format_ok None = True"
| "format_ok (Some k) = str_int_ok k"

section \<open>Points\<close>

text \<open>The dataclass \<^verbatim>\<open>Point\<close> with its two optional fields \<^verbatim>\<open>x\<close> and \<^verbatim>\<open>y\<close>.\<close>

record Point =
  point_x :: "int option"
  point_y :: "int option"

definition is_infinity :: "Point \<Rightarrow> bool" where
  "is_infinity self \<longleftrightarrow> point_x self = None \<and> point_y self = None"

text \<open>\<^verbatim>\<open>is_on_curve\<close>: true at infinity; the assertion fails when exactly one
  coordinate is missing; otherwise the two sides of the curve equation are compared
  modulo \<open>P\<close>.\<close>

definition is_on_curve :: "Point \<Rightarrow> error + bool" where
  "is_on_curve self =
     (if is_infinity self then Inr True
      else (case (point_x self, point_y self) of
              (Some xv, Some yv) \<Rightarrow>
                (let left = (yv * yv) mod P;
                     right = (xv * xv * xv + B) mod P
                 in Inr (left = right))
            | _ \<Rightarrow> Inl AssertionError))"

text \<open>The constructor call \<^verbatim>\<open>Point(x, y)\<close>: the dataclass stores the two fields
  as given and then runs \<^verbatim>\<open>__post_init__\<close>, which raises unless the point is the
  point at infinity or lies on the curve. The message of the error is formatted from
  both coordinates before the error is raised, so a coordinate that is too long to
  format turns the error into the interpreter's.\<close>

definition Point_init :: "int option \<Rightarrow> int option \<Rightarrow> error + Point" where
  "Point_init xo yo =
     (let self = \<lparr>point_x = xo, point_y = yo\<rparr>
      in if is_infinity self then Inr self
         else (case is_on_curve self of
                 Inl e \<Rightarrow> Inl e
               | Inr ok \<Rightarrow>
                   if \<not> ok
                   then (if format_ok xo \<and> format_ok yo then Inl (ValueError xo yo)
                         else Inl ValueError_digit_limit)
                   else Inr self))"

text \<open>The module-level generator \<^verbatim>\<open>G = Point(GX, GY)\<close>.\<close>

definition G :: "error + Point" where
  "G = Point_init (Some GX) (Some GY)"

section \<open>Modular inverse\<close>

text \<open>The \<^verbatim>\<open>while r != 0\<close> loop of \<^verbatim>\<open>mod_inverse\<close> on the four loop variables;
  it returns the final \<^verbatim>\<open>old_s\<close>. Python's \<^verbatim>\<open>//\<close> is floor division, as \<open>div\<close> on
  \<open>int\<close> is.\<close>

function euclid_loop :: "int \<Rightarrow> int \<Rightarrow> int \<Rightarrow> int \<Rightarrow> int" where
  "euclid_loop old_r r old_s s =
     (if r \<noteq> 0
      then (let quotient = old_r div r
            in euclid_loop r (old_r - quotient * r) s (old_s - quotient * s))
      else old_s)"
  by pat_completeness auto
termination
proof (relation "measure (\<lambda>(old_r, r, old_s, s). nat \<bar>r\<bar>)")
  show "wf (measure (\<lambda>(old_r, r, old_s, s). nat \<bar>r\<bar>))"
    by simp
next
  fix old_r r old_s s quotient :: int
  assume r: "r \<noteq> 0" and q: "quotient = old_r div r"
  have "old_r - quotient * r = old_r mod r"
    using q by (simp add: minus_div_mult_eq_mod)
  moreover have "\<bar>old_r mod r\<bar> < \<bar>r\<bar>"
    using r by (rule abs_mod_less)
  ultimately show "((r, old_r - quotient * r, s, old_s - quotient * s), (old_r, r, old_s, s))
      \<in> measure (\<lambda>(old_r, r, old_s, s). nat \<bar>r\<bar>)"
    by simp
qed

declare euclid_loop.simps [simp del]

text \<open>The first statement of \<^verbatim>\<open>mod_inverse\<close>,
  \<^verbatim>\<open>if a < 0: a = (a % m + m) % m\<close>: the value of \<open>a\<close> that enters the loop. Only a
  negative \<open>a\<close> is rewritten.\<close>

definition loop_input :: "int \<Rightarrow> int \<Rightarrow> int" where
  "loop_input a m = (if a < 0 then (a mod m + m) mod m else a)"

text \<open>\<^verbatim>\<open>mod_inverse(a, m)\<close>. With \<open>m = 0\<close> the normalisation (for \<open>a < 0\<close>) or
  the final \<^verbatim>\<open>old_s % m\<close> divides by zero.\<close>

definition mod_inverse :: "int \<Rightarrow> int \<Rightarrow> error + int" where
  "mod_inverse a m =
     (if a < 0 \<and> m = 0 then Inl ZeroDivisionError
      else (let a' = loop_input a m;
                old_s = euclid_loop a' m 1 0
            in if m = 0 then Inl ZeroDivisionError else Inr (old_s mod m)))"

section \<open>Point addition\<close>

text \<open>The tail of \<^verbatim>\<open>point_add\<close> once the slope \<open>s\<close> is known.\<close>

definition add_with_slope :: "int \<Rightarrow> int \<Rightarrow> int \<Rightarrow> int \<Rightarrow> error + Point" where
  "add_with_slope s x1 y1 x2 =
     (let x3 = (s * s - x1 - x2) mod P;
          y3 = (s * (x1 - x3) - y1) mod P
      in Point_init (Some x3) (Some y3))"

definition point_add :: "Point \<Rightarrow> Point \<Rightarrow> error + Point" where
  "point_add p1 p2 =
     (if is_infinity p1 then Point_init (point_x p2) (point_y p2)
      else if is_infinity p2 then Point_init (point_x p1) (point_y p1)
      else (case (point_x p1, point_y p1, point_x p2, point_y p2) of
              (Some x1, Some y1, Some x2, Some y2) \<Rightarrow>
                (if x1 = x2
                 then (if y1 = y2
                       then (case mod_inverse (2 * y1) P of
                               Inl e \<Rightarrow> Inl e
                             | Inr i \<Rightarrow> add_with_slope ((3 * x1 * x1 * i) mod P) x1 y1 x2)
                       else Point_init None None)
                 else (case mod_inverse (x2 - x1) P of
                         Inl e \<Rightarrow> Inl e
                       | Inr i \<Rightarrow> add_with_slope (((y2 - y1) * i) mod P) x1 y1 x2))
            | _ \<Rightarrow> Inl AssertionError))"

section \<open>Scalar multiplication\<close>

text \<open>The \<^verbatim>\<open>while k\<close> loop of \<^verbatim>\<open>point_multiply\<close>. For a negative \<open>k\<close> the shift
  \<^verbatim>\<open>k >>= 1\<close> never reaches zero, so the loop is a partial function: \<open>None\<close> stands
  for a run that does not return.\<close>

partial_function (option) multiply_loop :: "int \<Rightarrow> Point \<Rightarrow> Point \<Rightarrow> (error + Point) option" where
  "multiply_loop k result addend =
     (if k \<noteq> 0
      then (case (if k AND 1 \<noteq> 0 then point_add result addend else Inr result) of
              Inl e \<Rightarrow> Some (Inl e)
            | Inr result' \<Rightarrow>
                (case point_add addend addend of
                   Inl e \<Rightarrow> Some (Inl e)
                 | Inr addend' \<Rightarrow> multiply_loop (drop_bit 1 k) result' addend'))
      else Some (Inr result))"

definition point_multiply :: "int \<Rightarrow> Point \<Rightarrow> (error + Point) option" where
  "point_multiply k point =
     (if k = 0 then Some (Point_init None None)
      else if k = 1 then Some (Point_init (point_x point) (point_y point))
      else (case Point_init None None of
              Inl e \<Rightarrow> Some (Inl e)
            | Inr result \<Rightarrow>
                (case Point_init (point_x point) (point_y point) of
                   Inl e \<Rightarrow> Some (Inl e)
                 | Inr addend \<Rightarrow> multiply_loop k result addend)))"

section \<open>Notions used in the statements\<close>

text \<open>A valid Point is one that the constructor accepts: the point at infinity or
  a finite point on the curve.\<close>

definition valid_point :: "Point \<Rightarrow> bool" where
  "valid_point p \<longleftrightarrow> Point_init (point_x p) (point_y p) = Inr p"

text \<open>A Point is reduced when the coordinates it holds lie in \<open>[0, P)\<close>.\<close>

definition reduced :: "Point \<Rightarrow> bool" where
  "reduced p \<longleftrightarrow>
     (case point_x p of None \<Rightarrow> True | Some xv \<Rightarrow> 0 \<le> xv \<and> xv < P) \<and>
     (case point_y p of None \<Rightarrow> True | Some yv \<Rightarrow> 0 \<le> yv \<and> yv < P)"

text \<open>\<^verbatim>\<open>point_add\<close> compares the first coordinates as integers. Two Points are
  compatible when this comparison agrees with the comparison modulo \<open>P\<close>: their first
  coordinates are equal, or different modulo \<open>P\<close>.\<close>

definition x_compatible :: "Point \<Rightarrow> Point \<Rightarrow> bool" where
  "x_compatible p1 p2 \<longleftrightarrow>
     (case (point_x p1, point_x p2) of
        (Some x1, Some x2) \<Rightarrow> x1 = x2 \<or> x1 mod P \<noteq> x2 mod P
      | _ \<Rightarrow> True)"

section \<open>Primes\<close>

definition prime_nat :: "nat \<Rightarrow> bool" where
  "prime_nat p \<longleftrightarrow> 1 < p \<and> (\<forall>d. d dvd p \<longrightarrow> d = 1 \<or> d = p)"

text \<open>Trial division by \<open>d\<close>, \<open>d + 1\<close>, \<dots> up to the square root of \<open>n\<close>.\<close>

function trial_division :: "int \<Rightarrow> int \<Rightarrow> bool" where
  "trial_division n d =
     (if n < d * d then True
      else if n mod d = 0 then False
      else trial_division n (d + 1))"
  by pat_completeness auto
termination
proof (relation "measure (\<lambda>(n, d). nat (n + 1 - d))")
  show "wf (measure (\<lambda>(n, d). nat (n + 1 - d)))" by simp
next
  fix n d :: int
  assume "\<not> n < d * d"
  moreover have "d \<le> d * d"
    by (cases "d \<le> 0") (auto intro: order_trans simp: mult_le_cancel_left1 intro!: mult_left_le)
  ultimately have "d \<le> n" by simp
  then show "((n, d + 1), (n, d)) \<in> measure (\<lambda>(n, d). nat (n + 1 - d))" by simp
qed

declare trial_division.simps [simp del]

section \<open>Basic facts about the model\<close>

lemma P_pos: "0 < P"
  by (simp add: P_def)

lemma Point_init_Some:
  "Point_init (Some xv) (Some yv) =
     (if (yv * yv) mod P = (xv * xv * xv + B) mod P
      then Inr \<lparr>point_x = Some xv, point_y = Some yv\<rparr>
      else if str_int_ok xv \<and> str_int_ok yv then Inl (ValueError (Some xv) (Some yv))
      else Inl ValueError_digit_limit)"
  by (simp add: Point_init_def is_on_curve_def is_infinity_def Let_def)

lemma Point_init_None: "Point_init None None = Inr \<lparr>point_x = None, point_y = None\<rparr>"
  by (simp add: Point_init_def is_infinity_def)

subsection \<open>The extended Euclidean loop\<close>

text \<open>The loop invariant: both remainders are congruent, modulo \<open>m\<close>, to their
  coefficient times \<open>a\<close>. On non-negative remainders the loop ends with the gcd.\<close>

lemma euclid_loop_bezout:
  "m dvd (old_r - old_s * a) \<Longrightarrow> m dvd (r - s * a) \<Longrightarrow> 0 \<le> old_r \<Longrightarrow> 0 \<le> r
   \<Longrightarrow> m dvd (gcd old_r r - euclid_loop old_r r old_s s * a)"
proof (induction old_r r old_s s rule: euclid_loop.induct)
  case (1 old_r r old_s s)
  show ?case
  proof (cases "r = 0")
    case True
    with "1.prems" show ?thesis
      by (simp add: euclid_loop.simps)
  next
    case False
    define q where "q = old_r div r"
    have rpos: "0 < r" using False "1.prems" by simp
    have eq: "old_r - q * r = old_r mod r"
      by (simp add: q_def minus_div_mult_eq_mod)
    have d1: "m dvd (r - s * a)" by (rule "1.prems")
    have "m dvd ((old_r - old_s * a) - q * (r - s * a))"
      by (rule dvd_diff [OF "1.prems"(1) dvd_mult [OF "1.prems"(2)]])
    moreover have "old_r - q * r - (old_s - q * s) * a = (old_r - old_s * a) - q * (r - s * a)"
      by (simp add: algebra_simps)
    ultimately have d2: "m dvd (old_r - q * r - (old_s - q * s) * a)"
      by (simp only:)
    have nn: "0 \<le> old_r - q * r"
      using rpos by (simp add: eq)
    have "m dvd (gcd r (old_r - q * r) - euclid_loop r (old_r - q * r) s (old_s - q * s) * a)"
      using "1.IH" [OF False q_def d1 d2 _ nn] rpos by simp
    moreover have "gcd r (old_r - q * r) = gcd old_r r"
      by (simp add: eq gcd.commute [of old_r r] gcd_red_int [symmetric])
    moreover have "euclid_loop old_r r old_s s = euclid_loop r (old_r - q * r) s (old_s - q * s)"
      using False by (subst euclid_loop.simps) (simp add: q_def Let_def)
    ultimately show ?thesis by simp
  qed
qed

lemma mod_inverse_correct:
  assumes m: "0 < m" and cop: "gcd a m = 1"
  shows "\<exists>b. mod_inverse a m = Inr b \<and> 0 \<le> b \<and> b < m \<and> (a * b) mod m = 1 mod m"
proof -
  define a' where "a' = (if a < 0 then (a mod m + m) mod m else a)"
  define t where "t = euclid_loop a' m 1 0"
  have a'mod: "a' mod m = a mod m" by (simp add: a'_def)
  have nn: "0 \<le> a'" using m by (simp add: a'_def)
  have "m dvd (a' - a)"
    using a'mod by (metis mod_eq_dvd_iff)
  then have d1: "m dvd (a' - 1 * a)" by simp
  have d2: "m dvd (m - 0 * a)" by simp
  have g: "gcd a' m = 1"
    using cop a'mod by (metis gcd_red_int)
  have "m dvd (gcd a' m - t * a)"
    unfolding t_def using d1 d2 nn m by (intro euclid_loop_bezout) simp_all
  then have "m dvd (1 - t * a)" by (simp add: g)
  then have "1 mod m = (t * a) mod m"
    by (simp add: mod_eq_dvd_iff)
  then have "(a * (t mod m)) mod m = 1 mod m"
    by (simp add: mod_mult_right_eq mult.commute)
  moreover have "mod_inverse a m = Inr (t mod m)"
    using m by (simp add: mod_inverse_def loop_input_def t_def a'_def Let_def)
  ultimately show ?thesis using m by simp
qed

text \<open>One round of the loop makes a non-negative \<open>a\<close> and its residue meet.\<close>

lemma euclid_loop_reduce: "0 < m \<Longrightarrow> euclid_loop a m 1 0 = euclid_loop (a mod m) m 1 0"
  by (subst euclid_loop.simps, subst (2) euclid_loop.simps) (simp add: Let_def minus_div_mult_eq_mod)

lemma mod_inverse_mod: "0 < m \<Longrightarrow> mod_inverse (a mod m) m = mod_inverse a m"
  using euclid_loop_reduce [of m a] by (simp add: mod_inverse_def loop_input_def Let_def)

lemma mod_inverse_zero: "1 < m \<Longrightarrow> mod_inverse 0 m = Inr 0"
  by (simp add: mod_inverse_def loop_input_def Let_def)
    (subst euclid_loop.simps, subst euclid_loop.simps, simp)

subsection \<open>Checking residues by certificates\<close>

text \<open>Residues of large numbers are checked against a given quotient, which costs
  one multiplication instead of a long division.\<close>

lemma mod_cert:
  fixes a :: int
  assumes "a = q * m + r" and "0 \<le> r" and "r < m"
  shows "a mod m = r"
proof -
  have "a mod m = r mod m"
    by (simp only: assms(1) mod_mult_self3)
  also have "r mod m = r"
    using assms(2,3) by (rule mod_pos_pos_trivial)
  finally show ?thesis .
qed

lemma cong_cert:
  fixes a b :: int
  assumes "a = q1 * m + r" and "b = q2 * m + r"
  shows "a mod m = b mod m"
  by (simp only: assms mod_mult_self3)

lemma dvd_small_int:
  fixes d :: int
  assumes "m dvd d" and "\<bar>d\<bar> < m"
  shows "d = 0"
proof (rule ccontr)
  assume "d \<noteq> 0"
  then have "\<bar>m\<bar> \<le> \<bar>d\<bar>"
    using assms(1) by (rule dvd_imp_le_int)
  with assms(2) show False by simp
qed

lemma coprime_cert:
  fixes a :: int
  assumes "a * i = q * m + 1"
  shows "coprime a m"
proof (rule coprimeI)
  fix c assume "c dvd a" "c dvd m"
  then have "c dvd a * i - q * m"
    by (intro dvd_diff dvd_mult2 dvd_mult)
  then show "is_unit c"
    by (simp add: assms)
qed

text \<open>A reduced \<open>i\<close> with \<open>a * i \<equiv> 1\<close> is what \<open>mod_inverse\<close> returns.\<close>

lemma mod_inverse_cert:
  assumes eq: "a * i = q * m + 1" and i: "0 \<le> i" "i < m" and m: "1 < m"
  shows "mod_inverse a m = Inr i"
proof -
  have cop: "coprime a m"
    using eq by (rule coprime_cert)
  then have g: "gcd a m = 1"
    by (simp add: coprime_iff_gcd_eq_1)
  have mpos: "0 < m" using m by simp
  obtain b where b: "mod_inverse a m = Inr b" "0 \<le> b" "b < m" "(a * b) mod m = 1 mod m"
    using mod_inverse_correct [OF mpos g] by blast
  have "(a * i) mod m = 1 mod m"
    by (simp only: eq mod_mult_self3)
  with b(4) have "(a * b) mod m = (a * i) mod m"
    by (simp only:)
  then have "m dvd a * b - a * i"
    by (simp only: mod_eq_dvd_iff)
  then have "m dvd (b - i) * a"
    by (simp only: algebra_simps)
  then have "m dvd b - i"
    using cop by (simp only: coprime_dvd_mult_left_iff coprime_commute)
  moreover have "\<bar>b - i\<bar> < m"
    using b(2,3) i by (simp only: abs_less_iff) simp
  ultimately have "b - i = 0"
    by (rule dvd_small_int)
  with b(1) show ?thesis by simp
qed

subsection \<open>Evaluating the group law\<close>

text \<open>The arithmetic branch of \<open>point_add\<close>, with every residue certified.\<close>

lemma add_with_slope_cert:
  assumes "s * s - x1 - x2 = q3 * P + x3" "0 \<le> x3" "x3 < P"
    and "s * (x1 - x3) - y1 = q4 * P + y3" "0 \<le> y3" "y3 < P"
    and "y3 * y3 = q5 * P + r" "x3 * x3 * x3 + B = q6 * P + r"
  shows "add_with_slope s x1 y1 x2 = Inr \<lparr>point_x = Some x3, point_y = Some y3\<rparr>"
proof -
  have x3: "(s * s - x1 - x2) mod P = x3"
    using assms(1-3) by (rule mod_cert)
  have y3: "(s * (x1 - x3) - y1) mod P = y3"
    using assms(4-6) by (rule mod_cert)
  have "(y3 * y3) mod P = (x3 * x3 * x3 + B) mod P"
    using assms(7,8) by (rule cong_cert)
  then show ?thesis
    by (simp only: add_with_slope_def Let_def x3 y3 Point_init_Some if_True simp_thms)
qed

lemma point_double_cert:
  assumes "2 * y1 * i = qi * P + 1" "0 \<le> i" "i < P"
    and "3 * x1 * x1 * i = qs * P + s" "0 \<le> s" "s < P"
    and "s * s - x1 - x1 = q3 * P + x3" "0 \<le> x3" "x3 < P"
    and "s * (x1 - x3) - y1 = q4 * P + y3" "0 \<le> y3" "y3 < P"
    and "y3 * y3 = q5 * P + r" "x3 * x3 * x3 + B = q6 * P + r"
  shows "point_add \<lparr>point_x = Some x1, point_y = Some y1\<rparr>
           \<lparr>point_x = Some x1, point_y = Some y1\<rparr> =
         Inr \<lparr>point_x = Some x3, point_y = Some y3\<rparr>"
proof -
  have "1 < P" by (simp add: P_def)
  with assms(1-3) have inv: "mod_inverse (2 * y1) P = Inr i"
    by (rule mod_inverse_cert)
  have s: "(3 * x1 * x1 * i) mod P = s"
    using assms(4-6) by (rule mod_cert)
  have "add_with_slope s x1 y1 x1 = Inr \<lparr>point_x = Some x3, point_y = Some y3\<rparr>"
    using assms(7-14) by (rule add_with_slope_cert)
  then show ?thesis
    by (simp add: point_add_def is_infinity_def inv s)
qed

lemma point_add_cert:
  assumes "x1 \<noteq> x2"
    and "(x2 - x1) * i = qi * P + 1" "0 \<le> i" "i < P"
    and "(y2 - y1) * i = qs * P + s" "0 \<le> s" "s < P"
    and "s * s - x1 - x2 = q3 * P + x3" "0 \<le> x3" "x3 < P"
    and "s * (x1 - x3) - y1 = q4 * P + y3" "0 \<le> y3" "y3 < P"
    and "y3 * y3 = q5 * P + r" "x3 * x3 * x3 + B = q6 * P + r"
  shows "point_add \<lparr>point_x = Some x1, point_y = Some y1\<rparr>
           \<lparr>point_x = Some x2, point_y = Some y2\<rparr> =
         Inr \<lparr>point_x = Some x3, point_y = Some y3\<rparr>"
proof -
  have "1 < P" by (simp add: P_def)
  with assms(2-4) have inv: "mod_inverse (x2 - x1) P = Inr i"
    by (rule mod_inverse_cert)
  have s: "((y2 - y1) * i) mod P = s"
    using assms(5-7) by (rule mod_cert)
  have "add_with_slope s x1 y1 x2 = Inr \<lparr>point_x = Some x3, point_y = Some y3\<rparr>"
    using assms(8-15) by (rule add_with_slope_cert)
  then show ?thesis
    using assms(1) by (simp add: point_add_def is_infinity_def inv s)
qed

text \<open>The generator lies on the curve, and doubling it gives the point \<open>2G\<close>.\<close>

lemma G_on_curve: "(GY * GY) mod P = (GX * GX * GX + B) mod P"
proof (rule cong_cert)
  show "GY * GY = 9217920084583157935602994580951900810186344190718383666107426471107247357458 * P + 32748224938747404814623910738487752935528512903530129802856995983256684603122"
    by code_simp
  show "GX * GX * GX + B = 1442042049659660869506300006036683750029629333882594701370927246876626245108445140822412359839636311708589143988241317295940670619760105320846347035878395 * P + 32748224938747404814623910738487752935528512903530129802856995983256684603122"
    by code_simp
qed

lemma G_eq: "G = Inr \<lparr>point_x = Some GX, point_y = Some GY\<rparr>"
  by (simp only: G_def Point_init_Some G_on_curve if_True simp_thms)

definition G2X :: int where
  "G2X = 89565891926547004231252920425935692360644145829622209833684329913297188986597"

definition G2Y :: int where
  "G2Y = 12158399299693830322967808612713398636155367887041628176798871954788371653930"

lemma G_plus_G:
  "point_add \<lparr>point_x = Some GX, point_y = Some GY\<rparr> \<lparr>point_x = Some GX, point_y = Some GY\<rparr> =
     Inr \<lparr>point_x = Some G2X, point_y = Some G2Y\<rparr>"
proof (rule point_double_cert)
  show "2 * GY * 83174505189910067536517124096019359197644205712500122884473429251812128958118 = 46935045790725648649267782968500640161152285907695229854005833192632722118801 * P + 1"
    by code_simp
  show "3 * GX * GX * 83174505189910067536517124096019359197644205712500122884473429251812128958118 = 6534371175412604458958908912693048525839811796587982546211129043135405424530153901770406203935164968917121831102336830270909059548152185210409961777233761 * P + 91914383230618135761690975197207778399550061809281766160147273830617914855857"
    by code_simp
  show "91914383230618135761690975197207778399550061809281766160147273830617914855857 * 91914383230618135761690975197207778399550061809281766160147273830617914855857 - GX - GX = 72960544198751070137407653953064356484142421793117212772781213583140490307444 * P + G2X"
    by code_simp
  show "91914383230618135761690975197207778399550061809281766160147273830617914855857 * (GX - G2X) - GY = -27385395093115163030257761037380459032295473848319340750848160802454523403281 * P + G2Y"
    by code_simp
  show "G2Y * G2Y = 1276656069550867696462865840686817752669585102707676844607571890886538956658 * P + 57199941671890039290383617934355424684258807805258215939368959893591666662646"
    by code_simp
  show "G2X * G2X * G2X + B = 6205104149957778589487396235541193951393828196855248032031163416175182021243219317126180299537197853133124309180614583365051679253449961865611411962951218 * P + 57199941671890039290383617934355424684258807805258215939368959893591666662646"
    by code_simp
qed (simp_all add: P_def G2X_def G2Y_def)

lemma curve_eq_cong:
  assumes "xv mod P = xw mod P" and "yv mod P = yw mod P"
  shows "(yv * yv) mod P = (xv * xv * xv + B) mod P \<longleftrightarrow>
         (yw * yw) mod P = (xw * xw * xw + B) mod P"
proof -
  have "(yv * yv) mod P = (yw * yw) mod P"
    using assms(2) by (intro mod_mult_cong)
  moreover have "(xv * xv * xv + B) mod P = (xw * xw * xw + B) mod P"
    using assms(1) by (intro mod_add_cong mod_mult_cong refl)
  ultimately show ?thesis by (simp only:)
qed

lemma G_shifted_on_curve: "(GY * GY) mod P = ((GX + P) * (GX + P) * (GX + P) + B) mod P"
proof -
  have "(GX + P) mod P = GX mod P" by simp
  from curve_eq_cong [OF this refl, of GY] G_on_curve show ?thesis
    by (simp only:)
qed

lemma Point_init_Some_Inr:
  assumes "Point_init (Some xv) (Some yv) = Inr r"
  shows "r = \<lparr>point_x = Some xv, point_y = Some yv\<rparr>"
    and "(yv * yv) mod P = (xv * xv * xv + B) mod P"
  using assms by (simp_all add: Point_init_Some split: if_splits)

lemma add_with_slope_range:
  assumes "add_with_slope s x1 y1 x2 = Inr r"
  shows "\<exists>x3 y3. point_x r = Some x3 \<and> point_y r = Some y3 \<and>
           0 \<le> x3 \<and> x3 < P \<and> 0 \<le> y3 \<and> y3 < P"
proof -
  define x3 where "x3 = (s * s - x1 - x2) mod P"
  define y3 where "y3 = (s * (x1 - x3) - y1) mod P"
  have "Point_init (Some x3) (Some y3) = Inr r"
    using assms by (simp add: add_with_slope_def Let_def x3_def y3_def)
  then have "r = \<lparr>point_x = Some x3, point_y = Some y3\<rparr>"
    by (rule Point_init_Some_Inr)
  moreover have "0 \<le> x3" "x3 < P" "0 \<le> y3" "y3 < P"
    unfolding x3_def y3_def using P_pos by (simp_all only: pos_mod_sign pos_mod_bound)
  ultimately show ?thesis by simp
qed


section \<open>Elementary number theory\<close>

text \<open>The group law needs that the field modulus \<open>P\<close> is a prime. This section
  provides what the proof of that takes: Fermat's little theorem, Pocklington's
  criterion, and modular powers checked one squaring at a time.\<close>

lemma prime_nat_gt_1: "prime_nat p \<Longrightarrow> 1 < p"
  by (simp add: prime_nat_def)

lemma prime_nat_coprime:
  assumes "prime_nat p" and "\<not> p dvd a"
  shows "coprime p a"
proof (rule coprimeI)
  fix c assume c: "c dvd p" "c dvd a"
  from assms(1) c(1) have "c = 1 \<or> c = p"
    by (simp add: prime_nat_def)
  with c(2) assms(2) show "is_unit c" by auto
qed

lemma prime_nat_dvd_mult:
  assumes "prime_nat p" and "p dvd a * b"
  shows "p dvd a \<or> p dvd b"
proof (cases "p dvd a")
  case False
  with assms(1) have "coprime p a" by (rule prime_nat_coprime)
  with assms(2) have "p dvd b"
    by (simp add: coprime_dvd_mult_right_iff)
  then show ?thesis ..
qed simp

lemma prime_nat_int_coprime:
  fixes a :: int
  assumes "prime_nat p" and "\<not> int p dvd a"
  shows "coprime (int p) a"
proof -
  have "\<not> p dvd nat \<bar>a\<bar>"
    using assms(2) by simp
  with assms(1) have "coprime p (nat \<bar>a\<bar>)" by (rule prime_nat_coprime)
  then show ?thesis
    by simp
qed

lemma prime_nat_int_dvd_mult:
  fixes a b :: int
  assumes "prime_nat p" and "int p dvd a * b"
  shows "int p dvd a \<or> int p dvd b"
proof (cases "int p dvd a")
  case False
  with assms(1) have "coprime (int p) a" by (rule prime_nat_int_coprime)
  with assms(2) have "int p dvd b"
    by (simp add: coprime_dvd_mult_right_iff)
  then show ?thesis ..
qed simp

lemma prime_divisor_exists: "1 < n \<Longrightarrow> \<exists>p. prime_nat p \<and> p dvd n"
proof (induction n rule: less_induct)
  case (less n)
  show ?case
  proof (cases "prime_nat n")
    case True
    then show ?thesis by auto
  next
    case False
    with less.prems obtain d where d: "d dvd n" "d \<noteq> 1" "d \<noteq> n"
      by (auto simp: prime_nat_def)
    have "0 < d" using d(1) less.prems by (auto intro: Nat.gr0I)
    with d(2) have d1: "1 < d" by simp
    have "d \<le> n" using d(1) less.prems by (auto intro: dvd_imp_le)
    with d(3) have "d < n" by simp
    from less.IH [OF this d1] obtain p where "prime_nat p" "p dvd d" by blast
    with d(1) show ?thesis by (meson dvd_trans)
  qed
qed

subsection \<open>Fermat's little theorem\<close>

lemma fermat_little:
  fixes a :: int
  assumes p: "prime_nat p" and a: "\<not> int p dvd a"
  shows "a ^ (p - 1) mod int p = 1"
proof -
  define S where "S = {1..int p - 1}"
  define f where "f k = (a * k) mod int p" for k
  define W where "W = \<Prod>S"
  have p1: "1 < int p" using p by (simp add: prime_nat_def)
  have fin: "finite S" by (simp add: S_def)
  have nd: "\<not> int p dvd k" if "k \<in> S" for k
  proof
    assume "int p dvd k"
    moreover have "0 < k" "k < int p" using that by (simp_all add: S_def)
    ultimately show False by (simp add: zdvd_not_zless)
  qed
  have sub: "f ` S \<subseteq> S"
  proof
    fix y assume "y \<in> f ` S"
    then obtain k where k: "k \<in> S" "y = (a * k) mod int p" by (auto simp: f_def)
    have "\<not> int p dvd a * k"
      using prime_nat_int_dvd_mult [OF p, of a k] a nd [OF k(1)] by blast
    then have "y \<noteq> 0" by (simp add: k(2) dvd_eq_mod_eq_0)
    moreover have "0 \<le> y" "y < int p" using p1 by (simp_all add: k(2))
    ultimately show "y \<in> S" by (simp add: S_def)
  qed
  have cop: "coprime (int p) a"
    using p a by (rule prime_nat_int_coprime)
  have inj: "inj_on f S"
  proof (rule inj_onI)
    fix k l assume kl: "k \<in> S" "l \<in> S" "f k = f l"
    then have "int p dvd a * k - a * l"
      by (simp add: f_def mod_eq_dvd_iff)
    then have "int p dvd a * (k - l)" by (simp add: algebra_simps)
    with cop have "int p dvd k - l"
      by (simp add: coprime_dvd_mult_right_iff)
    moreover have "\<bar>k - l\<bar> < int p" using kl(1,2) by (auto simp: S_def)
    ultimately have "k - l = 0"
      using dvd_imp_le_int [of "k - l" "int p"] by auto
    then show "k = l" by simp
  qed
  have img: "f ` S = S"
    using fin sub inj by (rule endo_inj_surj)
  have "W = \<Prod>(f ` S)" by (simp add: W_def img)
  also have "\<dots> = (\<Prod>k\<in>S. f k)"
    using inj by (simp add: prod.reindex)
  finally have "W mod int p = (\<Prod>k\<in>S. (a * k) mod int p) mod int p"
    by (simp add: f_def)
  also have "\<dots> = (\<Prod>k\<in>S. a * k) mod int p"
    by (rule mod_prod_eq)
  also have "(\<Prod>k\<in>S. a * k) = a ^ card S * W"
    by (simp add: prod.distrib W_def)
  also have "card S = p - 1" by (simp add: S_def)
  finally have "(a ^ (p - 1) * W) mod int p = W mod int p"
    by simp
  then have "int p dvd a ^ (p - 1) * W - W"
    by (simp only: mod_eq_dvd_iff)
  then have "int p dvd W * (a ^ (p - 1) - 1)"
    by (simp add: algebra_simps)
  moreover have "coprime (int p) W"
    unfolding W_def
    by (rule prod_coprime_right) (use p nd in \<open>auto intro: prime_nat_int_coprime\<close>)
  ultimately have "int p dvd a ^ (p - 1) - 1"
    by (simp add: coprime_dvd_mult_right_iff)
  then have "a ^ (p - 1) mod int p = 1 mod int p"
    by (simp add: mod_eq_dvd_iff)
  with p1 show ?thesis by simp
qed

subsection \<open>Exponents of a unit residue\<close>

lemma pow_gcd:
  fixes a n :: int
  assumes "a ^ x mod n = 1 mod n" and "a ^ y mod n = 1 mod n"
  shows "a ^ gcd x y mod n = 1 mod n"
  using assms
proof (induction x y rule: gcd_nat_induct)
  case (base m)
  then show ?case by simp
next
  case (step m k)
  have "a ^ m = (a ^ k) ^ (m div k) * a ^ (m mod k)"
    by (simp add: power_mult [symmetric] power_add [symmetric])
  then have "a ^ m mod n = ((a ^ k mod n) ^ (m div k) mod n * (a ^ (m mod k) mod n)) mod n"
    by (simp add: mod_mult_eq power_mod)
  also have "\<dots> = a ^ (m mod k) mod n"
    by (simp add: step.prems(2) power_mod mod_mult_eq)
  finally have "a ^ (m mod k) mod n = 1 mod n"
    using step.prems(1) by simp
  with step.IH [OF step.prems(2)] show ?case
    by (simp add: gcd.commute [of m k] gcd_red_nat [symmetric])
qed


subsection \<open>Pocklington's criterion\<close>

lemma composite_small_divisor:
  fixes n :: nat
  assumes "1 < n" and "\<not> prime_nat n"
  shows "\<exists>c. 1 < c \<and> c * c \<le> n \<and> c dvd n"
proof -
  from assms obtain d where d: "d dvd n" "d \<noteq> 1" "d \<noteq> n"
    by (auto simp: prime_nat_def)
  then obtain e where e: "n = d * e" by (auto elim: dvdE)
  have d0: "d \<noteq> 0" "e \<noteq> 0"
  proof -
    show "d \<noteq> 0"
    proof
      assume "d = 0"
      with e assms(1) show False by simp
    qed
    show "e \<noteq> 0"
    proof
      assume "e = 0"
      with e assms(1) show False by simp
    qed
  qed
  have e1: "e \<noteq> 1" using d(3) e by simp
  have d1: "1 < d" "1 < e" using d0 d(2) e1 by auto
  show ?thesis
  proof (cases "d \<le> e")
    case True
    then have "d * d \<le> n" by (simp add: e)
    with d1 d(1) show ?thesis by blast
  next
    case False
    then have "e * e \<le> n" by (simp add: e)
    moreover have "e dvd n" by (simp add: e)
    ultimately show ?thesis using d1 by blast
  qed
qed

lemma pocklington_step:
  fixes n a :: int and q m p :: nat
  assumes q: "prime_nat q" and n: "n = int (q * m) + 1"
    and one: "a ^ (q * m) mod n = 1" and cop: "coprime (a ^ m - 1) n"
    and p: "prime_nat p" and pn: "int p dvd n"
  shows "q dvd p - 1"
proof (rule ccontr)
  assume nq: "\<not> q dvd p - 1"
  have p1: "1 < int p" using p by (simp add: prime_nat_def)
  have "n dvd a ^ (q * m) - 1"
    using one by (metis minus_mod_eq_mult_div dvd_triv_left)
  with pn have "int p dvd a ^ (q * m) - 1" by (rule dvd_trans)
  then have ap: "a ^ (q * m) mod int p = 1 mod int p"
    by (simp only: mod_eq_dvd_iff)
  have qm: "0 < q * m"
  proof (rule ccontr)
    assume "\<not> 0 < q * m"
    then have "n = 1" using n by simp
    with pn p1 show False by simp
  qed
  have npa: "\<not> int p dvd a"
  proof
    assume "int p dvd a"
    moreover have "a dvd a ^ (q * m)" using qm by (intro dvd_power) simp
    ultimately have "int p dvd a ^ (q * m)" by (rule dvd_trans)
    then have "a ^ (q * m) mod int p = 0" by simp
    with ap p1 show False by simp
  qed
  have "a ^ (p - 1) mod int p = 1"
    using p npa by (rule fermat_little)
  then have fl: "a ^ (p - 1) mod int p = 1 mod int p" using p1 by simp
  define g where "g = gcd (q * m) (p - 1)"
  have ag: "a ^ g mod int p = 1 mod int p"
    unfolding g_def using ap fl by (rule pow_gcd)
  have "\<not> q dvd g"
    using nq by (auto simp: g_def dest: dvd_trans)
  with q have "coprime q g" by (rule prime_nat_coprime)
  moreover have "g dvd q * m" by (simp add: g_def)
  ultimately have "g dvd m"
    by (simp add: coprime_dvd_mult_right_iff coprime_commute)
  then obtain k where k: "m = g * k" by (auto elim: dvdE)
  have "a ^ m mod int p = ((a ^ g mod int p) ^ k) mod int p"
    by (simp add: k power_mult power_mod)
  also have "\<dots> = 1 mod int p"
    by (simp add: ag power_mod)
  finally have "int p dvd a ^ m - 1"
    by (simp only: mod_eq_dvd_iff)
  with cop have "is_unit (int p)"
    using pn by (rule coprime_common_divisor)
  with p1 show False by simp
qed

lemma pocklington_prime:
  fixes n F :: nat
  assumes n: "1 < n" and F: "\<And>p. prime_nat p \<Longrightarrow> p dvd n \<Longrightarrow> F dvd p - 1"
    and bound: "n < (F + 1) * (F + 1)"
  shows "prime_nat n"
proof (rule ccontr)
  assume "\<not> prime_nat n"
  with n obtain c where c: "1 < c" "c * c \<le> n" "c dvd n"
    using composite_small_divisor by blast
  from prime_divisor_exists [OF c(1)] obtain p where p: "prime_nat p" "p dvd c" by blast
  have "p dvd n" using p(2) c(3) by (rule dvd_trans)
  with p(1) have "F dvd p - 1" by (rule F)
  moreover have "0 < p - 1" using p(1) by (simp add: prime_nat_def)
  ultimately have "F \<le> p - 1" by (simp add: dvd_imp_le)
  moreover have "p \<le> c" using p(2) c(1) by (simp add: dvd_imp_le)
  ultimately have "F + 1 \<le> c" using prime_nat_gt_1 [OF p(1)] by linarith
  then have "(F + 1) * (F + 1) \<le> c * c" by (intro mult_le_mono)
  with c(2) bound show False by simp
qed

subsection \<open>Small primes by trial division\<close>

lemma trial_division_sound:
  "trial_division n d \<Longrightarrow> d \<le> k \<Longrightarrow> k * k \<le> n \<Longrightarrow> 0 < d \<Longrightarrow> \<not> k dvd n"
proof (induction n d rule: trial_division.induct)
  case (1 n d)
  show ?case
  proof (cases "k = d")
    case True
    with "1.prems" show ?thesis
      by (subst (asm) trial_division.simps) (auto split: if_splits)
  next
    case False
    with "1.prems" have dk: "d + 1 \<le> k" by simp
    have "d * d \<le> k * k"
      using "1.prems"(2,4) by (intro mult_mono) simp_all
    with "1.prems"(3) have nlt: "\<not> n < d * d" by simp
    have nz: "n mod d \<noteq> 0" and rec: "trial_division n (d + 1)"
      using "1.prems"(1) nlt by (subst (asm) trial_division.simps; simp split: if_splits)+
    from "1.IH" [OF nlt nz rec dk "1.prems"(3)] "1.prems"(4) show ?thesis by simp
  qed
qed

lemma trial_division_prime:
  assumes "trial_division n 2" and "1 < n"
  shows "prime_nat (nat n)"
proof (rule ccontr)
  assume "\<not> prime_nat (nat n)"
  moreover have "1 < nat n" using assms(2) by simp
  ultimately obtain c where c: "1 < c" "c * c \<le> nat n" "c dvd nat n"
    using composite_small_divisor by blast
  have "2 \<le> int c" using c(1) by simp
  moreover have "int c * int c \<le> n"
    using c(2) assms(2) by (metis int_nat_eq less_imp_le of_nat_le_iff of_nat_mult order_less_trans zero_less_one)
  ultimately have "\<not> int c dvd n"
    using assms(1) by (intro trial_division_sound [of n 2]) simp_all
  moreover have "int c dvd n"
  proof -
    have "int c dvd int (nat n)" using c(3) by (simp only: int_dvd_int_iff)
    moreover have "int (nat n) = n" using assms(2) by simp
    ultimately show ?thesis by (simp only:)
  qed
  ultimately show False by simp
qed

subsection \<open>Powers modulo \<open>n\<close>, one certified squaring at a time\<close>

lemma pow_step0:
  fixes a n :: int
  assumes "a ^ e mod n = x" and "x * x = q * n + y \<and> 0 \<le> y \<and> y < n"
  shows "a ^ (2 * e) mod n = y"
proof -
  have "a ^ (2 * e) = a ^ e * a ^ e"
    by (simp add: power_add [symmetric] mult_2)
  then have "a ^ (2 * e) mod n = ((a ^ e mod n) * (a ^ e mod n)) mod n"
    by (simp only: mod_mult_eq)
  also have "\<dots> = (q * n + y) mod n"
    by (simp only: assms(1)) (simp only: assms(2))
  also have "\<dots> = y"
    using assms(2) by simp
  finally show ?thesis .
qed

lemma pow_step1:
  fixes a n :: int
  assumes "a ^ e mod n = x" and "x * x * a = q * n + y \<and> 0 \<le> y \<and> y < n"
  shows "a ^ (2 * e + 1) mod n = y"
proof -
  have "a ^ (2 * e + 1) = a ^ e * a ^ e * a"
    by (simp add: power_add [symmetric] mult_2)
  moreover have "(a ^ e * a ^ e) mod n = ((a ^ e mod n) * (a ^ e mod n)) mod n"
    by (simp only: mod_mult_eq)
  then have "(a ^ e * a ^ e * a) mod n = ((a ^ e mod n) * (a ^ e mod n) * a) mod n"
    by (rule mod_mult_cong) (rule refl)
  ultimately have "a ^ (2 * e + 1) mod n = ((a ^ e mod n) * (a ^ e mod n) * a) mod n"
    by (simp only:)
  also have "\<dots> = (q * n + y) mod n"
    by (simp only: assms(1)) (simp only: assms(2))
  also have "\<dots> = y"
    using assms(2) by simp
  finally show ?thesis .
qed

lemma pow_start:
  fixes a n :: int
  assumes "1 < n"
  shows "a ^ 0 mod n = 1"
  using assms by simp

lemma pow_compose:
  fixes a n :: int
  assumes "a ^ e mod n = u" and "u ^ k mod n = v"
  shows "a ^ (e * k) mod n = v"
proof -
  have "a ^ (e * k) mod n = ((a ^ e mod n) ^ k) mod n"
    by (simp add: power_mult power_mod)
  with assms show ?thesis by simp
qed


lemma pow_sq:
  fixes a n :: int
  assumes "a ^ e mod n = x" and "e' = 2 * e" and "x * x = q * n + y \<and> 0 \<le> y \<and> y < n"
  shows "a ^ e' mod n = y"
  unfolding assms(2) using assms(1,3) by (rule pow_step0)

lemma pow_sq_mul:
  fixes a n :: int
  assumes "a ^ e mod n = x" and "e' = 2 * e + 1" and "x * x * a = q * n + y \<and> 0 \<le> y \<and> y < n"
  shows "a ^ e' mod n = y"
  unfolding assms(2) using assms(1,3) by (rule pow_step1)


lemma pow_mul:
  fixes a n :: int
  assumes "a ^ e mod n = x" and "e' = e + 1" and "x * a = q * n + y \<and> 0 \<le> y \<and> y < n"
  shows "a ^ e' mod n = y"
proof -
  have "a ^ e' = a ^ e * a"
    by (simp add: assms(2))
  then have "a ^ e' mod n = ((a ^ e mod n) * a) mod n"
    by (simp only: mod_mult_left_eq)
  also have "\<dots> = (q * n + y) mod n"
    by (simp only: assms(1)) (simp only: assms(3))
  also have "\<dots> = y"
    using assms(3) by simp
  finally show ?thesis .
qed


section \<open>The field modulus is a prime\<close>

text \<open>The proof goes down a chain of Pocklington certificates: \<open>P - 1\<close> has the prime
  factor \<open>Q\<close> of 240 bits, \<open>Q - 1\<close> a prime factor of 128 bits, and so on down to primes
  that trial division settles. Each power is computed by squarings, and each squaring
  is checked against its quotient.\<close>

subsection \<open>Certificates for Pocklington's criterion\<close>

lemma pow_compose_num:
  fixes a n :: int
  assumes "a ^ e mod n = u" and "u ^ k mod n = v" and "e' = e * k"
  shows "a ^ e' mod n = v"
  unfolding assms(3) using assms(1,2) by (rule pow_compose)

lemma coprime_pow_cert:
  fixes a n :: int
  assumes "a ^ m mod n = g" and "(g - 1) * i = k * n + 1" and "n \<noteq> 0"
  shows "coprime (a ^ m - 1) n"
proof -
  have "coprime (g - 1) n"
    using assms(2) by (rule coprime_cert)
  moreover have "(a ^ m - 1) mod n = (g - 1) mod n"
    by (simp only: assms(1) [symmetric] mod_diff_left_eq)
  ultimately have "coprime ((a ^ m - 1) mod n) n"
    by (simp only: coprime_mod_left_iff [OF assms(3)])
  then show ?thesis
    by (simp only: coprime_mod_left_iff [OF assms(3)])
qed

lemma primes_coprime:
  assumes "prime_nat p" and "prime_nat q" and "p \<noteq> q"
  shows "coprime p q"
proof (rule prime_nat_coprime [OF assms(1)])
  show "\<not> p dvd q"
  proof
    assume "p dvd q"
    with assms(2) have "p = 1 \<or> p = q" by (simp add: prime_nat_def)
    with assms(1,3) show False by (simp add: prime_nat_def)
  qed
qed

lemma pocklington_single:
  fixes n a :: int and q m e :: nat
  assumes q: "prime_nat q" and e: "e = q * m" and n: "n = int e + 1"
    and one: "a ^ e mod n = 1" and cop: "coprime (a ^ m - 1) n"
    and bound: "n < (int q + 1) * (int q + 1)" and n1: "1 < n"
  shows "prime_nat (nat n)"
proof (rule pocklington_prime [where F = q])
  show "1 < nat n" using n1 by simp
next
  fix p assume p: "prime_nat p" "p dvd nat n"
  have "int p dvd int (nat n)" using p(2) by (simp only: int_dvd_int_iff)
  then have pn: "int p dvd n" using n1 by simp
  show "q dvd p - 1"
    using q n [unfolded e] one [unfolded e] cop p(1) pn by (rule pocklington_step)
next
  have "int (nat n) = n" using n1 by simp
  moreover have "int ((q + 1) * (q + 1)) = (int q + 1) * (int q + 1)"
    by (simp only: of_nat_mult of_nat_add of_nat_1)
  ultimately have "int (nat n) < int ((q + 1) * (q + 1))"
    using bound by (simp only:)
  then show "nat n < (q + 1) * (q + 1)"
    by (simp only: of_nat_less_iff)
qed

lemma pocklington_triple:
  fixes n a :: int and q1 q2 q3 m1 m2 m3 e :: nat
  assumes q: "prime_nat q1" "prime_nat q2" "prime_nat q3"
    and ne: "q1 \<noteq> q2" "q1 \<noteq> q3" "q2 \<noteq> q3"
    and e: "e = q1 * m1" "e = q2 * m2" "e = q3 * m3"
    and n: "n = int e + 1" and one: "a ^ e mod n = 1"
    and cop: "coprime (a ^ m1 - 1) n" "coprime (a ^ m2 - 1) n" "coprime (a ^ m3 - 1) n"
    and bound: "n < (int (q1 * q2 * q3) + 1) * (int (q1 * q2 * q3) + 1)" and n1: "1 < n"
  shows "prime_nat (nat n)"
proof (rule pocklington_prime [where F = "q1 * q2 * q3"])
  show "1 < nat n" using n1 by simp
next
  fix p assume p: "prime_nat p" "p dvd nat n"
  have "int p dvd int (nat n)" using p(2) by (simp only: int_dvd_int_iff)
  then have pn: "int p dvd n" using n1 by simp
  have d1: "q1 dvd p - 1"
    using q(1) n [unfolded e(1)] one [unfolded e(1)] cop(1) p(1) pn by (rule pocklington_step)
  have d2: "q2 dvd p - 1"
    using q(2) n [unfolded e(2)] one [unfolded e(2)] cop(2) p(1) pn by (rule pocklington_step)
  have d3: "q3 dvd p - 1"
    using q(3) n [unfolded e(3)] one [unfolded e(3)] cop(3) p(1) pn by (rule pocklington_step)
  have c12: "coprime q1 q2" using q(1,2) ne(1) by (rule primes_coprime)
  have c13: "coprime q1 q3" using q(1,3) ne(2) by (rule primes_coprime)
  have c23: "coprime q2 q3" using q(2,3) ne(3) by (rule primes_coprime)
  have d12: "q1 * q2 dvd p - 1" using d1 d2 c12 by (rule divides_mult)
  have "coprime (q1 * q2) q3" using c13 c23 by simp
  with d12 d3 show "q1 * q2 * q3 dvd p - 1" by (rule divides_mult)
next
  have "int (nat n) = n" using n1 by simp
  moreover have "int ((q1 * q2 * q3 + 1) * (q1 * q2 * q3 + 1)) =
      (int (q1 * q2 * q3) + 1) * (int (q1 * q2 * q3) + 1)"
    by (simp only: of_nat_mult of_nat_add of_nat_1)
  ultimately have "int (nat n) < int ((q1 * q2 * q3 + 1) * (q1 * q2 * q3 + 1))"
    using bound by (simp only:)
  then show "nat n < (q1 * q2 * q3 + 1) * (q1 * q2 * q3 + 1)"
    by (simp only: of_nat_less_iff)
qed

text \<open>The field prime is \<open>2\<^sup>2\<^sup>5\<^sup>6 - 4294968273\<close>, which makes the product with a quotient
  a shift and a short multiplication.\<close>

lemma P_special: "q * P = q * 115792089237316195423570985008687907853269984665640564039457584007913129639936 - q * 4294968273"
  by (simp add: P_def algebra_simps)

lemma pow_sq_P:
  fixes a :: int
  assumes "a ^ e mod P = x" and "e' = 2 * e"
    and "x * x + q * 4294968273 = q * 115792089237316195423570985008687907853269984665640564039457584007913129639936 + y \<and> 0 \<le> y \<and> y < P"
  shows "a ^ e' mod P = y"
proof (rule pow_sq [OF assms(1,2)])
  have "x * x = q * P + y"
    using assms(3) by (simp only: P_special) simp
  with assms(3) show "x * x = q * P + y \<and> 0 \<le> y \<and> y < P" by simp
qed

lemma pow_sq_mul_P:
  fixes a :: int
  assumes "a ^ e mod P = x" and "e' = 2 * e + 1"
    and "x * x * a + q * 4294968273 = q * 115792089237316195423570985008687907853269984665640564039457584007913129639936 + y \<and> 0 \<le> y \<and> y < P"
  shows "a ^ e' mod P = y"
proof (rule pow_sq_mul [OF assms(1,2)])
  have "x * x * a = q * P + y"
    using assms(3) by (simp only: P_special) simp
  with assms(3) show "x * x * a = q * P + y \<and> 0 \<le> y \<and> y < P" by simp
qed

lemma pow_mul_P:
  fixes a :: int
  assumes "a ^ e mod P = x" and "e' = e + 1"
    and "x * a + q * 4294968273 = q * 115792089237316195423570985008687907853269984665640564039457584007913129639936 + y \<and> 0 \<le> y \<and> y < P"
  shows "a ^ e' mod P = y"
proof (rule pow_mul [OF assms(1,2)])
  have "x * a = q * P + y"
    using assms(3) by (simp only: P_special) simp
  with assms(3) show "x * a = q * P + y \<and> 0 \<le> y \<and> y < P" by simp
qed

subsection \<open>Small primes\<close>

lemma prime_53: "prime_nat 53"
proof -
  have "trial_division 53 2"
    by code_simp
  then have "prime_nat (nat 53)"
    by (rule trial_division_prime) simp
  then show ?thesis
    by simp
qed

lemma prime_29: "prime_nat 29"
proof -
  have "trial_division 29 2"
    by code_simp
  then have "prime_nat (nat 29)"
    by (rule trial_division_prime) simp
  then show ?thesis
    by simp
qed

lemma prime_7: "prime_nat 7"
proof -
  have "trial_division 7 2"
    by code_simp
  then have "prime_nat (nat 7)"
    by (rule trial_division_prime) simp
  then show ?thesis
    by simp
qed

lemma fermat_107590001_1: "(2::int) ^ 3283 mod 107590001 = 104406662"
proof -
  have s: "(2::int) ^ 0 mod 107590001 = 1"
    by simp
  have s: "(2::int) ^ 1 mod 107590001 = 2"
    by (rule pow_sq_mul [OF s, where q = "0"]) (simp, code_simp)
  have s: "(2::int) ^ 3 mod 107590001 = 8"
    by (rule pow_sq_mul [OF s, where q = "0"]) (simp, code_simp)
  have s: "(2::int) ^ 6 mod 107590001 = 64"
    by (rule pow_sq [OF s, where q = "0"]) (simp, code_simp)
  have s: "(2::int) ^ 12 mod 107590001 = 4096"
    by (rule pow_sq [OF s, where q = "0"]) (simp, code_simp)
  have s: "(2::int) ^ 25 mod 107590001 = 33554432"
    by (rule pow_sq_mul [OF s, where q = "0"]) (simp, code_simp)
  have s: "(2::int) ^ 51 mod 107590001 = 52075796"
    by (rule pow_sq_mul [OF s, where q = "20929452"]) (simp, code_simp)
  have s: "(2::int) ^ 102 mod 107590001 = 32297849"
    by (rule pow_sq [OF s, where q = "25205767"]) (simp, code_simp)
  have s: "(2::int) ^ 205 mod 107590001 = 75322376"
    by (rule pow_sq_mul [OF s, where q = "19391226"]) (simp, code_simp)
  have s: "(2::int) ^ 410 mod 107590001 = 78213150"
    by (rule pow_sq [OF s, where q = "52732226"]) (simp, code_simp)
  have s: "(2::int) ^ 820 mod 107590001 = 72505016"
    by (rule pow_sq [OF s, where q = "56857484"]) (simp, code_simp)
  have s: "(2::int) ^ 1641 mod 107590001 = 70338098"
    by (rule pow_sq_mul [OF s, where q = "97722414"]) (simp, code_simp)
  show ?thesis
    by (rule pow_sq_mul [OF s, where q = "91968546"]) (simp, code_simp)
qed

lemma fermat_107590001_2: "(2::int) ^ 13448750 mod 107590001 = 20492635"
proof -
  note s = fermat_107590001_1
  have s: "(2::int) ^ 6566 mod 107590001 = 67764734"
    by (rule pow_sq [OF s, where q = "101317510"]) (simp, code_simp)
  have s: "(2::int) ^ 13133 mod 107590001 = 25539320"
    by (rule pow_sq_mul [OF s, where q = "85362192"]) (simp, code_simp)
  have s: "(2::int) ^ 26267 mod 107590001 = 32599940"
    by (rule pow_sq_mul [OF s, where q = "12124860"]) (simp, code_simp)
  have s: "(2::int) ^ 52534 mod 107590001 = 25655767"
    by (rule pow_sq [OF s, where q = "9877833"]) (simp, code_simp)
  have s: "(2::int) ^ 105068 mod 107590001 = 76230450"
    by (rule pow_sq [OF s, where q = "6117839"]) (simp, code_simp)
  have s: "(2::int) ^ 210136 mod 107590001 = 91511148"
    by (rule pow_sq [OF s, where q = "54011352"]) (simp, code_simp)
  have s: "(2::int) ^ 420273 mod 107590001 = 95855391"
    by (rule pow_sq_mul [OF s, where q = "155670417"]) (simp, code_simp)
  have s: "(2::int) ^ 840546 mod 107590001 = 72452232"
    by (rule pow_sq [OF s, where q = "85400649"]) (simp, code_simp)
  have s: "(2::int) ^ 1681093 mod 107590001 = 72193467"
    by (rule pow_sq_mul [OF s, where q = "97580181"]) (simp, code_simp)
  have s: "(2::int) ^ 3362187 mod 107590001 = 16535772"
    by (rule pow_sq_mul [OF s, where q = "96884406"]) (simp, code_simp)
  have s: "(2::int) ^ 6724375 mod 107590001 = 105049122"
    by (rule pow_sq_mul [OF s, where q = "5082846"]) (simp, code_simp)
  show ?thesis
    by (rule pow_sq [OF s, where q = "102568249"]) (simp, code_simp)
qed

lemma fermat_107590001_3: "(2::int) ^ 107590000 mod 107590001 = 1"
proof -
  note s = fermat_107590001_2
  have s: "(2::int) ^ 26897500 mod 107590001 = 107590000"
    by (rule pow_sq [OF s, where q = "3903225"]) (simp, code_simp)
  have s: "(2::int) ^ 53795000 mod 107590001 = 1"
    by (rule pow_sq [OF s, where q = "107589999"]) (simp, code_simp)
  show ?thesis
    by (rule pow_sq [OF s, where q = "0"]) (simp, code_simp)
qed

lemma pow_107590001_53_1: "(2::int) ^ 3964 mod 107590001 = 4403636"
proof -
  have s: "(2::int) ^ 0 mod 107590001 = 1"
    by simp
  have s: "(2::int) ^ 1 mod 107590001 = 2"
    by (rule pow_sq_mul [OF s, where q = "0"]) (simp, code_simp)
  have s: "(2::int) ^ 3 mod 107590001 = 8"
    by (rule pow_sq_mul [OF s, where q = "0"]) (simp, code_simp)
  have s: "(2::int) ^ 7 mod 107590001 = 128"
    by (rule pow_sq_mul [OF s, where q = "0"]) (simp, code_simp)
  have s: "(2::int) ^ 15 mod 107590001 = 32768"
    by (rule pow_sq_mul [OF s, where q = "0"]) (simp, code_simp)
  have s: "(2::int) ^ 30 mod 107590001 = 105431815"
    by (rule pow_sq [OF s, where q = "9"]) (simp, code_simp)
  have s: "(2::int) ^ 61 mod 107590001 = 68564609"
    by (rule pow_sq_mul [OF s, where q = "206633841"]) (simp, code_simp)
  have s: "(2::int) ^ 123 mod 107590001 = 105906497"
    by (rule pow_sq_mul [OF s, where q = "87389265"]) (simp, code_simp)
  have s: "(2::int) ^ 247 mod 107590001 = 99823348"
    by (rule pow_sq_mul [OF s, where q = "208498670"]) (simp, code_simp)
  have s: "(2::int) ^ 495 mod 107590001 = 53623508"
    by (rule pow_sq_mul [OF s, where q = "185234700"]) (simp, code_simp)
  have s: "(2::int) ^ 991 mod 107590001 = 21419566"
    by (rule pow_sq_mul [OF s, where q = "53452562"]) (simp, code_simp)
  have s: "(2::int) ^ 1982 mod 107590001 = 44924040"
    by (rule pow_sq [OF s, where q = "4264316"]) (simp, code_simp)
  show ?thesis
    by (rule pow_sq [OF s, where q = "18757964"]) (simp, code_simp)
qed

lemma pow_107590001_53_2: "(2::int) ^ 2030000 mod 107590001 = 26896163"
proof -
  note s = pow_107590001_53_1
  have s: "(2::int) ^ 7929 mod 107590001 = 84070513"
    by (rule pow_sq_mul [OF s, where q = "360479"]) (simp, code_simp)
  have s: "(2::int) ^ 15859 mod 107590001 = 36651431"
    by (rule pow_sq_mul [OF s, where q = "131384907"]) (simp, code_simp)
  have s: "(2::int) ^ 31718 mod 107590001 = 64012146"
    by (rule pow_sq [OF s, where q = "12485615"]) (simp, code_simp)
  have s: "(2::int) ^ 63437 mod 107590001 = 59750825"
    by (rule pow_sq_mul [OF s, where q = "76169807"]) (simp, code_simp)
  have s: "(2::int) ^ 126875 mod 107590001 = 81575212"
    by (rule pow_sq_mul [OF s, where q = "66366038"]) (simp, code_simp)
  have s: "(2::int) ^ 253750 mod 107590001 = 59434260"
    by (rule pow_sq [OF s, where q = "61850684"]) (simp, code_simp)
  have s: "(2::int) ^ 507500 mod 107590001 = 91085263"
    by (rule pow_sq [OF s, where q = "32832337"]) (simp, code_simp)
  have s: "(2::int) ^ 1015000 mod 107590001 = 6046751"
    by (rule pow_sq [OF s, where q = "77112418"]) (simp, code_simp)
  show ?thesis
    by (rule pow_sq [OF s, where q = "339838"]) (simp, code_simp)
qed

lemma coprime_107590001_53: "coprime ((2::int) ^ 2030000 - 1) 107590001"
proof (rule coprime_pow_cert [OF pow_107590001_53_2])
  show "((26896163::int) - 1) * 75712971 = 18927301 * 107590001 + 1"
    by code_simp
  show "(107590001::int) \<noteq> 0"
    by simp
qed

lemma pow_107590001_29_1: "(2::int) ^ 3623 mod 107590001 = 356355"
proof -
  have s: "(2::int) ^ 0 mod 107590001 = 1"
    by simp
  have s: "(2::int) ^ 1 mod 107590001 = 2"
    by (rule pow_sq_mul [OF s, where q = "0"]) (simp, code_simp)
  have s: "(2::int) ^ 3 mod 107590001 = 8"
    by (rule pow_sq_mul [OF s, where q = "0"]) (simp, code_simp)
  have s: "(2::int) ^ 7 mod 107590001 = 128"
    by (rule pow_sq_mul [OF s, where q = "0"]) (simp, code_simp)
  have s: "(2::int) ^ 14 mod 107590001 = 16384"
    by (rule pow_sq [OF s, where q = "0"]) (simp, code_simp)
  have s: "(2::int) ^ 28 mod 107590001 = 53255454"
    by (rule pow_sq [OF s, where q = "2"]) (simp, code_simp)
  have s: "(2::int) ^ 56 mod 107590001 = 52575457"
    by (rule pow_sq [OF s, where q = "26360659"]) (simp, code_simp)
  have s: "(2::int) ^ 113 mod 107590001 = 85734138"
    by (rule pow_sq_mul [OF s, where q = "51383560"]) (simp, code_simp)
  have s: "(2::int) ^ 226 mod 107590001 = 15494963"
    by (rule pow_sq [OF s, where q = "68318081"]) (simp, code_simp)
  have s: "(2::int) ^ 452 mod 107590001 = 12969806"
    by (rule pow_sq [OF s, where q = "2231563"]) (simp, code_simp)
  have s: "(2::int) ^ 905 mod 107590001 = 61618293"
    by (rule pow_sq_mul [OF s, where q = "3126979"]) (simp, code_simp)
  have s: "(2::int) ^ 1811 mod 107590001 = 30988388"
    by (rule pow_sq_mul [OF s, where q = "70579310"]) (simp, code_simp)
  show ?thesis
    by (rule pow_sq_mul [OF s, where q = "17850733"]) (simp, code_simp)
qed

lemma pow_107590001_29_2: "(2::int) ^ 3710000 mod 107590001 = 68236646"
proof -
  note s = pow_107590001_29_1
  have s: "(2::int) ^ 7246 mod 107590001 = 32684845"
    by (rule pow_sq [OF s, where q = "1180"]) (simp, code_simp)
  have s: "(2::int) ^ 14492 mod 107590001 = 101064673"
    by (rule pow_sq [OF s, where q = "9929352"]) (simp, code_simp)
  have s: "(2::int) ^ 28984 mod 107590001 = 86711824"
    by (rule pow_sq [OF s, where q = "94935105"]) (simp, code_simp)
  have s: "(2::int) ^ 57968 mod 107590001 = 75541854"
    by (rule pow_sq [OF s, where q = "69885122"]) (simp, code_simp)
  have s: "(2::int) ^ 115937 mod 107590001 = 86264669"
    by (rule pow_sq_mul [OF s, where q = "106079963"]) (simp, code_simp)
  have s: "(2::int) ^ 231875 mod 107590001 = 60916693"
    by (rule pow_sq_mul [OF s, where q = "138332429"]) (simp, code_simp)
  have s: "(2::int) ^ 463750 mod 107590001 = 12745651"
    by (rule pow_sq [OF s, where q = "34490598"]) (simp, code_simp)
  have s: "(2::int) ^ 927500 mod 107590001 = 78233888"
    by (rule pow_sq [OF s, where q = "1509913"]) (simp, code_simp)
  have s: "(2::int) ^ 1855000 mod 107590001 = 94698905"
    by (rule pow_sq [OF s, where q = "56887639"]) (simp, code_simp)
  show ?thesis
    by (rule pow_sq [OF s, where q = "83352379"]) (simp, code_simp)
qed

lemma coprime_107590001_29: "coprime ((2::int) ^ 3710000 - 1) 107590001"
proof (rule coprime_pow_cert [OF pow_107590001_29_2])
  show "((68236646::int) - 1) * 100085220 = 63476899 * 107590001 + 1"
    by code_simp
  show "(107590001::int) \<noteq> 0"
    by simp
qed

lemma pow_107590001_7_1: "(2::int) ^ 3752 mod 107590001 = 8949986"
proof -
  have s: "(2::int) ^ 0 mod 107590001 = 1"
    by simp
  have s: "(2::int) ^ 1 mod 107590001 = 2"
    by (rule pow_sq_mul [OF s, where q = "0"]) (simp, code_simp)
  have s: "(2::int) ^ 3 mod 107590001 = 8"
    by (rule pow_sq_mul [OF s, where q = "0"]) (simp, code_simp)
  have s: "(2::int) ^ 7 mod 107590001 = 128"
    by (rule pow_sq_mul [OF s, where q = "0"]) (simp, code_simp)
  have s: "(2::int) ^ 14 mod 107590001 = 16384"
    by (rule pow_sq [OF s, where q = "0"]) (simp, code_simp)
  have s: "(2::int) ^ 29 mod 107590001 = 106510908"
    by (rule pow_sq_mul [OF s, where q = "4"]) (simp, code_simp)
  have s: "(2::int) ^ 58 mod 107590001 = 102711827"
    by (rule pow_sq [OF s, where q = "105442637"]) (simp, code_simp)
  have s: "(2::int) ^ 117 mod 107590001 = 80666196"
    by (rule pow_sq_mul [OF s, where q = "196109662"]) (simp, code_simp)
  have s: "(2::int) ^ 234 mod 107590001 = 93470492"
    by (rule pow_sq [OF s, where q = "60479924"]) (simp, code_simp)
  have s: "(2::int) ^ 469 mod 107590001 = 56396232"
    by (rule pow_sq_mul [OF s, where q = "162407896"]) (simp, code_simp)
  have s: "(2::int) ^ 938 mod 107590001 = 43256202"
    by (rule pow_sq [OF s, where q = "29561622"]) (simp, code_simp)
  have s: "(2::int) ^ 1876 mod 107590001 = 12993792"
    by (rule pow_sq [OF s, where q = "17391012"]) (simp, code_simp)
  show ?thesis
    by (rule pow_sq [OF s, where q = "1569278"]) (simp, code_simp)
qed

lemma pow_107590001_7_2: "(2::int) ^ 15370000 mod 107590001 = 95730224"
proof -
  note s = pow_107590001_7_1
  have s: "(2::int) ^ 7504 mod 107590001 = 94985683"
    by (rule pow_sq [OF s, where q = "744513"]) (simp, code_simp)
  have s: "(2::int) ^ 15009 mod 107590001 = 76197022"
    by (rule pow_sq_mul [OF s, where q = "167715956"]) (simp, code_simp)
  have s: "(2::int) ^ 30019 mod 107590001 = 94078981"
    by (rule pow_sq_mul [OF s, where q = "107927987"]) (simp, code_simp)
  have s: "(2::int) ^ 60039 mod 107590001 = 59027406"
    by (rule pow_sq_mul [OF s, where q = "164529316"]) (simp, code_simp)
  have s: "(2::int) ^ 120078 mod 107590001 = 43224464"
    by (rule pow_sq [OF s, where q = "32384372"]) (simp, code_simp)
  have s: "(2::int) ^ 240156 mod 107590001 = 18131795"
    by (rule pow_sq [OF s, where q = "17365501"]) (simp, code_simp)
  have s: "(2::int) ^ 480312 mod 107590001 = 84586333"
    by (rule pow_sq [OF s, where q = "3055692"]) (simp, code_simp)
  have s: "(2::int) ^ 960625 mod 107590001 = 34311684"
    by (rule pow_sq_mul [OF s, where q = "133002094"]) (simp, code_simp)
  have s: "(2::int) ^ 1921250 mod 107590001 = 15463467"
    by (rule pow_sq [OF s, where q = "10942389"]) (simp, code_simp)
  have s: "(2::int) ^ 3842500 mod 107590001 = 34437589"
    by (rule pow_sq [OF s, where q = "2222500"]) (simp, code_simp)
  have s: "(2::int) ^ 7685000 mod 107590001 = 61920080"
    by (rule pow_sq [OF s, where q = "11022841"]) (simp, code_simp)
  show ?thesis
    by (rule pow_sq [OF s, where q = "35636176"]) (simp, code_simp)
qed

lemma coprime_107590001_7: "coprime ((2::int) ^ 15370000 - 1) 107590001"
proof (rule coprime_pow_cert [OF pow_107590001_7_2])
  show "((95730224::int) - 1) * 4923006 = 4380337 * 107590001 + 1"
    by code_simp
  show "(107590001::int) \<noteq> 0"
    by simp
qed

lemma prime_107590001: "prime_nat 107590001"
proof -
  have "prime_nat (nat 107590001)"
  proof (rule pocklington_triple [OF prime_53 prime_29 prime_7 _ _ _ _ _ _ _ fermat_107590001_3 coprime_107590001_53 coprime_107590001_29 coprime_107590001_7])
  qed simp_all
  then show ?thesis
    by simp
qed

lemma prime_419: "prime_nat 419"
proof -
  have "trial_division 419 2"
    by code_simp
  then have "prime_nat (nat 419)"
    by (rule trial_division_prime) simp
  then show ?thesis
    by simp
qed

lemma fermat_20113_1: "(2::int) ^ 2514 mod 20113 = 1"
proof -
  have s: "(2::int) ^ 0 mod 20113 = 1"
    by simp
  have s: "(2::int) ^ 1 mod 20113 = 2"
    by (rule pow_sq_mul [OF s, where q = "0"]) (simp, code_simp)
  have s: "(2::int) ^ 2 mod 20113 = 4"
    by (rule pow_sq [OF s, where q = "0"]) (simp, code_simp)
  have s: "(2::int) ^ 4 mod 20113 = 16"
    by (rule pow_sq [OF s, where q = "0"]) (simp, code_simp)
  have s: "(2::int) ^ 9 mod 20113 = 512"
    by (rule pow_sq_mul [OF s, where q = "0"]) (simp, code_simp)
  have s: "(2::int) ^ 19 mod 20113 = 1350"
    by (rule pow_sq_mul [OF s, where q = "26"]) (simp, code_simp)
  have s: "(2::int) ^ 39 mod 20113 = 4547"
    by (rule pow_sq_mul [OF s, where q = "181"]) (simp, code_simp)
  have s: "(2::int) ^ 78 mod 20113 = 19158"
    by (rule pow_sq [OF s, where q = "1027"]) (simp, code_simp)
  have s: "(2::int) ^ 157 mod 20113 = 13880"
    by (rule pow_sq_mul [OF s, where q = "36496"]) (simp, code_simp)
  have s: "(2::int) ^ 314 mod 20113 = 12086"
    by (rule pow_sq [OF s, where q = "9578"]) (simp, code_simp)
  have s: "(2::int) ^ 628 mod 20113 = 10790"
    by (rule pow_sq [OF s, where q = "7262"]) (simp, code_simp)
  have s: "(2::int) ^ 1257 mod 20113 = 20112"
    by (rule pow_sq_mul [OF s, where q = "11576"]) (simp, code_simp)
  show ?thesis
    by (rule pow_sq [OF s, where q = "20111"]) (simp, code_simp)
qed

lemma fermat_20113_2: "(2::int) ^ 20112 mod 20113 = 1"
proof -
  note s = fermat_20113_1
  have s: "(2::int) ^ 5028 mod 20113 = 1"
    by (rule pow_sq [OF s, where q = "0"]) (simp, code_simp)
  have s: "(2::int) ^ 10056 mod 20113 = 1"
    by (rule pow_sq [OF s, where q = "0"]) (simp, code_simp)
  show ?thesis
    by (rule pow_sq [OF s, where q = "0"]) (simp, code_simp)
qed

lemma pow_20113_419_1: "(2::int) ^ 48 mod 20113 = 15069"
proof -
  have s: "(2::int) ^ 0 mod 20113 = 1"
    by simp
  have s: "(2::int) ^ 1 mod 20113 = 2"
    by (rule pow_sq_mul [OF s, where q = "0"]) (simp, code_simp)
  have s: "(2::int) ^ 3 mod 20113 = 8"
    by (rule pow_sq_mul [OF s, where q = "0"]) (simp, code_simp)
  have s: "(2::int) ^ 6 mod 20113 = 64"
    by (rule pow_sq [OF s, where q = "0"]) (simp, code_simp)
  have s: "(2::int) ^ 12 mod 20113 = 4096"
    by (rule pow_sq [OF s, where q = "0"]) (simp, code_simp)
  have s: "(2::int) ^ 24 mod 20113 = 2974"
    by (rule pow_sq [OF s, where q = "834"]) (simp, code_simp)
  show ?thesis
    by (rule pow_sq [OF s, where q = "439"]) (simp, code_simp)
qed

lemma coprime_20113_419: "coprime ((2::int) ^ 48 - 1) 20113"
proof (rule coprime_pow_cert [OF pow_20113_419_1])
  show "((15069::int) - 1) * 17111 = 12819 * 20113 + 1"
    by code_simp
  show "(20113::int) \<noteq> 0"
    by simp
qed

lemma prime_20113: "prime_nat 20113"
proof -
  have "prime_nat (nat 20113)"
  proof (rule pocklington_single [OF prime_419 _ _ fermat_20113_2 coprime_20113_419])
  qed simp_all
  then show ?thesis
    by simp
qed

lemma fermat_1206781_1: "(2::int) ^ 2356 mod 1206781 = 991987"
proof -
  have s: "(2::int) ^ 0 mod 1206781 = 1"
    by simp
  have s: "(2::int) ^ 1 mod 1206781 = 2"
    by (rule pow_sq_mul [OF s, where q = "0"]) (simp, code_simp)
  have s: "(2::int) ^ 2 mod 1206781 = 4"
    by (rule pow_sq [OF s, where q = "0"]) (simp, code_simp)
  have s: "(2::int) ^ 4 mod 1206781 = 16"
    by (rule pow_sq [OF s, where q = "0"]) (simp, code_simp)
  have s: "(2::int) ^ 9 mod 1206781 = 512"
    by (rule pow_sq_mul [OF s, where q = "0"]) (simp, code_simp)
  have s: "(2::int) ^ 18 mod 1206781 = 262144"
    by (rule pow_sq [OF s, where q = "0"]) (simp, code_simp)
  have s: "(2::int) ^ 36 mod 1206781 = 539472"
    by (rule pow_sq [OF s, where q = "56944"]) (simp, code_simp)
  have s: "(2::int) ^ 73 mod 1206781 = 638524"
    by (rule pow_sq_mul [OF s, where q = "482324"]) (simp, code_simp)
  have s: "(2::int) ^ 147 mod 1206781 = 255109"
    by (rule pow_sq_mul [OF s, where q = "675703"]) (simp, code_simp)
  have s: "(2::int) ^ 294 mod 1206781 = 109332"
    by (rule pow_sq [OF s, where q = "53929"]) (simp, code_simp)
  have s: "(2::int) ^ 589 mod 1206781 = 640838"
    by (rule pow_sq_mul [OF s, where q = "19810"]) (simp, code_simp)
  have s: "(2::int) ^ 1178 mod 1206781 = 940820"
    by (rule pow_sq [OF s, where q = "340304"]) (simp, code_simp)
  show ?thesis
    by (rule pow_sq [OF s, where q = "733473"]) (simp, code_simp)
qed

lemma fermat_1206781_2: "(2::int) ^ 1206780 mod 1206781 = 1"
proof -
  note s = fermat_1206781_1
  have s: "(2::int) ^ 4713 mod 1206781 = 36050"
    by (rule pow_sq_mul [OF s, where q = "1630848"]) (simp, code_simp)
  have s: "(2::int) ^ 9427 mod 1206781 = 1005507"
    by (rule pow_sq_mul [OF s, where q = "2153"]) (simp, code_simp)
  have s: "(2::int) ^ 18855 mod 1206781 = 376593"
    by (rule pow_sq_mul [OF s, where q = "1675605"]) (simp, code_simp)
  have s: "(2::int) ^ 37711 mod 1206781 = 355496"
    by (rule pow_sq_mul [OF s, where q = "235042"]) (simp, code_simp)
  have s: "(2::int) ^ 75423 mod 1206781 = 565487"
    by (rule pow_sq_mul [OF s, where q = "209445"]) (simp, code_simp)
  have s: "(2::int) ^ 150847 mod 1206781 = 608454"
    by (rule pow_sq_mul [OF s, where q = "529964"]) (simp, code_simp)
  have s: "(2::int) ^ 301695 mod 1206781 = 1196653"
    by (rule pow_sq_mul [OF s, where q = "613559"]) (simp, code_simp)
  have s: "(2::int) ^ 603390 mod 1206781 = 1206780"
    by (rule pow_sq [OF s, where q = "1186609"]) (simp, code_simp)
  show ?thesis
    by (rule pow_sq [OF s, where q = "1206779"]) (simp, code_simp)
qed

lemma pow_1206781_20113_1: "(2::int) ^ 60 mod 1206781 = 78448"
proof -
  have s: "(2::int) ^ 0 mod 1206781 = 1"
    by simp
  have s: "(2::int) ^ 1 mod 1206781 = 2"
    by (rule pow_sq_mul [OF s, where q = "0"]) (simp, code_simp)
  have s: "(2::int) ^ 3 mod 1206781 = 8"
    by (rule pow_sq_mul [OF s, where q = "0"]) (simp, code_simp)
  have s: "(2::int) ^ 7 mod 1206781 = 128"
    by (rule pow_sq_mul [OF s, where q = "0"]) (simp, code_simp)
  have s: "(2::int) ^ 15 mod 1206781 = 32768"
    by (rule pow_sq_mul [OF s, where q = "0"]) (simp, code_simp)
  have s: "(2::int) ^ 30 mod 1206781 = 913515"
    by (rule pow_sq [OF s, where q = "889"]) (simp, code_simp)
  show ?thesis
    by (rule pow_sq [OF s, where q = "691517"]) (simp, code_simp)
qed

lemma coprime_1206781_20113: "coprime ((2::int) ^ 60 - 1) 1206781"
proof (rule coprime_pow_cert [OF pow_1206781_20113_1])
  show "((78448::int) - 1) * 709359 = 46112 * 1206781 + 1"
    by code_simp
  show "(1206781::int) \<noteq> 0"
    by simp
qed

lemma prime_1206781: "prime_nat 1206781"
proof -
  have "prime_nat (nat 1206781)"
  proof (rule pocklington_single [OF prime_20113 _ _ fermat_1206781_2 coprime_1206781_20113])
  qed simp_all
  then show ?thesis
    by simp
qed

lemma fermat_7240687_1: "(2::int) ^ 3535 mod 7240687 = 336204"
proof -
  have s: "(2::int) ^ 0 mod 7240687 = 1"
    by simp
  have s: "(2::int) ^ 1 mod 7240687 = 2"
    by (rule pow_sq_mul [OF s, where q = "0"]) (simp, code_simp)
  have s: "(2::int) ^ 3 mod 7240687 = 8"
    by (rule pow_sq_mul [OF s, where q = "0"]) (simp, code_simp)
  have s: "(2::int) ^ 6 mod 7240687 = 64"
    by (rule pow_sq [OF s, where q = "0"]) (simp, code_simp)
  have s: "(2::int) ^ 13 mod 7240687 = 8192"
    by (rule pow_sq_mul [OF s, where q = "0"]) (simp, code_simp)
  have s: "(2::int) ^ 27 mod 7240687 = 3885362"
    by (rule pow_sq_mul [OF s, where q = "18"]) (simp, code_simp)
  have s: "(2::int) ^ 55 mod 7240687 = 3903228"
    by (rule pow_sq_mul [OF s, where q = "4169780"]) (simp, code_simp)
  have s: "(2::int) ^ 110 mod 7240687 = 1377788"
    by (rule pow_sq [OF s, where q = "2104108"]) (simp, code_simp)
  have s: "(2::int) ^ 220 mod 7240687 = 1621467"
    by (rule pow_sq [OF s, where q = "262171"]) (simp, code_simp)
  have s: "(2::int) ^ 441 mod 7240687 = 473099"
    by (rule pow_sq_mul [OF s, where q = "726217"]) (simp, code_simp)
  have s: "(2::int) ^ 883 mod 7240687 = 4335201"
    by (rule pow_sq_mul [OF s, where q = "61823"]) (simp, code_simp)
  have s: "(2::int) ^ 1767 mod 7240687 = 1418845"
    by (rule pow_sq_mul [OF s, where q = "5191211"]) (simp, code_simp)
  show ?thesis
    by (rule pow_sq_mul [OF s, where q = "556058"]) (simp, code_simp)
qed

lemma fermat_7240687_2: "(2::int) ^ 7240686 mod 7240687 = 1"
proof -
  note s = fermat_7240687_1
  have s: "(2::int) ^ 7070 mod 7240687 = 6005546"
    by (rule pow_sq [OF s, where q = "15610"]) (simp, code_simp)
  have s: "(2::int) ^ 14141 mod 7240687 = 725519"
    by (rule pow_sq_mul [OF s, where q = "9962199"]) (simp, code_simp)
  have s: "(2::int) ^ 28283 mod 7240687 = 3193044"
    by (rule pow_sq_mul [OF s, where q = "145394"]) (simp, code_simp)
  have s: "(2::int) ^ 56567 mod 7240687 = 3778273"
    by (rule pow_sq_mul [OF s, where q = "2816177"]) (simp, code_simp)
  have s: "(2::int) ^ 113135 mod 7240687 = 5981541"
    by (rule pow_sq_mul [OF s, where q = "3943091"]) (simp, code_simp)
  have s: "(2::int) ^ 226271 mod 7240687 = 4962783"
    by (rule pow_sq_mul [OF s, where q = "9882717"]) (simp, code_simp)
  have s: "(2::int) ^ 452542 mod 7240687 = 3793215"
    by (rule pow_sq [OF s, where q = "3401502"]) (simp, code_simp)
  have s: "(2::int) ^ 905085 mod 7240687 = 860183"
    by (rule pow_sq_mul [OF s, where q = "3974341"]) (simp, code_simp)
  have s: "(2::int) ^ 1810171 mod 7240687 = 6940666"
    by (rule pow_sq_mul [OF s, where q = "204376"]) (simp, code_simp)
  have s: "(2::int) ^ 3620343 mod 7240687 = 1"
    by (rule pow_sq_mul [OF s, where q = "13306153"]) (simp, code_simp)
  show ?thesis
    by (rule pow_sq [OF s, where q = "0"]) (simp, code_simp)
qed

lemma pow_7240687_1206781_1: "(2::int) ^ 6 mod 7240687 = 64"
proof -
  have s: "(2::int) ^ 0 mod 7240687 = 1"
    by simp
  have s: "(2::int) ^ 1 mod 7240687 = 2"
    by (rule pow_sq_mul [OF s, where q = "0"]) (simp, code_simp)
  have s: "(2::int) ^ 3 mod 7240687 = 8"
    by (rule pow_sq_mul [OF s, where q = "0"]) (simp, code_simp)
  show ?thesis
    by (rule pow_sq [OF s, where q = "0"]) (simp, code_simp)
qed

lemma coprime_7240687_1206781: "coprime ((2::int) ^ 6 - 1) 7240687"
proof (rule coprime_pow_cert [OF pow_7240687_1206781_1])
  show "((64::int) - 1) * 5746577 = 50 * 7240687 + 1"
    by code_simp
  show "(7240687::int) \<noteq> 0"
    by simp
qed

lemma prime_7240687: "prime_nat 7240687"
proof -
  have "prime_nat (nat 7240687)"
  proof (rule pocklington_single [OF prime_1206781 _ _ fermat_7240687_2 coprime_7240687_1206781])
  qed simp_all
  then show ?thesis
    by simp
qed

lemma prime_239: "prime_nat 239"
proof -
  have "trial_division 239 2"
    by code_simp
  then have "prime_nat (nat 239)"
    by (rule trial_division_prime) simp
  then show ?thesis
    by simp
qed

lemma prime_101: "prime_nat 101"
proof -
  have "trial_division 101 2"
    by code_simp
  then have "prime_nat (nat 101)"
    by (rule trial_division_prime) simp
  then show ?thesis
    by simp
qed

lemma prime_2: "prime_nat 2"
proof -
  have "trial_division 2 2"
    by code_simp
  then have "prime_nat (nat 2)"
    by (rule trial_division_prime) simp
  then show ?thesis
    by simp
qed

lemma fermat_96557_1: "(2::int) ^ 3017 mod 96557 = 21381"
proof -
  have s: "(2::int) ^ 0 mod 96557 = 1"
    by simp
  have s: "(2::int) ^ 1 mod 96557 = 2"
    by (rule pow_sq_mul [OF s, where q = "0"]) (simp, code_simp)
  have s: "(2::int) ^ 2 mod 96557 = 4"
    by (rule pow_sq [OF s, where q = "0"]) (simp, code_simp)
  have s: "(2::int) ^ 5 mod 96557 = 32"
    by (rule pow_sq_mul [OF s, where q = "0"]) (simp, code_simp)
  have s: "(2::int) ^ 11 mod 96557 = 2048"
    by (rule pow_sq_mul [OF s, where q = "0"]) (simp, code_simp)
  have s: "(2::int) ^ 23 mod 96557 = 84706"
    by (rule pow_sq_mul [OF s, where q = "86"]) (simp, code_simp)
  have s: "(2::int) ^ 47 mod 96557 = 8089"
    by (rule pow_sq_mul [OF s, where q = "148619"]) (simp, code_simp)
  have s: "(2::int) ^ 94 mod 96557 = 62832"
    by (rule pow_sq [OF s, where q = "677"]) (simp, code_simp)
  have s: "(2::int) ^ 188 mod 96557 = 30722"
    by (rule pow_sq [OF s, where q = "40886"]) (simp, code_simp)
  have s: "(2::int) ^ 377 mod 96557 = 89775"
    by (rule pow_sq_mul [OF s, where q = "19549"]) (simp, code_simp)
  have s: "(2::int) ^ 754 mod 96557 = 34392"
    by (rule pow_sq [OF s, where q = "83469"]) (simp, code_simp)
  have s: "(2::int) ^ 1508 mod 96557 = 82971"
    by (rule pow_sq [OF s, where q = "12249"]) (simp, code_simp)
  show ?thesis
    by (rule pow_sq_mul [OF s, where q = "142593"]) (simp, code_simp)
qed

lemma fermat_96557_2: "(2::int) ^ 96556 mod 96557 = 1"
proof -
  note s = fermat_96557_1
  have s: "(2::int) ^ 6034 mod 96557 = 46323"
    by (rule pow_sq [OF s, where q = "4734"]) (simp, code_simp)
  have s: "(2::int) ^ 12069 mod 96557 = 68236"
    by (rule pow_sq_mul [OF s, where q = "44446"]) (simp, code_simp)
  have s: "(2::int) ^ 24139 mod 96557 = 56641"
    by (rule pow_sq_mul [OF s, where q = "96443"]) (simp, code_simp)
  have s: "(2::int) ^ 48278 mod 96557 = 96556"
    by (rule pow_sq [OF s, where q = "33225"]) (simp, code_simp)
  show ?thesis
    by (rule pow_sq [OF s, where q = "96555"]) (simp, code_simp)
qed

lemma pow_96557_239_1: "(2::int) ^ 404 mod 96557 = 29586"
proof -
  have s: "(2::int) ^ 0 mod 96557 = 1"
    by simp
  have s: "(2::int) ^ 1 mod 96557 = 2"
    by (rule pow_sq_mul [OF s, where q = "0"]) (simp, code_simp)
  have s: "(2::int) ^ 3 mod 96557 = 8"
    by (rule pow_sq_mul [OF s, where q = "0"]) (simp, code_simp)
  have s: "(2::int) ^ 6 mod 96557 = 64"
    by (rule pow_sq [OF s, where q = "0"]) (simp, code_simp)
  have s: "(2::int) ^ 12 mod 96557 = 4096"
    by (rule pow_sq [OF s, where q = "0"]) (simp, code_simp)
  have s: "(2::int) ^ 25 mod 96557 = 49153"
    by (rule pow_sq_mul [OF s, where q = "347"]) (simp, code_simp)
  have s: "(2::int) ^ 50 mod 96557 = 64712"
    by (rule pow_sq [OF s, where q = "25021"]) (simp, code_simp)
  have s: "(2::int) ^ 101 mod 96557 = 28265"
    by (rule pow_sq_mul [OF s, where q = "86739"]) (simp, code_simp)
  have s: "(2::int) ^ 202 mod 96557 = 94164"
    by (rule pow_sq [OF s, where q = "8273"]) (simp, code_simp)
  show ?thesis
    by (rule pow_sq [OF s, where q = "91830"]) (simp, code_simp)
qed

lemma coprime_96557_239: "coprime ((2::int) ^ 404 - 1) 96557"
proof (rule coprime_pow_cert [OF pow_96557_239_1])
  show "((29586::int) - 1) * 8329 = 2552 * 96557 + 1"
    by code_simp
  show "(96557::int) \<noteq> 0"
    by simp
qed

lemma pow_96557_101_1: "(2::int) ^ 956 mod 96557 = 63065"
proof -
  have s: "(2::int) ^ 0 mod 96557 = 1"
    by simp
  have s: "(2::int) ^ 1 mod 96557 = 2"
    by (rule pow_sq_mul [OF s, where q = "0"]) (simp, code_simp)
  have s: "(2::int) ^ 3 mod 96557 = 8"
    by (rule pow_sq_mul [OF s, where q = "0"]) (simp, code_simp)
  have s: "(2::int) ^ 7 mod 96557 = 128"
    by (rule pow_sq_mul [OF s, where q = "0"]) (simp, code_simp)
  have s: "(2::int) ^ 14 mod 96557 = 16384"
    by (rule pow_sq [OF s, where q = "0"]) (simp, code_simp)
  have s: "(2::int) ^ 29 mod 96557 = 13992"
    by (rule pow_sq_mul [OF s, where q = "5560"]) (simp, code_simp)
  have s: "(2::int) ^ 59 mod 96557 = 13493"
    by (rule pow_sq_mul [OF s, where q = "4055"]) (simp, code_simp)
  have s: "(2::int) ^ 119 mod 96557 = 5651"
    by (rule pow_sq_mul [OF s, where q = "3771"]) (simp, code_simp)
  have s: "(2::int) ^ 239 mod 96557 = 43425"
    by (rule pow_sq_mul [OF s, where q = "661"]) (simp, code_simp)
  have s: "(2::int) ^ 478 mod 96557 = 68972"
    by (rule pow_sq [OF s, where q = "19529"]) (simp, code_simp)
  show ?thesis
    by (rule pow_sq [OF s, where q = "49267"]) (simp, code_simp)
qed

lemma coprime_96557_101: "coprime ((2::int) ^ 956 - 1) 96557"
proof (rule coprime_pow_cert [OF pow_96557_101_1])
  show "((63065::int) - 1) * 50445 = 32947 * 96557 + 1"
    by code_simp
  show "(96557::int) \<noteq> 0"
    by simp
qed

lemma pow_96557_2_1: "(2::int) ^ 3017 mod 96557 = 21381"
proof -
  have s: "(2::int) ^ 0 mod 96557 = 1"
    by simp
  have s: "(2::int) ^ 1 mod 96557 = 2"
    by (rule pow_sq_mul [OF s, where q = "0"]) (simp, code_simp)
  have s: "(2::int) ^ 2 mod 96557 = 4"
    by (rule pow_sq [OF s, where q = "0"]) (simp, code_simp)
  have s: "(2::int) ^ 5 mod 96557 = 32"
    by (rule pow_sq_mul [OF s, where q = "0"]) (simp, code_simp)
  have s: "(2::int) ^ 11 mod 96557 = 2048"
    by (rule pow_sq_mul [OF s, where q = "0"]) (simp, code_simp)
  have s: "(2::int) ^ 23 mod 96557 = 84706"
    by (rule pow_sq_mul [OF s, where q = "86"]) (simp, code_simp)
  have s: "(2::int) ^ 47 mod 96557 = 8089"
    by (rule pow_sq_mul [OF s, where q = "148619"]) (simp, code_simp)
  have s: "(2::int) ^ 94 mod 96557 = 62832"
    by (rule pow_sq [OF s, where q = "677"]) (simp, code_simp)
  have s: "(2::int) ^ 188 mod 96557 = 30722"
    by (rule pow_sq [OF s, where q = "40886"]) (simp, code_simp)
  have s: "(2::int) ^ 377 mod 96557 = 89775"
    by (rule pow_sq_mul [OF s, where q = "19549"]) (simp, code_simp)
  have s: "(2::int) ^ 754 mod 96557 = 34392"
    by (rule pow_sq [OF s, where q = "83469"]) (simp, code_simp)
  have s: "(2::int) ^ 1508 mod 96557 = 82971"
    by (rule pow_sq [OF s, where q = "12249"]) (simp, code_simp)
  show ?thesis
    by (rule pow_sq_mul [OF s, where q = "142593"]) (simp, code_simp)
qed

lemma pow_96557_2_2: "(2::int) ^ 48278 mod 96557 = 96556"
proof -
  note s = pow_96557_2_1
  have s: "(2::int) ^ 6034 mod 96557 = 46323"
    by (rule pow_sq [OF s, where q = "4734"]) (simp, code_simp)
  have s: "(2::int) ^ 12069 mod 96557 = 68236"
    by (rule pow_sq_mul [OF s, where q = "44446"]) (simp, code_simp)
  have s: "(2::int) ^ 24139 mod 96557 = 56641"
    by (rule pow_sq_mul [OF s, where q = "96443"]) (simp, code_simp)
  show ?thesis
    by (rule pow_sq [OF s, where q = "33225"]) (simp, code_simp)
qed

lemma coprime_96557_2: "coprime ((2::int) ^ 48278 - 1) 96557"
proof (rule coprime_pow_cert [OF pow_96557_2_2])
  show "((96556::int) - 1) * 48278 = 48277 * 96557 + 1"
    by code_simp
  show "(96557::int) \<noteq> 0"
    by simp
qed

lemma prime_96557: "prime_nat 96557"
proof -
  have "prime_nat (nat 96557)"
  proof (rule pocklington_triple [OF prime_239 prime_101 prime_2 _ _ _ _ _ _ _ fermat_96557_2 coprime_96557_239 coprime_96557_101 coprime_96557_2])
  qed simp_all
  then show ?thesis
    by simp
qed

subsection \<open>The prime \<open>255515944373312847190720520512484175977\<close>\<close>

lemma b_base_1: "(2::int) ^ 3017 mod 255515944373312847190720520512484175977 = 174989565581254331811101049283580893231"
proof -
  have s: "(2::int) ^ 0 mod 255515944373312847190720520512484175977 = 1"
    by simp
  have s: "(2::int) ^ 1 mod 255515944373312847190720520512484175977 = 2"
    by (rule pow_sq_mul [OF s, where q = "0"]) (simp, code_simp)
  have s: "(2::int) ^ 2 mod 255515944373312847190720520512484175977 = 4"
    by (rule pow_sq [OF s, where q = "0"]) (simp, code_simp)
  have s: "(2::int) ^ 5 mod 255515944373312847190720520512484175977 = 32"
    by (rule pow_sq_mul [OF s, where q = "0"]) (simp, code_simp)
  have s: "(2::int) ^ 11 mod 255515944373312847190720520512484175977 = 2048"
    by (rule pow_sq_mul [OF s, where q = "0"]) (simp, code_simp)
  have s: "(2::int) ^ 23 mod 255515944373312847190720520512484175977 = 8388608"
    by (rule pow_sq_mul [OF s, where q = "0"]) (simp, code_simp)
  have s: "(2::int) ^ 47 mod 255515944373312847190720520512484175977 = 140737488355328"
    by (rule pow_sq_mul [OF s, where q = "0"]) (simp, code_simp)
  have s: "(2::int) ^ 94 mod 255515944373312847190720520512484175977 = 19807040628566084398385987584"
    by (rule pow_sq [OF s, where q = "0"]) (simp, code_simp)
  have s: "(2::int) ^ 188 mod 255515944373312847190720520512484175977 = 19788474196127712299134683031482856488"
    by (rule pow_sq [OF s, where q = "1535398737733890584"]) (simp, code_simp)
  have s: "(2::int) ^ 377 mod 255515944373312847190720520512484175977 = 40683471298966689633745903015924573956"
    by (rule pow_sq_mul [OF s, where q = "3065043255685854947795291243129113116"]) (simp, code_simp)
  have s: "(2::int) ^ 754 mod 255515944373312847190720520512484175977 = 24952728942711170347087955630077997379"
    by (rule pow_sq [OF s, where q = "6477657748495152723324098936292857541"]) (simp, code_simp)
  have s: "(2::int) ^ 1508 mod 255515944373312847190720520512484175977 = 35813195196935520739113130878725055866"
    by (rule pow_sq [OF s, where q = "2436789935812110152412803844407451575"]) (simp, code_simp)
  show ?thesis
    by (rule pow_sq_mul [OF s, where q = "10039177424794505176905779034014408753"]) (simp, code_simp)
qed

lemma b_base_2: "(2::int) ^ 12357844 mod 255515944373312847190720520512484175977 = 249124584495092850695849675220625669694"
proof -
  note s = b_base_1
  have s: "(2::int) ^ 6034 mod 255515944373312847190720520512484175977 = 192341257898219067016629648979563215114"
    by (rule pow_sq [OF s, where q = "119841241756631185108345391436930240511"]) (simp, code_simp)
  have s: "(2::int) ^ 12068 mod 255515944373312847190720520512484175977 = 12686596234897161883492309856802186313"
    by (rule pow_sq [OF s, where q = "144786109456319108895542247210357828579"]) (simp, code_simp)
  have s: "(2::int) ^ 24136 mod 255515944373312847190720520512484175977 = 255062280875301574409422985848450276017"
    by (rule pow_sq [OF s, where q = "629900902748193061677104444942118176"]) (simp, code_simp)
  have s: "(2::int) ^ 48272 mod 255515944373312847190720520512484175977 = 70048159492189856429802963745316120186"
    by (rule pow_sq [OF s, where q = "254609422847844918492256321522113113039"]) (simp, code_simp)
  have s: "(2::int) ^ 96545 mod 255515944373312847190720520512484175977 = 180789406220620571892568519307877513946"
    by (rule pow_sq_mul [OF s, where q = "38406563318603993912610815929691713598"]) (simp, code_simp)
  have s: "(2::int) ^ 193091 mod 255515944373312847190720520512484175977 = 223602898622186634568301540149599619498"
    by (rule pow_sq_mul [OF s, where q = "255833814846806862449933105355223496942"]) (simp, code_simp)
  have s: "(2::int) ^ 386182 mod 255515944373312847190720520512484175977 = 95251401738174570104663587331849470483"
    by (rule pow_sq [OF s, where q = "195675680415448470714305154520747397673"]) (simp, code_simp)
  have s: "(2::int) ^ 772365 mod 255515944373312847190720520512484175977 = 23469028032992030970686588689113683396"
    by (rule pow_sq_mul [OF s, where q = "71015760330256163371430683966733843166"]) (simp, code_simp)
  have s: "(2::int) ^ 1544730 mod 255515944373312847190720520512484175977 = 243629675277690630546683693767237123130"
    by (rule pow_sq [OF s, where q = "2155619987489489749232121495342217318"]) (simp, code_simp)
  have s: "(2::int) ^ 3089461 mod 255515944373312847190720520512484175977 = 30264596746843355859472066805353482987"
    by (rule pow_sq_mul [OF s, where q = "464592679893148062501651710656219949269"]) (simp, code_simp)
  have s: "(2::int) ^ 6178922 mod 255515944373312847190720520512484175977 = 241627561408125051297648995858186047313"
    by (rule pow_sq [OF s, where q = "3584691430883194021560254735099327528"]) (simp, code_simp)
  show ?thesis
    by (rule pow_sq [OF s, where q = "228494071378721753152426919338558276075"]) (simp, code_simp)
qed

lemma b_base_3: "(2::int) ^ 50617730437 mod 255515944373312847190720520512484175977 = 20666617655771091288766235850499581284"
proof -
  note s = b_base_2
  have s: "(2::int) ^ 24715688 mod 255515944373312847190720520512484175977 = 131821467733606514473913871161853236022"
    by (rule pow_sq [OF s, where q = "242893095192437557860642455263833287582"]) (simp, code_simp)
  have s: "(2::int) ^ 49431377 mod 255515944373312847190720520512484175977 = 211913525476640217420098621697949634806"
    by (rule pow_sq_mul [OF s, where q = "136014207630458769814665214464828187906"]) (simp, code_simp)
  have s: "(2::int) ^ 98862754 mod 255515944373312847190720520512484175977 = 56537020835287897122989016334366751445"
    by (rule pow_sq [OF s, where q = "175751624385241115090870727291645891383"]) (simp, code_simp)
  have s: "(2::int) ^ 197725509 mod 255515944373312847190720520512484175977 = 98489292028452811586033483198555837818"
    by (rule pow_sq_mul [OF s, where q = "25019454130500255281128558135940533816"]) (simp, code_simp)
  have s: "(2::int) ^ 395451019 mod 255515944373312847190720520512484175977 = 209477802368001149776463191632035848480"
    by (rule pow_sq_mul [OF s, where q = "75925912710118780009759028197121662184"]) (simp, code_simp)
  have s: "(2::int) ^ 790902038 mod 255515944373312847190720520512484175977 = 175632815128935594521819549332525934875"
    by (rule pow_sq [OF s, where q = "171734682908149890931582900635229079325"]) (simp, code_simp)
  have s: "(2::int) ^ 1581804076 mod 255515944373312847190720520512484175977 = 219556541716449834427794672177750230998"
    by (rule pow_sq [OF s, where q = "120723917349936795121613826435462797451"]) (simp, code_simp)
  have s: "(2::int) ^ 3163608152 mod 255515944373312847190720520512484175977 = 174003175121236472698936856009677185684"
    by (rule pow_sq [OF s, where q = "188657796399816041571700904626338142160"]) (simp, code_simp)
  have s: "(2::int) ^ 6327216304 mod 255515944373312847190720520512484175977 = 8525186184675778254085881051798100830"
    by (rule pow_sq [OF s, where q = "118493994676263164375887498027251888738"]) (simp, code_simp)
  have s: "(2::int) ^ 12654432609 mod 255515944373312847190720520512484175977 = 69901995819811220124625568273964229376"
    by (rule pow_sq_mul [OF s, where q = "568878781021992694138606128544807112"]) (simp, code_simp)
  have s: "(2::int) ^ 25308865218 mod 255515944373312847190720520512484175977 = 81757345365528728771892760363476216695"
    by (rule pow_sq [OF s, where q = "19123225486288869466888295233845886753"]) (simp, code_simp)
  show ?thesis
    by (rule pow_sq_mul [OF s, where q = "52319737131178999056795695927728745358"]) (simp, code_simp)
qed

lemma b_base_4: "(2::int) ^ 207330223871849 mod 255515944373312847190720520512484175977 = 232046980337150010004243004708853634191"
proof -
  note s = b_base_3
  have s: "(2::int) ^ 101235460874 mod 255515944373312847190720520512484175977 = 188546393524490723205264835185277587853"
    by (rule pow_sq [OF s, where q = "1671555512425542607739333260381520139"]) (simp, code_simp)
  have s: "(2::int) ^ 202470921749 mod 255515944373312847190720520512484175977 = 147496019917714410729326960004138491973"
    by (rule pow_sq_mul [OF s, where q = "278258506319694709110579179361238119685"]) (simp, code_simp)
  have s: "(2::int) ^ 404941843499 mod 255515944373312847190720520512484175977 = 155166396191234947094113254620545592189"
    by (rule pow_sq_mul [OF s, where q = "170283509664526416042096383007667295597"]) (simp, code_simp)
  have s: "(2::int) ^ 809883686999 mod 255515944373312847190720520512484175977 = 103160524306637002197514116600226341700"
    by (rule pow_sq_mul [OF s, where q = "188454858001338509760924737521148748446"]) (simp, code_simp)
  have s: "(2::int) ^ 1619767373998 mod 255515944373312847190720520512484175977 = 247624843462406595644738916686298072677"
    by (rule pow_sq [OF s, where q = "41649431315612836883047430270384582899"]) (simp, code_simp)
  have s: "(2::int) ^ 3239534747997 mod 255515944373312847190720520512484175977 = 37113134520924697414624462058568908464"
    by (rule pow_sq_mul [OF s, where q = "479954886965446726276463583797322195122"]) (simp, code_simp)
  have s: "(2::int) ^ 6479069495995 mod 255515944373312847190720520512484175977 = 91217501323120567278658578107232907708"
    by (rule pow_sq_mul [OF s, where q = "10781203946755443947762483314551453092"]) (simp, code_simp)
  have s: "(2::int) ^ 12958138991990 mod 255515944373312847190720520512484175977 = 134970170339772924417165109345827311979"
    by (rule pow_sq [OF s, where q = "32564044361462337260283372204248938205"]) (simp, code_simp)
  have s: "(2::int) ^ 25916277983981 mod 255515944373312847190720520512484175977 = 79861049776607868014000709014578660997"
    by (rule pow_sq_mul [OF s, where q = "142589511791343013352066621186660076005"]) (simp, code_simp)
  have s: "(2::int) ^ 51832555967962 mod 255515944373312847190720520512484175977 = 244107519852561039099223229193387909478"
    by (rule pow_sq [OF s, where q = "24960427761422947645521346202150095803"]) (simp, code_simp)
  have s: "(2::int) ^ 103665111935924 mod 255515944373312847190720520512484175977 = 136152966683187902937832550419305142035"
    by (rule pow_sq [OF s, where q = "233208465306214964243349154815454600937"]) (simp, code_simp)
  show ?thesis
    by (rule pow_sq_mul [OF s, where q = "145099597460340895050244625710696171467"]) (simp, code_simp)
qed

lemma b_base_5: "(2::int) ^ 849224596979093566 mod 255515944373312847190720520512484175977 = 242967310964014645079773107769182944078"
proof -
  note s = b_base_4
  have s: "(2::int) ^ 414660447743698 mod 255515944373312847190720520512484175977 = 67339693853260991022450546070364464759"
    by (rule pow_sq [OF s, where q = "210733624532331000047473070287636564186"]) (simp, code_simp)
  have s: "(2::int) ^ 829320895487396 mod 255515944373312847190720520512484175977 = 153241798337935549795577984724572935029"
    by (rule pow_sq [OF s, where q = "17746972226616681758914254427276164476"]) (simp, code_simp)
  have s: "(2::int) ^ 1658641790974792 mod 255515944373312847190720520512484175977 = 117868426585794636809818146852652225261"
    by (rule pow_sq [OF s, where q = "91904436004726969043482661610065914540"]) (simp, code_simp)
  have s: "(2::int) ^ 3317283581949584 mod 255515944373312847190720520512484175977 = 121561568162936995162992733835232424741"
    by (rule pow_sq [OF s, where q = "54372207651797323053342104028855275940"]) (simp, code_simp)
  have s: "(2::int) ^ 6634567163899168 mod 255515944373312847190720520512484175977 = 103157185316835655558002193993293568600"
    by (rule pow_sq [OF s, where q = "57832848319800473952335031784211112153"]) (simp, code_simp)
  have s: "(2::int) ^ 13269134327798336 mod 255515944373312847190720520512484175977 = 192082614545547197487308173877963980531"
    by (rule pow_sq [OF s, where q = "41646735230521319112935871399699856197"]) (simp, code_simp)
  have s: "(2::int) ^ 26538268655596673 mod 255515944373312847190720520512484175977 = 88880008264689057868598092300912472859"
    by (rule pow_sq_mul [OF s, where q = "288793960792896837213052358956167727519"]) (simp, code_simp)
  have s: "(2::int) ^ 53076537311193347 mod 255515944373312847190720520512484175977 = 177024162863517915909714443013613764076"
    by (rule pow_sq_mul [OF s, where q = "61832977887201220751463125810275759318"]) (simp, code_simp)
  have s: "(2::int) ^ 106153074622386695 mod 255515944373312847190720520512484175977 = 192951266170284756538190972025037245652"
    by (rule pow_sq_mul [OF s, where q = "245288444244752506446134677119762094700"]) (simp, code_simp)
  have s: "(2::int) ^ 212306149244773391 mod 255515944373312847190720520512484175977 = 113480210634763105128531322245000567892"
    by (rule pow_sq_mul [OF s, where q = "291411882010166653622816883777905398508"]) (simp, code_simp)
  have s: "(2::int) ^ 424612298489546783 mod 255515944373312847190720520512484175977 = 100577713675322785004330309354832177951"
    by (rule pow_sq_mul [OF s, where q = "100798079253289903229671237234894474201"]) (simp, code_simp)
  show ?thesis
    by (rule pow_sq [OF s, where q = "39590000980039648621580037976743243899"]) (simp, code_simp)
qed

lemma b_base_6: "(2::int) ^ 3396898387916374264 mod 255515944373312847190720520512484175977 = 49180540851747490927367427235911788886"
proof -
  note s = b_base_5
  have s: "(2::int) ^ 1698449193958187132 mod 255515944373312847190720520512484175977 = 113164772160957797756255401143841453264"
    by (rule pow_sq [OF s, where q = "231034952992349765298600247598002536660"]) (simp, code_simp)
  show ?thesis
    by (rule pow_sq [OF s, where q = "50119242811444016042856812333415861530"]) (simp, code_simp)
qed

lemma b_v1_1: "(49180540851747490927367427235911788886::int) ^ 325 mod 255515944373312847190720520512484175977 = 14940963372505326644660613805799403072"
proof -
  have s: "(49180540851747490927367427235911788886::int) ^ 0 mod 255515944373312847190720520512484175977 = 1"
    by simp
  have s: "(49180540851747490927367427235911788886::int) ^ 1 mod 255515944373312847190720520512484175977 = 49180540851747490927367427235911788886"
    by (rule pow_mul [OF s, where q = "0"]) (simp, code_simp)
  have s: "(49180540851747490927367427235911788886::int) ^ 2 mod 255515944373312847190720520512484175977 = 75654500059839358246173916974888815715"
    by (rule pow_sq [OF s, where q = "9466045668510640417142639912135870553"]) (simp, code_simp)
  have s: "(49180540851747490927367427235911788886::int) ^ 4 mod 255515944373312847190720520512484175977 = 28161587362097713390071949476357310332"
    by (rule pow_sq [OF s, where q = "22400180909814215536471997196315162309"]) (simp, code_simp)
  have s: "(49180540851747490927367427235911788886::int) ^ 5 mod 255515944373312847190720520512484175977 = 165523576452818384098533250839916690733"
    by (rule pow_mul [OF s, where q = "5420413591443798210550779546163060547"]) (simp, code_simp)
  have s: "(49180540851747490927367427235911788886::int) ^ 10 mod 255515944373312847190720520512484175977 = 245703323342954531606640651013253235767"
    by (rule pow_sq [OF s, where q = "107226398058756837032392571485638447586"]) (simp, code_simp)
  have s: "(49180540851747490927367427235911788886::int) ^ 20 mod 255515944373312847190720520512484175977 = 253553280817069387210564862598382845163"
    by (rule pow_sq [OF s, where q = "236267538019352553233201658115510498038"]) (simp, code_simp)
  have s: "(49180540851747490927367427235911788886::int) ^ 40 mod 255515944373312847190720520512484175977 = 106268830666100525103557337126829020411"
    by (rule pow_sq [OF s, where q = "251605692829767246687297371694358314254"]) (simp, code_simp)
  have s: "(49180540851747490927367427235911788886::int) ^ 80 mod 255515944373312847190720520512484175977 = 19509944011890749712381458648634396164"
    by (rule pow_sq [OF s, where q = "44197102450252580796631158411228200141"]) (simp, code_simp)
  have s: "(49180540851747490927367427235911788886::int) ^ 81 mod 255515944373312847190720520512484175977 = 217765882961362772604191111837336276357"
    by (rule pow_mul [OF s, where q = "3755184831402304237354861992556155611"]) (simp, code_simp)
  have s: "(49180540851747490927367427235911788886::int) ^ 162 mod 255515944373312847190720520512484175977 = 251873348709090693013079042387588266513"
    by (rule pow_sq [OF s, where q = "185593035684135955721177315441203610568"]) (simp, code_simp)
  have s: "(49180540851747490927367427235911788886::int) ^ 324 mod 255515944373312847190720520512484175977 = 194063413691205144419335754546454388655"
    by (rule pow_sq [OF s, where q = "248282681323573622472063284911660645282"]) (simp, code_simp)
  show ?thesis
    by (rule pow_mul [OF s, where q = "37352438683535704179529016232528322554"]) (simp, code_simp)
qed

lemma b_v1_2: "(49180540851747490927367427235911788886::int) ^ 83342 mod 255515944373312847190720520512484175977 = 80006814474653988067537334775639420327"
proof -
  note s = b_v1_1
  have s: "(49180540851747490927367427235911788886::int) ^ 650 mod 255515944373312847190720520512484175977 = 248904843659297934930837968406529127039"
    by (rule pow_sq [OF s, where q = "873653450652768999184693895774167385"]) (simp, code_simp)
  have s: "(49180540851747490927367427235911788886::int) ^ 651 mod 255515944373312847190720520512484175977 = 202317469297798939293168530855757596291"
    by (rule pow_mul [OF s, where q = "47908066409739299291778253807635663119"]) (simp, code_simp)
  have s: "(49180540851747490927367427235911788886::int) ^ 1302 mod 255515944373312847190720520512484175977 = 192988520140630561480334600167789805600"
    by (rule pow_sq [OF s, where q = "160194928279164417405721973274662285953"]) (simp, code_simp)
  have s: "(49180540851747490927367427235911788886::int) ^ 2604 mod 255515944373312847190720520512484175977 = 2916844853455842179706236620688214703"
    by (rule pow_sq [OF s, where q = "145762210641758081468318356062269269161"]) (simp, code_simp)
  have s: "(49180540851747490927367427235911788886::int) ^ 5208 mod 255515944373312847190720520512484175977 = 155679466186658977913143570783843847368"
    by (rule pow_sq [OF s, where q = "33297271996073693264254971384046833"]) (simp, code_simp)
  have s: "(49180540851747490927367427235911788886::int) ^ 10416 mod 255515944373312847190720520512484175977 = 191660789640093241410722001268076840203"
    by (rule pow_sq [OF s, where q = "94851600167673979385409107111907841773"]) (simp, code_simp)
  have s: "(49180540851747490927367427235911788886::int) ^ 10417 mod 255515944373312847190720520512484175977 = 166326929008279615815289687509323405978"
    by (rule pow_mul [OF s, where q = "36889992590056453703720765577708324440"]) (simp, code_simp)
  have s: "(49180540851747490927367427235911788886::int) ^ 20834 mod 255515944373312847190720520512484175977 = 243210454899888522490142729449170582413"
    by (rule pow_sq [OF s, where q = "108269749589116828889718660256340925823"]) (simp, code_simp)
  have s: "(49180540851747490927367427235911788886::int) ^ 20835 mod 255515944373312847190720520512484175977 = 158185713244075276327493524270586245336"
    by (rule pow_mul [OF s, where q = "46812036493896927143687332077524617366"]) (simp, code_simp)
  have s: "(49180540851747490927367427235911788886::int) ^ 41670 mod 255515944373312847190720520512484175977 = 148379091919754220874678472442766628167"
    by (rule pow_sq [OF s, where q = "97930170017015539694550361317014018577"]) (simp, code_simp)
  have s: "(49180540851747490927367427235911788886::int) ^ 41671 mod 255515944373312847190720520512484175977 = 205420360964071963222901821840858988636"
    by (rule pow_mul [OF s, where q = "28559329280223327164156746993335570638"]) (simp, code_simp)
  show ?thesis
    by (rule pow_sq [OF s, where q = "165146346550328646410795571703291415297"]) (simp, code_simp)
qed

lemma b_v1_3: "(49180540851747490927367427235911788886::int) ^ 5334007 mod 255515944373312847190720520512484175977 = 14345099589931674379241989493745964031"
proof -
  note s = b_v1_2
  have s: "(49180540851747490927367427235911788886::int) ^ 83343 mod 255515944373312847190720520512484175977 = 117417503844577916233312051205360718285"
    by (rule pow_mul [OF s, where q = "15399345889507894166111405503595142981"]) (simp, code_simp)
  have s: "(49180540851747490927367427235911788886::int) ^ 166686 mod 255515944373312847190720520512484175977 = 159955329975371465936874293505724596715"
    by (rule pow_sq [OF s, where q = "53956985905148187955538082171494527630"]) (simp, code_simp)
  have s: "(49180540851747490927367427235911788886::int) ^ 166687 mod 255515944373312847190720520512484175977 = 246048505280547698991996310223263374068"
    by (rule pow_mul [OF s, where q = "30787470659033113146256087497847678286"]) (simp, code_simp)
  have s: "(49180540851747490927367427235911788886::int) ^ 333374 mod 255515944373312847190720520512484175977 = 123937283554362803405623568459628607623"
    by (rule pow_sq [OF s, where q = "236931856050211892619749263484637322913"]) (simp, code_simp)
  have s: "(49180540851747490927367427235911788886::int) ^ 333375 mod 255515944373312847190720520512484175977 = 14186687622160857891181791329182253037"
    by (rule pow_mul [OF s, where q = "23854881744657853929023060564210060133"]) (simp, code_simp)
  have s: "(49180540851747490927367427235911788886::int) ^ 666750 mod 255515944373312847190720520512484175977 = 153139297535679319828142411019370301084"
    by (rule pow_sq [OF s, where q = "787669459071896381464872556776811205"]) (simp, code_simp)
  have s: "(49180540851747490927367427235911788886::int) ^ 1333500 mod 255515944373312847190720520512484175977 = 69192097543358298725283363535296495582"
    by (rule pow_sq [OF s, where q = "91781530531253633693589685427700305762"]) (simp, code_simp)
  have s: "(49180540851747490927367427235911788886::int) ^ 1333501 mod 255515944373312847190720520512484175977 = 243091673409030506690870566310742972986"
    by (rule pow_mul [OF s, where q = "13317778615324029118924716721284586058"]) (simp, code_simp)
  have s: "(49180540851747490927367427235911788886::int) ^ 2667002 mod 255515944373312847190720520512484175977 = 96688082776197019645603709554930995294"
    by (rule pow_sq [OF s, where q = "231271523292754360141986384330226861526"]) (simp, code_simp)
  have s: "(49180540851747490927367427235911788886::int) ^ 2667003 mod 255515944373312847190720520512484175977 = 147160778617794054493421135834213003275"
    by (rule pow_mul [OF s, where q = "18610080151806567780546777442142838817"]) (simp, code_simp)
  have s: "(49180540851747490927367427235911788886::int) ^ 5334006 mod 255515944373312847190720520512484175977 = 38932010091736099908441664278805259759"
    by (rule pow_sq [OF s, where q = "84755160060599590886564480632402449658"]) (simp, code_simp)
  show ?thesis
    by (rule pow_mul [OF s, where q = "7493455320188824312701755324394413459"]) (simp, code_simp)
qed

lemma b_v1_4: "(49180540851747490927367427235911788886::int) ^ 5462023552 mod 255515944373312847190720520512484175977 = 134205010787654643756188048357202369985"
proof -
  note s = b_v1_3
  have s: "(49180540851747490927367427235911788886::int) ^ 10668014 mod 255515944373312847190720520512484175977 = 83015535884583884442236618219969008063"
    by (rule pow_sq [OF s, where q = "805358283021302571975890587304741874"]) (simp, code_simp)
  have s: "(49180540851747490927367427235911788886::int) ^ 21336028 mod 255515944373312847190720520512484175977 = 15266080704764320715623067455679027128"
    by (rule pow_sq [OF s, where q = "26971229584545722566526767084838548833"]) (simp, code_simp)
  have s: "(49180540851747490927367427235911788886::int) ^ 21336029 mod 255515944373312847190720520512484175977 = 63006625235655735490266598209683255877"
    by (rule pow_mul [OF s, where q = "2938345423367450236600930659028942803"]) (simp, code_simp)
  have s: "(49180540851747490927367427235911788886::int) ^ 42672058 mod 255515944373312847190720520512484175977 = 8470572625802176672246082056404644025"
    by (rule pow_sq [OF s, where q = "15536544434919405762395616509956745952"]) (simp, code_simp)
  have s: "(49180540851747490927367427235911788886::int) ^ 42672059 mod 255515944373312847190720520512484175977 = 29386235032671711284262235734162010193"
    by (rule pow_mul [OF s, where q = "1630377094794199016439279447403961741"]) (simp, code_simp)
  have s: "(49180540851747490927367427235911788886::int) ^ 85344118 mod 255515944373312847190720520512484175977 = 136837453970965998817490139775532942925"
    by (rule pow_sq [OF s, where q = "3379635707326978953613733340000693812"]) (simp, code_simp)
  have s: "(49180540851747490927367427235911788886::int) ^ 170688236 mod 255515944373312847190720520512484175977 = 69732158063612036749122979254534561854"
    by (rule pow_sq [OF s, where q = "73281097409324340555485230533574671923"]) (simp, code_simp)
  have s: "(49180540851747490927367427235911788886::int) ^ 341376472 mod 255515944373312847190720520512484175977 = 31677300782216068059935800311915654612"
    by (rule pow_sq [OF s, where q = "19030412681817912925096958720814264752"]) (simp, code_simp)
  have s: "(49180540851747490927367427235911788886::int) ^ 682752944 mod 255515944373312847190720520512484175977 = 171793291942764565887058650145676460658"
    by (rule pow_sq [OF s, where q = "3927157607749629625681099351452919918"]) (simp, code_simp)
  have s: "(49180540851747490927367427235911788886::int) ^ 1365505888 mod 255515944373312847190720520512484175977 = 227961507133811006352641895866782364399"
    by (rule pow_sq [OF s, where q = "115503301482482323593472741183606664845"]) (simp, code_simp)
  have s: "(49180540851747490927367427235911788886::int) ^ 2731011776 mod 255515944373312847190720520512484175977 = 93756016669411039129726140872403950693"
    by (rule pow_sq [OF s, where q = "203378497033417063616431679406566035804"]) (simp, code_simp)
  show ?thesis
    by (rule pow_sq [OF s, where q = "34401730519298915726801834965281427032"]) (simp, code_simp)
qed

lemma b_v1_5: "(49180540851747490927367427235911788886::int) ^ 699139014659 mod 255515944373312847190720520512484175977 = 82381214149343919061612748413412685903"
proof -
  note s = b_v1_4
  have s: "(49180540851747490927367427235911788886::int) ^ 10924047104 mod 255515944373312847190720520512484175977 = 233437522786476566076892787207184491080"
    by (rule pow_sq [OF s, where q = "70488692847285352504338733786150754385"]) (simp, code_simp)
  have s: "(49180540851747490927367427235911788886::int) ^ 21848094208 mod 255515944373312847190720520512484175977 = 135833777527636074610952926807630990968"
    by (rule pow_sq [OF s, where q = "213266836159044212883928348862100897416"]) (simp, code_simp)
  have s: "(49180540851747490927367427235911788886::int) ^ 43696188416 mod 255515944373312847190720520512484175977 = 221462777711526888075493335927296135954"
    by (rule pow_sq [OF s, where q = "72210034339267680122486577858346726910"]) (simp, code_simp)
  have s: "(49180540851747490927367427235911788886::int) ^ 87392376832 mod 255515944373312847190720520512484175977 = 94696577872353921367754039990562359223"
    by (rule pow_sq [OF s, where q = "191947950770729730189983835866768402309"]) (simp, code_simp)
  have s: "(49180540851747490927367427235911788886::int) ^ 174784753664 mod 255515944373312847190720520512484175977 = 71744119309710614436286219453531205371"
    by (rule pow_sq [OF s, where q = "35095429691202422779941159899436362854"]) (simp, code_simp)
  have s: "(49180540851747490927367427235911788886::int) ^ 349569507328 mod 255515944373312847190720520512484175977 = 989555086212905802364240113980498112"
    by (rule pow_sq [OF s, where q = "20144412780776699246227265683782660977"]) (simp, code_simp)
  have s: "(49180540851747490927367427235911788886::int) ^ 349569507329 mod 255515944373312847190720520512484175977 = 77532965785810661032581184088442900198"
    by (rule pow_mul [OF s, where q = "190465039126659266707046378365596042"]) (simp, code_simp)
  have s: "(49180540851747490927367427235911788886::int) ^ 699139014658 mod 255515944373312847190720520512484175977 = 10363424796730335354717868602121620298"
    by (rule pow_sq [OF s, where q = "23526362702285979969995155654585935178"]) (simp, code_simp)
  show ?thesis
    by (rule pow_mul [OF s, where q = "1994704627257860399699775635595925125"]) (simp, code_simp)
qed

lemma b_v1_pow: "(2::int) ^ 2374904191824599455024826335976 mod 255515944373312847190720520512484175977 = 82381214149343919061612748413412685903"
  by (rule pow_compose_num [OF b_base_6 b_v1_5]) simp

lemma b_v1_coprime: "coprime ((2::int) ^ 2374904191824599455024826335976 - 1) 255515944373312847190720520512484175977"
proof (rule coprime_pow_cert [OF b_v1_pow])
  show "((82381214149343919061612748413412685903::int) - 1) * 235081362755335172132203715226758066727 = 75792875216320803940127491159486690489 * 255515944373312847190720520512484175977 + 1"
    by code_simp
  show "(255515944373312847190720520512484175977::int) \<noteq> 0"
    by simp
qed

lemma b_v2_1: "(49180540851747490927367427235911788886::int) ^ 151 mod 255515944373312847190720520512484175977 = 140196364777658903161756905512410378195"
proof -
  have s: "(49180540851747490927367427235911788886::int) ^ 0 mod 255515944373312847190720520512484175977 = 1"
    by simp
  have s: "(49180540851747490927367427235911788886::int) ^ 1 mod 255515944373312847190720520512484175977 = 49180540851747490927367427235911788886"
    by (rule pow_mul [OF s, where q = "0"]) (simp, code_simp)
  have s: "(49180540851747490927367427235911788886::int) ^ 2 mod 255515944373312847190720520512484175977 = 75654500059839358246173916974888815715"
    by (rule pow_sq [OF s, where q = "9466045668510640417142639912135870553"]) (simp, code_simp)
  have s: "(49180540851747490927367427235911788886::int) ^ 4 mod 255515944373312847190720520512484175977 = 28161587362097713390071949476357310332"
    by (rule pow_sq [OF s, where q = "22400180909814215536471997196315162309"]) (simp, code_simp)
  have s: "(49180540851747490927367427235911788886::int) ^ 8 mod 255515944373312847190720520512484175977 = 110302023266068219539607358279990119646"
    by (rule pow_sq [OF s, where q = "3103818059957802438587083242880079714"]) (simp, code_simp)
  have s: "(49180540851747490927367427235911788886::int) ^ 9 mod 255515944373312847190720520512484175977 = 151873372903427483052930954887251431179"
    by (rule pow_mul [OF s, where q = "21230429179564928874958255604938093601"]) (simp, code_simp)
  have s: "(49180540851747490927367427235911788886::int) ^ 18 mod 255515944373312847190720520512484175977 = 161970859230640510319842900469051616334"
    by (rule pow_sq [OF s, where q = "90270380009493453196376162093026117491"]) (simp, code_simp)
  have s: "(49180540851747490927367427235911788886::int) ^ 36 mod 255515944373312847190720520512484175977 = 62792988288026470689202721328179851255"
    by (rule pow_sq [OF s, where q = "102672885264580033718737868277870927813"]) (simp, code_simp)
  have s: "(49180540851747490927367427235911788886::int) ^ 37 mod 255515944373312847190720520512484175977 = 215700836097329486728651777554059316589"
    by (rule pow_mul [OF s, where q = "12086107320139241290608026334805555333"]) (simp, code_simp)
  have s: "(49180540851747490927367427235911788886::int) ^ 74 mod 255515944373312847190720520512484175977 = 222658353225005743089400479563917820653"
    by (rule pow_sq [OF s, where q = "182089813640398630249822317226812678684"]) (simp, code_simp)
  have s: "(49180540851747490927367427235911788886::int) ^ 75 mod 255515944373312847190720520512484175977 = 66552506157209165913382721403534847811"
    by (rule pow_mul [OF s, where q = "42856261919868391791624600813298527011"]) (simp, code_simp)
  have s: "(49180540851747490927367427235911788886::int) ^ 150 mod 255515944373312847190720520512484175977 = 115905034369957836093972166392684718605"
    by (rule pow_sq [OF s, where q = "17334480189362194110531040122076218908"]) (simp, code_simp)
  show ?thesis
    by (rule pow_mul [OF s, where q = "22308871142016563017914098295049062355"]) (simp, code_simp)
qed

lemma b_v2_2: "(49180540851747490927367427235911788886::int) ^ 77400 mod 255515944373312847190720520512484175977 = 230804548767519101496729092856805214791"
proof -
  note s = b_v2_1
  have s: "(49180540851747490927367427235911788886::int) ^ 302 mod 255515944373312847190720520512484175977 = 28215412405664156369464945635840807355"
    by (rule pow_sq [OF s, where q = "76922873619792982275381333605873491710"]) (simp, code_simp)
  have s: "(49180540851747490927367427235911788886::int) ^ 604 mod 255515944373312847190720520512484175977 = 233521015995835586103375942107120755867"
    by (rule pow_sq [OF s, where q = "3115694009523641209985787372764146254"]) (simp, code_simp)
  have s: "(49180540851747490927367427235911788886::int) ^ 1208 mod 255515944373312847190720520512484175977 = 75016400231644645271594995397632580718"
    by (rule pow_sq [OF s, where q = "213419421028595726150336835330577465523"]) (simp, code_simp)
  have s: "(49180540851747490927367427235911788886::int) ^ 1209 mod 255515944373312847190720520512484175977 = 196472118225136142037977292208427339528"
    by (rule pow_mul [OF s, where q = "14438813770279809778258933021821026060"]) (simp, code_simp)
  have s: "(49180540851747490927367427235911788886::int) ^ 2418 mod 255515944373312847190720520512484175977 = 223109657942257177785806281795557005161"
    by (rule pow_sq [OF s, where q = "151071954959784316798177482142904276799"]) (simp, code_simp)
  have s: "(49180540851747490927367427235911788886::int) ^ 4836 mod 255515944373312847190720520512484175977 = 229525991102878708260870593688990643250"
    by (rule pow_sq [OF s, where q = "194813359257082883078156507569662767623"]) (simp, code_simp)
  have s: "(49180540851747490927367427235911788886::int) ^ 4837 mod 255515944373312847190720520512484175977 = 157207767327775834476187020511224239193"
    by (rule pow_mul [OF s, where q = "44178113462386128558412817463862023291"]) (simp, code_simp)
  have s: "(49180540851747490927367427235911788886::int) ^ 9674 mod 255515944373312847190720520512484175977 = 21962503501750918867284704210846649075"
    by (rule pow_sq [OF s, where q = "96723052523392219352377460944527350862"]) (simp, code_simp)
  have s: "(49180540851747490927367427235911788886::int) ^ 9675 mod 255515944373312847190720520512484175977 = 103168244354499030700082920640440772782"
    by (rule pow_mul [OF s, where q = "4227242269846082638067826397008572884"]) (simp, code_simp)
  have s: "(49180540851747490927367427235911788886::int) ^ 19350 mod 255515944373312847190720520512484175977 = 156732367149083577135407571820939505058"
    by (rule pow_sq [OF s, where q = "41655665243492696197686423522097221458"]) (simp, code_simp)
  have s: "(49180540851747490927367427235911788886::int) ^ 38700 mod 255515944373312847190720520512484175977 = 129031641942036659729458682083655256473"
    by (rule pow_sq [OF s, where q = "96138951220457801516707043956806290483"]) (simp, code_simp)
  show ?thesis
    by (rule pow_sq [OF s, where q = "65159004707484165818121832793607050394"]) (simp, code_simp)
qed

lemma b_v2_3: "(49180540851747490927367427235911788886::int) ^ 9907310 mod 255515944373312847190720520512484175977 = 26808307760449207750093024204385938380"
proof -
  note s = b_v2_2
  have s: "(49180540851747490927367427235911788886::int) ^ 154800 mod 255515944373312847190720520512484175977 = 192009924917174366841417508776036068180"
    by (rule pow_sq [OF s, where q = "208483035618116682284841677667744851413"]) (simp, code_simp)
  have s: "(49180540851747490927367427235911788886::int) ^ 154801 mod 255515944373312847190720520512484175977 = 12768274914276738321156687486424313020"
    by (rule pow_mul [OF s, where q = "36957192552075997421841123983453501980"]) (simp, code_simp)
  have s: "(49180540851747490927367427235911788886::int) ^ 309602 mod 255515944373312847190720520512484175977 = 49882630581754100116767132243176996340"
    by (rule pow_sq [OF s, where q = "638037851948530155899994246528206780"]) (simp, code_simp)
  have s: "(49180540851747490927367427235911788886::int) ^ 309603 mod 255515944373312847190720520512484175977 = 155871924580705221081910186580555849197"
    by (rule pow_mul [OF s, where q = "9601180690056437848062257882099250259"]) (simp, code_simp)
  have s: "(49180540851747490927367427235911788886::int) ^ 619206 mod 255515944373312847190720520512484175977 = 164283665342781988177686712103925240693"
    by (rule pow_sq [OF s, where q = "95086265289950485778141344487889021908"]) (simp, code_simp)
  have s: "(49180540851747490927367427235911788886::int) ^ 1238412 mod 255515944373312847190720520512484175977 = 142514800067092600043046261226119560"
    by (rule pow_sq [OF s, where q = "105625982615893634557210948220269610057"]) (simp, code_simp)
  have s: "(49180540851747490927367427235911788886::int) ^ 1238413 mod 255515944373312847190720520512484175977 = 169414564109035530852820851687815904706"
    by (rule pow_mul [OF s, where q = "27430597193723767542082491612045502"]) (simp, code_simp)
  have s: "(49180540851747490927367427235911788886::int) ^ 2476826 mod 255515944373312847190720520512484175977 = 212567163639472195385791470473776474263"
    by (rule pow_sq [OF s, where q = "112326824076079821226477356298928110949"]) (simp, code_simp)
  have s: "(49180540851747490927367427235911788886::int) ^ 2476827 mod 255515944373312847190720520512484175977 = 106292746441311520240317118490193207400"
    by (rule pow_mul [OF s, where q = "40913955881506364266511828295959215234"]) (simp, code_simp)
  have s: "(49180540851747490927367427235911788886::int) ^ 4953654 mod 255515944373312847190720520512484175977 = 117041915865703831236481954525747896187"
    by (rule pow_sq [OF s, where q = "44216997783630165612987637335933238269"]) (simp, code_simp)
  have s: "(49180540851747490927367427235911788886::int) ^ 4953655 mod 255515944373312847190720520512484175977 = 179923379392247122757754233445281855720"
    by (rule pow_mul [OF s, where q = "22527692894930121843902613731055449306"]) (simp, code_simp)
  show ?thesis
    by (rule pow_sq [OF s, where q = "126694334208083210599615037916402738260"]) (simp, code_simp)
qed

lemma b_v2_4: "(49180540851747490927367427235911788886::int) ^ 2536271417 mod 255515944373312847190720520512484175977 = 223970691830786156443740490956078388444"
proof -
  note s = b_v2_3
  have s: "(49180540851747490927367427235911788886::int) ^ 19814620 mod 255515944373312847190720520512484175977 = 45101799670977660438737305467120853061"
    by (rule pow_sq [OF s, where q = "2812683047007628221830473379901263507"]) (simp, code_simp)
  have s: "(49180540851747490927367427235911788886::int) ^ 39629240 mod 255515944373312847190720520512484175977 = 33756620758118166825888709488593163077"
    by (rule pow_sq [OF s, where q = "7961038746721193094209613686455441972"]) (simp, code_simp)
  have s: "(49180540851747490927367427235911788886::int) ^ 79258480 mod 255515944373312847190720520512484175977 = 88937014083455789559352054462510346089"
    by (rule pow_sq [OF s, where q = "4459641247837641585058855875033919920"]) (simp, code_simp)
  have s: "(49180540851747490927367427235911788886::int) ^ 79258481 mod 255515944373312847190720520512484175977 = 247186159223382633518857260125780285877"
    by (rule pow_mul [OF s, where q = "17118189884750985199510379878310465001"]) (simp, code_simp)
  have s: "(49180540851747490927367427235911788886::int) ^ 158516962 mod 255515944373312847190720520512484175977 = 200460452779973905021940553061543782742"
    by (rule pow_sq [OF s, where q = "239127923940190383010475579679392364331"]) (simp, code_simp)
  have s: "(49180540851747490927367427235911788886::int) ^ 158516963 mod 255515944373312847190720520512484175977 = 251493821442077883166594239274069345281"
    by (rule pow_mul [OF s, where q = "38583711522524443002020760330553098603"]) (simp, code_simp)
  have s: "(49180540851747490927367427235911788886::int) ^ 317033926 mod 255515944373312847190720520512484175977 = 137853079132203290761256745843503014047"
    by (rule pow_sq [OF s, where q = "247535011479094836113636039406481342482"]) (simp, code_simp)
  have s: "(49180540851747490927367427235911788886::int) ^ 317033927 mod 255515944373312847190720520512484175977 = 129889494680117663519679836952961322682"
    by (rule pow_mul [OF s, where q = "26533330459782464132602006879109970480"]) (simp, code_simp)
  have s: "(49180540851747490927367427235911788886::int) ^ 634067854 mod 255515944373312847190720520512484175977 = 126841223056276489665515816261358074142"
    by (rule pow_sq [OF s, where q = "66028289818216220375878473033118348566"]) (simp, code_simp)
  have s: "(49180540851747490927367427235911788886::int) ^ 1268135708 mod 255515944373312847190720520512484175977 = 201349551566645566221390904712225339101"
    by (rule pow_sq [OF s, where q = "62965526107859033358882350912846245519"]) (simp, code_simp)
  have s: "(49180540851747490927367427235911788886::int) ^ 2536271416 mod 255515944373312847190720520512484175977 = 76729175351130299709266460770204740558"
    by (rule pow_sq [OF s, where q = "158665800741018651126904400923802245059"]) (simp, code_simp)
  show ?thesis
    by (rule pow_mul [OF s, where q = "14768480895125263434339087843374174872"]) (simp, code_simp)
qed

lemma b_v2_5: "(49180540851747490927367427235911788886::int) ^ 649285482908 mod 255515944373312847190720520512484175977 = 161048110454708149435200622067418444786"
proof -
  note s = b_v2_4
  have s: "(49180540851747490927367427235911788886::int) ^ 5072542834 mod 255515944373312847190720520512484175977 = 187169706431972308517936124636794307521"
    by (rule pow_sq [OF s, where q = "196319924074374908430810030346604725495"]) (simp, code_simp)
  have s: "(49180540851747490927367427235911788886::int) ^ 5072542835 mod 255515944373312847190720520512484175977 = 127418855718875546810353137507759758684"
    by (rule pow_mul [OF s, where q = "36025569425673066159182905483951655786"]) (simp, code_simp)
  have s: "(49180540851747490927367427235911788886::int) ^ 10145085670 mod 255515944373312847190720520512484175977 = 213792260342188863344657733923630983746"
    by (rule pow_sq [OF s, where q = "63540319695224991455316749017192054430"]) (simp, code_simp)
  have s: "(49180540851747490927367427235911788886::int) ^ 20290171340 mod 255515944373312847190720520512484175977 = 409422120892306651417520127675237909"
    by (rule pow_sq [OF s, where q = "178881715950545216496566374630279159191"]) (simp, code_simp)
  have s: "(49180540851747490927367427235911788886::int) ^ 40580342680 mod 255515944373312847190720520512484175977 = 119426829496777343773668861001521992356"
    by (rule pow_sq [OF s, where q = "656031362297491803162982200856525"]) (simp, code_simp)
  have s: "(49180540851747490927367427235911788886::int) ^ 40580342681 mod 255515944373312847190720520512484175977 = 115264533546794873293625766294126050836"
    by (rule pow_mul [OF s, where q = "22986730167725653602762249634199101540"]) (simp, code_simp)
  have s: "(49180540851747490927367427235911788886::int) ^ 81160685362 mod 255515944373312847190720520512484175977 = 2933335104481591040555460706953237802"
    by (rule pow_sq [OF s, where q = "51996413477623422098133224817234504822"]) (simp, code_simp)
  have s: "(49180540851747490927367427235911788886::int) ^ 81160685363 mod 255515944373312847190720520512484175977 = 18411158510725857893735376436087814680"
    by (rule pow_mul [OF s, where q = "564594930823774118728852380136471396"]) (simp, code_simp)
  have s: "(49180540851747490927367427235911788886::int) ^ 162321370726 mod 255515944373312847190720520512484175977 = 222667406478972466855580858392224555113"
    by (rule pow_sq [OF s, where q = "1326612938141470876343750514074196031"]) (simp, code_simp)
  have s: "(49180540851747490927367427235911788886::int) ^ 162321370727 mod 255515944373312847190720520512484175977 = 33176927844068476395312979643914210241"
    by (rule pow_mul [OF s, where q = "42858004448803890215019451040571552701"]) (simp, code_simp)
  have s: "(49180540851747490927367427235911788886::int) ^ 324642741454 mod 255515944373312847190720520512484175977 = 180679806904297554081578418573348979901"
    by (rule pow_sq [OF s, where q = "4307788086845858532389439834079458340"]) (simp, code_simp)
  show ?thesis
    by (rule pow_sq [OF s, where q = "127761861213948769948607825064463773695"]) (simp, code_simp)
qed

lemma b_v2_6: "(49180540851747490927367427235911788886::int) ^ 10388567726557 mod 255515944373312847190720520512484175977 = 111233916942653821000329437866037388564"
proof -
  note s = b_v2_5
  have s: "(49180540851747490927367427235911788886::int) ^ 649285482909 mod 255515944373312847190720520512484175977 = 167895915573027073188194515008357815214"
    by (rule pow_mul [OF s, where q = "30997804049921197259921004464917373166"]) (simp, code_simp)
  have s: "(49180540851747490927367427235911788886::int) ^ 1298570965818 mod 255515944373312847190720520512484175977 = 144932637255830050570706338770137571481"
    by (rule pow_sq [OF s, where q = "110322033074070722565233026339799844595"]) (simp, code_simp)
  have s: "(49180540851747490927367427235911788886::int) ^ 1298570965819 mod 255515944373312847190720520512484175977 = 92384827918413030018620660685259229199"
    by (rule pow_mul [OF s, where q = "27895971442384533339049032077252615871"]) (simp, code_simp)
  have s: "(49180540851747490927367427235911788886::int) ^ 2597141931638 mod 255515944373312847190720520512484175977 = 161421797509709584263584395015493262167"
    by (rule pow_sq [OF s, where q = "33402833042172432581760843713311029242"]) (simp, code_simp)
  have s: "(49180540851747490927367427235911788886::int) ^ 2597141931639 mod 255515944373312847190720520512484175977 = 96954224054871945796355655593104618928"
    by (rule pow_mul [OF s, where q = "31069729625913498294429880797586658042"]) (simp, code_simp)
  have s: "(49180540851747490927367427235911788886::int) ^ 5194283863278 mod 255515944373312847190720520512484175977 = 88330115276961498593704014952372204309"
    by (rule pow_sq [OF s, where q = "36788786645535447149182931280487405875"]) (simp, code_simp)
  have s: "(49180540851747490927367427235911788886::int) ^ 10388567726556 mod 255515944373312847190720520512484175977 = 191683243845660530922791290921065054072"
    by (rule pow_sq [OF s, where q = "30535117031452861669965181453489403417"]) (simp, code_simp)
  show ?thesis
    by (rule pow_mul [OF s, where q = "36894314472892000762209012293363635164"]) (simp, code_simp)
qed

lemma b_v2_pow: "(2::int) ^ 35288908963101546467996824129048 mod 255515944373312847190720520512484175977 = 111233916942653821000329437866037388564"
  by (rule pow_compose_num [OF b_base_6 b_v2_6]) simp

lemma b_v2_coprime: "coprime ((2::int) ^ 35288908963101546467996824129048 - 1) 255515944373312847190720520512484175977"
proof (rule coprime_pow_cert [OF b_v2_pow])
  show "((111233916942653821000329437866037388564::int) - 1) * 175544394104025381149509263364095140941 = 76419851612027529596436277344255632966 * 255515944373312847190720520512484175977 + 1"
    by code_simp
  show "(255515944373312847190720520512484175977::int) \<noteq> 0"
    by simp
qed

lemma b_v3_1: "(49180540851747490927367427235911788886::int) ^ 354 mod 255515944373312847190720520512484175977 = 172706204704233136750212320630590819816"
proof -
  have s: "(49180540851747490927367427235911788886::int) ^ 0 mod 255515944373312847190720520512484175977 = 1"
    by simp
  have s: "(49180540851747490927367427235911788886::int) ^ 1 mod 255515944373312847190720520512484175977 = 49180540851747490927367427235911788886"
    by (rule pow_mul [OF s, where q = "0"]) (simp, code_simp)
  have s: "(49180540851747490927367427235911788886::int) ^ 2 mod 255515944373312847190720520512484175977 = 75654500059839358246173916974888815715"
    by (rule pow_sq [OF s, where q = "9466045668510640417142639912135870553"]) (simp, code_simp)
  have s: "(49180540851747490927367427235911788886::int) ^ 4 mod 255515944373312847190720520512484175977 = 28161587362097713390071949476357310332"
    by (rule pow_sq [OF s, where q = "22400180909814215536471997196315162309"]) (simp, code_simp)
  have s: "(49180540851747490927367427235911788886::int) ^ 5 mod 255515944373312847190720520512484175977 = 165523576452818384098533250839916690733"
    by (rule pow_mul [OF s, where q = "5420413591443798210550779546163060547"]) (simp, code_simp)
  have s: "(49180540851747490927367427235911788886::int) ^ 10 mod 255515944373312847190720520512484175977 = 245703323342954531606640651013253235767"
    by (rule pow_sq [OF s, where q = "107226398058756837032392571485638447586"]) (simp, code_simp)
  have s: "(49180540851747490927367427235911788886::int) ^ 11 mod 255515944373312847190720520512484175977 = 43511519420290467637351136751669752812"
    by (rule pow_mul [OF s, where q = "47291852415376639493116087266970150750"]) (simp, code_simp)
  have s: "(49180540851747490927367427235911788886::int) ^ 22 mod 255515944373312847190720520512484175977 = 129542778492652082430463191670611235947"
    by (rule pow_sq [OF s, where q = "7409527131098491619919367397577498461"]) (simp, code_simp)
  have s: "(49180540851747490927367427235911788886::int) ^ 44 mod 255515944373312847190720520512484175977 = 129868422326564145036541593858230045428"
    by (rule pow_sq [OF s, where q = "65676259463004514194972290717453529853"]) (simp, code_simp)
  have s: "(49180540851747490927367427235911788886::int) ^ 88 mod 255515944373312847190720520512484175977 = 209503134905010169697953006921139934139"
    by (rule pow_sq [OF s, where q = "66006867629949592550342886131883443085"]) (simp, code_simp)
  have s: "(49180540851747490927367427235911788886::int) ^ 176 mod 255515944373312847190720520512484175977 = 228634724085036120446142252817003277950"
    by (rule pow_sq [OF s, where q = "171776221803601500832614118055880906723"]) (simp, code_simp)
  have s: "(49180540851747490927367427235911788886::int) ^ 177 mod 255515944373312847190720520512484175977 = 210458113778451510696423077658782208384"
    by (rule pow_mul [OF s, where q = "44006566461323909714934562067502467508"]) (simp, code_simp)
  show ?thesis
    by (rule pow_sq [OF s, where q = "173345807299099209014225269651639967320"]) (simp, code_simp)
qed

lemma b_v3_2: "(49180540851747490927367427235911788886::int) ^ 181381 mod 255515944373312847190720520512484175977 = 231795732377944955793904345909783933275"
proof -
  note s = b_v3_1
  have s: "(49180540851747490927367427235911788886::int) ^ 708 mod 255515944373312847190720520512484175977 = 241415876632630050292524753833460169982"
    by (rule pow_sq [OF s, where q = "116734136558469036950727386490969182962"]) (simp, code_simp)
  have s: "(49180540851747490927367427235911788886::int) ^ 1416 mod 255515944373312847190720520512484175977 = 149826481616525412164635337651842486394"
    by (rule pow_sq [OF s, where q = "228093889143570910658387667043026628090"]) (simp, code_simp)
  have s: "(49180540851747490927367427235911788886::int) ^ 1417 mod 255515944373312847190720520512484175977 = 18301443071089568537669940375163334660"
    by (rule pow_mul [OF s, where q = "28837916232145411128084035293189549112"]) (simp, code_simp)
  have s: "(49180540851747490927367427235911788886::int) ^ 2834 mod 255515944373312847190720520512484175977 = 106306119016812343885026614336344389740"
    by (rule pow_sq [OF s, where q = "1310848993419274094523068230971250180"]) (simp, code_simp)
  have s: "(49180540851747490927367427235911788886::int) ^ 5668 mod 255515944373312847190720520512484175977 = 125392588231995513406927645083110797179"
    by (rule pow_sq [OF s, where q = "44228124268854800164613556599061703373"]) (simp, code_simp)
  have s: "(49180540851747490927367427235911788886::int) ^ 11336 mod 255515944373312847190720520512484175977 = 88961242321766694779094218197746981234"
    by (rule pow_sq [OF s, where q = "61535499172399149054424857128826427791"]) (simp, code_simp)
  have s: "(49180540851747490927367427235911788886::int) ^ 22672 mod 255515944373312847190720520512484175977 = 197281448280053178047345332809318145605"
    by (rule pow_sq [OF s, where q = "30973028531908225029331236132075037863"]) (simp, code_simp)
  have s: "(49180540851747490927367427235911788886::int) ^ 45344 mod 255515944373312847190720520512484175977 = 210823564251835572090248797858615884933"
    by (rule pow_sq [OF s, where q = "152319143648478561657694819733807754996"]) (simp, code_simp)
  have s: "(49180540851747490927367427235911788886::int) ^ 45345 mod 255515944373312847190720520512484175977 = 112817170067745800513252786961106790120"
    by (rule pow_mul [OF s, where q = "40578355842443983662373629755632126934"]) (simp, code_simp)
  have s: "(49180540851747490927367427235911788886::int) ^ 90690 mod 255515944373312847190720520512484175977 = 92756619154706617393269590033030098070"
    by (rule pow_sq [OF s, where q = "49811818566982603552054956813391979290"]) (simp, code_simp)
  have s: "(49180540851747490927367427235911788886::int) ^ 181380 mod 255515944373312847190720520512484175977 = 191382962293630584611637373013976263155"
    by (rule pow_sq [OF s, where q = "33672225105612244420895048245785178185"]) (simp, code_simp)
  show ?thesis
    by (rule pow_mul [OF s, where q = "36836517652529751200597161501518151215"]) (simp, code_simp)
qed

lemma b_v3_3: "(49180540851747490927367427235911788886::int) ^ 185734156 mod 255515944373312847190720520512484175977 = 221368951181572903284770553987497376696"
proof -
  note s = b_v3_2
  have s: "(49180540851747490927367427235911788886::int) ^ 362762 mod 255515944373312847190720520512484175977 = 2929469045073306898327045436798564598"
    by (rule pow_sq [OF s, where q = "210277529570243085287293911741006300651"]) (simp, code_simp)
  have s: "(49180540851747490927367427235911788886::int) ^ 725524 mod 255515944373312847190720520512484175977 = 78271684634401851342267215173230078742"
    by (rule pow_sq [OF s, where q = "33586118890117412535781658202271006"]) (simp, code_simp)
  have s: "(49180540851747490927367427235911788886::int) ^ 1451048 mod 255515944373312847190720520512484175977 = 230859476966729218085662155644101413787"
    by (rule pow_sq [OF s, where q = "23976807515997548069558538707663986401"]) (simp, code_simp)
  have s: "(49180540851747490927367427235911788886::int) ^ 2902096 mod 255515944373312847190720520512484175977 = 82206529398210598360220230617807739327"
    by (rule pow_sq [OF s, where q = "208582279419265256391673223406708302346"]) (simp, code_simp)
  have s: "(49180540851747490927367427235911788886::int) ^ 5804192 mod 255515944373312847190720520512484175977 = 25362767998473367985699573504686282812"
    by (rule pow_sq [OF s, where q = "26448108716947403466344647821264189821"]) (simp, code_simp)
  have s: "(49180540851747490927367427235911788886::int) ^ 11608384 mod 255515944373312847190720520512484175977 = 243760842699967147002611517335288149532"
    by (rule pow_sq [OF s, where q = "2517533698815120123380337662810790356"]) (simp, code_simp)
  have s: "(49180540851747490927367427235911788886::int) ^ 23216768 mod 255515944373312847190720520512484175977 = 124933004546360596909728171940813574938"
    by (rule pow_sq [OF s, where q = "232546538649601906226692868478407344518"]) (simp, code_simp)
  have s: "(49180540851747490927367427235911788886::int) ^ 23216769 mod 255515944373312847190720520512484175977 = 112344201370172105070880842573979164968"
    by (rule pow_mul [OF s, where q = "24046533569141824023941205536111453300"]) (simp, code_simp)
  have s: "(49180540851747490927367427235911788886::int) ^ 46433538 mod 255515944373312847190720520512484175977 = 225792894566204674444592454311553863005"
    by (rule pow_sq [OF s, where q = "49395037215611006686644789820810282347"]) (simp, code_simp)
  have s: "(49180540851747490927367427235911788886::int) ^ 46433539 mod 255515944373312847190720520512484175977 = 195065456441598842397823985150936287113"
    by (rule pow_mul [OF s, where q = "43459584107297515551052577293716557421"]) (simp, code_simp)
  have s: "(49180540851747490927367427235911788886::int) ^ 92867078 mod 255515944373312847190720520512484175977 = 16434510226040029884785989886175963420"
    by (rule pow_sq [OF s, where q = "148916469342425317122310129436898182637"]) (simp, code_simp)
  show ?thesis
    by (rule pow_sq [OF s, where q = "1057049989707115783339290538056505752"]) (simp, code_simp)
qed

lemma b_v3_4: "(49180540851747490927367427235911788886::int) ^ 11886986107 mod 255515944373312847190720520512484175977 = 59730314287717386617825859399333950793"
proof -
  note s = b_v3_3
  have s: "(49180540851747490927367427235911788886::int) ^ 185734157 mod 255515944373312847190720520512484175977 = 14426664722374453016895048016501516711"
    by (rule pow_mul [OF s, where q = "42608083709201712783206012278256846785"]) (simp, code_simp)
  have s: "(49180540851747490927367427235911788886::int) ^ 371468314 mod 255515944373312847190720520512484175977 = 124830288611938849647097154849797963010"
    by (rule pow_sq [OF s, where q = "814542730483089883685562690683707543"]) (simp, code_simp)
  have s: "(49180540851747490927367427235911788886::int) ^ 371468315 mod 255515944373312847190720520512484175977 = 165030272400636399167595795374240340095"
    by (rule pow_mul [OF s, where q = "24026763275662315547581440529224241445"]) (simp, code_simp)
  have s: "(49180540851747490927367427235911788886::int) ^ 742936630 mod 255515944373312847190720520512484175977 = 136316328267404536382787352116115297376"
    by (rule pow_sq [OF s, where q = "106588224368642523927610795068587356537"]) (simp, code_simp)
  have s: "(49180540851747490927367427235911788886::int) ^ 742936631 mod 255515944373312847190720520512484175977 = 232816281749189889994050632201673109940"
    by (rule pow_mul [OF s, where q = "26237543678763537111947137553375051948"]) (simp, code_simp)
  have s: "(49180540851747490927367427235911788886::int) ^ 1485873262 mod 255515944373312847190720520512484175977 = 71797574989735191277034118265353851910"
    by (rule pow_sq [OF s, where q = "212133223938174721698019500775583902970"]) (simp, code_simp)
  have s: "(49180540851747490927367427235911788886::int) ^ 1485873263 mod 255515944373312847190720520512484175977 = 138875481836845663654832323333236938203"
    by (rule pow_mul [OF s, where q = "13819269002955701498597764024214447041"]) (simp, code_simp)
  have s: "(49180540851747490927367427235911788886::int) ^ 2971746526 mod 255515944373312847190720520512484175977 = 49235345963619229340021111510481655173"
    by (rule pow_sq [OF s, where q = "75480219063113784950102652379361458868"]) (simp, code_simp)
  have s: "(49180540851747490927367427235911788886::int) ^ 5943493052 mod 255515944373312847190720520512484175977 = 240557409112953073039524316692462044786"
    by (rule pow_sq [OF s, where q = "9487154698321289910476195878491772559"]) (simp, code_simp)
  have s: "(49180540851747490927367427235911788886::int) ^ 5943493053 mod 255515944373312847190720520512484175977 = 14943032021978809704784976410733026909"
    by (rule pow_mul [OF s, where q = "46301390369538813965157952291294740631"]) (simp, code_simp)
  have s: "(49180540851747490927367427235911788886::int) ^ 11886986106 mod 255515944373312847190720520512484175977 = 15212352242277015926003291299919952617"
    by (rule pow_sq [OF s, where q = "873895390589198369383918182419595232"]) (simp, code_simp)
  show ?thesis
    by (rule pow_mul [OF s, where q = "2928004014533886820936297235070113397"]) (simp, code_simp)
qed

lemma b_v3_5: "(49180540851747490927367427235911788886::int) ^ 1521534221817 mod 255515944373312847190720520512484175977 = 208371462398233313324581562937896737530"
proof -
  note s = b_v3_4
  have s: "(49180540851747490927367427235911788886::int) ^ 23773972214 mod 255515944373312847190720520512484175977 = 208234358619816801913300623752036792994"
    by (rule pow_sq [OF s, where q = "13962770322062619431162689107693030615"]) (simp, code_simp)
  have s: "(49180540851747490927367427235911788886::int) ^ 23773972215 mod 255515944373312847190720520512484175977 = 185271700391374583691925274772763042279"
    by (rule pow_mul [OF s, where q = "40079997379251447265548212104684600765"]) (simp, code_simp)
  have s: "(49180540851747490927367427235911788886::int) ^ 47547944430 mod 255515944373312847190720520512484175977 = 162930996199550634491746676743165711727"
    by (rule pow_sq [OF s, where q = "134338399312416366211583739990576636082"]) (simp, code_simp)
  have s: "(49180540851747490927367427235911788886::int) ^ 47547944431 mod 255515944373312847190720520512484175977 = 228082842523958305793414873611397434354"
    by (rule pow_mul [OF s, where q = "31360213290254578622370460067439276184"]) (simp, code_simp)
  have s: "(49180540851747490927367427235911788886::int) ^ 95095888862 mod 255515944373312847190720520512484175977 = 88003933478613649728778918672455328222"
    by (rule pow_sq [OF s, where q = "203595056196587533189567716116126808822"]) (simp, code_simp)
  have s: "(49180540851747490927367427235911788886::int) ^ 95095888863 mod 255515944373312847190720520512484175977 = 96569430122900151333030709793733087285"
    by (rule pow_mul [OF s, where q = "16938594795618829275945070080933363591"]) (simp, code_simp)
  have s: "(49180540851747490927367427235911788886::int) ^ 190191777726 mod 255515944373312847190720520512484175977 = 150697830408571737614893704777427753104"
    by (rule pow_sq [OF s, where q = "36497349929117399892816944938675753473"]) (simp, code_simp)
  have s: "(49180540851747490927367427235911788886::int) ^ 190191777727 mod 255515944373312847190720520512484175977 = 81754965407735759515673194240749557104"
    by (rule pow_mul [OF s, where q = "29005629464164880073046444065852081520"]) (simp, code_simp)
  have s: "(49180540851747490927367427235911788886::int) ^ 380383555454 mod 255515944373312847190720520512484175977 = 194136429021747521984248426706132389212"
    by (rule pow_sq [OF s, where q = "26158345559268991075654988883686568452"]) (simp, code_simp)
  have s: "(49180540851747490927367427235911788886::int) ^ 760767110908 mod 255515944373312847190720520512484175977 = 229512374876577704691045562586774224909"
    by (rule pow_sq [OF s, where q = "147501374780165794006129385275562274955"]) (simp, code_simp)
  have s: "(49180540851747490927367427235911788886::int) ^ 1521534221816 mod 255515944373312847190720520512484175977 = 175196704305505664303029309556073519713"
    by (rule pow_sq [OF s, where q = "206155159321589604119635119962152184584"]) (simp, code_simp)
  show ?thesis
    by (rule pow_mul [OF s, where q = "33721060712359858332824270678985859644"]) (simp, code_simp)
qed

lemma b_v3_6: "(49180540851747490927367427235911788886::int) ^ 194756380392670 mod 255515944373312847190720520512484175977 = 22357779764179535251424131724932376649"
proof -
  note s = b_v3_5
  have s: "(49180540851747490927367427235911788886::int) ^ 3043068443634 mod 255515944373312847190720520512484175977 = 99787351635288743600941375810029633869"
    by (rule pow_sq [OF s, where q = "169925467659047528735311803305507498303"]) (simp, code_simp)
  have s: "(49180540851747490927367427235911788886::int) ^ 3043068443635 mod 255515944373312847190720520512484175977 = 63849888027328714868258933091977953786"
    by (rule pow_mul [OF s, where q = "19206613253132001693961724825428365124"]) (simp, code_simp)
  have s: "(49180540851747490927367427235911788886::int) ^ 6086136887270 mod 255515944373312847190720520512484175977 = 97168044899676986500712363257682595031"
    by (rule pow_sq [OF s, where q = "15955200804009840294532881375127877445"]) (simp, code_simp)
  have s: "(49180540851747490927367427235911788886::int) ^ 12172273774540 mod 255515944373312847190720520512484175977 = 26006204033062493197582335207905705256"
    by (rule pow_sq [OF s, where q = "36951232036742385010442492646534993665"]) (simp, code_simp)
  have s: "(49180540851747490927367427235911788886::int) ^ 12172273774541 mod 255515944373312847190720520512484175977 = 170868054934574813126805322765108538193"
    by (rule pow_mul [OF s, where q = "5005555261859793048116856840302633799"]) (simp, code_simp)
  have s: "(49180540851747490927367427235911788886::int) ^ 24344547549082 mod 255515944373312847190720520512484175977 = 181645064754284446765620097371221485968"
    by (rule pow_sq [OF s, where q = "114262506274243358378553814425025352553"]) (simp, code_simp)
  have s: "(49180540851747490927367427235911788886::int) ^ 24344547549083 mod 255515944373312847190720520512484175977 = 127242563466270921353072423986211379552"
    by (rule pow_mul [OF s, where q = "34962211652101685573894150002085307648"]) (simp, code_simp)
  have s: "(49180540851747490927367427235911788886::int) ^ 48689095098166 mod 255515944373312847190720520512484175977 = 42886656832702586617829079183996836509"
    by (rule pow_sq [OF s, where q = "63364617019019203739245538310466925035"]) (simp, code_simp)
  have s: "(49180540851747490927367427235911788886::int) ^ 48689095098167 mod 255515944373312847190720520512484175977 = 171589052701957223722440512633725607411"
    by (rule pow_mul [OF s, where q = "8254627645756801273592416548434944019"]) (simp, code_simp)
  have s: "(49180540851747490927367427235911788886::int) ^ 97378190196334 mod 255515944373312847190720520512484175977 = 217737654444222783578644178393495718569"
    by (rule pow_sq [OF s, where q = "115228828789402869768044104389465381376"]) (simp, code_simp)
  have s: "(49180540851747490927367427235911788886::int) ^ 97378190196335 mod 255515944373312847190720520512484175977 = 91204184996674669151490797798516755528"
    by (rule pow_mul [OF s, where q = "41909148314097196805471963560219811278"]) (simp, code_simp)
  show ?thesis
    by (rule pow_sq [OF s, where q = "32554537374601679588082771502286204255"]) (simp, code_simp)
qed

lemma b_v3_7: "(49180540851747490927367427235911788886::int) ^ 779025521570687 mod 255515944373312847190720520512484175977 = 47418180093458530687350227428022525796"
proof -
  note s = b_v3_6
  have s: "(49180540851747490927367427235911788886::int) ^ 194756380392671 mod 255515944373312847190720520512484175977 = 112213690735239884644573509377038015677"
    by (rule pow_mul [OF s, where q = "4303323237786363606259517418492771681"]) (simp, code_simp)
  have s: "(49180540851747490927367427235911788886::int) ^ 389512760785342 mod 255515944373312847190720520512484175977 = 106250791623971921267481428840219013595"
    by (rule pow_sq [OF s, where q = "49280339116634842233979582729838358142"]) (simp, code_simp)
  have s: "(49180540851747490927367427235911788886::int) ^ 389512760785343 mod 255515944373312847190720520512484175977 = 157639312947822696268529789275782235335"
    by (rule pow_mul [OF s, where q = "20450666633776734572514156766829774355"]) (simp, code_simp)
  have s: "(49180540851747490927367427235911788886::int) ^ 779025521570686 mod 255515944373312847190720520512484175977 = 114444017778990962101795196962509594165"
    by (rule pow_sq [OF s, where q = "97254803599868948839601403286633578780"]) (simp, code_simp)
  show ?thesis
    by (rule pow_mul [OF s, where q = "22027661347796645486394594020541397722"]) (simp, code_simp)
qed

lemma b_v3_pow: "(2::int) ^ 2646270538369179315748423423599368 mod 255515944373312847190720520512484175977 = 47418180093458530687350227428022525796"
  by (rule pow_compose_num [OF b_base_6 b_v3_7]) simp

lemma b_v3_coprime: "coprime ((2::int) ^ 2646270538369179315748423423599368 - 1) 255515944373312847190720520512484175977"
proof (rule coprime_pow_cert [OF b_v3_pow])
  show "((47418180093458530687350227428022525796::int) - 1) * 52333299885033245219942804006191421971 = 9711917762783113719871713016506270872 * 255515944373312847190720520512484175977 + 1"
    by code_simp
  show "(255515944373312847190720520512484175977::int) \<noteq> 0"
    by simp
qed

lemma b_w_1: "(47418180093458530687350227428022525796::int) ^ 188 mod 255515944373312847190720520512484175977 = 46564689933688382160466959163950597900"
proof -
  have s: "(47418180093458530687350227428022525796::int) ^ 0 mod 255515944373312847190720520512484175977 = 1"
    by simp
  have s: "(47418180093458530687350227428022525796::int) ^ 1 mod 255515944373312847190720520512484175977 = 47418180093458530687350227428022525796"
    by (rule pow_mul [OF s, where q = "0"]) (simp, code_simp)
  have s: "(47418180093458530687350227428022525796::int) ^ 2 mod 255515944373312847190720520512484175977 = 226077134373014619405442180271731317448"
    by (rule pow_sq [OF s, where q = "8799778850945584720834122568972933384"]) (simp, code_simp)
  have s: "(47418180093458530687350227428022525796::int) ^ 4 mod 255515944373312847190720520512484175977 = 193169834656333911759260447671395625992"
    by (rule pow_sq [OF s, where q = "200030063922900700251043135330701576056"]) (simp, code_simp)
  have s: "(47418180093458530687350227428022525796::int) ^ 5 mod 255515944373312847190720520512484175977 = 111892603663993570191981526031382716151"
    by (rule pow_mul [OF s, where q = "35848103455239141244122328060868937153"]) (simp, code_simp)
  have s: "(47418180093458530687350227428022525796::int) ^ 10 mod 255515944373312847190720520512484175977 = 168102143328142849357832017785754822720"
    by (rule pow_sq [OF s, where q = "48998722116595960316754796821409838953"]) (simp, code_simp)
  have s: "(47418180093458530687350227428022525796::int) ^ 11 mod 255515944373312847190720520512484175977 = 216933060686330365536194309560020976317"
    by (rule pow_mul [OF s, where q = "31196087296941265815387768785606024139"]) (simp, code_simp)
  have s: "(47418180093458530687350227428022525796::int) ^ 22 mod 255515944373312847190720520512484175977 = 34849591507590289877056383828568147808"
    by (rule pow_sq [OF s, where q = "184176188825162925133792746383946338753"]) (simp, code_simp)
  have s: "(47418180093458530687350227428022525796::int) ^ 23 mod 255515944373312847190720520512484175977 = 33762611120138926037903588346561004491"
    by (rule pow_mul [OF s, where q = "6467323244126184528933784390557301101"]) (simp, code_simp)
  have s: "(47418180093458530687350227428022525796::int) ^ 46 mod 255515944373312847190720520512484175977 = 110190758531732632694891942134993530195"
    by (rule pow_sq [OF s, where q = "4461224180923505756054650532166996918"]) (simp, code_simp)
  have s: "(47418180093458530687350227428022525796::int) ^ 47 mod 255515944373312847190720520512484175977 = 160936890185807888357667151954223904417"
    by (rule pow_mul [OF s, where q = "20448998771906876085041883393130085139"]) (simp, code_simp)
  have s: "(47418180093458530687350227428022525796::int) ^ 94 mod 255515944373312847190720520512484175977 = 76155247611898252536097129295377983092"
    by (rule pow_sq [OF s, where q = "101366209009788756351153499487738878661"]) (simp, code_simp)
  show ?thesis
    by (rule pow_sq [OF s, where q = "22697690169800891775223147860891336932"]) (simp, code_simp)
qed

lemma b_w_2: "(47418180093458530687350227428022525796::int) ^ 48278 mod 255515944373312847190720520512484175977 = 7995792494600217089280636710022631698"
proof -
  note s = b_w_1
  have s: "(47418180093458530687350227428022525796::int) ^ 376 mod 255515944373312847190720520512484175977 = 200822986481204826095269624264965693128"
    by (rule pow_sq [OF s, where q = "8485851456113684945958823565161792136"]) (simp, code_simp)
  have s: "(47418180093458530687350227428022525796::int) ^ 377 mod 255515944373312847190720520512484175977 = 219814819258658580876189644209064928217"
    by (rule pow_mul [OF s, where q = "37268361327617192561916520347716984623"]) (simp, code_simp)
  have s: "(47418180093458530687350227428022525796::int) ^ 754 mod 255515944373312847190720520512484175977 = 233718686568985082305569203125245597570"
    by (rule pow_sq [OF s, where q = "189101916454663840868517061170717037847"]) (simp, code_simp)
  have s: "(47418180093458530687350227428022525796::int) ^ 1508 mod 255515944373312847190720520512484175977 = 88953232199812565143358373529680463022"
    by (rule pow_sq [OF s, where q = "213780883950335159677606523971750896614"]) (simp, code_simp)
  have s: "(47418180093458530687350227428022525796::int) ^ 3016 mod 255515944373312847190720520512484175977 = 170283355315260438487148082815374296610"
    by (rule pow_sq [OF s, where q = "30967451124041103352808150686852618962"]) (simp, code_simp)
  have s: "(47418180093458530687350227428022525796::int) ^ 3017 mod 255515944373312847190720520512484175977 = 44869306206477777371054864438177752923"
    by (rule pow_mul [OF s, where q = "31600872615058403861091435211797028581"]) (simp, code_simp)
  have s: "(47418180093458530687350227428022525796::int) ^ 6034 mod 255515944373312847190720520512484175977 = 162415644386738677466053578445898841644"
    by (rule pow_sq [OF s, where q = "7879174211176693672276177478038951205"]) (simp, code_simp)
  have s: "(47418180093458530687350227428022525796::int) ^ 12068 mod 255515944373312847190720520512484175977 = 212141662778310126682332951807410138269"
    by (rule pow_sq [OF s, where q = "103237555708146545296847528750329861371"]) (simp, code_simp)
  have s: "(47418180093458530687350227428022525796::int) ^ 12069 mod 255515944373312847190720520512484175977 = 65061117908941050752994123811687977225"
    by (rule pow_mul [OF s, where q = "39368860505435842303990644029181008787"]) (simp, code_simp)
  have s: "(47418180093458530687350227428022525796::int) ^ 24138 mod 255515944373312847190720520512484175977 = 109765877698723785047901347895601745990"
    by (rule pow_sq [OF s, where q = "16566281505222719911298930732883996755"]) (simp, code_simp)
  have s: "(47418180093458530687350227428022525796::int) ^ 24139 mod 255515944373312847190720520512484175977 = 212167435280043305541719305730538778595"
    by (rule pow_mul [OF s, where q = "20370150166559426532819314817730538285"]) (simp, code_simp)
  show ?thesis
    by (rule pow_sq [OF s, where q = "176173039626614086002339873235857627551"]) (simp, code_simp)
qed

lemma b_w_3: "(47418180093458530687350227428022525796::int) ^ 96557 mod 255515944373312847190720520512484175977 = 1"
proof -
  note s = b_w_2
  have s: "(47418180093458530687350227428022525796::int) ^ 96556 mod 255515944373312847190720520512484175977 = 236404406456797494571729429191032134837"
    by (rule pow_sq [OF s, where q = "250210208108572972047675677941142071"]) (simp, code_simp)
  show ?thesis
    by (rule pow_mul [OF s, where q = "43871495955954127194447394286129823163"]) (simp, code_simp)
qed

lemma b_fermat: "(2::int) ^ 255515944373312847190720520512484175976 mod 255515944373312847190720520512484175977 = 1"
  by (rule pow_compose_num [OF b_v3_pow b_w_3]) simp

lemma prime_b: "prime_nat 255515944373312847190720520512484175977"
proof -
  have "prime_nat (nat 255515944373312847190720520512484175977)"
  proof (rule pocklington_triple [OF prime_107590001 prime_7240687 prime_96557 _ _ _ _ _ _ _ b_fermat
        b_v1_coprime b_v2_coprime b_v3_coprime])
  qed simp_all
  then show ?thesis
    by simp
qed

subsection \<open>The prime \<open>205115282021455665897114700593932402728804164701536103180137503955397371\<close>\<close>

lemma q_base_1: "(2::int) ^ 2533 mod 205115282021455665897114700593932402728804164701536103180137503955397371 = 155176046595935301889932203437964584166074771093049934254356446761575671"
proof -
  have s: "(2::int) ^ 0 mod 205115282021455665897114700593932402728804164701536103180137503955397371 = 1"
    by simp
  have s: "(2::int) ^ 1 mod 205115282021455665897114700593932402728804164701536103180137503955397371 = 2"
    by (rule pow_sq_mul [OF s, where q = "0"]) (simp, code_simp)
  have s: "(2::int) ^ 2 mod 205115282021455665897114700593932402728804164701536103180137503955397371 = 4"
    by (rule pow_sq [OF s, where q = "0"]) (simp, code_simp)
  have s: "(2::int) ^ 4 mod 205115282021455665897114700593932402728804164701536103180137503955397371 = 16"
    by (rule pow_sq [OF s, where q = "0"]) (simp, code_simp)
  have s: "(2::int) ^ 9 mod 205115282021455665897114700593932402728804164701536103180137503955397371 = 512"
    by (rule pow_sq_mul [OF s, where q = "0"]) (simp, code_simp)
  have s: "(2::int) ^ 19 mod 205115282021455665897114700593932402728804164701536103180137503955397371 = 524288"
    by (rule pow_sq_mul [OF s, where q = "0"]) (simp, code_simp)
  have s: "(2::int) ^ 39 mod 205115282021455665897114700593932402728804164701536103180137503955397371 = 549755813888"
    by (rule pow_sq_mul [OF s, where q = "0"]) (simp, code_simp)
  have s: "(2::int) ^ 79 mod 205115282021455665897114700593932402728804164701536103180137503955397371 = 604462909807314587353088"
    by (rule pow_sq_mul [OF s, where q = "0"]) (simp, code_simp)
  have s: "(2::int) ^ 158 mod 205115282021455665897114700593932402728804164701536103180137503955397371 = 365375409332725729550921208179070754913983135744"
    by (rule pow_sq [OF s, where q = "0"]) (simp, code_simp)
  have s: "(2::int) ^ 316 mod 205115282021455665897114700593932402728804164701536103180137503955397371 = 4951761284698752605092839424"
    by (rule pow_sq [OF s, where q = "650849553623666468585472"]) (simp, code_simp)
  have s: "(2::int) ^ 633 mod 205115282021455665897114700593932402728804164701536103180137503955397371 = 49039879641282881700947964347816300871484036397297303552"
    by (rule pow_sq_mul [OF s, where q = "0"]) (simp, code_simp)
  have s: "(2::int) ^ 1266 mod 205115282021455665897114700593932402728804164701536103180137503955397371 = 21232636615502246665131014017871866231719166857731800996582542164621885"
    by (rule pow_sq [OF s, where q = "11724673907914626136410960774024984892889"]) (simp, code_simp)
  show ?thesis
    by (rule pow_sq_mul [OF s, where q = "4395819299303199504890405264355360449696744728517192077812720581047649"]) (simp, code_simp)
qed

lemma q_base_2: "(2::int) ^ 10375293 mod 205115282021455665897114700593932402728804164701536103180137503955397371 = 188044703123525176862989782892024869684552535414048803476931422171975354"
proof -
  note s = q_base_1
  have s: "(2::int) ^ 5066 mod 205115282021455665897114700593932402728804164701536103180137503955397371 = 140048787300999303078802315243255147730056410831504478058199026502667666"
    by (rule pow_sq [OF s, where q = "117395472437909750473244446506820296382659955103356122103053670776397325"]) (simp, code_simp)
  have s: "(2::int) ^ 10132 mod 205115282021455665897114700593932402728804164701536103180137503955397371 = 24446657816549434046178721266498754437492239764807219467074013290965605"
    by (rule pow_sq [OF s, where q = "95622630508968592824108359790230654919223468107801429351277242615631981"]) (simp, code_simp)
  have s: "(2::int) ^ 20264 mod 205115282021455665897114700593932402728804164701536103180137503955397371 = 136020715333144577465299046377799824233964487755281865224089339689911275"
    by (rule pow_sq [OF s, where q = "2913674069087366804466864258947782257974030311788440168679713759622250"]) (simp, code_simp)
  have s: "(2::int) ^ 40528 mod 205115282021455665897114700593932402728804164701536103180137503955397371 = 144386211246652681031254034617800280820778354820967682499331669505161901"
    by (rule pow_sq [OF s, where q = "90201153309508291792943080569038534480376680380301804129349669207961444"]) (simp, code_simp)
  have s: "(2::int) ^ 81056 mod 205115282021455665897114700593932402728804164701536103180137503955397371 = 142580549110767473298919306135545511110795299929296592221119573716813314"
    by (rule pow_sq [OF s, where q = "101637370910190473677705100837340023288221101566725510470953431204590597"]) (simp, code_simp)
  have s: "(2::int) ^ 162113 mod 205115282021455665897114700593932402728804164701536103180137503955397371 = 33155095451390880604188961224381039568090455405129342001501282583087879"
    by (rule pow_sq_mul [OF s, where q = "198222314635742054975565683987538643686021763364242553108535285005201203"]) (simp, code_simp)
  have s: "(2::int) ^ 324227 mod 205115282021455665897114700593932402728804164701536103180137503955397371 = 173455093803241437509847416037620825051957599085366679494274176718815904"
    by (rule pow_sq_mul [OF s, where q = "10718463720083561327532708068591588260431916173677927521625919297079718"]) (simp, code_simp)
  have s: "(2::int) ^ 648455 mod 205115282021455665897114700593932402728804164701536103180137503955397371 = 16008615389957271979138676143491594166878717838615321529727091728869521"
    by (rule pow_sq_mul [OF s, where q = "293363510215139712543260762461709097273287859657060304110348393663443741"]) (simp, code_simp)
  have s: "(2::int) ^ 1296911 mod 205115282021455665897114700593932402728804164701536103180137503955397371 = 19434025577002359758848414170862359619521444070942206001037717587989310"
    by (rule pow_sq_mul [OF s, where q = "2498846153030856229439325376344436893194464631983849583815876507894732"]) (simp, code_simp)
  have s: "(2::int) ^ 2593823 mod 205115282021455665897114700593932402728804164701536103180137503955397371 = 89171473687194339462178024036571051364010842242144166062600483341324793"
    by (rule pow_sq_mul [OF s, where q = "3682625169665079509037377618497481133811422828179257739896879725285117"]) (simp, code_simp)
  have s: "(2::int) ^ 5187646 mod 205115282021455665897114700593932402728804164701536103180137503955397371 = 200302157630662256458145096962282675120663158420883739895993645298384891"
    by (rule pow_sq [OF s, where q = "38766256912608961969231982650068095531692571954042310384269627912533698"]) (simp, code_simp)
  show ?thesis
    by (rule pow_sq_mul [OF s, where q = "391203950832896979158200470976549015162917407123602404898829370163452648"]) (simp, code_simp)
qed

lemma q_base_3: "(2::int) ^ 42497201662 mod 205115282021455665897114700593932402728804164701536103180137503955397371 = 169862119708712225480171548152401540589774284806127037778305132338568287"
proof -
  note s = q_base_2
  have s: "(2::int) ^ 20750586 mod 205115282021455665897114700593932402728804164701536103180137503955397371 = 23784799270435274725634948657648366093598009587146571870443300638849565"
    by (rule pow_sq [OF s, where q = "172394811465660924915881892556471541412744231174607337278478973174599781"]) (simp, code_simp)
  have s: "(2::int) ^ 41501173 mod 205115282021455665897114700593932402728804164701536103180137503955397371 = 101748825608740602472546387439656386814286743916107419295531110564378909"
    by (rule pow_sq_mul [OF s, where q = "5516085108429149001974410170611910171170425204287297434515002121672271"]) (simp, code_simp)
  have s: "(2::int) ^ 83002346 mod 205115282021455665897114700593932402728804164701536103180137503955397371 = 47035510488939274600106357285892912211159070497569318650415143683334618"
    by (rule pow_sq [OF s, where q = "50473194443283711237943250514676402951370918689456937556043125321185053"]) (simp, code_simp)
  have s: "(2::int) ^ 166004693 mod 205115282021455665897114700593932402728804164701536103180137503955397371 = 142937973505687213866909180062273490958133624319031740937248023337629254"
    by (rule pow_sq_mul [OF s, where q = "21571666675949569493629080052831182099881207242863135802208336241901414"]) (simp, code_simp)
  have s: "(2::int) ^ 332009387 mod 205115282021455665897114700593932402728804164701536103180137503955397371 = 164346359993671506610830492931331533537887538015825288943597261986069241"
    by (rule pow_sq_mul [OF s, where q = "199217377355387583020832434435510198997204287131547247070087692470649021"]) (simp, code_simp)
  have s: "(2::int) ^ 664018775 mod 205115282021455665897114700593932402728804164701536103180137503955397371 = 9864856564614215399217700804073699666047365904803886844716683079690062"
    by (rule pow_sq_mul [OF s, where q = "263361420728701949840867171430840693813750617848999943952767414851855100"]) (simp, code_simp)
  have s: "(2::int) ^ 1328037551 mod 205115282021455665897114700593932402728804164701536103180137503955397371 = 198308984115982899730920101096288568687104929072554771346917144967761867"
    by (rule pow_sq_mul [OF s, where q = "948884881529526417493184165905475368189369544464797074377500235446951"]) (simp, code_simp)
  have s: "(2::int) ^ 2656075103 mod 205115282021455665897114700593932402728804164701536103180137503955397371 = 141972790709600932738391354373154721927385227989410650173923182356617679"
    by (rule pow_sq_mul [OF s, where q = "383457076367420488632976890625272166532663861613400526965389001283218169"]) (simp, code_simp)
  have s: "(2::int) ^ 5312150207 mod 205115282021455665897114700593932402728804164701536103180137503955397371 = 100016887223788367237888989419241088653720333470308211093192872453502791"
    by (rule pow_sq_mul [OF s, where q = "196536046492759550147343774787841790210823944802575814738644304406491521"]) (simp, code_simp)
  have s: "(2::int) ^ 10624300415 mod 205115282021455665897114700593932402728804164701536103180137503955397371 = 72992668874331325553680005404868820870637766820251104954549563254249896"
    by (rule pow_sq_mul [OF s, where q = "97539077842962649588620010686335580923076964480934074329151024774162446"]) (simp, code_simp)
  have s: "(2::int) ^ 21248600831 mod 205115282021455665897114700593932402728804164701536103180137503955397371 = 195522113822673334793457995989035603697977635236542395786637960787692674"
    by (rule pow_sq_mul [OF s, where q = "51950587561198486183966436085536338684316970643981634969808893831884698"]) (simp, code_simp)
  show ?thesis
    by (rule pow_sq [OF s, where q = "186377614661044959590429251918280356737506112515689179260562375002120159"]) (simp, code_simp)
qed

lemma q_base_4: "(2::int) ^ 174068538010864 mod 205115282021455665897114700593932402728804164701536103180137503955397371 = 171238567791998350548786087178400131660218018934813647457697574943768083"
proof -
  note s = q_base_3
  have s: "(2::int) ^ 84994403325 mod 205115282021455665897114700593932402728804164701536103180137503955397371 = 103390678299353298084209940330048163207813649159535810369751833934159631"
    by (rule pow_sq_mul [OF s, where q = "281335836389984422609467655095310190662384447876401139237154062843427817"]) (simp, code_simp)
  have s: "(2::int) ^ 169988806651 mod 205115282021455665897114700593932402728804164701536103180137503955397371 = 121436458775309475278827763329019519802434841099426821590779111939620931"
    by (rule pow_sq_mul [OF s, where q = "104230482037727425800376818109136617786067121307895812596541759886444621"]) (simp, code_simp)
  have s: "(2::int) ^ 339977613302 mod 205115282021455665897114700593932402728804164701536103180137503955397371 = 15477853912167181871296947341551619673978894103021545209265494197142265"
    by (rule pow_sq [OF s, where q = "71895245320360270871084316710183054516421858437349435699200100953843376"]) (simp, code_simp)
  have s: "(2::int) ^ 679955226604 mod 205115282021455665897114700593932402728804164701536103180137503955397371 = 127806220477236857311862397931021163819642328832652049180388677711875877"
    by (rule pow_sq [OF s, where q = "1167947894303311038033506192367460776766769073910142756734174353106788"]) (simp, code_simp)
  have s: "(2::int) ^ 1359910453209 mod 205115282021455665897114700593932402728804164701536103180137503955397371 = 81554353472597656368142336868976591302288517349446948671054644608018301"
    by (rule pow_sq_mul [OF s, where q = "159270726507520273751265046229548044102536471286211918598183118952929167"]) (simp, code_simp)
  have s: "(2::int) ^ 2719820906419 mod 205115282021455665897114700593932402728804164701536103180137503955397371 = 6478892257892341895226349580363982313695660454108138784889304587265666"
    by (rule pow_sq_mul [OF s, where q = "64852433273476671930505703973692136751305034364892460730664396119517616"]) (simp, code_simp)
  have s: "(2::int) ^ 5439641812839 mod 205115282021455665897114700593932402728804164701536103180137503955397371 = 9178289320426472649129352127641282327683213335806377912462152459490721"
    by (rule pow_sq_mul [OF s, where q = "409292223140999405826362333720028682953975290398985414134755829759621"]) (simp, code_simp)
  have s: "(2::int) ^ 10879283625679 mod 205115282021455665897114700593932402728804164701536103180137503955397371 = 23939478664074141236455801840262144226556842201192550496487993431898557"
    by (rule pow_sq_mul [OF s, where q = "821401448192853651946010926452438868662226386396655351245223148397375"]) (simp, code_simp)
  have s: "(2::int) ^ 21758567251358 mod 205115282021455665897114700593932402728804164701536103180137503955397371 = 53908742427900976513017775283353657945988569749777299524082854046106696"
    by (rule pow_sq [OF s, where q = "2794031888115061145445207134997610334787210657251658925577531183046643"]) (simp, code_simp)
  have s: "(2::int) ^ 43517134502716 mod 205115282021455665897114700593932402728804164701536103180137503955397371 = 159788660805801806064845273048501447526952561584316662630922467572381057"
    by (rule pow_sq [OF s, where q = "14168386097403404166973298546255055632106056876304816542355728298479629"]) (simp, code_simp)
  have s: "(2::int) ^ 87034269005432 mod 205115282021455665897114700593932402728804164701536103180137503955397371 = 150053264841991082888220622707227027619197203223047607755156223676509051"
    by (rule pow_sq [OF s, where q = "124478370750750867740972434270815795417859472776557217121828297885321138"]) (simp, code_simp)
  show ?thesis
    by (rule pow_sq [OF s, where q = "109772329335195408689875633345114883187182379914224375099831438603755058"]) (simp, code_simp)
qed

lemma q_base_5: "(2::int) ^ 712984731692499164 mod 205115282021455665897114700593932402728804164701536103180137503955397371 = 136847346840832502219299197384536919898564869896031423525025719773084014"
proof -
  note s = q_base_4
  have s: "(2::int) ^ 348137076021728 mod 205115282021455665897114700593932402728804164701536103180137503955397371 = 174644606970065121637197842293241570909151008931025288149051471638541234"
    by (rule pow_sq [OF s, where q = "142956910916016385057254469032568287251274672368448733000993490793170805"]) (simp, code_simp)
  have s: "(2::int) ^ 696274152043456 mod 205115282021455665897114700593932402728804164701536103180137503955397371 = 12990718520917402298861134903380838610648630204865632761266419516257460"
    by (rule pow_sq [OF s, where q = "148700469526878310673382872136954839445936568843008737501854591485488176"]) (simp, code_simp)
  have s: "(2::int) ^ 1392548304086912 mod 205115282021455665897114700593932402728804164701536103180137503955397371 = 14333415976395162890017383865963568178135515154766738863990398047754540"
    by (rule pow_sq [OF s, where q = "822750825908982021299491315251292090635409418716660458006543287898860"]) (simp, code_simp)
  have s: "(2::int) ^ 2785096608173824 mod 205115282021455665897114700593932402728804164701536103180137503955397371 = 8510920129123218943312138700315859307484966923249659026593601735760118"
    by (rule pow_sq [OF s, where q = "1001616318041528254637574716468661262001029268592602508199043278368942"]) (simp, code_simp)
  have s: "(2::int) ^ 5570193216347649 mod 205115282021455665897114700593932402728804164701536103180137503955397371 = 146298566257022008657501590217930387584963861172821124060481087007687372"
    by (rule pow_sq_mul [OF s, where q = "706293170654518025266838844237654272110847845200016587137671882088756"]) (simp, code_simp)
  have s: "(2::int) ^ 11140386432695299 mod 205115282021455665897114700593932402728804164701536103180137503955397371 = 36786150301585991308997216576611895570796134025750841074186838776227984"
    by (rule pow_sq_mul [OF s, where q = "208695035083942825737875488829390082698262927863961272565440884200624304"]) (simp, code_simp)
  have s: "(2::int) ^ 22280772865390598 mod 205115282021455665897114700593932402728804164701536103180137503955397371 = 20785718855401069762866754168426664340457378475637301088635554844819186"
    by (rule pow_sq [OF s, where q = "6597367298402096684253786905067611347820349711444335853513304350292170"]) (simp, code_simp)
  have s: "(2::int) ^ 44561545730781197 mod 205115282021455665897114700593932402728804164701536103180137503955397371 = 40921988423588573970653006652860236427686851864676881227548117295879847"
    by (rule pow_sq_mul [OF s, where q = "4212714957928705237681828534654956680477622216725368166813843347178195"]) (simp, code_simp)
  have s: "(2::int) ^ 89123091461562395 mod 205115282021455665897114700593932402728804164701536103180137503955397371 = 155207106828958726370728559450950987181566275720550981595086488101940612"
    by (rule pow_sq_mul [OF s, where q = "16328467777112269837962315984711193465642431374526335195116726037491386"]) (simp, code_simp)
  have s: "(2::int) ^ 178246182923124791 mod 205115282021455665897114700593932402728804164701536103180137503955397371 = 84192399632527650163505988562864006483363086423868003123812291613382470"
    by (rule pow_sq_mul [OF s, where q = "234884946385379515965199458932230976399732870023851336009778318497762158"]) (simp, code_simp)
  have s: "(2::int) ^ 356492365846249582 mod 205115282021455665897114700593932402728804164701536103180137503955397371 = 149849510320957919257635600283508214801706890113608129113347281212476001"
    by (rule pow_sq [OF s, where q = "34557932914729281553845980167690399242128718454687766987340050642545369"]) (simp, code_simp)
  show ?thesis
    by (rule pow_sq [OF s, where q = "109474416153361149699700529062385012733143596403177956259448791293513097"]) (simp, code_simp)
qed

lemma q_base_6: "(2::int) ^ 2920385461012476577287 mod 205115282021455665897114700593932402728804164701536103180137503955397371 = 61290896076509961874872653612529200476762566009163198337519350466910846"
proof -
  note s = q_base_5
  have s: "(2::int) ^ 1425969463384998328 mod 205115282021455665897114700593932402728804164701536103180137503955397371 = 82890903298629439012434013810022034037485195941073702259508973409963435"
    by (rule pow_sq [OF s, where q = "91300834110528094306967936454361379074326425761670375711922199230068091"]) (simp, code_simp)
  have s: "(2::int) ^ 2851938926769996657 mod 205115282021455665897114700593932402728804164701536103180137503955397371 = 11767133590721423574511112334336070580934605959609917635554604191301717"
    by (rule pow_sq_mul [OF s, where q = "66995513761320037904279532229519846800659925016201345871831206951073223"]) (simp, code_simp)
  have s: "(2::int) ^ 5703877853539993315 mod 205115282021455665897114700593932402728804164701536103180137503955397371 = 143371876525958175987585638654189277721520366741427052369375518410101708"
    by (rule pow_sq_mul [OF s, where q = "1350123029130521527269754024716933691896148519104320248328532812983570"]) (simp, code_simp)
  have s: "(2::int) ^ 11407755707079986630 mod 205115282021455665897114700593932402728804164701536103180137503955397371 = 102075263865239240524976884507030740644894861296312569587169084979247467"
    by (rule pow_sq [OF s, where q = "100214351539269664995834108957453169901146387594363396436413107169434207"]) (simp, code_simp)
  have s: "(2::int) ^ 22815511414159973260 mod 205115282021455665897114700593932402728804164701536103180137503955397371 = 146939282475572003886692913055227612464187315984166265699678238663075081"
    by (rule pow_sq [OF s, where q = "50797577783932842021681891204699923834003320973178290479864492567583248"]) (simp, code_simp)
  have s: "(2::int) ^ 45631022828319946520 mod 205115282021455665897114700593932402728804164701536103180137503955397371 = 139090439018106148646374541340734214301184843223171847843852266781970063"
    by (rule pow_sq [OF s, where q = "105263501196256275503475429090422592679638423570838494067807091168278438"]) (simp, code_simp)
  have s: "(2::int) ^ 91262045656639893040 mod 205115282021455665897114700593932402728804164701536103180137503955397371 = 175197574286734225163361479381155253362196299861817433032697219325191002"
    by (rule pow_sq [OF s, where q = "94318424427419507072699922948230059420390719378223354793132453588597477"]) (simp, code_simp)
  have s: "(2::int) ^ 182524091313279786080 mod 205115282021455665897114700593932402728804164701536103180137503955397371 = 61149679372782828482585403195300783610023865769196180215794433972684501"
    by (rule pow_sq [OF s, where q = "149643603994094668061156220705810356165004362863011031171873467856844093"]) (simp, code_simp)
  have s: "(2::int) ^ 365048182626559572160 mod 205115282021455665897114700593932402728804164701536103180137503955397371 = 101007181561157696789471704670037712454851501397224176536404807281801909"
    by (rule pow_sq [OF s, where q = "18230154528432462828374370873579076164805992689983678126085180123467852"]) (simp, code_simp)
  have s: "(2::int) ^ 730096365253119144321 mod 205115282021455665897114700593932402728804164701536103180137503955397371 = 186013707542539490497652672700274136801662935486750537785777402767777133"
    by (rule pow_sq_mul [OF s, where q = "99480161852216051412166491243010077766824491518672231764018543974172799"]) (simp, code_simp)
  have s: "(2::int) ^ 1460192730506238288643 mod 205115282021455665897114700593932402728804164701536103180137503955397371 = 175557786025943418333220179497723785850969415407410389550977741619898301"
    by (rule pow_sq_mul [OF s, where q = "337381974202215079010763778796522788255152042959035697444536108523523887"]) (simp, code_simp)
  show ?thesis
    by (rule pow_sq_mul [OF s, where q = "300519161035568425476428106246288454471783561918687020082663850039367036"]) (simp, code_simp)
qed

lemma q_base_7: "(2::int) ^ 11961898848307104060571393 mod 205115282021455665897114700593932402728804164701536103180137503955397371 = 146576779389440360776651805035563363167489083386110977010198142058211237"
proof -
  note s = q_base_6
  have s: "(2::int) ^ 5840770922024953154575 mod 205115282021455665897114700593932402728804164701536103180137503955397371 = 161787731363137754703421029870113071285384933892585395409135560319049778"
    by (rule pow_sq_mul [OF s, where q = "36628903559400274035683797100178565619896126816776383054833034598202274"]) (simp, code_simp)
  have s: "(2::int) ^ 11681541844049906309151 mod 205115282021455665897114700593932402728804164701536103180137503955397371 = 187585734737058770844587478264631031917997653869064433478761602601172088"
    by (rule pow_sq_mul [OF s, where q = "255224961901110977426773387289859991037570229846108450405166122578040880"]) (simp, code_simp)
  have s: "(2::int) ^ 23363083688099812618303 mod 205115282021455665897114700593932402728804164701536103180137503955397371 = 122235386856995804117437011603101067874737120228015476237026117874107889"
    by (rule pow_sq_mul [OF s, where q = "343108592690439963782878647430865427158613153308126574817021937429523069"]) (simp, code_simp)
  have s: "(2::int) ^ 46726167376199625236607 mod 205115282021455665897114700593932402728804164701536103180137503955397371 = 123700275714060167871491906220497283231726175413710623536501170290780254"
    by (rule pow_sq_mul [OF s, where q = "145688703960307535634662348127375811974744560896991648451429570146146028"]) (simp, code_simp)
  have s: "(2::int) ^ 93452334752399250473214 mod 205115282021455665897114700593932402728804164701536103180137503955397371 = 194883956491117309099157338078743871265084818690728701427727571776912763"
    by (rule pow_sq [OF s, where q = "74600771141634851727426710518673540448038778168913475352548675233648843"]) (simp, code_simp)
  have s: "(2::int) ^ 186904669504798500946428 mod 205115282021455665897114700593932402728804164701536103180137503955397371 = 84881806791433755359562492416617763950125988881600576850659798506907607"
    by (rule pow_sq [OF s, where q = "185162978220505819545027703772695346303396433907209018682175696002576422"]) (simp, code_simp)
  have s: "(2::int) ^ 373809339009597001892856 mod 205115282021455665897114700593932402728804164701536103180137503955397371 = 150800010111988703107639714952972427257779675832156021841060239722555700"
    by (rule pow_sq [OF s, where q = "35126203436293125686109964978775765193088199686441859840962041493731719"]) (simp, code_simp)
  have s: "(2::int) ^ 747618678019194003785712 mod 205115282021455665897114700593932402728804164701536103180137503955397371 = 20415445257630754023603829538957396360006712467992065784347419701850872"
    by (rule pow_sq [OF s, where q = "110867619543809302837997576739112689610344365405667677697867771331504968"]) (simp, code_simp)
  have s: "(2::int) ^ 1495237356038388007571424 mod 205115282021455665897114700593932402728804164701536103180137503955397371 = 53298581630492405249619864952988673971263432065442730184676194623033889"
    by (rule pow_sq [OF s, where q = "2031981239816741367606719232694158118306669437930110343344838915788845"]) (simp, code_simp)
  have s: "(2::int) ^ 2990474712076776015142848 mod 205115282021455665897114700593932402728804164701536103180137503955397371 = 113146088858130477145056778964037381168569990914060101811301612133321546"
    by (rule pow_sq [OF s, where q = "13849474187521107123875271839873757088229311049150819289622625800713525"]) (simp, code_simp)
  have s: "(2::int) ^ 5980949424153552030285696 mod 205115282021455665897114700593932402728804164701536103180137503955397371 = 157610725309189518432044065311674151110469800898230941511662306330781701"
    by (rule pow_sq [OF s, where q = "62413864524013509031891969267762665873792098392571845302022669399248365"]) (simp, code_simp)
  show ?thesis
    by (rule pow_sq_mul [OF s, where q = "242216381809038846155767768579494232138287914010125670461290720083285015"]) (simp, code_simp)
qed

lemma q_base_8: "(2::int) ^ 48995937682665898232100429780 mod 205115282021455665897114700593932402728804164701536103180137503955397371 = 46918586508776263133431909474253900356382052341747130018292921607120520"
proof -
  note s = q_base_7
  have s: "(2::int) ^ 23923797696614208121142787 mod 205115282021455665897114700593932402728804164701536103180137503955397371 = 182987113480194546528841192436128749485172498809606886110968271834777688"
    by (rule pow_sq_mul [OF s, where q = "209489532368761288438951571497311236254255724678693339721285048544967150"]) (simp, code_simp)
  have s: "(2::int) ^ 47847595393228416242285575 mod 205115282021455665897114700593932402728804164701536103180137503955397371 = 152852086420838614582679418377955458272223425564263431272374381241245726"
    by (rule pow_sq_mul [OF s, where q = "326492335137769417839457258137378272487902257701768651502143150107346822"]) (simp, code_simp)
  have s: "(2::int) ^ 95695190786456832484571151 mod 205115282021455665897114700593932402728804164701536103180137503955397371 = 50000377117519586448860738736663036558204811884225652531730435982460771"
    by (rule pow_sq_mul [OF s, where q = "227811015278321367376061221693433688726224343037448983011875068841721311"]) (simp, code_simp)
  have s: "(2::int) ^ 191390381572913664969142303 mod 205115282021455665897114700593932402728804164701536103180137503955397371 = 148294701608846487238993092266759259712767482149221688340202109691607401"
    by (rule pow_sq_mul [OF s, where q = "24376903439429392887106265208162752625740066394752492742534500287962411"]) (simp, code_simp)
  have s: "(2::int) ^ 382780763145827329938284607 mod 205115282021455665897114700593932402728804164701536103180137503955397371 = 73931190222307607511667962640397706975344622881458761450079135824722611"
    by (rule pow_sq_mul [OF s, where q = "214428864670906967245564242347658477955374548232046493471564163932648221"]) (simp, code_simp)
  have s: "(2::int) ^ 765561526291654659876569215 mod 205115282021455665897114700593932402728804164701536103180137503955397371 = 146989016848145224375976685349006810973664010397055007259048705846764640"
    by (rule pow_sq_mul [OF s, where q = "53295111254706910991512574059882963671376435249781884836734979089803062"]) (simp, code_simp)
  have s: "(2::int) ^ 1531123052583309319753138430 mod 205115282021455665897114700593932402728804164701536103180137503955397371 = 120399373685066406432469314080924504769562784492923432651873072012370767"
    by (rule pow_sq [OF s, where q = "105334770091505385723359442491527028145075929090883283929618815318848323"]) (simp, code_simp)
  have s: "(2::int) ^ 3062246105166618639506276861 mod 205115282021455665897114700593932402728804164701536103180137503955397371 = 167129828348757228784187346211092973013879151205024972453301312788689716"
    by (rule pow_sq_mul [OF s, where q = "141344994296816319888343461935865915397131440973190083498096691161595722"]) (simp, code_simp)
  have s: "(2::int) ^ 6124492210333237279012553722 mod 205115282021455665897114700593932402728804164701536103180137503955397371 = 22412874075594568726766106161362466844020021600294857206130460212798185"
    by (rule pow_sq [OF s, where q = "136178929471297247513641937295432640755592857448751859772350404745068101"]) (simp, code_simp)
  have s: "(2::int) ^ 12248984420666474558025107445 mod 205115282021455665897114700593932402728804164701536103180137503955397371 = 67981247980231595353245412134438317058145210282624096060468840109258110"
    by (rule pow_sq_mul [OF s, where q = "4898093592811023839746483631698180312330648295201685319544569072250540"]) (simp, code_simp)
  have s: "(2::int) ^ 24497968841332949116050214890 mod 205115282021455665897114700593932402728804164701536103180137503955397371 = 197159603217462807534140101314085856463586891273888444482588575361077306"
    by (rule pow_sq [OF s, where q = "22530988580686664776938064188486157980143306668274606837718656335479614"]) (simp, code_simp)
  show ?thesis
    by (rule pow_sq [OF s, where q = "189512496376555959604704004135906322947510808525274985217452263808184596"]) (simp, code_simp)
qed

lemma q_base_9: "(2::int) ^ 200687360748199519158683360382202 mod 205115282021455665897114700593932402728804164701536103180137503955397371 = 141401333682250705310836512214927409754104054193832833716292979887261319"
proof -
  note s = q_base_8
  have s: "(2::int) ^ 97991875365331796464200859561 mod 205115282021455665897114700593932402728804164701536103180137503955397371 = 71088854756869852213598486876034955511522467171563218087342587610036115"
    by (rule pow_sq_mul [OF s, where q = "21464551429680932793384552181551396316380648453435039240343561204647735"]) (simp, code_simp)
  have s: "(2::int) ^ 195983750730663592928401719123 mod 205115282021455665897114700593932402728804164701536103180137503955397371 = 135122264872449771700927932146110548187092205395503218249171038380706871"
    by (rule pow_sq_mul [OF s, where q = "49275950780836634556775569215096717156061515233542807236960248678260449"]) (simp, code_simp)
  have s: "(2::int) ^ 391967501461327185856803438246 mod 205115282021455665897114700593932402728804164701536103180137503955397371 = 15784475520884970337841017745229573194521328114120393906846383438360315"
    by (rule pow_sq [OF s, where q = "89013486875885873210789914836854876982689353226665142531485462468499106"]) (simp, code_simp)
  have s: "(2::int) ^ 783935002922654371713606876492 mod 205115282021455665897114700593932402728804164701536103180137503955397371 = 58369757155342405048237654805744971661925956113491640823934125389240675"
    by (rule pow_sq [OF s, where q = "1214681154002728390837959366536734856723864069936793590504068776490050"]) (simp, code_simp)
  have s: "(2::int) ^ 1567870005845308743427213752985 mod 205115282021455665897114700593932402728804164701536103180137503955397371 = 121985304559077772094914238618871529749573607569547802205345340044692828"
    by (rule pow_sq_mul [OF s, where q = "33220621270113463487528977390021638905258108194834886639715664811654082"]) (simp, code_simp)
  have s: "(2::int) ^ 3135740011690617486854427505971 mod 205115282021455665897114700593932402728804164701536103180137503955397371 = 82375144994321314831567175588444754168654030783153145901819204982580171"
    by (rule pow_sq_mul [OF s, where q = "145093182543214160567046162073740382303436842715512017113952504841415407"]) (simp, code_simp)
  have s: "(2::int) ^ 6271480023381234973708855011943 mod 205115282021455665897114700593932402728804164701536103180137503955397371 = 204669551207916187767247822185380910306775469826032980852102774275119330"
    by (rule pow_sq_mul [OF s, where q = "66164397366800386619864222720164547532554992791637811586785388090161712"]) (simp, code_simp)
  have s: "(2::int) ^ 12542960046762469947417710023887 mod 205115282021455665897114700593932402728804164701536103180137503955397371 = 7355721028755068870605720488674661974564222575151175937614485888356747"
    by (rule pow_sq_mul [OF s, where q = "408449578001389948062768849297795154416046951736455757952957499093127143"]) (simp, code_simp)
  have s: "(2::int) ^ 25085920093524939894835420047775 mod 205115282021455665897114700593932402728804164701536103180137503955397371 = 136496869035973741228849737721381202687302090236027478530499601719562628"
    by (rule pow_sq_mul [OF s, where q = "527572897734746207819765079685641179040928707135630901185794968058090"]) (simp, code_simp)
  have s: "(2::int) ^ 50171840187049879789670840095550 mod 205115282021455665897114700593932402728804164701536103180137503955397371 = 77084396661336988973745029862211554074291813397348408098856878153231689"
    by (rule pow_sq [OF s, where q = "90833774417036698285292508667431789064418589113208443052031416617243045"]) (simp, code_simp)
  have s: "(2::int) ^ 100343680374099759579341680191101 mod 205115282021455665897114700593932402728804164701536103180137503955397371 = 30776506228657292447005524579482315424166835227446509723589485462121317"
    by (rule pow_sq_mul [OF s, where q = "57938191148729619242909931099335874734618350630046369586156314959950375"]) (simp, code_simp)
  show ?thesis
    by (rule pow_sq [OF s, where q = "4617858437010567990626494472177231882011363744197370384498755238653270"]) (simp, code_simp)
qed

lemma q_base_10: "(2::int) ^ 802749442992798076634733441528810 mod 205115282021455665897114700593932402728804164701536103180137503955397371 = 53072002638256206696760401718638995221936714922431175139555783581918754"
proof -
  note s = q_base_9
  have s: "(2::int) ^ 401374721496399038317366720764405 mod 205115282021455665897114700593932402728804164701536103180137503955397371 = 203633363305551962595728231328113081176794024029480119115339048564318187"
    by (rule pow_sq_mul [OF s, where q = "194957069703151040026703554485455373584779052456050373417724007555688885"]) (simp, code_simp)
  show ?thesis
    by (rule pow_sq [OF s, where q = "202162151169181986889064343107211261706237136631525002461779801123942165"]) (simp, code_simp)
qed

lemma q_w_1: "(53072002638256206696760401718638995221936714922431175139555783581918754::int) ^ 1536 mod 205115282021455665897114700593932402728804164701536103180137503955397371 = 9869647827589383792445039112432926104100000035722792167326941945086378"
proof -
  have s: "(53072002638256206696760401718638995221936714922431175139555783581918754::int) ^ 0 mod 205115282021455665897114700593932402728804164701536103180137503955397371 = 1"
    by simp
  have s: "(53072002638256206696760401718638995221936714922431175139555783581918754::int) ^ 1 mod 205115282021455665897114700593932402728804164701536103180137503955397371 = 53072002638256206696760401718638995221936714922431175139555783581918754"
    by (rule pow_mul [OF s, where q = "0"]) (simp, code_simp)
  have s: "(53072002638256206696760401718638995221936714922431175139555783581918754::int) ^ 2 mod 205115282021455665897114700593932402728804164701536103180137503955397371 = 80672951356374566821424995764842854548470195672103182835764878574518485"
    by (rule pow_sq [OF s, where q = "13731972753451130689084485546961816963797067528361416817920574129386461"]) (simp, code_simp)
  have s: "(53072002638256206696760401718638995221936714922431175139555783581918754::int) ^ 3 mod 205115282021455665897114700593932402728804164701536103180137503955397371 = 145139100993372588255986080324795675940125291133259206205342389138992990"
    by (rule pow_mul [OF s, where q = "20873506084122833257277112375718626990343018797577645894463894891965700"]) (simp, code_simp)
  have s: "(53072002638256206696760401718638995221936714922431175139555783581918754::int) ^ 6 mod 205115282021455665897114700593932402728804164701536103180137503955397371 = 84012143688801361477994631480522027119885238967250186292453686470811714"
    by (rule pow_sq [OF s, where q = "102700093476998505366523343555175703866106011377460119188076612620508966"]) (simp, code_simp)
  have s: "(53072002638256206696760401718638995221936714922431175139555783581918754::int) ^ 12 mod 205115282021455665897114700593932402728804164701536103180137503955397371 = 116451079446762753543045876951179864848217067305911825283523970834289884"
    by (rule pow_sq [OF s, where q = "34410114242241173029478093430055333341740048939440107274578635944033272"]) (simp, code_simp)
  have s: "(53072002638256206696760401718638995221936714922431175139555783581918754::int) ^ 24 mod 205115282021455665897114700593932402728804164701536103180137503955397371 = 86712968130849226658603214219909141672874726995944549993473717171218831"
    by (rule pow_sq [OF s, where q = "66113327932814606852753357903589934267059654541176262497073033772765875"]) (simp, code_simp)
  have s: "(53072002638256206696760401718638995221936714922431175139555783581918754::int) ^ 48 mod 205115282021455665897114700593932402728804164701536103180137503955397371 = 143622941106335339395379036196448201585785849950225158256306389014101701"
    by (rule pow_sq [OF s, where q = "36658111321394129162618242482485363383190656708454801178965226851840660"]) (simp, code_simp)
  have s: "(53072002638256206696760401718638995221936714922431175139555783581918754::int) ^ 96 mod 205115282021455665897114700593932402728804164701536103180137503955397371 = 45040355933455026827092035458633050868863666253250587203633889085560305"
    by (rule pow_sq [OF s, where q = "100565638058485406430073683228832857136571269329109300830048395122169976"]) (simp, code_simp)
  have s: "(53072002638256206696760401718638995221936714922431175139555783581918754::int) ^ 192 mod 205115282021455665897114700593932402728804164701536103180137503955397371 = 157500159609763471678516367075447353703500167609050006151237825767722317"
    by (rule pow_sq [OF s, where q = "9890212190041092855239777434091228801505155414763588175983316544653948"]) (simp, code_simp)
  have s: "(53072002638256206696760401718638995221936714922431175139555783581918754::int) ^ 384 mod 205115282021455665897114700593932402728804164701536103180137503955397371 = 118919799283122185899406570915454893760146898699329176437094865249630355"
    by (rule pow_sq [OF s, where q = "120938332983430051733939837133696578038868001406095646888584715469213154"]) (simp, code_simp)
  have s: "(53072002638256206696760401718638995221936714922431175139555783581918754::int) ^ 768 mod 205115282021455665897114700593932402728804164701536103180137503955397371 = 94623599515436378594918524673836123795536266932668056464012693297754215"
    by (rule pow_sq [OF s, where q = "68946197095440121275790246479682934813809560737672454452751559941291110"]) (simp, code_simp)
  show ?thesis
    by (rule pow_sq [OF s, where q = "43651674789990128146018079283862418015719074341789095408099560255470757"]) (simp, code_simp)
qed

lemma q_w_2: "(53072002638256206696760401718638995221936714922431175139555783581918754::int) ^ 196842 mod 205115282021455665897114700593932402728804164701536103180137503955397371 = 97349125210071409172732591267772553635682574715568000416500774573822396"
proof -
  note s = q_w_1
  have s: "(53072002638256206696760401718638995221936714922431175139555783581918754::int) ^ 1537 mod 205115282021455665897114700593932402728804164701536103180137503955397371 = 78398859759972593688682313882314797892225887338091108178811873162534589"
    by (rule pow_mul [OF s, where q = "2553695513968053233258717182199852015351266345660511126081142562310613"]) (simp, code_simp)
  have s: "(53072002638256206696760401718638995221936714922431175139555783581918754::int) ^ 3074 mod 205115282021455665897114700593932402728804164701536103180137503955397371 = 78037357075271539478782793612814471294830631749685007417440390448271708"
    by (rule pow_sq [OF s, where q = "29965496237481322014672146795328020511047555729706658480845706830138103"]) (simp, code_simp)
  have s: "(53072002638256206696760401718638995221936714922431175139555783581918754::int) ^ 3075 mod 205115282021455665897114700593932402728804164701536103180137503955397371 = 103802060705592539544867365566070392841040709390975322013957626965238246"
    by (rule pow_mul [OF s, where q = "20191566321948304662747132146497258085963212003857823880260126724910166"]) (simp, code_simp)
  have s: "(53072002638256206696760401718638995221936714922431175139555783581918754::int) ^ 6150 mod 205115282021455665897114700593932402728804164701536103180137503955397371 = 184120603143749024222412302283040110105185615792442416703943435187543281"
    by (rule pow_sq [OF s, where q = "52530790005205149311961299495192105741228681278505011474496285757487785"]) (simp, code_simp)
  have s: "(53072002638256206696760401718638995221936714922431175139555783581918754::int) ^ 6151 mod 205115282021455665897114700593932402728804164701536103180137503955397371 = 39744125868726060897918820836381795156223721719407327045305007900350303"
    by (rule pow_mul [OF s, where q = "47639790850787162715530251539811492215507679524645293978079323231470201"]) (simp, code_simp)
  have s: "(53072002638256206696760401718638995221936714922431175139555783581918754::int) ^ 12302 mod 205115282021455665897114700593932402728804164701536103180137503955397371 = 141622365047279312705910869072773466390073319201584538725095198551638088"
    by (rule pow_sq [OF s, where q = "7701013427677756812291131774399503648174356013343289498070731250621851"]) (simp, code_simp)
  have s: "(53072002638256206696760401718638995221936714922431175139555783581918754::int) ^ 24604 mod 205115282021455665897114700593932402728804164701536103180137503955397371 = 62508306749116864106412032269561091967698401517613051271192332663121234"
    by (rule pow_sq [OF s, where q = "97783519998704097673573625314064472155775188709904855443745564472424810"]) (simp, code_simp)
  have s: "(53072002638256206696760401718638995221936714922431175139555783581918754::int) ^ 24605 mod 205115282021455665897114700593932402728804164701536103180137503955397371 = 59976011726011408640389739124869621245764387441213165871729827345597987"
    by (rule pow_mul [OF s, where q = "16173543911540654041953510490394623720331292314368490312576107015906419"]) (simp, code_simp)
  have s: "(53072002638256206696760401718638995221936714922431175139555783581918754::int) ^ 49210 mod 205115282021455665897114700593932402728804164701536103180137503955397371 = 91448995008208973980469017448320864951141835907597648638414565752027184"
    by (rule pow_sq [OF s, where q = "17537074503217114642982819660360834024927174850636745995250202903527035"]) (simp, code_simp)
  have s: "(53072002638256206696760401718638995221936714922431175139555783581918754::int) ^ 98420 mod 205115282021455665897114700593932402728804164701536103180137503955397371 = 146723482484135742534244691231893846738498656950987467416995358429470923"
    by (rule pow_sq [OF s, where q = "40771797233209779959724381829812950310965981316565442255112186526241423"]) (simp, code_simp)
  have s: "(53072002638256206696760401718638995221936714922431175139555783581918754::int) ^ 98421 mod 205115282021455665897114700593932402728804164701536103180137503955397371 = 176558698843146001291664792871782524685731874858063711881773205998680596"
    by (rule pow_mul [OF s, where q = "37963573326914065399325452249852735865343144520781139376776229077758726"]) (simp, code_simp)
  show ?thesis
    by (rule pow_sq [OF s, where q = "151977823543756918751158612854380879668425188851260636308152277242607420"]) (simp, code_simp)
qed

lemma q_w_3: "(53072002638256206696760401718638995221936714922431175139555783581918754::int) ^ 100783268 mod 205115282021455665897114700593932402728804164701536103180137503955397371 = 58589552868731652114048217331336166526144518807677724083246298998237991"
proof -
  note s = q_w_2
  have s: "(53072002638256206696760401718638995221936714922431175139555783581918754::int) ^ 393684 mod 205115282021455665897114700593932402728804164701536103180137503955397371 = 29713341603308512119598128063487958286815101512869992911788471436510253"
    by (rule pow_sq [OF s, where q = "46202565141756985146644336383882327164707489565907579647080143314256953"]) (simp, code_simp)
  have s: "(53072002638256206696760401718638995221936714922431175139555783581918754::int) ^ 787368 mod 205115282021455665897114700593932402728804164701536103180137503955397371 = 133214288258310753455107620027853868534311851122815304384140233388493691"
    by (rule pow_sq [OF s, where q = "4304324185569714498245969740913069124612501646330000197578669774266858"]) (simp, code_simp)
  have s: "(53072002638256206696760401718638995221936714922431175139555783581918754::int) ^ 787369 mod 205115282021455665897114700593932402728804164701536103180137503955397371 = 180503583572891868182715327918828435547072874736515475221158459792787386"
    by (rule pow_mul [OF s, where q = "34468173157175843768700407701469350326878911366892587253822425465544468"]) (simp, code_simp)
  have s: "(53072002638256206696760401718638995221936714922431175139555783581918754::int) ^ 1574738 mod 205115282021455665897114700593932402728804164701536103180137503955397371 = 85615177053386216183006207660891905470275851248038327665175636013352168"
    by (rule pow_sq [OF s, where q = "158845032713105370344780451061414041568820322667562312104079283889927668"]) (simp, code_simp)
  have s: "(53072002638256206696760401718638995221936714922431175139555783581918754::int) ^ 3149476 mod 205115282021455665897114700593932402728804164701536103180137503955397371 = 35858752024650380887009073046455388899322598606539387928818813560828628"
    by (rule pow_sq [OF s, where q = "35735799252227019970479944586621599358267047892027981167193685979513476"]) (simp, code_simp)
  have s: "(53072002638256206696760401718638995221936714922431175139555783581918754::int) ^ 3149477 mod 205115282021455665897114700593932402728804164701536103180137503955397371 = 64722068942435270935806209930656044402793484364839236971864094156668602"
    by (rule pow_mul [OF s, where q = "9278176463993310130462745437992607095600706082342747206406718452863210"]) (simp, code_simp)
  have s: "(53072002638256206696760401718638995221936714922431175139555783581918754::int) ^ 6298954 mod 205115282021455665897114700593932402728804164701536103180137503955397371 = 299011754196076947911732891693215997858813333953893935154180005091199"
    by (rule pow_sq [OF s, where q = "20422399379053424661460247563448710465240469187371474012319857778021855"]) (simp, code_simp)
  have s: "(53072002638256206696760401718638995221936714922431175139555783581918754::int) ^ 12597908 mod 205115282021455665897114700593932402728804164701536103180137503955397371 = 68419152084265827458998352505530338157316941142974826054686810737393685"
    by (rule pow_sq [OF s, where q = "435891603328038696103539955497146049319557226522246625955840155396"]) (simp, code_simp)
  have s: "(53072002638256206696760401718638995221936714922431175139555783581918754::int) ^ 25195816 mod 205115282021455665897114700593932402728804164701536103180137503955397371 = 76591851723304157978405379934795066862956208428950752191055342029325706"
    by (rule pow_sq [OF s, where q = "22822192114579895576461737609626326447854079259436194499271060007562589"]) (simp, code_simp)
  have s: "(53072002638256206696760401718638995221936714922431175139555783581918754::int) ^ 25195817 mod 205115282021455665897114700593932402728804164701536103180137503955397371 = 32546644570488509630373659608496460677726336238143071326787662143488359"
    by (rule pow_mul [OF s, where q = "19817552922765294831741733484239411477716369893144888362996981345583415"]) (simp, code_simp)
  have s: "(53072002638256206696760401718638995221936714922431175139555783581918754::int) ^ 50391634 mod 205115282021455665897114700593932402728804164701536103180137503955397371 = 21568236619426806713782204172823168467198805800172369028893514861850312"
    by (rule pow_sq [OF s, where q = "5164335208757897096609360642440575450627320198613850835791675841268139"]) (simp, code_simp)
  show ?thesis
    by (rule pow_sq [OF s, where q = "2267938430949885822248776430003246409046323001368802132730528547944443"]) (simp, code_simp)
qed

lemma q_w_4: "(53072002638256206696760401718638995221936714922431175139555783581918754::int) ^ 12900258507 mod 205115282021455665897114700593932402728804164701536103180137503955397371 = 115421313092816871935115965281067527434494619022819005186035510068549037"
proof -
  note s = q_w_3
  have s: "(53072002638256206696760401718638995221936714922431175139555783581918754::int) ^ 100783269 mod 205115282021455665897114700593932402728804164701536103180137503955397371 = 200300439841190358040373761113010199458803307382199615989341754872540663"
    by (rule pow_mul [OF s, where q = "15159596465846550173720101243097586095244517264607308807535927157870581"]) (simp, code_simp)
  have s: "(53072002638256206696760401718638995221936714922431175139555783581918754::int) ^ 201566538 mod 205115282021455665897114700593932402728804164701536103180137503955397371 = 143584829068045084373320907499969299046935790497039722219934279481219173"
    by (rule pow_sq [OF s, where q = "195598620469330115797919040631139716654528019663993015042180840074166276"]) (simp, code_simp)
  have s: "(53072002638256206696760401718638995221936714922431175139555783581918754::int) ^ 201566539 mod 205115282021455665897114700593932402728804164701536103180137503955397371 = 20870946771667521776691289826944109602612350512601599577591423283307065"
    by (rule pow_mul [OF s, where q = "37151470880242583033532235131285379658499337255046217033072030731605187"]) (simp, code_simp)
  have s: "(53072002638256206696760401718638995221936714922431175139555783581918754::int) ^ 403133078 mod 205115282021455665897114700593932402728804164701536103180137503955397371 = 17925808008466540869891880444989081062405891941747307583480112377653721"
    by (rule pow_sq [OF s, where q = "2123666334623542452718989442977220959412366034371533852411613858831624"]) (simp, code_simp)
  have s: "(53072002638256206696760401718638995221936714922431175139555783581918754::int) ^ 806266156 mod 205115282021455665897114700593932402728804164701536103180137503955397371 = 73462245301744499496715975667619407560959812754715668547897029804460874"
    by (rule pow_sq [OF s, where q = "1566604836019924747649491598619203958314777488889109740306722973809477"]) (simp, code_simp)
  have s: "(53072002638256206696760401718638995221936714922431175139555783581918754::int) ^ 1612532312 mod 205115282021455665897114700593932402728804164701536103180137503955397371 = 145007954105687699636069997409737505919580260870719987087935283663183347"
    by (rule pow_sq [OF s, where q = "26310577308467785611504569515347799034042543291861122970878528310144899"]) (simp, code_simp)
  have s: "(53072002638256206696760401718638995221936714922431175139555783581918754::int) ^ 1612532313 mod 205115282021455665897114700593932402728804164701536103180137503955397371 = 157452575635492870788827006691141406465299252972927876953446164963436467"
    by (rule pow_mul [OF s, where q = "37519693545116655547629584868661179946397248840992375456263262628329801"]) (simp, code_simp)
  have s: "(53072002638256206696760401718638995221936714922431175139555783581918754::int) ^ 3225064626 mod 205115282021455665897114700593932402728804164701536103180137503955397371 = 75887730442456754531308417729710545591689891047661882132424747497499567"
    by (rule pow_sq [OF s, where q = "120865268203942787599748022005780369975699784353432352536309175340751182"]) (simp, code_simp)
  have s: "(53072002638256206696760401718638995221936714922431175139555783581918754::int) ^ 6450129252 mod 205115282021455665897114700593932402728804164701536103180137503955397371 = 169501777260007923663597623898949148139167252738138051405538203492623482"
    by (rule pow_sq [OF s, where q = "28076638536881784697558557540367842703223679372918777432822607080619717"]) (simp, code_simp)
  have s: "(53072002638256206696760401718638995221936714922431175139555783581918754::int) ^ 6450129253 mod 205115282021455665897114700593932402728804164701536103180137503955397371 = 160732026421991265036090534546843016730032469408975790919624996063206737"
    by (rule pow_mul [OF s, where q = "43857282018563927561849418358468115940448603029976472466793964518276921"]) (simp, code_simp)
  have s: "(53072002638256206696760401718638995221936714922431175139555783581918754::int) ^ 12900258506 mod 205115282021455665897114700593932402728804164701536103180137503955397371 = 164930274100251187365851255334807864058306410294635764905078000319844999"
    by (rule pow_sq [OF s, where q = "125952508575237720231349911806461541738259595215576109068110599154612270"]) (simp, code_simp)
  show ?thesis
    by (rule pow_mul [OF s, where q = "42674440714082151083986650820324131159221705234137860114859956001716979"]) (simp, code_simp)
qed

lemma q_w_5: "(53072002638256206696760401718638995221936714922431175139555783581918754::int) ^ 3302466177870 mod 205115282021455665897114700593932402728804164701536103180137503955397371 = 59749172171584749411391331045711943133407148143217172533864068404961520"
proof -
  note s = q_w_4
  have s: "(53072002638256206696760401718638995221936714922431175139555783581918754::int) ^ 25800517014 mod 205115282021455665897114700593932402728804164701536103180137503955397371 = 194076250873149829636951189101371099928193797161752535091827384090892863"
    by (rule pow_sq [OF s, where q = "64949229451740853203864394702998145054122741083442374773745279341278686"]) (simp, code_simp)
  have s: "(53072002638256206696760401718638995221936714922431175139555783581918754::int) ^ 51601034028 mod 205115282021455665897114700593932402728804164701536103180137503955397371 = 81225123099468158622621801273824565832645260599729591412687885264628678"
    by (rule pow_sq [OF s, where q = "183631325670984659439984645320728159473314766687687226519147737239712321"]) (simp, code_simp)
  have s: "(53072002638256206696760401718638995221936714922431175139555783581918754::int) ^ 51601034029 mod 205115282021455665897114700593932402728804164701536103180137503955397371 = 64109386120062576604344000506213519635704127048786701099901378612265358"
    by (rule pow_mul [OF s, where q = "21016376278471240009806449588407463477475917038359132850646997930048474"]) (simp, code_simp)
  have s: "(53072002638256206696760401718638995221936714922431175139555783581918754::int) ^ 103202068058 mod 205115282021455665897114700593932402728804164701536103180137503955397371 = 141003170497370612124600325472032005268284627403419647755908648567388939"
    by (rule pow_sq [OF s, where q = "20037577640174819244062239023803146069498507775485422009957932589568475"]) (simp, code_simp)
  have s: "(53072002638256206696760401718638995221936714922431175139555783581918754::int) ^ 206404136116 mod 205115282021455665897114700593932402728804164701536103180137503955397371 = 130746123772612371704372473005365615401967446102846491498764272892593810"
    by (rule pow_sq [OF s, where q = "96930340315797928694002915676213215576721225899996290651873094732500741"]) (simp, code_simp)
  have s: "(53072002638256206696760401718638995221936714922431175139555783581918754::int) ^ 412808272232 mod 205115282021455665897114700593932402728804164701536103180137503955397371 = 81935106878503065876327599090595197271657867341933099546265893314800143"
    by (rule pow_sq [OF s, where q = "83341176303846212331683925564962201534653763541799881160457016166305167"]) (simp, code_simp)
  have s: "(53072002638256206696760401718638995221936714922431175139555783581918754::int) ^ 412808272233 mod 205115282021455665897114700593932402728804164701536103180137503955397371 = 106320379701232551486183271972303937834761602072693128727708789229382428"
    by (rule pow_mul [OF s, where q = "21200079124123268231579219742496679526553379268297697508100995457022214"]) (simp, code_simp)
  have s: "(53072002638256206696760401718638995221936714922431175139555783581918754::int) ^ 825616544466 mod 205115282021455665897114700593932402728804164701536103180137503955397371 = 78257645972320558246868790821612335947632758320664671100554809096804121"
    by (rule pow_sq [OF s, where q = "55110584781449041322809599978874288648602857354731026095212853677222453"]) (simp, code_simp)
  have s: "(53072002638256206696760401718638995221936714922431175139555783581918754::int) ^ 825616544467 mod 205115282021455665897114700593932402728804164701536103180137503955397371 = 91851976241621279320559134305939216342901385400735843417815216977222067"
    by (rule pow_mul [OF s, where q = "20248564380845452768256580241308456285942501488075602011376209326933677"]) (simp, code_simp)
  have s: "(53072002638256206696760401718638995221936714922431175139555783581918754::int) ^ 1651233088934 mod 205115282021455665897114700593932402728804164701536103180137503955397371 = 171786185650327342178581717285869436106123762953046740247880319677891394"
    by (rule pow_sq [OF s, where q = "41131920822012897147272265467956232994151799138578800230036291634461445"]) (simp, code_simp)
  have s: "(53072002638256206696760401718638995221936714922431175139555783581918754::int) ^ 1651233088935 mod 205115282021455665897114700593932402728804164701536103180137503955397371 = 171152749437748882178872888425598238303720894843072739272604917902081306"
    by (rule pow_mul [OF s, where q = "44448355130830642660142459846656275055974250177390230892705811514779870"]) (simp, code_simp)
  show ?thesis
    by (rule pow_sq [OF s, where q = "142813657526681450206957547073199972709940044025962235409098853630501596"]) (simp, code_simp)
qed

lemma q_w_6: "(53072002638256206696760401718638995221936714922431175139555783581918754::int) ^ 845431341535128 mod 205115282021455665897114700593932402728804164701536103180137503955397371 = 7603017038659884020652195448962922471360207764440689980194316964700095"
proof -
  note s = q_w_5
  have s: "(53072002638256206696760401718638995221936714922431175139555783581918754::int) ^ 3302466177871 mod 205115282021455665897114700593932402728804164701536103180137503955397371 = 121284715260550956589954641351436849519624783512395251618756380727142191"
    by (rule pow_mul [OF s, where q = "15459639047237218030154718236479930114461708533870691192764900527029059"]) (simp, code_simp)
  have s: "(53072002638256206696760401718638995221936714922431175139555783581918754::int) ^ 6604932355742 mod 205115282021455665897114700593932402728804164701536103180137503955397371 = 36850213336477806653147608279426800493777534329301941171123081889225649"
    by (rule pow_sq [OF s, where q = "71715681108023020929416071124087904590470240747647787444101288798947792"]) (simp, code_simp)
  have s: "(53072002638256206696760401718638995221936714922431175139555783581918754::int) ^ 6604932355743 mod 205115282021455665897114700593932402728804164701536103180137503955397371 = 181854906225514315327229033690466208360485374000231529247345002349410698"
    by (rule pow_mul [OF s, where q = "9534709457724757276774515628380451037357703447740025492759538325802088"]) (simp, code_simp)
  have s: "(53072002638256206696760401718638995221936714922431175139555783581918754::int) ^ 13209864711486 mod 205115282021455665897114700593932402728804164701536103180137503955397371 = 88144044593276065206446128719376476770539248869841156503308694714926159"
    by (rule pow_sq [OF s, where q = "161232291384467682452156407987873767807599809210966811765162400180494895"]) (simp, code_simp)
  have s: "(53072002638256206696760401718638995221936714922431175139555783581918754::int) ^ 26419729422972 mod 205115282021455665897114700593932402728804164701536103180137503955397371 = 69812568812376607826631238250170224953626819894344337301375591158896682"
    by (rule pow_sq [OF s, where q = "37878077736054499160401313885532457167966319211649383221903671493518069"]) (simp, code_simp)
  have s: "(53072002638256206696760401718638995221936714922431175139555783581918754::int) ^ 52839458845944 mod 205115282021455665897114700593932402728804164701536103180137503955397371 = 110804269114644973532099273900504198765209841218013463719985375587632528"
    by (rule pow_sq [OF s, where q = "23761246437371768555541114564277026092150705359194315416706163250668476"]) (simp, code_simp)
  have s: "(53072002638256206696760401718638995221936714922431175139555783581918754::int) ^ 52839458845945 mod 205115282021455665897114700593932402728804164701536103180137503955397371 = 86860547449065135747476551973759691777503975527053537216708536941988502"
    by (rule pow_mul [OF s, where q = "28669752954669462974278150622332001653414818422744423884942413452054910"]) (simp, code_simp)
  have s: "(53072002638256206696760401718638995221936714922431175139555783581918754::int) ^ 105678917691890 mod 205115282021455665897114700593932402728804164701536103180137503955397371 = 180502370077773302670809685125078413381198579083104572032372952418495794"
    by (rule pow_sq [OF s, where q = "36782996511991203937274706985028253543150009935578379011995793549019510"]) (simp, code_simp)
  have s: "(53072002638256206696760401718638995221936714922431175139555783581918754::int) ^ 105678917691891 mod 205115282021455665897114700593932402728804164701536103180137503955397371 = 124482948103551371346201372371827126675803112804717744447438198101357629"
    by (rule pow_mul [OF s, where q = "46703600855917825003158277151588954711054135072345339397862660287949957"]) (simp, code_simp)
  have s: "(53072002638256206696760401718638995221936714922431175139555783581918754::int) ^ 211357835383782 mod 205115282021455665897114700593932402728804164701536103180137503955397371 = 573834858061279679437886856333605709436133779395463990424608002802825"
    by (rule pow_sq [OF s, where q = "75547780817864833764370997569925615525504513297997224509684369328887296"]) (simp, code_simp)
  have s: "(53072002638256206696760401718638995221936714922431175139555783581918754::int) ^ 422715670767564 mod 205115282021455665897114700593932402728804164701536103180137503955397371 = 108616631678869661360307848665079032995188811621745666002090069424132429"
    by (rule pow_sq [OF s, where q = "1605372554794647914750371544097737213546638846210501006048075088076"]) (simp, code_simp)
  show ?thesis
    by (rule pow_sq [OF s, where q = "57516790367814580648324554436293206019448810440986028483262014231607326"]) (simp, code_simp)
qed

lemma q_w_7: "(53072002638256206696760401718638995221936714922431175139555783581918754::int) ^ 865721693731972160 mod 205115282021455665897114700593932402728804164701536103180137503955397371 = 2593204195583604823607497638493299916072778519187069990743597978472405"
proof -
  note s = q_w_6
  have s: "(53072002638256206696760401718638995221936714922431175139555783581918754::int) ^ 845431341535129 mod 205115282021455665897114700593932402728804164701536103180137503955397371 = 66968806489371164965644214147517979345601284555033949862149804626342941"
    by (rule pow_mul [OF s, where q = "1967222219416377732033331359572433126597227872529210005744604025807859"]) (simp, code_simp)
  have s: "(53072002638256206696760401718638995221936714922431175139555783581918754::int) ^ 1690862683070258 mod 205115282021455665897114700593932402728804164701536103180137503955397371 = 104076799431743836166567341131922124059080236210207481753011500388614176"
    by (rule pow_sq [OF s, where q = "21864880073351706163494293951327398221019521492950503037818569259206955"]) (simp, code_simp)
  have s: "(53072002638256206696760401718638995221936714922431175139555783581918754::int) ^ 3381725366140516 mod 205115282021455665897114700593932402728804164701536103180137503955397371 = 32507700923980627398507155149745550145900164089246150731482277360060447"
    by (rule pow_sq [OF s, where q = "52809230366474482850914145001704489158871028898777534617430712344722899"]) (simp, code_simp)
  have s: "(53072002638256206696760401718638995221936714922431175139555783581918754::int) ^ 6763450732281032 mod 205115282021455665897114700593932402728804164701536103180137503955397371 = 14887329770161718574306816704211103553431425801740912032992780741778557"
    by (rule pow_sq [OF s, where q = "5151983845125843388971619771268874992164161795334759892315987645276812"]) (simp, code_simp)
  have s: "(53072002638256206696760401718638995221936714922431175139555783581918754::int) ^ 13526901464562064 mod 205115282021455665897114700593932402728804164701536103180137503955397371 = 67213765998597682920045870950129908279343946676299027740243772671792578"
    by (rule pow_sq [OF s, where q = "1080526938321250697497287372591189484903970122771363052003156513131301"]) (simp, code_simp)
  have s: "(53072002638256206696760401718638995221936714922431175139555783581918754::int) ^ 13526901464562065 mod 205115282021455665897114700593932402728804164701536103180137503955397371 = 70719574584239379930556748262318419659581321689926080861811356007630675"
    by (rule pow_mul [OF s, where q = "17391045324607140150144150874297364592663323251749603767227334135471747"]) (simp, code_simp)
  have s: "(53072002638256206696760401718638995221936714922431175139555783581918754::int) ^ 27053802929124130 mod 205115282021455665897114700593932402728804164701536103180137503955397371 = 196961582023123909693362877346742290456226120793248983631433648200218800"
    by (rule pow_sq [OF s, where q = "24382669979961074016865527872344096208438162406817509374332061874954075"]) (simp, code_simp)
  have s: "(53072002638256206696760401718638995221936714922431175139555783581918754::int) ^ 54107605858248260 mod 205115282021455665897114700593932402728804164701536103180137503955397371 = 13422941526926775264269045009791852072984524744826921576217773737570071"
    by (rule pow_sq [OF s, where q = "189132006210019078614051280322919438248280856883959665182620544717736299"]) (simp, code_simp)
  have s: "(53072002638256206696760401718638995221936714922431175139555783581918754::int) ^ 108215211716496520 mod 205115282021455665897114700593932402728804164701536103180137503955397371 = 127636629814544392994312321308383211231103831577761562847441894809990336"
    by (rule pow_sq [OF s, where q = "878410216243411999485153741617670444792635586017401226123327757528355"]) (simp, code_simp)
  have s: "(53072002638256206696760401718638995221936714922431175139555783581918754::int) ^ 216430423432993040 mod 205115282021455665897114700593932402728804164701536103180137503955397371 = 55662370896928620730140841211091232580682710702309324675837391952010337"
    by (rule pow_sq [OF s, where q = "79424161426991794677868074137691512131065993019583322790217195738822829"]) (simp, code_simp)
  have s: "(53072002638256206696760401718638995221936714922431175139555783581918754::int) ^ 432860846865986080 mod 205115282021455665897114700593932402728804164701536103180137503955397371 = 163030077703716821590710691225265271442745998172359589668178347019689022"
    by (rule pow_sq [OF s, where q = "15105161854996035837738573373819513305898384249189124233499319774546457"]) (simp, code_simp)
  show ?thesis
    by (rule pow_sq [OF s, where q = "129579843949899953708401428820318883700343238795022672185996926772409949"]) (simp, code_simp)
qed

lemma q_w_8: "(53072002638256206696760401718638995221936714922431175139555783581918754::int) ^ 110812376797692436685 mod 205115282021455665897114700593932402728804164701536103180137503955397371 = 108920907151072836685447664832552769799616993711101726065725138315332279"
proof -
  note s = q_w_7
  have s: "(53072002638256206696760401718638995221936714922431175139555783581918754::int) ^ 865721693731972161 mod 205115282021455665897114700593932402728804164701536103180137503955397371 = 26762590781961750391889176930232657883418499176007251641245147758928940"
    by (rule pow_mul [OF s, where q = "670971653370781002109166091130461915899417894896906993441515861582330"]) (simp, code_simp)
  have s: "(53072002638256206696760401718638995221936714922431175139555783581918754::int) ^ 1731443387463944322 mod 205115282021455665897114700593932402728804164701536103180137503955397371 = 107375854205208831745900759297556107785447965927654753922044930513370353"
    by (rule pow_sq [OF s, where q = "3491871782073378715845213735743387396884009056198638172813788620746157"]) (simp, code_simp)
  have s: "(53072002638256206696760401718638995221936714922431175139555783581918754::int) ^ 1731443387463944323 mod 205115282021455665897114700593932402728804164701536103180137503955397371 = 130770508750255624909053832832847390903088737083678827134231679636096301"
    by (rule pow_mul [OF s, where q = "27782676948798778875657785573436477808010933882550718653719607989486191"]) (simp, code_simp)
  have s: "(53072002638256206696760401718638995221936714922431175139555783581918754::int) ^ 3462886774927888646 mod 205115282021455665897114700593932402728804164701536103180137503955397371 = 147860542106487841495034156034674787975342694992124047948974071567754095"
    by (rule pow_sq [OF s, where q = "83372266514066345704564999367801571916360399909457921840877950239492686"]) (simp, code_simp)
  have s: "(53072002638256206696760401718638995221936714922431175139555783581918754::int) ^ 6925773549855777292 mod 205115282021455665897114700593932402728804164701536103180137503955397371 = 132516040056623779737772040549955554800595525942415205489471078459790578"
    by (rule pow_sq [OF s, where q = "106587572103660012008420656338579901474180550759426143441683435231627357"]) (simp, code_simp)
  have s: "(53072002638256206696760401718638995221936714922431175139555783581918754::int) ^ 13851547099711554584 mod 205115282021455665897114700593932402728804164701536103180137503955397371 = 129780982582838650388399908682065500890518725988510889481183048200398878"
    by (rule pow_sq [OF s, where q = "85612835373484447308473415195601593040610189296233968707792174582490386"]) (simp, code_simp)
  have s: "(53072002638256206696760401718638995221936714922431175139555783581918754::int) ^ 13851547099711554585 mod 205115282021455665897114700593932402728804164701536103180137503955397371 = 160768762786239061006952380071224082399692204712534678827934897271521277"
    by (rule pow_mul [OF s, where q = "33579831703185421425042827856755833535462665925368330510819059927566285"]) (simp, code_simp)
  have s: "(53072002638256206696760401718638995221936714922431175139555783581918754::int) ^ 27703094199423109170 mod 205115282021455665897114700593932402728804164701536103180137503955397371 = 185074462962827502869052806889048164715361437326546945877754571280388042"
    by (rule pow_sq [OF s, where q = "126010089707086647897895647699446972893615259018763201424563171257158797"]) (simp, code_simp)
  have s: "(53072002638256206696760401718638995221936714922431175139555783581918754::int) ^ 27703094199423109171 mod 205115282021455665897114700593932402728804164701536103180137503955397371 = 81418168127226622782761025854235711763425028575543513230831811658228265"
    by (rule pow_mul [OF s, where q = "47886594747287494001385066187603606368807324697339789225790555481982993"]) (simp, code_simp)
  have s: "(53072002638256206696760401718638995221936714922431175139555783581918754::int) ^ 55406188398846218342 mod 205115282021455665897114700593932402728804164701536103180137503955397371 = 177797605870663559312303413082577526113839924895429929329107477940596797"
    by (rule pow_sq [OF s, where q = "32318011782759007924702799298816676465210041367818802243626990069358268"]) (simp, code_simp)
  have s: "(53072002638256206696760401718638995221936714922431175139555783581918754::int) ^ 110812376797692436684 mod 205115282021455665897114700593932402728804164701536103180137503955397371 = 26215402107115172052779807015071395231249498693489908349213369139678162"
    by (rule pow_sq [OF s, where q = "154118154151152469209553449130626575203020606656744825052161211643107957"]) (simp, code_simp)
  show ?thesis
    by (rule pow_mul [OF s, where q = "6783033794850201480657689202017224606229108240028350126431799883432439"]) (simp, code_simp)
qed

lemma q_w_9: "(53072002638256206696760401718638995221936714922431175139555783581918754::int) ^ 113471873840837055165450 mod 205115282021455665897114700593932402728804164701536103180137503955397371 = 156788789031638103429327834499045966125765083462675978655427770559074597"
proof -
  note s = q_w_8
  have s: "(53072002638256206696760401718638995221936714922431175139555783581918754::int) ^ 221624753595384873370 mod 205115282021455665897114700593932402728804164701536103180137503955397371 = 6856125627899515917864514226560307799557721154701995471551630746445287"
    by (rule pow_sq [OF s, where q = "57839493467735109883253827972554809700312639862167227649236347375126174"]) (simp, code_simp)
  have s: "(53072002638256206696760401718638995221936714922431175139555783581918754::int) ^ 443249507190769746740 mod 205115282021455665897114700593932402728804164701536103180137503955397371 = 84198327582022761106725315988655776379845205600939649811374175048002268"
    by (rule pow_sq [OF s, where q = "229170923601019238695355269221618256686686826187450196496020032339631"]) (simp, code_simp)
  have s: "(53072002638256206696760401718638995221936714922431175139555783581918754::int) ^ 886499014381539493480 mod 205115282021455665897114700593932402728804164701536103180137503955397371 = 25632486931919172708918404558530443019322223419118198294179417555266535"
    by (rule pow_sq [OF s, where q = "34562799503491148857199760509657166640359156457433060817216321391004459"]) (simp, code_simp)
  have s: "(53072002638256206696760401718638995221936714922431175139555783581918754::int) ^ 1772998028763078986960 mod 205115282021455665897114700593932402728804164701536103180137503955397371 = 71379423177162502892903563885608670850878530291144181159074311561281819"
    by (rule pow_sq [OF s, where q = "3203195685079576212351958246263155228214355386636965295880873992215586"]) (simp, code_simp)
  have s: "(53072002638256206696760401718638995221936714922431175139555783581918754::int) ^ 3545996057526157973920 mod 205115282021455665897114700593932402728804164701536103180137503955397371 = 134190492241456227431031697845887548819674135235001565168954548126705524"
    by (rule pow_sq [OF s, where q = "24839797419733401943494951850768444232772775423488533050945988496770847"]) (simp, code_simp)
  have s: "(53072002638256206696760401718638995221936714922431175139555783581918754::int) ^ 7091992115052315947840 mod 205115282021455665897114700593932402728804164701536103180137503955397371 = 199253709577602050573167029937393822529339687014542256233386693022422974"
    by (rule pow_sq [OF s, where q = "87790085802191614465461100470160147588243282630436798832785783763592662"]) (simp, code_simp)
  have s: "(53072002638256206696760401718638995221936714922431175139555783581918754::int) ^ 14183984230104631895680 mod 205115282021455665897114700593932402728804164701536103180137503955397371 = 40014869780136741058944113128351368541764010977457265089504383348720032"
    by (rule pow_sq [OF s, where q = "193559643090281455019682527100958650789460452786097998791897856201289964"]) (simp, code_simp)
  have s: "(53072002638256206696760401718638995221936714922431175139555783581918754::int) ^ 14183984230104631895681 mod 205115282021455665897114700593932402728804164701536103180137503955397371 = 160671365518741123296113961197605460311203729798403293914557313293874569"
    by (rule pow_mul [OF s, where q = "10353539987911547147694359557636839649606409558708696402013716990035829"]) (simp, code_simp)
  have s: "(53072002638256206696760401718638995221936714922431175139555783581918754::int) ^ 28367968460209263791362 mod 205115282021455665897114700593932402728804164701536103180137503955397371 = 58282138035825728842114561500177778950447400337674542992903616878167251"
    by (rule pow_sq [OF s, where q = "125857456564141127493520322749965227160100545487546906578405476298838810"]) (simp, code_simp)
  have s: "(53072002638256206696760401718638995221936714922431175139555783581918754::int) ^ 56735936920418527582724 mod 205115282021455665897114700593932402728804164701536103180137503955397371 = 169093129984385572592767631739244250797259090391428483392988006226291967"
    by (rule pow_sq [OF s, where q = "16560480431056950747884406987417814890961510040478618195529799591057054"]) (simp, code_simp)
  have s: "(53072002638256206696760401718638995221936714922431175139555783581918754::int) ^ 56735936920418527582725 mod 205115282021455665897114700593932402728804164701536103180137503955397371 = 131693729616025505715769977694440141295366226163727152260508322721945848"
    by (rule pow_mul [OF s, where q = "43751547676996549727052312685853529220575056864451290997308186308156370"]) (simp, code_simp)
  show ?thesis
    by (rule pow_sq [OF s, where q = "84553614188360081803702746725361338997968895977684534295519066815685217"]) (simp, code_simp)
qed

lemma q_w_10: "(53072002638256206696760401718638995221936714922431175139555783581918754::int) ^ 14524399851627143061177805 mod 205115282021455665897114700593932402728804164701536103180137503955397371 = 102939444782202109342416655348461888260050781171224757962432211297626425"
proof -
  note s = q_w_9
  have s: "(53072002638256206696760401718638995221936714922431175139555783581918754::int) ^ 113471873840837055165451 mod 205115282021455665897114700593932402728804164701536103180137503955397371 = 99648307655549866277914959865672895060063691174726386145863516344894572"
    by (rule pow_mul [OF s, where q = "40567894030761111441301087319498984978624419576212620430344920534923546"]) (simp, code_simp)
  have s: "(53072002638256206696760401718638995221936714922431175139555783581918754::int) ^ 226943747681674110330902 mod 205115282021455665897114700593932402728804164701536103180137503955397371 = 136210203104713290403274486218464897672611746685330304646910995093177588"
    by (rule pow_sq [OF s, where q = "48410752825215788400599181699256407728255885455558366968835182895347476"]) (simp, code_simp)
  have s: "(53072002638256206696760401718638995221936714922431175139555783581918754::int) ^ 226943747681674110330903 mod 205115282021455665897114700593932402728804164701536103180137503955397371 = 121305259318852017202984909107421002031250874522714517530507617674561379"
    by (rule pow_mul [OF s, where q = "35243343096077005662366753277124246762738507648785144114766516632177663"]) (simp, code_simp)
  have s: "(53072002638256206696760401718638995221936714922431175139555783581918754::int) ^ 453887495363348220661806 mod 205115282021455665897114700593932402728804164701536103180137503955397371 = 153721291476981553938884386557430173881961320014127944688564477340965117"
    by (rule pow_sq [OF s, where q = "71739978578849649772920016973050236504825659012392263903624722431198244"]) (simp, code_simp)
  have s: "(53072002638256206696760401718638995221936714922431175139555783581918754::int) ^ 907774990726696441323612 mod 205115282021455665897114700593932402728804164701536103180137503955397371 = 83172442761571319366237506827904398564053186474169208629174658283655070"
    by (rule pow_sq [OF s, where q = "115204655745149837901372157429020837527794530112585649954043439279780689"]) (simp, code_simp)
  have s: "(53072002638256206696760401718638995221936714922431175139555783581918754::int) ^ 1815549981453392882647224 mod 205115282021455665897114700593932402728804164701536103180137503955397371 = 125373559705045516001152893421009032435012199517451691209300294526276880"
    by (rule pow_sq [OF s, where q = "33725693993893883222281268137532559809652132969028851808706000622798620"]) (simp, code_simp)
  have s: "(53072002638256206696760401718638995221936714922431175139555783581918754::int) ^ 1815549981453392882647225 mod 205115282021455665897114700593932402728804164701536103180137503955397371 = 24661819270255232280653882285276097420889060529017411632251501746063841"
    by (rule pow_mul [OF s, where q = "32439444910485693507854482298574233649057513020275510676425265996497549"]) (simp, code_simp)
  have s: "(53072002638256206696760401718638995221936714922431175139555783581918754::int) ^ 3631099962906785765294450 mod 205115282021455665897114700593932402728804164701536103180137503955397371 = 110993599412174368842679484223769980933856581507871293473678536317223378"
    by (rule pow_sq [OF s, where q = "2965187789640716478248762707881289686088915247673015832570410174926493"]) (simp, code_simp)
  have s: "(53072002638256206696760401718638995221936714922431175139555783581918754::int) ^ 3631099962906785765294451 mod 205115282021455665897114700593932402728804164701536103180137503955397371 = 29456142406899972339276750331975993531843734394637301034137948038633938"
    by (rule pow_mul [OF s, where q = "28718740713899079202973901722781385156029353376938845194436911844070294"]) (simp, code_simp)
  have s: "(53072002638256206696760401718638995221936714922431175139555783581918754::int) ^ 7262199925813571530588902 mod 205115282021455665897114700593932402728804164701536103180137503955397371 = 130533888654181353756213659018255387098064265166566213911058752260684680"
    by (rule pow_sq [OF s, where q = "4230130085601377267410077228925425950558417620603427315735997677044084"]) (simp, code_simp)
  have s: "(53072002638256206696760401718638995221936714922431175139555783581918754::int) ^ 14524399851627143061177804 mod 205115282021455665897114700593932402728804164701536103180137503955397371 = 65718260996566744178022700430425425517272297535596814240964249378558447"
    by (rule pow_sq [OF s, where q = "83070826899186749264304890147689762583659927449182245919811808668267043"]) (simp, code_simp)
  show ?thesis
    by (rule pow_mul [OF s, where q = "17004094900284251055767406982268367534148691740304037623872770880741503"]) (simp, code_simp)
qed

lemma q_w_11: "(53072002638256206696760401718638995221936714922431175139555783581918754::int) ^ 7436492724033097247323036440 mod 205115282021455665897114700593932402728804164701536103180137503955397371 = 85325778302755530193373977460456152779629825433298294193828913410989051"
proof -
  note s = q_w_10
  have s: "(53072002638256206696760401718638995221936714922431175139555783581918754::int) ^ 29048799703254286122355610 mod 205115282021455665897114700593932402728804164701536103180137503955397371 = 31635664904517479716248037369759112727573660638736415868658259508831108"
    by (rule pow_sq [OF s, where q = "51661334970446564442655533848370103137266066914179362208599673683585527"]) (simp, code_simp)
  have s: "(53072002638256206696760401718638995221936714922431175139555783581918754::int) ^ 29048799703254286122355611 mod 205115282021455665897114700593932402728804164701536103180137503955397371 = 136838245285178900635398245428141325067849703212132256859682425058685268"
    by (rule pow_mul [OF s, where q = "8185485131721759944882169851770212160521951996124081686531309331285084"]) (simp, code_simp)
  have s: "(53072002638256206696760401718638995221936714922431175139555783581918754::int) ^ 58097599406508572244711222 mod 205115282021455665897114700593932402728804164701536103180137503955397371 = 128618749161036619001350989102733455563820517710303484094627478568380308"
    by (rule pow_sq [OF s, where q = "91288689892780031859141372730647368343170495622530785844216273973170996"]) (simp, code_simp)
  have s: "(53072002638256206696760401718638995221936714922431175139555783581918754::int) ^ 116195198813017144489422444 mod 205115282021455665897114700593932402728804164701536103180137503955397371 = 186043864454053999669437263190511592784521831743794910323821477479610953"
    by (rule pow_sq [OF s, where q = "80651146383228695427977590515958500892442912753691298427361813554472741"]) (simp, code_simp)
  have s: "(53072002638256206696760401718638995221936714922431175139555783581918754::int) ^ 232390397626034288978844888 mod 205115282021455665897114700593932402728804164701536103180137503955397371 = 20004574337546578373106343565551459256207945270124451430811686513008906"
    by (rule pow_sq [OF s, where q = "168745688570283447807346350846070161303148853345795307550395875881417893"]) (simp, code_simp)
  have s: "(53072002638256206696760401718638995221936714922431175139555783581918754::int) ^ 464780795252068577957689776 mod 205115282021455665897114700593932402728804164701536103180137503955397371 = 72930234349235814102336265127230029162062754312873561716769822900992684"
    by (rule pow_sq [OF s, where q = "1951015012058276568110248849839320082043338282342604366535165827276712"]) (simp, code_simp)
  have s: "(53072002638256206696760401718638995221936714922431175139555783581918754::int) ^ 464780795252068577957689777 mod 205115282021455665897114700593932402728804164701536103180137503955397371 = 53449403971281975140365178337185196697453133969986460285383511447326999"
    by (rule pow_mul [OF s, where q = "18870137571643321956820736181166400255848012878870192057760162698111347"]) (simp, code_simp)
  have s: "(53072002638256206696760401718638995221936714922431175139555783581918754::int) ^ 929561590504137155915379554 mod 205115282021455665897114700593932402728804164701536103180137503955397371 = 26295842964836833704066424361464362912663229946870867940934936768144466"
    by (rule pow_sq [OF s, where q = "13927966540233016760311223610433126663658682823559100936699178792675085"]) (simp, code_simp)
  have s: "(53072002638256206696760401718638995221936714922431175139555783581918754::int) ^ 929561590504137155915379555 mod 205115282021455665897114700593932402728804164701536103180137503955397371 = 189689303596656370406805501316594187722259318236306603085163467521451131"
    by (rule pow_mul [OF s, where q = "6803847248490291802186249753388117248631973612260737140747782284415723"]) (simp, code_simp)
  have s: "(53072002638256206696760401718638995221936714922431175139555783581918754::int) ^ 1859123181008274311830759110 mod 205115282021455665897114700593932402728804164701536103180137503955397371 = 198057613238482324859483959319960495570990897113271737860249229660183081"
    by (rule pow_sq [OF s, where q = "175423457210860789658370372385146839260125302034669453948320198014998480"]) (simp, code_simp)
  have s: "(53072002638256206696760401718638995221936714922431175139555783581918754::int) ^ 3718246362016548623661518220 mod 205115282021455665897114700593932402728804164701536103180137503955397371 = 75347035714677141303436871083465023291536511859604432774611785933710859"
    by (rule pow_sq [OF s, where q = "191242786861785401857352304444014219688610967124621505531554383348995762"]) (simp, code_simp)
  show ?thesis
    by (rule pow_sq [OF s, where q = "27677975697563983898908275189942724897271682242825263888294036438888730"]) (simp, code_simp)
qed

lemma q_w_12: "(53072002638256206696760401718638995221936714922431175139555783581918754::int) ^ 951871068676236447657348664523 mod 205115282021455665897114700593932402728804164701536103180137503955397371 = 123606965843536144497407166383058543493073262577589883650154788611399382"
proof -
  note s = q_w_11
  have s: "(53072002638256206696760401718638995221936714922431175139555783581918754::int) ^ 7436492724033097247323036441 mod 205115282021455665897114700593932402728804164701536103180137503955397371 = 161401527112146669768671228132690616583317889723339338738780720603774579"
    by (rule pow_mul [OF s, where q = "22077389293311751429332591451952308692761595809034823878888882662861625"]) (simp, code_simp)
  have s: "(53072002638256206696760401718638995221936714922431175139555783581918754::int) ^ 14872985448066194494646072882 mod 205115282021455665897114700593932402728804164701536103180137503955397371 = 73789533971584017914160160637894769966816825585943645015646619396371975"
    by (rule pow_sq [OF s, where q = "127003959419308708499457491877775151873884360111734766427843521500562246"]) (simp, code_simp)
  have s: "(53072002638256206696760401718638995221936714922431175139555783581918754::int) ^ 14872985448066194494646072883 mod 205115282021455665897114700593932402728804164701536103180137503955397371 = 5774160383950658740070965028752203652084093277754101213056303312106713"
    by (rule pow_mul [OF s, where q = "19092474744061055525232009675336051928131811920853450249662406602816047"]) (simp, code_simp)
  have s: "(53072002638256206696760401718638995221936714922431175139555783581918754::int) ^ 29745970896132388989292145766 mod 205115282021455665897114700593932402728804164701536103180137503955397371 = 23716030910072953840872176355137397774206564740115854858295293035044228"
    by (rule pow_sq [OF s, where q = "162547265181819358271968504120153432651241169873499491692605033810871"]) (simp, code_simp)
  have s: "(53072002638256206696760401718638995221936714922431175139555783581918754::int) ^ 59491941792264777978584291532 mod 205115282021455665897114700593932402728804164701536103180137503955397371 = 158256593855669927372725988731094667291234006395564292274358512231047083"
    by (rule pow_sq [OF s, where q = "2742117099147697005141637866838739091649495532016540426994215125862431"]) (simp, code_simp)
  have s: "(53072002638256206696760401718638995221936714922431175139555783581918754::int) ^ 118983883584529555957168583064 mod 205115282021455665897114700593932402728804164701536103180137503955397371 = 9485013662936006525067582733907876684197372555295675530106677516961028"
    by (rule pow_sq [OF s, where q = "122102796300563640142487240367517877813830953465827933745428049188450191"]) (simp, code_simp)
  have s: "(53072002638256206696760401718638995221936714922431175139555783581918754::int) ^ 118983883584529555957168583065 mod 205115282021455665897114700593932402728804164701536103180137503955397371 = 9278100947434813130562918859247616870266451941432272002841838203795626"
    by (rule pow_mul [OF s, where q = "2454174380291079236046859558747390112840592346810124393478399949707066"]) (simp, code_simp)
  have s: "(53072002638256206696760401718638995221936714922431175139555783581918754::int) ^ 237967767169059111914337166130 mod 205115282021455665897114700593932402728804164701536103180137503955397371 = 196982523739997153293644780660809533775789119978357490925480996469814182"
    by (rule pow_sq [OF s, where q = "419681831321501553892768368144525091736646368154868367360239991239514"]) (simp, code_simp)
  have s: "(53072002638256206696760401718638995221936714922431175139555783581918754::int) ^ 475935534338118223828674332260 mod 205115282021455665897114700593932402728804164701536103180137503955397371 = 24662850891650126228842989995545514205794043339348700317720255706270443"
    by (rule pow_sq [OF s, where q = "189172226840317660917612928200166059490854955470673736809381270054715611"]) (simp, code_simp)
  have s: "(53072002638256206696760401718638995221936714922431175139555783581918754::int) ^ 475935534338118223828674332261 mod 205115282021455665897114700593932402728804164701536103180137503955397371 = 116084884328282650296558919834267112415525848335028003989539914398864298"
    by (rule pow_mul [OF s, where q = "6381323101277550848245823035988315816800396475654800461896227112521444"]) (simp, code_simp)
  have s: "(53072002638256206696760401718638995221936714922431175139555783581918754::int) ^ 951871068676236447657348664522 mod 205115282021455665897114700593932402728804164701536103180137503955397371 = 162191046802333133482248642771558896127385373473849934582718024457144054"
    by (rule pow_sq [OF s, where q = "65698178296150379970105977808158390410405419021356088579048634857926250"]) (simp, code_simp)
  show ?thesis
    by (rule pow_mul [OF s, where q = "41965686705364830905074872016206895945371981172874796811552477063720354"]) (simp, code_simp)
qed

lemma q_w_13: "(53072002638256206696760401718638995221936714922431175139555783581918754::int) ^ 121839496790558265300140629059068 mod 205115282021455665897114700593932402728804164701536103180137503955397371 = 134526838100976324080487220720941037367332944387747576571887690350761201"
proof -
  note s = q_w_12
  have s: "(53072002638256206696760401718638995221936714922431175139555783581918754::int) ^ 1903742137352472895314697329046 mod 205115282021455665897114700593932402728804164701536103180137503955397371 = 106584491659510327743532414377527896840717505777852393188286504842470155"
    by (rule pow_sq [OF s, where q = "74488267546281196678837544127927688647787098071103183715088508551393339"]) (simp, code_simp)
  have s: "(53072002638256206696760401718638995221936714922431175139555783581918754::int) ^ 1903742137352472895314697329047 mod 205115282021455665897114700593932402728804164701536103180137503955397371 = 198225379734599464196729281645975598753415224305099252361314404603693399"
    by (rule pow_mul [OF s, where q = "27577917972777017063823787585935721893467435860435993267819486773229101"]) (simp, code_simp)
  have s: "(53072002638256206696760401718638995221936714922431175139555783581918754::int) ^ 3807484274704945790629394658094 mod 205115282021455665897114700593932402728804164701536103180137503955397371 = 175556652254835775392409813341664878166608293872383611125759115700421671"
    by (rule pow_sq [OF s, where q = "191566911951572483453712772801220125248706976127198393324691647794342430"]) (simp, code_simp)
  have s: "(53072002638256206696760401718638995221936714922431175139555783581918754::int) ^ 3807484274704945790629394658095 mod 205115282021455665897114700593932402728804164701536103180137503955397371 = 40644461136430600918251917116400382206157051394257659696329238573103733"
    by (rule pow_mul [OF s, where q = "45423934383677326148632034304606294618639798482098191280151729428416731"]) (simp, code_simp)
  have s: "(53072002638256206696760401718638995221936714922431175139555783581918754::int) ^ 7614968549409891581258789316190 mod 205115282021455665897114700593932402728804164701536103180137503955397371 = 130326348403172066029530158690298344914325814511320025470049431867109109"
    by (rule pow_sq [OF s, where q = "8053871972825585510703856400475571356053319027010870577735544760981580"]) (simp, code_simp)
  have s: "(53072002638256206696760401718638995221936714922431175139555783581918754::int) ^ 7614968549409891581258789316191 mod 205115282021455665897114700593932402728804164701536103180137503955397371 = 167538420292897545530063262927518046183834339835434601851140275050192808"
    by (rule pow_mul [OF s, where q = "33720940917332235718320255533701296731017092748488375655783026853075718"]) (simp, code_simp)
  have s: "(53072002638256206696760401718638995221936714922431175139555783581918754::int) ^ 15229937098819783162517578632382 mod 205115282021455665897114700593932402728804164701536103180137503955397371 = 202920601020754158045641120056406293628551478619111348462342186441312222"
    by (rule pow_sq [OF s, where q = "136845592379135703677989307675844099434335248394073284405311308496704902"]) (simp, code_simp)
  have s: "(53072002638256206696760401718638995221936714922431175139555783581918754::int) ^ 15229937098819783162517578632383 mod 205115282021455665897114700593932402728804164701536103180137503955397371 = 171774287009760914139922562017206387873902010233538601892391447566809580"
    by (rule pow_mul [OF s, where q = "52504145798378340113032109550403010643215775791784097207442684677168048"]) (simp, code_simp)
  have s: "(53072002638256206696760401718638995221936714922431175139555783581918754::int) ^ 30459874197639566325035157264766 mod 205115282021455665897114700593932402728804164701536103180137503955397371 = 55867963167058062551351830376361778814441539612555230403816486046515382"
    by (rule pow_sq [OF s, where q = "143852790425558148924582186922145118358718014014534349868607816759368558"]) (simp, code_simp)
  have s: "(53072002638256206696760401718638995221936714922431175139555783581918754::int) ^ 30459874197639566325035157264767 mod 205115282021455665897114700593932402728804164701536103180137503955397371 = 128729268253580342469326396362645614197434363529392556869235947357438208"
    by (rule pow_mul [OF s, where q = "14455406049589009726321438298027335575854870632607436062360568749140420"]) (simp, code_simp)
  have s: "(53072002638256206696760401718638995221936714922431175139555783581918754::int) ^ 60919748395279132650070314529534 mod 205115282021455665897114700593932402728804164701536103180137503955397371 = 30218559586751886595263957444227332520688815996291554950095430812189078"
    by (rule pow_sq [OF s, where q = "80789809232102211867659725015776748710255450768846334376574706655956766"]) (simp, code_simp)
  show ?thesis
    by (rule pow_sq [OF s, where q = "4451942022547861502241702609107282974013663102372353145095024040544873"]) (simp, code_simp)
qed

lemma q_w_14: "(53072002638256206696760401718638995221936714922431175139555783581918754::int) ^ 31190911178382915916836001039121603 mod 205115282021455665897114700593932402728804164701536103180137503955397371 = 107047727372628087789229012904048849079421449403658127484076181195930905"
proof -
  note s = q_w_13
  have s: "(53072002638256206696760401718638995221936714922431175139555783581918754::int) ^ 243678993581116530600281258118136 mod 205115282021455665897114700593932402728804164701536103180137503955397371 = 158164294981848263687896911341902484337820354147303832421270431852383316"
    by (rule pow_sq [OF s, where q = "88230725624594106167854117890616686866714164758439086310763747324954135"]) (simp, code_simp)
  have s: "(53072002638256206696760401718638995221936714922431175139555783581918754::int) ^ 243678993581116530600281258118137 mod 205115282021455665897114700593932402728804164701536103180137503955397371 = 15498516314325289036163791523406288730529052343222827490155342551603434"
    by (rule pow_mul [OF s, where q = "40923795622778300243852066449911282274703986379231401524351836884144730"]) (simp, code_simp)
  have s: "(53072002638256206696760401718638995221936714922431175139555783581918754::int) ^ 487357987162233061200562516236274 mod 205115282021455665897114700593932402728804164701536103180137503955397371 = 54661416244613089516778672205959927062187542611150990411841769392390284"
    by (rule pow_sq [OF s, where q = "1171068316208058505013530660803025049650004099851762084278946554372232"]) (simp, code_simp)
  have s: "(53072002638256206696760401718638995221936714922431175139555783581918754::int) ^ 487357987162233061200562516236275 mod 205115282021455665897114700593932402728804164701536103180137503955397371 = 54693452953854903173229033253384922986364938435438053790237024565171834"
    by (rule pow_mul [OF s, where q = "14143221307330354497628565968596020644527472158703110981467572765946362"]) (simp, code_simp)
  have s: "(53072002638256206696760401718638995221936714922431175139555783581918754::int) ^ 974715974324466122401125032472550 mod 205115282021455665897114700593932402728804164701536103180137503955397371 = 81554323135280390124632163037555851918658421084065292819896464739105533"
    by (rule pow_sq [OF s, where q = "14583866041256901940192789019202032808905085102447944083433011970518213"]) (simp, code_simp)
  have s: "(53072002638256206696760401718638995221936714922431175139555783581918754::int) ^ 1949431948648932244802250064945100 mod 205115282021455665897114700593932402728804164701536103180137503955397371 = 107368749290108548541425908568342426134533936566205608460822238617240598"
    by (rule pow_sq [OF s, where q = "32426192512355099553336518091318820369440392568877294500142178105039721"]) (simp, code_simp)
  have s: "(53072002638256206696760401718638995221936714922431175139555783581918754::int) ^ 3898863897297864489604500129890200 mod 205115282021455665897114700593932402728804164701536103180137503955397371 = 173286600914895159641659755230249464285985572218902030908008923237823588"
    by (rule pow_sq [OF s, where q = "56202776363178619495653684207174502834810968275859541951500920805818496"]) (simp, code_simp)
  have s: "(53072002638256206696760401718638995221936714922431175139555783581918754::int) ^ 7797727794595728979209000259780400 mod 205115282021455665897114700593932402728804164701536103180137503955397371 = 77301092642345303177647016372656566486305220737100786225110965737786263"
    by (rule pow_sq [OF s, where q = "146396922553518467336236603112535603114765493830322992000819326327728411"]) (simp, code_simp)
  have s: "(53072002638256206696760401718638995221936714922431175139555783581918754::int) ^ 15595455589191457958418000519560800 mod 205115282021455665897114700593932402728804164701536103180137503955397371 = 177151864923237890635233785688096027835123505236193748111695747142091320"
    by (rule pow_sq [OF s, where q = "29132197585723527259006677661552624600290119143647249382324354603477819"]) (simp, code_simp)
  have s: "(53072002638256206696760401718638995221936714922431175139555783581918754::int) ^ 15595455589191457958418000519560801 mod 205115282021455665897114700593932402728804164701536103180137503955397371 = 194500437154228963693910941388173952389851385902106074154945912479860118"
    by (rule pow_mul [OF s, where q = "45836683400287219596652114071149567202396139888024447335025381484903022"]) (simp, code_simp)
  have s: "(53072002638256206696760401718638995221936714922431175139555783581918754::int) ^ 31190911178382915916836001039121602 mod 205115282021455665897114700593932402728804164701536103180137503955397371 = 93956366247077308640515914707547110548266006539379307954264530595857343"
    by (rule pow_sq [OF s, where q = "184434917185882798990715271744467338569898429278916529428204366424860511"]) (simp, code_simp)
  show ?thesis
    by (rule pow_mul [OF s, where q = "24310487586313805885742202290255005014424291736176345892640192106721727"]) (simp, code_simp)
qed

lemma q_w_15: "(53072002638256206696760401718638995221936714922431175139555783581918754::int) ^ 15969746523332052949420032532030260998 mod 205115282021455665897114700593932402728804164701536103180137503955397371 = 97979576751257928271130484409765485196749677815785351845173022182726846"
proof -
  note s = q_w_14
  have s: "(53072002638256206696760401718638995221936714922431175139555783581918754::int) ^ 62381822356765831833672002078243206 mod 205115282021455665897114700593932402728804164701536103180137503955397371 = 71150858183799817817705003772710596154949480676859176196565095333686376"
    by (rule pow_sq [OF s, where q = "55867197327821926241286142708092849796967559850594431600996671783260619"]) (simp, code_simp)
  have s: "(53072002638256206696760401718638995221936714922431175139555783581918754::int) ^ 62381822356765831833672002078243207 mod 205115282021455665897114700593932402728804164701536103180137503955397371 = 140624456076070821595683241400539442088691510964631238548187301253283006"
    by (rule pow_mul [OF s, where q = "18409737665718266500605835433625905439805515836683314569440095918284438"]) (simp, code_simp)
  have s: "(53072002638256206696760401718638995221936714922431175139555783581918754::int) ^ 124763644713531663667344004156486414 mod 205115282021455665897114700593932402728804164701536103180137503955397371 = 108399614598328115124909603053231930742012189339588005549620312054334543"
    by (rule pow_sq [OF s, where q = "96410357394151759971002274759179740086604338499355993502483920815520783"]) (simp, code_simp)
  have s: "(53072002638256206696760401718638995221936714922431175139555783581918754::int) ^ 249527289427063327334688008312972828 mod 205115282021455665897114700593932402728804164701536103180137503955397371 = 181023768366610066212114523138880781957323012847993083657114283101655423"
    by (rule pow_sq [OF s, where q = "57287181770478394562124311221718413781496954688901986473054552267155206"]) (simp, code_simp)
  have s: "(53072002638256206696760401718638995221936714922431175139555783581918754::int) ^ 499054578854126654669376016625945656 mod 205115282021455665897114700593932402728804164701536103180137503955397371 = 92899627838499122882684129915146051386411910853316159540478624341008690"
    by (rule pow_sq [OF s, where q = "159761888001208498873573299296090368504557720404855822105851370955790909"]) (simp, code_simp)
  have s: "(53072002638256206696760401718638995221936714922431175139555783581918754::int) ^ 998109157708253309338752033251891312 mod 205115282021455665897114700593932402728804164701536103180137503955397371 = 14694516357880516878728527554079635471300172025863376048458594218186228"
    by (rule pow_sq [OF s, where q = "42075562422642316843873253582186837264902486041898181830205393974034032"]) (simp, code_simp)
  have s: "(53072002638256206696760401718638995221936714922431175139555783581918754::int) ^ 1996218315416506618677504066503782624 mod 205115282021455665897114700593932402728804164701536103180137503955397371 = 124195540370978449764200411367802830545684096309891703306256795839814292"
    by (rule pow_sq [OF s, where q = "1052719275053485764921975887111709791428604596936214757851772605702452"]) (simp, code_simp)
  have s: "(53072002638256206696760401718638995221936714922431175139555783581918754::int) ^ 3992436630833013237355008133007565248 mod 205115282021455665897114700593932402728804164701536103180137503955397371 = 145631399106717692559232241615432564430406669164077357767107679549446787"
    by (rule pow_sq [OF s, where q = "75199332278059545959312464957594200229760729543393577960859758596539287"]) (simp, code_simp)
  have s: "(53072002638256206696760401718638995221936714922431175139555783581918754::int) ^ 3992436630833013237355008133007565249 mod 205115282021455665897114700593932402728804164701536103180137503955397371 = 191190339445135844928621956243491598545267368343243522850736443802684183"
    by (rule pow_mul [OF s, where q = "37681005147125960637249741250261576081247013672023659564603020364383165"]) (simp, code_simp)
  have s: "(53072002638256206696760401718638995221936714922431175139555783581918754::int) ^ 7984873261666026474710016266015130498 mod 205115282021455665897114700593932402728804164701536103180137503955397371 = 199808832577492149575403344206203189561070593699584285414732613828137721"
    by (rule pow_sq [OF s, where q = "178210738551029256408239261206614341286635592314309407846035101570084808"]) (simp, code_simp)
  have s: "(53072002638256206696760401718638995221936714922431175139555783581918754::int) ^ 7984873261666026474710016266015130499 mod 205115282021455665897114700593932402728804164701536103180137503955397371 = 53308489513912642507665144439994897104783858671659324617301892687424901"
    by (rule pow_mul [OF s, where q = "51698999631779360054478117296070799386090584030194535233207954510611223"]) (simp, code_simp)
  show ?thesis
    by (rule pow_sq [OF s, where q = "13854623732802483172982486274789874961654812378840155540396750466179105"]) (simp, code_simp)
qed

lemma q_w_16: "(53072002638256206696760401718638995221936714922431175139555783581918754::int) ^ 255515944373312847190720520512484175977 mod 205115282021455665897114700593932402728804164701536103180137503955397371 = 1"
proof -
  note s = q_w_15
  have s: "(53072002638256206696760401718638995221936714922431175139555783581918754::int) ^ 31939493046664105898840065064060521996 mod 205115282021455665897114700593932402728804164701536103180137503955397371 = 181526019503763903570263114568535593145555007548543080780526129492144192"
    by (rule pow_sq [OF s, where q = "46802936211020371262870633386836892416089808257557969215269068222655244"]) (simp, code_simp)
  have s: "(53072002638256206696760401718638995221936714922431175139555783581918754::int) ^ 31939493046664105898840065064060521997 mod 205115282021455665897114700593932402728804164701536103180137503955397371 = 74596901023147320417458545322223417641516776817030287967933255799632745"
    by (rule pow_mul [OF s, where q = "46968462276780361439531699811742170957450467269329482897174325184824213"]) (simp, code_simp)
  have s: "(53072002638256206696760401718638995221936714922431175139555783581918754::int) ^ 63878986093328211797680130128121043994 mod 205115282021455665897114700593932402728804164701536103180137503955397371 = 163711522654099186577461473056576669098867526174980833995207247705882896"
    by (rule pow_sq [OF s, where q = "27129610175389827306414636173725409537296261842209172603014847834984499"]) (simp, code_simp)
  have s: "(53072002638256206696760401718638995221936714922431175139555783581918754::int) ^ 127757972186656423595360260256242087988 mod 205115282021455665897114700593932402728804164701536103180137503955397371 = 57228964868449631481592489402886308039603047068394660967591678710889804"
    by (rule pow_sq [OF s, where q = "130665362354230236321271910263673504391725256660341319903789259723185372"]) (simp, code_simp)
  have s: "(53072002638256206696760401718638995221936714922431175139555783581918754::int) ^ 255515944373312847190720520512484175976 mod 205115282021455665897114700593932402728804164701536103180137503955397371 = 85577097095797457395016794171765585787531112996296967861212516030084870"
    by (rule pow_sq [OF s, where q = "15967383744579554511577980441230891143974186971253352003847669958348926"]) (simp, code_simp)
  show ?thesis
    by (rule pow_mul [OF s, where q = "22142416099290885312806694627091670971572972420609257867582938826804849"]) (simp, code_simp)
qed

lemma q_fermat: "(2::int) ^ 205115282021455665897114700593932402728804164701536103180137503955397370 mod 205115282021455665897114700593932402728804164701536103180137503955397371 = 1"
  by (rule pow_compose_num [OF q_base_10 q_w_16]) simp

lemma q_coprime: "coprime ((2::int) ^ 802749442992798076634733441528810 - 1) 205115282021455665897114700593932402728804164701536103180137503955397371"
proof (rule coprime_pow_cert [OF q_base_10])
  show "((53072002638256206696760401718638995221936714922431175139555783581918754::int) - 1) * 81475874003799270243122483189086420723726815346591292526890606927317739 = 21081256147611433302736580915228063873871010806801427666805511047392446 * 205115282021455665897114700593932402728804164701536103180137503955397371 + 1"
    by code_simp
  show "(205115282021455665897114700593932402728804164701536103180137503955397371::int) \<noteq> 0"
    by simp
qed

lemma prime_Q: "prime_nat 205115282021455665897114700593932402728804164701536103180137503955397371"
proof -
  have "prime_nat (nat 205115282021455665897114700593932402728804164701536103180137503955397371)"
  proof (rule pocklington_single [OF prime_b _ _ q_fermat q_coprime])
  qed simp_all
  then show ?thesis
    by simp
qed

subsection \<open>The field prime\<close>

lemma p_base_1: "((- 7)::int) ^ 3804 mod P = 27325467694442571435337397846367478197722554985316591921211727054412187074085"
proof -
  have s: "((- 7)::int) ^ 0 mod P = 1"
    by (simp add: P_def)
  have s: "((- 7)::int) ^ 1 mod P = 115792089237316195423570985008687907853269984665640564039457584007908834671656"
    by (rule pow_sq_mul_P [OF s, where q = "(- 1)"]) (simp, code_simp)
  have s: "((- 7)::int) ^ 3 mod P = 115792089237316195423570985008687907853269984665640564039457584007908834671320"
    by (rule pow_sq_mul_P [OF s, where q = "(- 810544624661213367964996895060815354972889892659483948276203088055361842701544)"]) (simp, code_simp)
  have s: "((- 7)::int) ^ 7 mod P = 115792089237316195423570985008687907853269984665640564039457584007908833848120"
    by (rule pow_sq_mul_P [OF s, where q = "(- 810544624661213367964996895060815354972889892659483948276203088055361842696840)"]) (simp, code_simp)
  have s: "((- 7)::int) ^ 14 mod P = 678223072849"
    by (rule pow_sq_P [OF s, where q = "115792089237316195423570985008687907853269984665640564039457584007908833024577"]) (simp, code_simp)
  have s: "((- 7)::int) ^ 29 mod P = 115792089237316195423570985008687907853269984665640560819551828194729107834056"
    by (rule pow_sq_mul_P [OF s, where q = "(- 1)"]) (simp, code_simp)
  have s: "((- 7)::int) ^ 59 mod P = 115792089237316195423570984936113356319038075333899392946283798040418188266520"
    by (rule pow_sq_mul_P [OF s, where q = "(- 810544624661213367964996895060815354972889892659483903197522506670845666975144)"]) (simp, code_simp)
  have s: "((- 7)::int) ^ 118 mod P = 6115044201631927786296593876503074761222834189948327844634086899175984795105"
    by (rule pow_sq_P [OF s, where q = "115792089237316195423570984863538804784806166002158221898597277784145674784465"]) (simp, code_simp)
  have s: "((- 7)::int) ^ 237 mod P = 55650337125679228571032064474913873252722428607452941992361914793943565319135"
    by (rule pow_sq_mul_P [OF s, where q = "(- 2260572037688304182639888385501985251921207327873845163092934493649443037370)"]) (simp, code_simp)
  have s: "((- 7)::int) ^ 475 mod P = 22834538836065975300587473810024627140371238386878303144547372277152406758670"
    by (rule pow_sq_mul_P [OF s, where q = "(- 187221081320863537773327781426232815645439867788016508473452317334130061485115)"]) (simp, code_simp)
  have s: "((- 7)::int) ^ 951 mod P = 96794313690701225837406631582365122074154275383740612661456160630093155662104"
    by (rule pow_sq_mul_P [OF s, where q = "(- 31521265148866345628276968506208213120845247397690006683993555492332835189708)"]) (simp, code_simp)
  have s: "((- 7)::int) ^ 1902 mod P = 77936915889269458100699555026807456364810276784288087524381216347847277258900"
    by (rule pow_sq_P [OF s, where q = "80913465026542487585746892805186871230468315609931313032395144148367108966932"]) (simp, code_simp)
  show ?thesis
    by (rule pow_sq_P [OF s, where q = "52457494275641310556473205216459315872097277299763300422237567768253156515205"]) (simp, code_simp)
qed

lemma p_base_2: "((- 7)::int) ^ 15581488 mod P = 89204708556516959135832503646176750866202641426294803864170218655633370586946"
proof -
  note s = p_base_1
  have s: "((- 7)::int) ^ 7608 mod P = 15597166852760965699820305303127425210616957493687392625093660208757088511267"
    by (rule pow_sq_P [OF s, where q = "6448464568159743131622951703151907308442001453834162214450799739651236887466"]) (simp, code_simp)
  have s: "((- 7)::int) ^ 15216 mod P = 76570100471594864715375922045643011028913444734731671334803749337959922946553"
    by (rule pow_sq_P [OF s, where q = "2100934661730470957533973827427721915912484725953712232393762540404199553072"]) (simp, code_simp)
  have s: "((- 7)::int) ^ 30432 mod P = 91116609420746257852158976387189704518964701012446241199736755981343860696040"
    by (rule pow_sq_P [OF s, where q = "50633685987079293518591679038451273008333885690944207568742804208510455117063"]) (simp, code_simp)
  have s: "((- 7)::int) ^ 60865 mod P = 78857161397908490248472423459765315450527477669215832131053569562087517740952"
    by (rule pow_sq_mul_P [OF s, where q = "(- 501896597333360044769550669249898107250930905679740585139100380289799848638504)"]) (simp, code_simp)
  have s: "((- 7)::int) ^ 121730 mod P = 99771081942669597786056076133392503818177369518177548905055139236831115823361"
    by (rule pow_sq_P [OF s, where q = "53703598792410206624253363796107677481638686314082771321961065605793651480561"]) (simp, code_simp)
  have s: "((- 7)::int) ^ 243460 mod P = 60113123305962414348275627114294858591189882636198662609629586824570854491570"
    by (rule pow_sq_P [OF s, where q = "85966743130522423425965011475053022976480518307554371489240867631017116010977"]) (simp, code_simp)
  have s: "((- 7)::int) ^ 486921 mod P = 88137701220361826395544896529669448490122492365025638539643500653287550778499"
    by (rule pow_sq_mul_P [OF s, where q = "(- 218452860828363579341218322269316407333961328495211460004619960403275853217873)"]) (simp, code_simp)
  have s: "((- 7)::int) ^ 973843 mod P = 98111928133285595651512107584936381421896829505325952631109447365911101944480"
    by (rule pow_sq_mul_P [OF s, where q = "(- 469615679214674050579871182486715622596612722834003652952595819094193839668049)"]) (simp, code_simp)
  have s: "((- 7)::int) ^ 1947686 mod P = 1844497643730786655359009333957234123229208197494548207397008651233665598442"
    by (rule pow_sq_P [OF s, where q = "83131330520365570623473605405122876348281978331870199022691315086100049579466"]) (simp, code_simp)
  have s: "((- 7)::int) ^ 3895372 mod P = 100521313980823568663401205936988200969997366655771720891003024310317470549618"
    by (rule pow_sq_P [OF s, where q = "29381727025890899191453394259013268483809686719988339881821246487704663342"]) (simp, code_simp)
  have s: "((- 7)::int) ^ 7790744 mod P = 76838963740850456083345573931553657199206266832706943849756919124412900525323"
    by (rule pow_sq_P [OF s, where q = "87264463669206670372289430452860283988747319560922483920126287967408542603927"]) (simp, code_simp)
  show ?thesis
    by (rule pow_sq_P [OF s, where q = "50989893935387964907553761653155711545384481674689654283540296455069746328441"]) (simp, code_simp)
qed

lemma p_base_3: "((- 7)::int) ^ 63821776687 mod P = 26137298329778215496523917269586241984959417132425213153043774106306409452687"
proof -
  note s = p_base_2
  have s: "((- 7)::int) ^ 31162976 mod P = 111998720055968284012247506298881705386563424712041867435489993729521351666763"
    by (rule pow_sq_P [OF s, where q = "68722138801246201383831616169942762420725511695839455732354424611048561422231"]) (simp, code_simp)
  have s: "((- 7)::int) ^ 62325953 mod P = 110944264934047149641097627016332718117874984538851244667875236201388672351407"
    by (rule pow_sq_mul_P [OF s, where q = "(- 758307356206929211413973757855297355033158774452907609128841447066388118184930)"]) (simp, code_simp)
  have s: "((- 7)::int) ^ 124651907 mod P = 62931375935356235927585047576564526142053174702362752509500989595928957006674"
    by (rule pow_sq_mul_P [OF s, where q = "(- 744095818805948989940979932056275850562956301230426581621987877824906449444759)"]) (simp, code_simp)
  have s: "((- 7)::int) ^ 249303815 mod P = 108227613006836731223597198229403038322606659911820632430144045564236962755770"
    by (rule pow_sq_mul_P [OF s, where q = "(- 239416239247593043146871502207259389482709366575516605524026179196506314241354)"]) (simp, code_simp)
  have s: "((- 7)::int) ^ 498607630 mod P = 40211578330165937607664287044815668267768950935781147316386070243443501790560"
    by (rule pow_sq_P [OF s, where q = "101157309573638898205311522504133080341625528980742549804175448983972994381180"]) (simp, code_simp)
  have s: "((- 7)::int) ^ 997215260 mod P = 10413662306315702752311138256794058843257029426266164003775120119870722731732"
    by (rule pow_sq_P [OF s, where q = "13964434379356299349310861581998867241362013407515644143625600650880618854036"]) (simp, code_simp)
  have s: "((- 7)::int) ^ 1994430521 mod P = 110389376516655170818276280186693391694881075777471430643888570322154511700334"
    by (rule pow_sq_mul_P [OF s, where q = "(- 6555806561656075642875713490499535966053527254689906817635528496340551281154)"]) (simp, code_simp)
  have s: "((- 7)::int) ^ 3988861042 mod P = 49961903593675798294014917105875987515255983437754325885743239214019479199654"
    by (rule pow_sq_P [OF s, where q = "105238747551752010574876050204752304112864525921056833523137676452669600706754"]) (simp, code_simp)
  have s: "((- 7)::int) ^ 7977722085 mod P = 26858622361505959560436392724132463415586370698958270620944052587265746615386"
    by (rule pow_sq_mul_P [OF s, where q = "(- 150902732561588211488298484254255291377068121129640168355655242250700215566346)"]) (simp, code_simp)
  have s: "((- 7)::int) ^ 15955444171 mod P = 72663982062005959411551594440495650135924365061390399285384327272556298069239"
    by (rule pow_sq_mul_P [OF s, where q = "(- 43610053151010548561076878112503727111040546513654556099721935067678796294397)"]) (simp, code_simp)
  have s: "((- 7)::int) ^ 31910888343 mod P = 113742774738440799653892808993906997483919693475941287181738576299648676122540"
    by (rule pow_sq_mul_P [OF s, where q = "(- 319196071745473644111906331625208856495280286269527540122617495023477745822349)"]) (simp, code_simp)
  show ?thesis
    by (rule pow_sq_mul_P [OF s, where q = "(- 782108106286871510254017334763135863941569273238849226828485098619524574844849)"]) (simp, code_simp)
qed

lemma p_base_4: "((- 7)::int) ^ 261413997310426 mod P = 101463261103476218097725198208471772971937919259576596231369772967429206223589"
proof -
  note s = p_base_3
  have s: "((- 7)::int) ^ 127643553374 mod P = 28673818712684925108563791344979832663401698400767007650312446247777651976916"
    by (rule pow_sq_P [OF s, where q = "5899870781152348034429464059790863477243834368635533699577471483171033030531"]) (simp, code_simp)
  have s: "((- 7)::int) ^ 255287106748 mod P = 30062479514743185750351817902909689737676580195386300968530078735577279288227"
    by (rule pow_sq_P [OF s, where q = "7100553111904250434698220813906972498367201221782655813974806961275779499683"]) (simp, code_simp)
  have s: "((- 7)::int) ^ 510574213496 mod P = 12431235953301156366004804729874613393242161854409506660557991852682788511547"
    by (rule pow_sq_P [OF s, where q = "7804960429741535921066834692259779333404493541892772510646377252867142984914"]) (simp, code_simp)
  have s: "((- 7)::int) ^ 1021148426993 mod P = 91745012991981242683667632271551572067380020037272818869139502644103677286301"
    by (rule pow_sq_mul_P [OF s, where q = "(- 9342170077521296895249087793898838032331447006599175604536412474813083869428)"]) (simp, code_simp)
  have s: "((- 7)::int) ^ 2042296853987 mod P = 109722754245330097534176616936077775362835439236436319608436189047105446248823"
    by (rule pow_sq_mul_P [OF s, where q = "(- 508843326434285910371308439249661827350860699449129502071421900684806195080810)"]) (simp, code_simp)
  have s: "((- 7)::int) ^ 4084593707975 mod P = 13559259387308893879426638206679831317282558183712682398001951699199317155737"
    by (rule pow_sq_mul_P [OF s, where q = "(- 727800838117263793908850003358370381707607642535257602250680257312807805740080)"]) (simp, code_simp)
  have s: "((- 7)::int) ^ 8169187415950 mod P = 115079772601168535462362639024712615791013877651564279764142482592806236136531"
    by (rule pow_sq_P [OF s, where q = "1587789946129360280306229599303519335355043742937343219440394486101600341826"]) (simp, code_simp)
  have s: "((- 7)::int) ^ 16338374831901 mod P = 73276100273388690386318799185182847794128493545059160231636646379089710882120"
    by (rule pow_sq_mul_P [OF s, where q = "(- 800602865395757704941753174161287945999647046504556429972770724139915225717769)"]) (simp, code_simp)
  have s: "((- 7)::int) ^ 32676749663803 mod P = 81581573733160775267312967474407237292345367934264790529134476392536186879224"
    by (rule pow_sq_mul_P [OF s, where q = "(- 324596510404937852401637711930579559467076329908737746519252661691438333045448)"]) (simp, code_simp)
  have s: "((- 7)::int) ^ 65353499327606 mod P = 98729835328936264958354084000766503113763391526568228734040712131548707632686"
    by (rule pow_sq_P [OF s, where q = "57478479027514342472872020542033840379371841209324512709668326898836717529230"]) (simp, code_simp)
  have s: "((- 7)::int) ^ 130706998655213 mod P = 19474439221274970590384540583971935285687140231291166174054199760609387999347"
    by (rule pow_sq_mul_P [OF s, where q = "(- 589272230408661651108238455452557609412675656782077902219112004125957840057313)"]) (simp, code_simp)
  show ?thesis
    by (rule pow_sq_P [OF s, where q = "3275299594999544780502519342001275988072538300492438262041136712045837590140"]) (simp, code_simp)
qed

lemma p_base_5: "((- 7)::int) ^ 1070751732983505669 mod P = 87098835932762225653854214659155477279716690296097264922223494778897735622844"
proof -
  note s = p_base_4
  have s: "((- 7)::int) ^ 522827994620852 mod P = 49274002324959909281800488759615160625851611658907275111830907913941379747951"
    by (rule pow_sq_P [OF s, where q = "88907570642869942951576702990034332253982233785829536258854441186301055179190"]) (simp, code_simp)
  have s: "((- 7)::int) ^ 1045655989241704 mod P = 1913904622289429280463737675035452313619358141152485386614029429165788131475"
    by (rule pow_sq_P [OF s, where q = "20967989446533873866015557469626752093739954518664666032495979397578696757202"]) (simp, code_simp)
  have s: "((- 7)::int) ^ 2091311978483409 mod P = 46234918042509524061690780386343219658135749641087865090373400563519329147460"
    by (rule pow_sq_mul_P [OF s, where q = "(- 221441866119145320371572167394655390040946305599252630160243691541014004045)"]) (simp, code_simp)
  have s: "((- 7)::int) ^ 4182623956966819 mod P = 89852829088086992506420164310927160245292389191610859022693735003999599851426"
    by (rule pow_sq_mul_P [OF s, where q = "(- 129228806763430274423864215979035207443390833320525274131753599357287264681102)"]) (simp, code_simp)
  have s: "((- 7)::int) ^ 8365247913933638 mod P = 5797935418329880891883116469619835204779770329229104542535658154254594432263"
    by (rule pow_sq_P [OF s, where q = "69724373645130876562842402591934255216997909794156132960871604261073487032851"]) (simp, code_simp)
  have s: "((- 7)::int) ^ 16730495827867276 mod P = 44091644610631936646460402122736982697421611246823182862238922480935993660522"
    by (rule pow_sq_P [OF s, where q = "290313918131556434811007563667468932741183977365655905064124873492487419369"]) (simp, code_simp)
  have s: "((- 7)::int) ^ 33460991655734552 mod P = 64565069000416212476510519925588374795103448959785430504304986964686957950392"
    by (rule pow_sq_P [OF s, where q = "16789343186354339418798010370909632993150324014212851384521089035996939924884"]) (simp, code_simp)
  have s: "((- 7)::int) ^ 66921983311469104 mod P = 90241656596652975111278876871266063893543061676252251856683580316176045623263"
    by (rule pow_sq_P [OF s, where q = "36001147940986288919040972661129327951704954469860829851781082635503597628527"]) (simp, code_simp)
  have s: "((- 7)::int) ^ 133843966622938208 mod P = 39806448241112643549915951504619973345349017569368809665053100460254341704563"
    by (rule pow_sq_P [OF s, where q = "70329127308671324673813475775295085274557239211749433690826032432812276476562"]) (simp, code_simp)
  have s: "((- 7)::int) ^ 267687933245876417 mod P = 70523463107794825830236979828226940175709488414101268860452618460485419430770"
    by (rule pow_sq_mul_P [OF s, where q = "(- 95791286987436899345799926009526217490177941743064570876980356164238424612031)"]) (simp, code_simp)
  have s: "((- 7)::int) ^ 535375866491752834 mod P = 38106418558860787406634802117167170929646483019564254989349926176291051087769"
    by (rule pow_sq_P [OF s, where q = "42952492536197146603257258431437535550925408788476124947388146335860603767237"]) (simp, code_simp)
  show ?thesis
    by (rule pow_sq_mul_P [OF s, where q = "(- 87784010243126899787809008769162728656778268948185533096500476886127646594717)"]) (simp, code_simp)
qed

lemma p_base_6: "((- 7)::int) ^ 4385799098300439220789 mod P = 18959759512213561730381879908485196452935213974658628339350150015173801084797"
proof -
  note s = p_base_5
  have s: "((- 7)::int) ^ 2141503465967011338 mod P = 25753581600564484992601851092942831353177293234379815990859038710762896349794"
    by (rule pow_sq_P [OF s, where q = "65515764253068103211742593154954702651398701938400661273658996777010462874034"]) (simp, code_simp)
  have s: "((- 7)::int) ^ 4283006931934022676 mod P = 88563637066913921886075400514879900606792114989762600838263759376551041775068"
    by (rule pow_sq_P [OF s, where q = "5727912585613747396003617591961445403235830044865119922219997464932758712536"]) (simp, code_simp)
  have s: "((- 7)::int) ^ 8566013863868045353 mod P = 65639957001833434301508329187713415587929202472094907073018327547491870294230"
    by (rule pow_sq_mul_P [OF s, where q = "(- 474165593135755349416921436149086256899815162318867158890660492920516879982746)"]) (simp, code_simp)
  have s: "((- 7)::int) ^ 17132027727736090706 mod P = 242434993175681320368624338798320610912611718116059349780972617457372060219"
    by (rule pow_sq_P [OF s, where q = "37209829994275747204376186333239158692082358154607117923466795644549440146087"]) (simp, code_simp)
  have s: "((- 7)::int) ^ 34264055455472181412 mod P = 1381144281686270685852654439217352333172902819561584005782581933417200568637"
    by (rule pow_sq_P [OF s, where q = "507588439790853855364061668682302591190835879903572744334598364523176548"]) (simp, code_simp)
  have s: "((- 7)::int) ^ 68528110910944362824 mod P = 55206241480033608438761159763544685972004250570870780488145033700472796324661"
    by (rule pow_sq_P [OF s, where q = "16474005602620540807732991807197151562317244449571570480226907965290145516"]) (simp, code_simp)
  have s: "((- 7)::int) ^ 137056221821888725649 mod P = 82242627863055541791512704423872290307455369978834907218846230709753807099975"
    by (rule pow_sq_mul_P [OF s, where q = "(- 184244915425424109207537943546548691369871402716712235848027244557317734958794)"]) (simp, code_simp)
  have s: "((- 7)::int) ^ 274112443643777451299 mod P = 85165725932103414059418934410089944698215514177893359151274839862505522807994"
    by (rule pow_sq_mul_P [OF s, where q = "(- 408896230965395057447325629624365424101470639276664798132072115678461887955263)"]) (simp, code_simp)
  have s: "((- 7)::int) ^ 548224887287554902598 mod P = 19623604399698868028903333976183476605588428151952708042556161624295617055973"
    by (rule pow_sq_P [OF s, where q = "62639865307868289851820120446170724019906089812541961126368207723816947842801"]) (simp, code_simp)
  have s: "((- 7)::int) ^ 1096449774575109805197 mod P = 44550263570458043997476032503899279993477302035887744744299304459757974380822"
    by (rule pow_sq_mul_P [OF s, where q = "(- 23279664139460547000438114656680875110965418888071280696563961837136405406475)"]) (simp, code_simp)
  have s: "((- 7)::int) ^ 2192899549150219610394 mod P = 22928752325621725879180015042030838207284456547206313436545870558684115854112"
    by (rule pow_sq_P [OF s, where q = "17140428135203432710770291909661781407445130500629958458429829815834398366844"]) (simp, code_simp)
  show ?thesis
    by (rule pow_sq_mul_P [OF s, where q = "(- 31781910203948077214945481073062546920810456608249950154160591502173024162835)"]) (simp, code_simp)
qed

lemma p_base_7: "((- 7)::int) ^ 17964233106638599048351748 mod P = 24723280531127623488658234442693895560512581635721356351506647956837430601502"
proof -
  note s = p_base_6
  have s: "((- 7)::int) ^ 8771598196600878441578 mod P = 21374246921791407536639554525609332676962625469445603735103789184754632726205"
    by (rule pow_sq_P [OF s, where q = "3104464934769704596111301664303592899138752606972559539781357859534887745908"]) (simp, code_simp)
  have s: "((- 7)::int) ^ 17543196393201756883156 mod P = 91071496679464227385898470317604710116449200672377599015458596168646857151456"
    by (rule pow_sq_P [OF s, where q = "3945506420023019774943673447449785194284255189284193586491769639661422026663"]) (simp, code_simp)
  have s: "((- 7)::int) ^ 35086392786403513766312 mod P = 54239781529712779176554271438475593217319692085092096603813601643175201046593"
    by (rule pow_sq_P [OF s, where q = "71628533193135956062952873396181688796034423136597231101277638748094608981361"]) (simp, code_simp)
  have s: "((- 7)::int) ^ 70172785572807027532624 mod P = 21516843984429461184483133626074181774994468700406193030557360571667306218606"
    by (rule pow_sq_P [OF s, where q = "25407209765093962452739380188086165741981075312353444316825426720898201895261"]) (simp, code_simp)
  have s: "((- 7)::int) ^ 140345571145614055065248 mod P = 46849657597094858333788551179140180030850955180441787355522325539285108718135"
    by (rule pow_sq_P [OF s, where q = "3998326466857426379859388984841101850746033621421914314657395931358671255427"]) (simp, code_simp)
  have s: "((- 7)::int) ^ 280691142291228110130496 mod P = 110431821206705204231704855669536689041208943830977412810700170084414446998334"
    by (rule pow_sq_P [OF s, where q = "18955443600871508738395237520789197353331930160194655941705254787280118337757"]) (simp, code_simp)
  have s: "((- 7)::int) ^ 561382284582456220260992 mod P = 5709927675528759756532449188711088138570753694416725536172303659031437708728"
    by (rule pow_sq_P [OF s, where q = "105319691659035849521543713015270027285697311093432843635597068163508312739956"]) (simp, code_simp)
  have s: "((- 7)::int) ^ 1122764569164912440521984 mod P = 1400585404547155740000782676064891291696179467666146509142394346557722282174"
    by (rule pow_sq_P [OF s, where q = "281567370228105725787771848048632178973448588496465206150337133821527523870"]) (simp, code_simp)
  have s: "((- 7)::int) ^ 2245529138329824881043968 mod P = 65131822420187325279703378502670884090235066369874520061388550720838900832728"
    by (rule pow_sq_P [OF s, where q = "16941049154145017375701796467707374917105729007785679647592886100812085396"]) (simp, code_simp)
  have s: "((- 7)::int) ^ 4491058276659649762087937 mod P = 55467170306749637770446083699159278577601804072367295185184745515539276518948"
    by (rule pow_sq_mul_P [OF s, where q = "(- 256451716503392288227089667059691072165862409280261175027984513494592096423772)"]) (simp, code_simp)
  have s: "((- 7)::int) ^ 8982116553319299524175874 mod P = 92742084731397282050006441341480119152622512566815456136814212694778964119289"
    by (rule pow_sq_P [OF s, where q = "26570096472933090432500312065385259816666955914639408231511662207198439895705"]) (simp, code_simp)
  show ?thesis
    by (rule pow_sq_P [OF s, where q = "74280499963151258356112756357107433106885575846718763627461714678203781854813"]) (simp, code_simp)
qed

lemma p_base_8: "((- 7)::int) ^ 73581498804791701702048760958 mod P = 96791552854727310576233031728447195035164774738213367630669735170287843794629"
proof -
  note s = p_base_7
  have s: "((- 7)::int) ^ 35928466213277198096703496 mod P = 113847929776828865162063700627756814041756559839319262184753904303657603786499"
    by (rule pow_sq_P [OF s, where q = "5278776851224222630298610681470394597974399371173354519400036431718886765135"]) (simp, code_simp)
  have s: "((- 7)::int) ^ 71856932426554396193406993 mod P = 8177973152873010750741693610871767455987649530241815389295117261480002666596"
    by (rule pow_sq_mul_P [OF s, where q = "(- 783554890484254330316835046862736748790746239781389680571558848304751223954381)"]) (simp, code_simp)
  have s: "((- 7)::int) ^ 143713864853108792386813986 mod P = 81286076168789805426589929461552029346805849314653445579057776801865544814634"
    by (rule pow_sq_P [OF s, where q = "577580431699807587585763180674077230526073986793888583282395933794345861114"]) (simp, code_simp)
  have s: "((- 7)::int) ^ 287427729706217584773627972 mod P = 95479284719211683447553406471761719406158127329498276502687272001886556929449"
    by (rule pow_sq_P [OF s, where q = "57062846196482044407735783526029635102919817718473983274368208307229349905589"]) (simp, code_simp)
  have s: "((- 7)::int) ^ 574855459412435169547255944 mod P = 103955386557617702119125914675917177652120195112848024607041876178290957263653"
    by (rule pow_sq_P [OF s, where q = "78729849945175626134716586026318134190880683570504741080468288617378676218196"]) (simp, code_simp)
  have s: "((- 7)::int) ^ 1149710918824870339094511889 mod P = 86355181830812133675806286864042432733866131243233666827948185145333594027612"
    by (rule pow_sq_mul_P [OF s, where q = "(- 653300732879663465448876086699275160673584339563351260239145610438174555436325)"]) (simp, code_simp)
  have s: "((- 7)::int) ^ 2299421837649740678189023779 mod P = 31057027364360177897830285791760516988503606548340338392785089762057271064220"
    by (rule pow_sq_mul_P [OF s, where q = "(- 450812506683796622964165463305322969132444359323135006235161230979689543570356)"]) (simp, code_simp)
  have s: "((- 7)::int) ^ 4598843675299481356378047559 mod P = 45308988179420306267571062231916040016044447343345943412292945808830991998455"
    by (rule pow_sq_mul_P [OF s, where q = "(- 58309446573129380791181589558700121657722250495689141491233617824779823309385)"]) (simp, code_simp)
  have s: "((- 7)::int) ^ 9197687350598962712756095119 mod P = 109950625305024792674281748665524443292499382895788135882514208647176542295633"
    by (rule pow_sq_mul_P [OF s, where q = "(- 124104599576296718078908620133037078855268295316884303892489480606428867111416)"]) (simp, code_simp)
  have s: "((- 7)::int) ^ 18395374701197925425512190239 mod P = 107448297995285100482222953489754404745373857086570382446563382819365663721996"
    by (rule pow_sq_mul_P [OF s, where q = "(- 730826955383149149483069159178166889410398718302432498337236594221448025340413)"]) (simp, code_simp)
  have s: "((- 7)::int) ^ 36790749402395850851024380479 mod P = 100896529530365220308117967082660798352540265490475572978955170865177815952782"
    by (rule pow_sq_mul_P [OF s, where q = "(- 697940228273734636527785228235796528512491618301173095141478208360512842227938)"]) (simp, code_simp)
  show ?thesis
    by (rule pow_sq_P [OF s, where q = "87917143030450888986116907638841473370004159340523706940888727886860898703665"]) (simp, code_simp)
qed

lemma p_base_9: "((- 7)::int) ^ 301389819104426810171591724885627 mod P = 39578107028568340962737503995600356590557528263088458286170399363965826658583"
proof -
  note s = p_base_8
  have s: "((- 7)::int) ^ 147162997609583403404097521916 mod P = 41570777762039135309550256697242662013946522430455138451046720833377192897296"
    by (rule pow_sq_P [OF s, where q = "80908849350049210025267371703877135379164300387875603452968046946649708015815"]) (simp, code_simp)
  have s: "((- 7)::int) ^ 294325995219166806808195043833 mod P = 12247820648923093730692686515625836778621902702695737394933923468812419408343"
    by (rule pow_sq_mul_P [OF s, where q = "(- 104470927382554515233691494520960130047182881761081697168209157371831232564185)"]) (simp, code_simp)
  have s: "((- 7)::int) ^ 588651990438333613616390087667 mod P = 78545270436811950162125442770939519295408015775702360873023597280584009453628"
    by (rule pow_sq_mul_P [OF s, where q = "(- 9068527750502885269294923379793119800616642243567216348897649402622298752317)"]) (simp, code_simp)
  have s: "((- 7)::int) ^ 1177303980876667227232780175334 mod P = 57133849841825365561325475132003184830208952341557721620368074883058418865063"
    by (rule pow_sq_P [OF s, where q = "53279628587992799492050571194899290240642603117006648935704818057954569819367"]) (simp, code_simp)
  have s: "((- 7)::int) ^ 2354607961753334454465560350668 mod P = 50756148840710113372702087929097898619994971739954453735379361350946356853268"
    by (rule pow_sq_P [OF s, where q = "28190844635837810600489920300875486661656163345430196023714184911466483816627"]) (simp, code_simp)
  have s: "((- 7)::int) ^ 4709215923506668908931120701337 mod P = 72927051139997264513768556998581889954932127942469826195763175334095611425623"
    by (rule pow_sq_mul_P [OF s, where q = "(- 155738674677705489404506812762085923443820192385360873842131219071510118609257)"]) (simp, code_simp)
  have s: "((- 7)::int) ^ 9418431847013337817862241402675 mod P = 10295826812714880694257327401104877579545446878388970342641381748192963638396"
    by (rule pow_sq_mul_P [OF s, where q = "(- 321511458693266670936485578044658312943355087686019009270546768901928754725373)"]) (simp, code_simp)
  have s: "((- 7)::int) ^ 18836863694026675635724482805351 mod P = 43156678924389772433635711745538281041679998278402622204665435649001065812913"
    by (rule pow_sq_mul_P [OF s, where q = "(- 6408281888593801394144819202740250164384891828318958599442196538134936243375)"]) (simp, code_simp)
  have s: "((- 7)::int) ^ 37673727388053351271448965610703 mod P = 18646298837516567766162146441623674522888487217239411815953063695731172299382"
    by (rule pow_sq_mul_P [OF s, where q = "(- 112593983201734125689863442342970313247024525622941899991395271185697920906355)"]) (simp, code_simp)
  have s: "((- 7)::int) ^ 75347454776106702542897931221406 mod P = 13489792063537191934561471221807538315666617820231798869312879341621889138693"
    by (rule pow_sq_P [OF s, where q = "3002661603465772852281577901986511072044892468765393699177441659762981065937"]) (simp, code_simp)
  have s: "((- 7)::int) ^ 150694909552213405085795862442813 mod P = 15937039718371555859265560375447859363121801921549546365766596160162593679533"
    by (rule pow_sq_mul_P [OF s, where q = "(- 11000936573582299417524309167991231545940312311364548870092095311786937911652)"]) (simp, code_simp)
  show ?thesis
    by (rule pow_sq_mul_P [OF s, where q = "(- 15354456911566785416858442640777485204946025903061942771124436137283773126762)"]) (simp, code_simp)
qed

lemma p_base_10: "((- 7)::int) ^ 1234492699051732214462839705131529501 mod P = 45513408454113364088509613642775125429749167927960413263124763378692850294549"
proof -
  note s = p_base_9
  have s: "((- 7)::int) ^ 602779638208853620343183449771254 mod P = 41134796432655205586774468121434805302728422837509928981250184935961569086886"
    by (rule pow_sq_P [OF s, where q = "13527923766488186524076658330491244061707025395999362365192610784376085570181"]) (simp, code_simp)
  have s: "((- 7)::int) ^ 1205559276417707240686366899542509 mod P = 11624140701226913411223364025772330859888936907061147079022012268253857062726"
    by (rule pow_sq_mul_P [OF s, where q = "(- 102291101412088255697940008999636412308819562389971623125817919910811068980446)"]) (simp, code_simp)
  have s: "((- 7)::int) ^ 2411118552835414481372733799085018 mod P = 101770080175008198859377858302155892597907263115330202263518163766461681277289"
    by (rule pow_sq_P [OF s, where q = "1166924683127445710849887577494374604961136047261220159456226137332511492149"]) (simp, code_simp)
  have s: "((- 7)::int) ^ 4822237105670828962745467598170037 mod P = 32526118013343072229253837177702504238861223168840671523609184504576093830214"
    by (rule pow_sq_mul_P [OF s, where q = "(- 626122604828419179378184973867597313091504274026597226658257724579533420884947)"]) (simp, code_simp)
  have s: "((- 7)::int) ^ 9644474211341657925490935196340074 mod P = 115394939360229948570170821276980616631588055847495661876623855131454255183224"
    by (rule pow_sq_P [OF s, where q = "9136620299247323496800898552811467137737220348784383692934334565787379213844"]) (simp, code_simp)
  have s: "((- 7)::int) ^ 19288948422683315850981870392680148 mod P = 86304804182549851725660181079975991184020543871109204771125265919363988918267"
    by (rule pow_sq_P [OF s, where q = "114999151648952337892046887801954842172702372452796942184007040049672776208843"]) (simp, code_simp)
  have s: "((- 7)::int) ^ 38577896845366631701963740785360296 mod P = 43274264503231095810200783005097888739059549493764900371301918455547590382940"
    by (rule pow_sq_P [OF s, where q = "64326667512860178053440030942621176224029003821442270848020498043871581376723"]) (simp, code_simp)
  have s: "((- 7)::int) ^ 77155793690733263403927481570720593 mod P = 52115855236577128772991025168098154016177264589012186783797694122663772424374"
    by (rule pow_sq_mul_P [OF s, where q = "(- 113208370834410527126482743531447822732210028771405795235320923625376422298298)"]) (simp, code_simp)
  have s: "((- 7)::int) ^ 154311587381466526807854963141441187 mod P = 45116496131711541234183612017480811168836912219438792573570483392337103774672"
    by (rule pow_sq_mul_P [OF s, where q = "(- 164194606855335399779318047379849310971500906165626772872739372985017541651508)"]) (simp, code_simp)
  have s: "((- 7)::int) ^ 308623174762933053615709926282882375 mod P = 66458471587485934322568680883023009568341548109605247543154117366608704508632"
    by (rule pow_sq_mul_P [OF s, where q = "(- 123052340244218964061983667338618926061342066734062403263198257565571889110440)"]) (simp, code_simp)
  have s: "((- 7)::int) ^ 617246349525866107231419852565764750 mod P = 93092397979493534917402003342737062217298647544068537750953904729392496828131"
    by (rule pow_sq_P [OF s, where q = "38143611319531323812991781379747263368409375545711751214416263998678847465011"]) (simp, code_simp)
  show ?thesis
    by (rule pow_sq_mul_P [OF s, where q = "(- 523899018754875058513731258979444234636118513667347941574000514607163620625452)"]) (simp, code_simp)
qed

lemma p_base_11: "((- 7)::int) ^ 5056482095315895150439791432218744836809 mod P = 53994663963991934032215394840821308827785291761110272584981924673234864436040"
proof -
  note s = p_base_10
  have s: "((- 7)::int) ^ 2468985398103464428925679410263059002 mod P = 70020102895344277818854668659430637188668722435111849448985844095263364896517"
    by (rule pow_sq_P [OF s, where q = "17889567091802565564245219323029480419355167389282250501462673114309429942668"]) (simp, code_simp)
  have s: "((- 7)::int) ^ 4937970796206928857851358820526118004 mod P = 109896785369752633706348421109937319458317064276579763824020732571063564153784"
    by (rule pow_sq_P [OF s, where q = "42341535089035902115064410277657984412954544147421584920407813565644508481135"]) (simp, code_simp)
  have s: "((- 7)::int) ^ 9875941592413857715702717641052236009 mod P = 98377226783123340456282996321286968198673923477768858401682366450773154754828"
    by (rule pow_sq_mul_P [OF s, where q = "(- 730111397065917660614032810870863923759622279600022254800196892826232633540340)"]) (simp, code_simp)
  have s: "((- 7)::int) ^ 19751883184827715431405435282104472018 mod P = 74086054037863079561821917062500729829230503683492366634606336744578832340060"
    by (rule pow_sq_P [OF s, where q = "83581519370488532497601947174256997745390626080314668470182451749603436391948"]) (simp, code_simp)
  have s: "((- 7)::int) ^ 39503766369655430862810870564208944037 mod P = 75122515631715400501671773642381849832338396670130193500478521086011205112961"
    by (rule pow_sq_mul_P [OF s, where q = "(- 331811992281820035254105719690586226435932296674907658076959896209339620590047)"]) (simp, code_simp)
  have s: "((- 7)::int) ^ 79007532739310861725621741128417888075 mod P = 48906988438754615477781281335825172867542788130097002661142089186836091456717"
    by (rule pow_sq_mul_P [OF s, where q = "(- 341161013192345456472783146041871080227607438467882893226814762034063672555628)"]) (simp, code_simp)
  have s: "((- 7)::int) ^ 158015065478621723451243482256835776150 mod P = 100729106922691917640823604743851479952307064256933011116797917334518461028343"
    by (rule pow_sq_P [OF s, where q = "20656795588568105736628965926506352063666635262460856197510676602814437087342"]) (simp, code_simp)
  have s: "((- 7)::int) ^ 316030130957243446902486964513671552300 mod P = 13515949333966169388590338513624756223735707857338205365827126969415832542707"
    by (rule pow_sq_P [OF s, where q = "87625614567227674209982041884973852121363076756606957167834581501430379832834"]) (simp, code_simp)
  have s: "((- 7)::int) ^ 632060261914486893804973929027343104601 mod P = 111387028054213446459417636342448876804726608710032453373836490720690291656779"
    by (rule pow_sq_mul_P [OF s, where q = "(- 11043640487110902898112660667334303877457853035835765072832506136144698435894)"]) (simp, code_simp)
  have s: "((- 7)::int) ^ 1264120523828973787609947858054686209202 mod P = 54122353172464821792433527745165564943652029126737393724239987144299635506564"
    by (rule pow_sq_P [OF s, where q = "107149547956784943209572264439159270252435443294297695760658694254673623476379"]) (simp, code_simp)
  have s: "((- 7)::int) ^ 2528241047657947575219895716109372418404 mod P = 24328059734905561711707370314354594054409452165961208413867484651698716530629"
    by (rule pow_sq_P [OF s, where q = "25297316355710190944433662879103374236996514202933897292072671087830320633509"]) (simp, code_simp)
  show ?thesis
    by (rule pow_sq_mul_P [OF s, where q = "(- 35779485978225001196305740086582444359170415496157095871086250054850984707129)"]) (simp, code_simp)
qed

lemma p_base_12: "((- 7)::int) ^ 20711350662413906536201385706367978851572587 mod P = 55991790693146866191893939694780058932643529203712050954303926683797478027973"
proof -
  note s = p_base_11
  have s: "((- 7)::int) ^ 10112964190631790300879582864437489673619 mod P = 78790421354941333164804597822118696261604477450672814039602572449352950597232"
    by (rule pow_sq_mul_P [OF s, where q = "(- 176246635590663564843450970200553368236829522426311962823429906332848531514064)"]) (simp, code_simp)
  have s: "((- 7)::int) ^ 20225928381263580601759165728874979347238 mod P = 105203800755349436562849733535286978316320007027906941828268835092565293254410"
    by (rule pow_sq_P [OF s, where q = "53612734152900766573733949381246745367690418286609761421226340624261077567978"]) (simp, code_simp)
  have s: "((- 7)::int) ^ 40451856762527161203518331457749958694477 mod P = 2498143532550192914763306278414937553514869382971336922912506638865221230067"
    by (rule pow_sq_mul_P [OF s, where q = "(- 669086103929033270644607201556466320815804413320017163698186220036058802548609)"]) (simp, code_simp)
  have s: "((- 7)::int) ^ 80903713525054322407036662915499917388955 mod P = 92385788896243989785355624202896960947368951573317261637929460728530124044536"
    by (rule pow_sq_mul_P [OF s, where q = "(- 377271435832061684072568607072711995332197803299787788901544501452171495193)"]) (simp, code_simp)
  have s: "((- 7)::int) ^ 161807427050108644814073325830999834777910 mod P = 89382142062377198401865976164265712680793968521159110823678783874114510616431"
    by (rule pow_sq_P [OF s, where q = "73710855777794797551493720762356819279406455996717833621595918521292533209855"]) (simp, code_simp)
  have s: "((- 7)::int) ^ 323614854100217289628146651661999669555821 mod P = 6523135510474951061911062588656189017510242613925964355205494030167981585391"
    by (rule pow_sq_mul_P [OF s, where q = "(- 482970569111989304689639568169545999736463272787895272426009640413510919390986)"]) (simp, code_simp)
  have s: "((- 7)::int) ^ 647229708200434579256293303323999339111643 mod P = 11361217054429101114378386059530968998210874463863285216750024769680760605848"
    by (rule pow_sq_mul_P [OF s, where q = "(- 2572361205139602655991085761154180708648065525792957123211625841838362697905)"]) (simp, code_simp)
  have s: "((- 7)::int) ^ 1294459416400869158512586606647998678223286 mod P = 75001965488476269226260116314417848908030077367913141679270078854741478573015"
    by (rule pow_sq_P [OF s, where q = "1114732913172561269239820343071695738090824041063491620313608088724296169703"]) (simp, code_simp)
  have s: "((- 7)::int) ^ 2588918832801738317025173213295997356446573 mod P = 85388956862196333858230238312132061910432429125660495622288771435147638084552"
    by (rule pow_sq_mul_P [OF s, where q = "(- 340066960094646018356938577399796715347085209460069869693934052360587890153329)"]) (simp, code_simp)
  have s: "((- 7)::int) ^ 5177837665603476634050346426591994712893146 mod P = 74705581722456194493234116773527476943819837172009966827851960012632506978035"
    by (rule pow_sq_P [OF s, where q = "62968670848235072235061848556263041990614990064079067216429591238769120023363"]) (simp, code_simp)
  have s: "((- 7)::int) ^ 10355675331206953268100692853183989425786293 mod P = 17382849016607670495356370662125459662048419484976014906376242271536343932226"
    by (rule pow_sq_mul_P [OF s, where q = "(- 337384598902669748369738432640906769772447655080202518146941259959326663129327)"]) (simp, code_simp)
  show ?thesis
    by (rule pow_sq_mul_P [OF s, where q = "(- 18266740789211034732451123884484639953853958316628079595333228145078981393135)"]) (simp, code_simp)
qed

lemma p_base_13: "((- 7)::int) ^ 84833692313247361172280875853283241376041319148 mod P = 51408676505071880226452651579028874286871449875193472659422462523738938023479"
proof -
  note s = p_base_12
  have s: "((- 7)::int) ^ 41422701324827813072402771412735957703145175 mod P = 13773140142229231182458665125880738679176186130899662706845032799910101290057"
    by (rule pow_sq_mul_P [OF s, where q = "(- 189525592980697355716913028525578791340583002906113717122235629250714872333320)"]) (simp, code_simp)
  have s: "((- 7)::int) ^ 82845402649655626144805542825471915406290350 mod P = 17955296161564153397575051975749753624279925238387811112659774864348022695176"
    by (rule pow_sq_P [OF s, where q = "1638275901462463835303106853174800572476349432647206491083984931204028360071"]) (simp, code_simp)
  have s: "((- 7)::int) ^ 165690805299311252289611085650943830812580701 mod P = 65625680779616876869668074612054675621522547319970185362717583463810634260631"
    by (rule pow_sq_mul_P [OF s, where q = "(- 19489661483878666621806571700357924322492329111132877807853490625257669376601)"]) (simp, code_simp)
  have s: "((- 7)::int) ^ 331381610598622504579222171301887661625161402 mod P = 77204799014195459062005085153214811513833936041432451475170317229665982162040"
    by (rule pow_sq_P [OF s, where q = "37193646009456841313257344963849089690839814642952457074200639540105791766967"]) (simp, code_simp)
  have s: "((- 7)::int) ^ 662763221197245009158444342603775323250322805 mod P = 73825621904396614198742713653367310384137344638003001937730913639427648980504"
    by (rule pow_sq_mul_P [OF s, where q = "(- 360336074861233624792857742708808148019405403758872840203750424342350852816808)"]) (simp, code_simp)
  have s: "((- 7)::int) ^ 1325526442394490018316888685207550646500645611 mod P = 55630734523360547870366722128089787612372009574641287092797662429352454979853"
    by (rule pow_sq_mul_P [OF s, where q = "(- 329483278160779689586605827140826525595838234474894719510537310801908015855555)"]) (simp, code_simp)
  have s: "((- 7)::int) ^ 2651052884788980036633777370415101293001291223 mod P = 80943175520817835923130095155178703911239579180527237885419883649025257614143"
    by (rule pow_sq_mul_P [OF s, where q = "(- 187089208839310556148457256051229665523991320373831492445201615161154500332162)"]) (simp, code_simp)
  have s: "((- 7)::int) ^ 5302105769577960073267554740830202586002582446 mod P = 18048575290023675917732623885530887307936065186508050059405490848165186758568"
    by (rule pow_sq_P [OF s, where q = "56582428959943860889730301409186819774045303766876890755214285952793565882487"]) (simp, code_simp)
  have s: "((- 7)::int) ^ 10604211539155920146535109481660405172005164893 mod P = 51551381270069944216749710933303969864249817461655451162227625089185067810804"
    by (rule pow_sq_mul_P [OF s, where q = "(- 19692688032635620895519302704917530383197720444145468506938252972060843964044)"]) (simp, code_simp)
  have s: "((- 7)::int) ^ 21208423078311840293070218963320810344010329787 mod P = 60059474749417973293944744616872227616675053857843954523608326734175245251527"
    by (rule pow_sq_mul_P [OF s, where q = "(- 160657040549966329329854294580840401816946897731160990433749027602982192444153)"]) (simp, code_simp)
  have s: "((- 7)::int) ^ 42416846156623680586140437926641620688020659574 mod P = 38589039242493743317736290733688603121763501765938644347764847006178937780372"
    by (rule pow_sq_P [OF s, where q = "31151873421880583268436211680170692130862415207874909932116949430707783175539"]) (simp, code_simp)
  show ?thesis
    by (rule pow_sq_P [OF s, where q = "12860239066995147548245572711413020138287933903175512651733509840996626610935"]) (simp, code_simp)
qed

lemma p_base_14: "((- 7)::int) ^ 347478803715061191361662467495048156676265243231443 mod P = 64249614074884851152186331149910254629499635593837755189727265107944751311012"
proof -
  note s = p_base_13
  have s: "((- 7)::int) ^ 169667384626494722344561751706566482752082638296 mod P = 106569478010282196657045512645611029330745308869803302148869509228947970990240"
    by (rule pow_sq_P [OF s, where q = "22824115510918861587195718609943876513420544345764877894605087677972010644127"]) (simp, code_simp)
  have s: "((- 7)::int) ^ 339334769252989444689123503413132965504165276593 mod P = 2847918001210461367678897067796217725051457560110860468353725679291965843908"
    by (rule pow_sq_mul_P [OF s, where q = "(- 686570006874597129890378712592802923719021299798689688420613030794857267163516)"]) (simp, code_simp)
  have s: "((- 7)::int) ^ 678669538505978889378247006826265931008330553186 mod P = 62750904824968066609519677449027354104080287556496968879762260897977575068137"
    by (rule pow_sq_P [OF s, where q = "70044827716993838959097142729885324492703767574626623223970994483645454729"]) (simp, code_simp)
  have s: "((- 7)::int) ^ 1357339077011957778756494013652531862016661106372 mod P = 71552179047333706392532904468271689452768048586387116457244196120462725960391"
    by (rule pow_sq_P [OF s, where q = "34006434138017175014218638316320663875047295775439554513915977673560316910806"]) (simp, code_simp)
  have s: "((- 7)::int) ^ 2714678154023915557512988027305063724033322212745 mod P = 5817211513810562295309943202945926030872382789381908895623911006987277715166"
    by (rule pow_sq_mul_P [OF s, where q = "(- 309503011138367385319685506783051745757332319858485501732355926030389075808091)"]) (simp, code_simp)
  have s: "((- 7)::int) ^ 5429356308047831115025976054610127448066644425491 mod P = 109550741322358633132796500573536978980625106845654285111326913057420057276886"
    by (rule pow_sq_mul_P [OF s, where q = "(- 2045732572364125373780929323613104216254247534812613044250369897158965154606)"]) (simp, code_simp)
  have s: "((- 7)::int) ^ 10858712616095662230051952109220254896133288850982 mod P = 46557942174003131529043226718357690213709330231544606309537378161403195647722"
    by (rule pow_sq_P [OF s, where q = "103645810377265980307855655771036455741760965907015609207213273045256042940198"]) (simp, code_simp)
  have s: "((- 7)::int) ^ 21717425232191324460103904218440509792266577701965 mod P = 24319209775180123593497250478539405375907049693597916044258555220274070260934"
    by (rule pow_sq_mul_P [OF s, where q = "(- 131040850513083151999889708394650034022726778077264537125089168593739750459294)"]) (simp, code_simp)
  have s: "((- 7)::int) ^ 43434850464382648920207808436881019584533155403930 mod P = 101742712761135664999098767286763792041459039532767170325289512647539499037949"
    by (rule pow_sq_P [OF s, where q = "5107637041396597372620685148421640878820131660508562453286029997719405162889"]) (simp, code_simp)
  have s: "((- 7)::int) ^ 86869700928765297840415616873762039169066310807860 mod P = 107136235322521502075030230360953548839587352042227764194026260323675135417715"
    by (rule pow_sq_P [OF s, where q = "89397986237033586300438028513392164781078582219506444989260179487214590882122"]) (simp, code_simp)
  have s: "((- 7)::int) ^ 173739401857530595680831233747524078338132621615721 mod P = 1783652290460805592030693075015292500479845172628960730087195547030841339675"
    by (rule pow_sq_mul_P [OF s, where q = "(- 693892052236030615190993203671785797321343799608009567215181896041683530907750)"]) (simp, code_simp)
  show ?thesis
    by (rule pow_sq_mul_P [OF s, where q = "(- 192326683105443492612458842886372320731801214328936011592380090496503280349)"]) (simp, code_simp)
qed

lemma p_base_15: "((- 7)::int) ^ 1423273180016890639817369466859717249745982436275993526 mod P = 111268886737975997399850043975333274092851884667034891314229620160366752077458"
proof -
  note s = p_base_14
  have s: "((- 7)::int) ^ 694957607430122382723324934990096313352530486462887 mod P = 95298965148558745984810016515039138081200310108593095221394884854055556712808"
    by (rule pow_sq_mul_P [OF s, where q = "(- 249551506944303222499675860259711325010176234230173088767718617037053230872232)"]) (simp, code_simp)
  have s: "((- 7)::int) ^ 1389915214860244765446649869980192626705060972925774 mod P = 102703961563695194658405944672855911342374311383435727108002190536626395180571"
    by (rule pow_sq_P [OF s, where q = "78432756660714974084858923087081399077060241697942126890447984884673521452011"]) (simp, code_simp)
  have s: "((- 7)::int) ^ 2779830429720489530893299739960385253410121945851549 mod P = 106756918748191611878185419153983153078499469257133953422686981357955957267464"
    by (rule pow_sq_mul_P [OF s, where q = "(- 637666411690787377413912921046050395647220444643544625938333668532118428385977)"]) (simp, code_simp)
  have s: "((- 7)::int) ^ 5559660859440979061786599479920770506820243891703099 mod P = 62312743886695895923071524110825706647946302486706792308506398626953630159813"
    by (rule pow_sq_mul_P [OF s, where q = "(- 688987291184875825889018665177329469924152923581219496106404975673270514784395)"]) (simp, code_simp)
  have s: "((- 7)::int) ^ 11119321718881958123573198959841541013640487783406199 mod P = 106666701501905867291229409013433130036795899430248686016270758876923349645205"
    by (rule pow_sq_mul_P [OF s, where q = "(- 234732325272384669321962604322743699969378787215405156286329432862846162737276)"]) (simp, code_simp)
  have s: "((- 7)::int) ^ 22238643437763916247146397919683082027280975566812398 mod P = 97341032094628999709444913445360062025533806448322271708729079716584393346796"
    by (rule pow_sq_P [OF s, where q = "98260470851146716093749372918687002634738376418753207978650506918495449164483"]) (simp, code_simp)
  have s: "((- 7)::int) ^ 44477286875527832494292795839366164054561951133624797 mod P = 89173675983374531949637973788238313747947902077708064322144894392062796133242"
    by (rule pow_sq_mul_P [OF s, where q = "(- 572810596488987425120559675698277675802106962259567321308101695986233674744758)"]) (simp, code_simp)
  have s: "((- 7)::int) ^ 88954573751055664988585591678732328109123902267249595 mod P = 89890146688675735389338640709153522342287470703352163668809341521085893961339"
    by (rule pow_sq_mul_P [OF s, where q = "(- 480720330597303194556088351281941511535679850817541420356163555636336707982649)"]) (simp, code_simp)
  have s: "((- 7)::int) ^ 177909147502111329977171183357464656218247804534499190 mod P = 31285858879702762264783258946140219125294570999883837995954667789935035151421"
    by (rule pow_sq_P [OF s, where q = "69782301407060468509725291879085142077500867345444586921009448633164516630500"]) (simp, code_simp)
  have s: "((- 7)::int) ^ 355818295004222659954342366714929312436495609068998381 mod P = 16320910141239380969164811437682998055212156139711955105195311301716357640389"
    by (rule pow_sq_mul_P [OF s, where q = "(- 59171872672944777360741555626426369555129493545639894200131366569814095832252)"]) (simp, code_simp)
  have s: "((- 7)::int) ^ 711636590008445319908684733429858624872991218137996763 mod P = 106137065665586299001619999877924177447876815938305134546052345608743169351329"
    by (rule pow_sq_mul_P [OF s, where q = "(- 16103040951678148580478968900441726513242948298250366856888167290388780520752)"]) (simp, code_simp)
  show ?thesis
    by (rule pow_sq_P [OF s, where q = "97287101237228505948165602284919612689846410359956515626062774987739873786241"]) (simp, code_simp)
qed

lemma p_base_16: "((- 7)::int) ^ 5829726945349184060691945336257401854959544058986469485152 mod P = 6682780537485389200510093647356458958688655002571363599159637093426795394610"
proof -
  note s = p_base_15
  have s: "((- 7)::int) ^ 2846546360033781279634738933719434499491964872551987053 mod P = 111514701608913659141099087782339694102430275087503333209006390645060272748912"
    by (rule pow_sq_mul_P [OF s, where q = "(- 748456623092263559873363469286451304895484277994525096627611122133078412316020)"]) (simp, code_simp)
  have s: "((- 7)::int) ^ 5693092720067562559269477867438868998983929745103974106 mod P = 44788425231405127291481683635877135347566868124668798942549435593358820669851"
    by (rule pow_sq_P [OF s, where q = "107395321708363008154450486545233053524223482931866205095870607977254407511211"]) (simp, code_simp)
  have s: "((- 7)::int) ^ 11386185440135125118538955734877737997967859490207948213 mod P = 36098436383669250237744198106511534295015125189008954455499518071947449551340"
    by (rule pow_sq_mul_P [OF s, where q = "(- 121269262308455390750505998554695351486577384489616282814872162941926526434069)"]) (simp, code_simp)
  have s: "((- 7)::int) ^ 22772370880270250237077911469755475995935718980415896426 mod P = 54443101140287718513356044788404052291452440176790714125031560703770904593260"
    by (rule pow_sq_P [OF s, where q = "11253766279966802388414340465286300528153043287164257930616105815852251281180"]) (simp, code_simp)
  have s: "((- 7)::int) ^ 45544741760540500474155822939510951991871437960831792852 mod P = 95062530179990977968583550871041082387760793408407242442265286971249238578682"
    by (rule pow_sq_P [OF s, where q = "25598046302599885878521949332985389175087233252924085311601456973571580749386"]) (simp, code_simp)
  have s: "((- 7)::int) ^ 91089483521081000948311645879021903983742875921663585705 mod P = 57098243937411523531436148243892386145799000865507178149555890166434773186271"
    by (rule pow_sq_mul_P [OF s, where q = "(- 546308413003102781271537274551305941484541632695346475706902588724655266476053)"]) (simp, code_simp)
  have s: "((- 7)::int) ^ 182178967042162001896623291758043807967485751843327171411 mod P = 17990880010968875905149610964919996149176003685694489087186637717823818102816"
    by (rule pow_sq_mul_P [OF s, where q = "(- 197090028994816794233547058125552981484856823692313776845689059987101191937481)"]) (simp, code_simp)
  have s: "((- 7)::int) ^ 364357934084324003793246583516087615934971503686654342822 mod P = 73490227786389663950939888518904300790160014620940906656928010745230184218447"
    by (rule pow_sq_P [OF s, where q = "2795283906707247664740655572712581483541773055970539681207827293242213037343"]) (simp, code_simp)
  have s: "((- 7)::int) ^ 728715868168648007586493167032175231869943007373308685644 mod P = 104609881959465866594566667198949822853881521482022252231170726352759345364040"
    by (rule pow_sq_P [OF s, where q = "46642336412347285864932731568237432911553022092564380953725568874552446251063"]) (simp, code_simp)
  have s: "((- 7)::int) ^ 1457431736337296015172986334064350463739886014746617371288 mod P = 61791266298656058992983242884621055575622495557572761492914903905888584620695"
    by (rule pow_sq_P [OF s, where q = "94507556393988266801317166495382489288694766023258906890094492452263046592935"]) (simp, code_simp)
  have s: "((- 7)::int) ^ 2914863472674592030345972668128700927479772029493234742576 mod P = 76244385736563995106378061629804412031124066351718012574321527372121356733167"
    by (rule pow_sq_P [OF s, where q = "32974278432493758293390408453841097654992150282483200994070232636255341712766"]) (simp, code_simp)
  show ?thesis
    by (rule pow_sq_P [OF s, where q = "50203829938950158035239429543067690616681261189050429788158599585664337920833"]) (simp, code_simp)
qed

lemma p_base_17: "((- 7)::int) ^ 23878561568150257912594208097310317997914292465608579011184338 mod P = 105926572124654891296508525479322905825775596372875310271736338182011249357341"
proof -
  note s = p_base_16
  have s: "((- 7)::int) ^ 11659453890698368121383890672514803709919088117972938970304 mod P = 56422053474275508429778547281594517532509216745681889308395616336802402953871"
    by (rule pow_sq_P [OF s, where q = "385687450726134053461727918529492698816682608296478903568172136854701995483"]) (simp, code_simp)
  have s: "((- 7)::int) ^ 23318907781396736242767781345029607419838176235945877940609 mod P = 75517159009926075009769157730636621566923814442728663686078136072805890827993"
    by (rule pow_sq_mul_P [OF s, where q = "(- 192449561749478731611947053151238452086936078906763000854851514719515151848960)"]) (simp, code_simp)
  have s: "((- 7)::int) ^ 46637815562793472485535562690059214839676352471891755881219 mod P = 69996828268464299036662950791447585291650816095622314699728513539697186737339"
    by (rule pow_sq_mul_P [OF s, where q = "(- 344754891266339392480572832573365411959946865011039737816741674540498695220814)"]) (simp, code_simp)
  have s: "((- 7)::int) ^ 93275631125586944971071125380118429679352704943783511762438 mod P = 105493036621544117498456456200124717177058405907169861860430886087095503769261"
    by (rule pow_sq_P [OF s, where q = "42313391181700070969291046495731568373168813939109103775901558644603364836820"]) (simp, code_simp)
  have s: "((- 7)::int) ^ 186551262251173889942142250760236859358705409887567023524877 mod P = 59941679586453292692753118339977011677891152655381672333450458771880416614350"
    by (rule pow_sq_mul_P [OF s, where q = "(- 672770186137516503528985408334128682511167640165790704888169656792555686021219)"]) (simp, code_simp)
  have s: "((- 7)::int) ^ 373102524502347779884284501520473718717410819775134047049755 mod P = 69068621724565537582866989166220758265302942138328485918213244422047413413154"
    by (rule pow_sq_mul_P [OF s, where q = "(- 217208574671868188854737841075951003002623970094315912693470563237997709023458)"]) (simp, code_simp)
  have s: "((- 7)::int) ^ 746205049004695559768569003040947437434821639550268094099510 mod P = 22731139665671859543782375135004746574392659853123788173025583371999605935214"
    by (rule pow_sq_P [OF s, where q = "41198621929638270209495552885118950930984042820846003519211956380191543402954"]) (simp, code_simp)
  have s: "((- 7)::int) ^ 1492410098009391119537138006081894874869643279100536188199021 mod P = 21405480068375103031912715764926430219492408811284393355943968970040551662004"
    by (rule pow_sq_mul_P [OF s, where q = "(- 31236442811641910033275883355303809366551306385752363837024091378086459504752)"]) (simp, code_simp)
  have s: "((- 7)::int) ^ 2984820196018782239074276012163789749739286558201072376398042 mod P = 108421450197497170772610072507055474414357067632743310686403956399900141951418"
    by (rule pow_sq_P [OF s, where q = "3957045597636059568988934637041762214997380034385560441695249139459224468746"]) (simp, code_simp)
  have s: "((- 7)::int) ^ 5969640392037564478148552024327579499478573116402144752796084 mod P = 85233168887810858891957279088750792342781159274302043471818981491925891309236"
    by (rule pow_sq_P [OF s, where q = "101519982412926528214112966869302173646359944635306257497645067937902084357776"]) (simp, code_simp)
  have s: "((- 7)::int) ^ 11939280784075128956297104048655158998957146232804289505592169 mod P = 103425575973141503550340304069141315037870095582614467193998597778027529014827"
    by (rule pow_sq_mul_P [OF s, where q = "(- 439173797498234685097777587621589907410854445033228218060461399919836205961173)"]) (simp, code_simp)
  show ?thesis
    by (rule pow_sq_P [OF s, where q = "92379797582310160868484825213573238489685451661283189668620353755000441517476"]) (simp, code_simp)
qed

lemma p_base_18: "((- 7)::int) ^ 97806588183143456409985876366583062519456941939132739629811050393 mod P = 95230424563273290247153997254760971884825395502261474424937742208557141255084"
proof -
  note s = p_base_17
  have s: "((- 7)::int) ^ 47757123136300515825188416194620635995828584931217158022368676 mod P = 10313333749154950056362677759100296412001884326645207736266513417952834692706"
    by (rule pow_sq_P [OF s, where q = "96901599720542183806231951038639504299259653256780668986532332524976682062025"]) (simp, code_simp)
  have s: "((- 7)::int) ^ 95514246272601031650376832389241271991657169862434316044737353 mod P = 26725790008237704583543045128844895902586193772327331327526939242495701369718"
    by (rule pow_sq_mul_P [OF s, where q = "(- 6430093593218135483218430110778943354979663466904982992582702855619017371790)"]) (simp, code_simp)
  have s: "((- 7)::int) ^ 191028492545202063300753664778482543983314339724868632089474707 mod P = 50297035042009385012873287438400308273626721278554643648397537838410795246652"
    by (rule pow_sq_mul_P [OF s, where q = "(- 43179762917168471022455828829488378536103350574705364935379653545151482133640)"]) (simp, code_simp)
  have s: "((- 7)::int) ^ 382056985090404126601507329556965087966628679449737264178949415 mod P = 59168763368684820203695345409085146273907488027220451130459112721164550515513"
    by (rule pow_sq_mul_P [OF s, where q = "(- 152933954769795506770748796060078333898288171623902017058818270823610913015207)"]) (simp, code_simp)
  have s: "((- 7)::int) ^ 764113970180808253203014659113930175933257358899474528357898831 mod P = 76644943617484632720830595895642823794092689772709170777970826627630968629104"
    by (rule pow_sq_mul_P [OF s, where q = "(- 211643110263168261113709746765685512114779251306786798902386355356793030284649)"]) (simp, code_simp)
  have s: "((- 7)::int) ^ 1528227940361616506406029318227860351866514717798949056715797662 mod P = 54275881963120953258314378878597404797212170434699155710258801278999329421470"
    by (rule pow_sq_P [OF s, where q = "50732717760085516511356303707779915624853192433250347785774669045933974260542"]) (simp, code_simp)
  have s: "((- 7)::int) ^ 3056455880723233012812058636455720703733029435597898113431595324 mod P = 70368441151309027881174398133420182796024665358666600423195361142782440192846"
    by (rule pow_sq_P [OF s, where q = "25441041631411168472247353069258065117151501120155105269905586601472378233258"]) (simp, code_simp)
  have s: "((- 7)::int) ^ 6112911761446466025624117272911441407466058871195796226863190649 mod P = 29770781845067057304839650201545942296381538379048052223575937691587346311908"
    by (rule pow_sq_mul_P [OF s, where q = "(- 299347069378952003890224113513759930964745365125394059629509172289098439771840)"]) (simp, code_simp)
  have s: "((- 7)::int) ^ 12225823522892932051248234545822882814932117742391592453726381299 mod P = 27369715323668679748831559576049478199207760211687920653957645649650472898385"
    by (rule pow_sq_mul_P [OF s, where q = "(- 53579620184162222786555042188755237359645754292952251892880451035471585778191)"]) (simp, code_simp)
  have s: "((- 7)::int) ^ 24451647045785864102496469091645765629864235484783184907452762598 mod P = 64520447191793597621185554206907709403268324027955734533132222948495959268217"
    by (rule pow_sq_P [OF s, where q = "6469365237580081987094865492300798172600829752654199327958765241624960201816"]) (simp, code_simp)
  have s: "((- 7)::int) ^ 48903294091571728204992938183291531259728470969566369814905525196 mod P = 24653231724051481918072831116568189539437634706490406416430284512892067161166"
    by (rule pow_sq_P [OF s, where q = "35951403357937311868127399527126342866974541851769609705774244389834955611021"]) (simp, code_simp)
  show ?thesis
    by (rule pow_sq_mul_P [OF s, where q = "(- 36742344568625024119271716505969063731612049762126648134777622535948915858552)"]) (simp, code_simp)
qed

lemma p_base_19: "((- 7)::int) ^ 400615785198155597455302149597524224079695634182687701523706062412885 mod P = 2060888306045458704354412715590924526986880848910142474060896830454685438273"
proof -
  note s = p_base_18
  have s: "((- 7)::int) ^ 195613176366286912819971752733166125038913883878265479259622100787 mod P = 8753341052361812552896048489252167125920727587399495457776079074501278439152"
    by (rule pow_sq_mul_P [OF s, where q = "(- 548239838797647057834924220153325576492434917095924022025727039029288776019488)"]) (simp, code_simp)
  have s: "((- 7)::int) ^ 391226352732573825639943505466332250077827767756530958519244201575 mod P = 22282237673535060896036021797478962598411561178224364023089471207512607365584"
    by (rule pow_sq_mul_P [OF s, where q = "(- 4631981861502592942248805418567168226365914241660585508275111672315839563824)"]) (simp, code_simp)
  have s: "((- 7)::int) ^ 782452705465147651279887010932664500155655535513061917038488403150 mod P = 92434642745843430419643467932411286468882587313351805818937750540273210924164"
    by (rule pow_sq_P [OF s, where q = "4287841414816611106268168894637666315519726903396788279509815403127523004484"]) (simp, code_simp)
  have s: "((- 7)::int) ^ 1564905410930295302559774021865329000311311071026123834076976806300 mod P = 73154805771034307608947385049738338191341764018512882870589979219344292607447"
    by (rule pow_sq_P [OF s, where q = "73788833380840208447927190798414628623769723716062424497572219044194480806423"]) (simp, code_simp)
  have s: "((- 7)::int) ^ 3129810821860590605119548043730658000622622142052247668153953612600 mod P = 51377661884817030168026149729889031888735548374752076305081495116190798818605"
    by (rule pow_sq_P [OF s, where q = "46217540789246694525403166267079804502516359646949007273399096992779604409308"]) (simp, code_simp)
  have s: "((- 7)::int) ^ 6259621643721181210239096087461316001245244284104495336307907225201 mod P = 23331304216236646252269718034898573662613316995442929556929113474125936832080"
    by (rule pow_sq_mul_P [OF s, where q = "(- 159576091138523924313546223568218872202200219227625209055986716378457688928385)"]) (simp, code_simp)
  have s: "((- 7)::int) ^ 12519243287442362420478192174922632002490488568208990672615814450402 mod P = 9000927131555777411055388248111057611522601676080022020699163643855605383607"
    by (rule pow_sq_P [OF s, where q = "4701096249459111406315184877011512283242338878298622546984918977294939221511"]) (simp, code_simp)
  have s: "((- 7)::int) ^ 25038486574884724840956384349845264004980977136417981345231628900805 mod P = 11761486520623995529033026553522305862942359622488822877472901503758959851424"
    by (rule pow_sq_mul_P [OF s, where q = "(- 4897716487615410088304851682976921144402404917888350561077335173106962149209)"]) (simp, code_simp)
  have s: "((- 7)::int) ^ 50076973149769449681912768699690528009961954272835962690463257801610 mod P = 31982605749055210458810086608386837489306992960330683138354624729999775396435"
    by (rule pow_sq_P [OF s, where q = "1194663349508332814425831762048615428703412465092987955546389626431624391907"]) (simp, code_simp)
  have s: "((- 7)::int) ^ 100153946299538899363825537399381056019923908545671925380926515603221 mod P = 38415348730609153180861184245052689701443309667968872312952136180092018868256"
    by (rule pow_sq_mul_P [OF s, where q = "(- 61836776075623157314345187163617705238412700492129878323789957780469358505137)"]) (simp, code_simp)
  have s: "((- 7)::int) ^ 200307892599077798727651074798762112039847817091343850761853031206442 mod P = 96209837047002070570123328671682608911550523106656351715009341217134973025319"
    by (rule pow_sq_P [OF s, where q = "12744730903592068598988948217270001774589891622473326744989661366820375728759"]) (simp, code_simp)
  show ?thesis
    by (rule pow_sq_mul_P [OF s, where q = "(- 559574748491485409882883302924119324549105570117430741281286852681015688236200)"]) (simp, code_simp)
qed

lemma p_base_20: "((- 7)::int) ^ 205115282021455665897114700593932402728804164701536103180137503955397371 mod P = 107458220391917623877242120318560315631554283992102492272891814392025331148425"
proof -
  note s = p_base_19
  have s: "((- 7)::int) ^ 801231570396311194910604299195048448159391268365375403047412124825770 mod P = 113896731487332380639551826916603911549324009241457823565148599671200960723234"
    by (rule pow_sq_P [OF s, where q = "36680058525329380000017266126500049069591094579790507752955782086749952465"]) (simp, code_simp)
  have s: "((- 7)::int) ^ 1602463140792622389821208598390096896318782536730750806094824249651541 mod P = 24271218103185351891295366450154287211630939813233006005085638894664952845662"
    by (rule pow_sq_mul_P [OF s, where q = "(- 784226787016276406694701789681463265467651794832413579584659787235212921003558)"]) (simp, code_simp)
  have s: "((- 7)::int) ^ 3204926281585244779642417196780193792637565073461501612189648499303083 mod P = 83615959623677755323341429611059130976137165560790411423605681414567959744451"
    by (rule pow_sq_mul_P [OF s, where q = "(- 35612486350732705810718820076670447485382090428637417102070900632067349552593)"]) (simp, code_simp)
  have s: "((- 7)::int) ^ 6409852563170489559284834393560387585275130146923003224379296998606167 mod P = 67865103629352185175751723570541653595224615094876346256265040345992749682704"
    by (rule pow_sq_mul_P [OF s, where q = "(- 422666187723878345217535772251037630364679331434885140047164380772533858662497)"]) (simp, code_simp)
  have s: "((- 7)::int) ^ 12819705126340979118569668787120775170550260293846006448758593997212335 mod P = 67122965883401194709412811446295554509016557226527007256771841569189409578790"
    by (rule pow_sq_mul_P [OF s, where q = "(- 278427535479419621962572188027398819421886972360273051692021592635250890708154)"]) (simp, code_simp)
  have s: "((- 7)::int) ^ 25639410252681958237139337574241550341100520587692012897517187994424671 mod P = 113079100882188027030359010435333162662180484735795763706550418116350095351698"
    by (rule pow_sq_mul_P [OF s, where q = "(- 272371351537250115607819410060430776009635816039798072915357766431968186635346)"]) (simp, code_simp)
  have s: "((- 7)::int) ^ 51278820505363916474278675148483100682201041175384025795034375988849342 mod P = 114611748028408554411159267998196365891110987473817122719227662961863874766939"
    by (rule pow_sq_P [OF s, where q = "110429677368695767618474827658415156360428642829624857987305122007001545879655"]) (simp, code_simp)
  have s: "((- 7)::int) ^ 102557641010727832948557350296966201364402082350768051590068751977698685 mod P = 18488445533032714411865554011520728869754877346111887000009038708627169088784"
    by (rule pow_sq_mul_P [OF s, where q = "(- 794104071431323154660635796064802068151863789262732840222380188140313647433137)"]) (simp, code_simp)
  show ?thesis
    by (rule pow_sq_mul_P [OF s, where q = "(- 20664264228719949523863262678052214215981435394180904309469078145966040124359)"]) (simp, code_simp)
qed

lemma p_third_1: "(107458220391917623877242120318560315631554283992102492272891814392025331148425::int) ^ 182 mod P = 47144298923868124383640747300663749971713395943279072762194130881723488681639"
proof -
  have s: "(107458220391917623877242120318560315631554283992102492272891814392025331148425::int) ^ 0 mod P = 1"
    by (simp add: P_def)
  have s: "(107458220391917623877242120318560315631554283992102492272891814392025331148425::int) ^ 1 mod P = 107458220391917623877242120318560315631554283992102492272891814392025331148425"
    by (rule pow_mul_P [OF s, where q = "0"]) (simp, code_simp)
  have s: "(107458220391917623877242120318560315631554283992102492272891814392025331148425::int) ^ 2 mod P = 76352885421983142479389422520269414136634138878536634194411934810873182195483"
    by (rule pow_sq_P [OF s, where q = "99724162555973766057281054657936604950123993376390965773595241669325347832234"]) (simp, code_simp)
  have s: "(107458220391917623877242120318560315631554283992102492272891814392025331148425::int) ^ 4 mod P = 9905949581044113699101733342683363200583706714870262925546844268165536503483"
    by (rule pow_sq_P [OF s, where q = "50346816873770805233802369841920394929904132516619284204189292674097835920962"]) (simp, code_simp)
  have s: "(107458220391917623877242120318560315631554283992102492272891814392025331148425::int) ^ 5 mod P = 92710900007221628954085850425196567050461058397444140411997703098275567274322"
    by (rule pow_mul_P [OF s, where q = "9192991682613279487127512577471078739272616936876205089947935172474974626831"]) (simp, code_simp)
  have s: "(107458220391917623877242120318560315631554283992102492272891814392025331148425::int) ^ 10 mod P = 6248278774825691563825623784694651784664094554752953895908629269670015819079"
    by (rule pow_sq_P [OF s, where q = "74230554408021213637115457146060360539093046353557906631210226833809000754835"]) (simp, code_simp)
  have s: "(107458220391917623877242120318560315631554283992102492272891814392025331148425::int) ^ 11 mod P = 10847381158423029638784657203670838173731354929211783951218597534378164583918"
    by (rule pow_mul_P [OF s, where q = "5798573305636318908554433767837433578692225735831546014936750479441817448639"]) (simp, code_simp)
  have s: "(107458220391917623877242120318560315631554283992102492272891814392025331148425::int) ^ 22 mod P = 30760501657902865817505801924579199503689156254946632054522287504426197430648"
    by (rule pow_sq_P [OF s, where q = "1016180628323881676003599611638194938368866558094551534904489265201183307252"]) (simp, code_simp)
  have s: "(107458220391917623877242120318560315631554283992102492272891814392025331148425::int) ^ 44 mod P = 58913158662681180288125813878965785443474906361820119101826016391523741683824"
    by (rule pow_sq_P [OF s, where q = "8171615768211835197354397009310820862470897808942206552521590215317209850160"]) (simp, code_simp)
  have s: "(107458220391917623877242120318560315631554283992102492272891814392025331148425::int) ^ 45 mod P = 49634940501444820663250803574212061887499851757858529790895722855703959060111"
    by (rule pow_mul_P [OF s, where q = "54673019800028067273074515757362535120562092538719596196616875562306235726703"]) (simp, code_simp)
  have s: "(107458220391917623877242120318560315631554283992102492272891814392025331148425::int) ^ 90 mod P = 32910769614487483603638088099275775051090554076889844646569696310770307443978"
    by (rule pow_sq_P [OF s, where q = "21276300780209230627685853870907840557317442193909803105786304328056238886361"]) (simp, code_simp)
  have s: "(107458220391917623877242120318560315631554283992102492272891814392025331148425::int) ^ 91 mod P = 99368936875524986800058313831109140089069591135484955897505018763530502132608"
    by (rule pow_mul_P [OF s, where q = "30542092795761622065939272595946269327359600992949388880321521022281649918534"]) (simp, code_simp)
  show ?thesis
    by (rule pow_sq_P [OF s, where q = "85275131322096622649327278287640465461298231464126454697651559413423092093175"]) (simp, code_simp)
qed

lemma p_third_2: "(107458220391917623877242120318560315631554283992102492272891814392025331148425::int) ^ 47042 mod P = 105397585187286826487655336576293050498465031949261422267203821585100180843525"
proof -
  note s = p_third_1
  have s: "(107458220391917623877242120318560315631554283992102492272891814392025331148425::int) ^ 183 mod P = 81560586426018887920799519154221781765230365815928678768450660988300470701034"
    by (rule pow_mul_P [OF s, where q = "43751196626227187645268572876373854876244655730351761068047003474211457809307"]) (simp, code_simp)
  have s: "(107458220391917623877242120318560315631554283992102492272891814392025331148425::int) ^ 366 mod P = 49285663325547876050148502250867147022210852028904456764716780432154797059064"
    by (rule pow_sq_P [OF s, where q = "57448909523711415499805060150842016243651593813857807716367791906306092220884"]) (simp, code_simp)
  have s: "(107458220391917623877242120318560315631554283992102492272891814392025331148425::int) ^ 367 mod P = 26303067770078044694149318653672908849785453055717072808866869584881139032677"
    by (rule pow_mul_P [OF s, where q = "45738441258660619576370383022692606402175630590654015765514053960195081608221"]) (simp, code_simp)
  have s: "(107458220391917623877242120318560315631554283992102492272891814392025331148425::int) ^ 734 mod P = 67947935332124464926454622870945743768686690995472971560590418352067109362430"
    by (rule pow_sq_P [OF s, where q = "5974945081950867713814598478679128455941107824121412588968098523873273847573"]) (simp, code_simp)
  have s: "(107458220391917623877242120318560315631554283992102492272891814392025331148425::int) ^ 735 mod P = 31451333663841751187187202605185566095666544520756894450672190146167970982310"
    by (rule pow_mul_P [OF s, where q = "63057539234227148957824110234273083963256855555517283167539254336852866829880"]) (simp, code_simp)
  have s: "(107458220391917623877242120318560315631554283992102492272891814392025331148425::int) ^ 1470 mod P = 15273666345964108378733096117582235853109728059519013431342346281406029656783"
    by (rule pow_sq_P [OF s, where q = "8542780389832722095672861602383050531542150790441179794405043850148614822459"]) (simp, code_simp)
  have s: "(107458220391917623877242120318560315631554283992102492272891814392025331148425::int) ^ 2940 mod P = 18347001899567139663874122943533376056687461208092119800947712171889583110999"
    by (rule pow_sq_P [OF s, where q = "2014687576538312628500027206420819230639756511052531359473785270084250641430"]) (simp, code_simp)
  have s: "(107458220391917623877242120318560315631554283992102492272891814392025331148425::int) ^ 5880 mod P = 49961887800872754483156472660499571557483475939757561657268927450673914107608"
    by (rule pow_sq_P [OF s, where q = "2907042103824830892943581462388477926882642563765255430672771456077674786711"]) (simp, code_simp)
  have s: "(107458220391917623877242120318560315631554283992102492272891814392025331148425::int) ^ 11760 mod P = 85226299928880522235527781850847768293578855281763404900124105410589105408272"
    by (rule pow_sq_P [OF s, where q = "21557519594547164877408570877864440229077674950768599252234678031594940139984"]) (simp, code_simp)
  have s: "(107458220391917623877242120318560315631554283992102492272891814392025331148425::int) ^ 23520 mod P = 35569419886711334718172300727138750383464470324706570233890916084139632074823"
    by (rule pow_sq_P [OF s, where q = "62729002019135279678414092423895327309689872611791003512890905223043707441047"]) (simp, code_simp)
  have s: "(107458220391917623877242120318560315631554283992102492272891814392025331148425::int) ^ 23521 mod P = 87691194186509592497190713957937935965304145267880052999184273554052202758038"
    by (rule pow_mul_P [OF s, where q = "33009392839999809359169661423461614160685050451599713521404712730433835949799"]) (simp, code_simp)
  show ?thesis
    by (rule pow_sq_P [OF s, where q = "66409938610710959558240498795823376490383548764605525877852633584108465036113"]) (simp, code_simp)
qed

lemma p_third_3: "(107458220391917623877242120318560315631554283992102492272891814392025331148425::int) ^ 188174 mod P = 55594575648329892869085402983802832744385952214688224221778511981742606582254"
proof -
  note s = p_third_2
  have s: "(107458220391917623877242120318560315631554283992102492272891814392025331148425::int) ^ 47043 mod P = 47048383352159021129074015102232878716023300239904513050867169698451302410110"
    by (rule pow_mul_P [OF s, where q = "97811836822626519594754757379039409875933757594519695475831696426553907291905"]) (simp, code_simp)
  have s: "(107458220391917623877242120318560315631554283992102492272891814392025331148425::int) ^ 94086 mod P = 22322687925261988442328708077867832219093500880103457740116522888077878983621"
    by (rule pow_sq_P [OF s, where q = "19116594152775296559287335023326624303435682807162994601827557789423612437233"]) (simp, code_simp)
  have s: "(107458220391917623877242120318560315631554283992102492272891814392025331148425::int) ^ 94087 mod P = 60197513588986302554485582024885075108884032450952339817679072026166228089408"
    by (rule pow_mul_P [OF s, where q = "20716063891865217622302585689878429981213430175104437552191426323681467573859"]) (simp, code_simp)
  show ?thesis
    by (rule pow_sq_P [OF s, where q = "31295234986816106708621480549220651862101030545536853469444158949967814038670"]) (simp, code_simp)
qed

lemma p_cubic: "((- 7)::int) ^ 38597363079105398474523661669562635951089994888546854679819194669302944890554 mod P = 55594575648329892869085402983802832744385952214688224221778511981742606582254"
  by (rule pow_compose_num [OF p_base_20 p_third_3]) simp

lemma p_cube_1: "(55594575648329892869085402983802832744385952214688224221778511981742606582254::int) ^ 3 mod P = 1"
proof -
  have s: "(55594575648329892869085402983802832744385952214688224221778511981742606582254::int) ^ 0 mod P = 1"
    by (simp add: P_def)
  have s: "(55594575648329892869085402983802832744385952214688224221778511981742606582254::int) ^ 1 mod P = 55594575648329892869085402983802832744385952214688224221778511981742606582254"
    by (rule pow_mul_P [OF s, where q = "0"]) (simp, code_simp)
  have s: "(55594575648329892869085402983802832744385952214688224221778511981742606582254::int) ^ 2 mod P = 60197513588986302554485582024885075108884032450952339817679072026166228089408"
    by (rule pow_sq_P [OF s, where q = "26692297046159697023221301508138409497602950309272737873543598905544192531516"]) (simp, code_simp)
  show ?thesis
    by (rule pow_mul_P [OF s, where q = "28902278602170195845864101475664423246783001905415486348234913076198414050737"]) (simp, code_simp)
qed

lemma p_fermat: "((- 7)::int) ^ 115792089237316195423570985008687907853269984665640564039457584007908834671662 mod P = 1"
  by (rule pow_compose_num [OF p_cubic p_cube_1]) simp

lemma p_small_1: "((- 7)::int) ^ 2205 mod P = 71123685565327656561169536746708891517843314714550388053980270531651166390098"
proof -
  have s: "((- 7)::int) ^ 0 mod P = 1"
    by (simp add: P_def)
  have s: "((- 7)::int) ^ 1 mod P = 115792089237316195423570985008687907853269984665640564039457584007908834671656"
    by (rule pow_sq_mul_P [OF s, where q = "(- 1)"]) (simp, code_simp)
  have s: "((- 7)::int) ^ 2 mod P = 49"
    by (rule pow_sq_P [OF s, where q = "115792089237316195423570985008687907853269984665640564039457584007908834671649"]) (simp, code_simp)
  have s: "((- 7)::int) ^ 4 mod P = 2401"
    by (rule pow_sq_P [OF s, where q = "0"]) (simp, code_simp)
  have s: "((- 7)::int) ^ 8 mod P = 5764801"
    by (rule pow_sq_P [OF s, where q = "0"]) (simp, code_simp)
  have s: "((- 7)::int) ^ 17 mod P = 115792089237316195423570985008687907853269984665640564039457583775278320684456"
    by (rule pow_sq_mul_P [OF s, where q = "(- 1)"]) (simp, code_simp)
  have s: "((- 7)::int) ^ 34 mod P = 54116956037952111668959660849"
    by (rule pow_sq_P [OF s, where q = "115792089237316195423570985008687907853269984665640564039457583542647806697249"]) (simp, code_simp)
  have s: "((- 7)::int) ^ 68 mod P = 2928644930813641516032715844013695341634232321209103400801"
    by (rule pow_sq_P [OF s, where q = "0"]) (simp, code_simp)
  have s: "((- 7)::int) ^ 137 mod P = 64442418930579696715578201342644812449416714836427526345777977095700713730521"
    by (rule pow_sq_mul_P [OF s, where q = "(- 518504574111393230650959448286551852256)"]) (simp, code_simp)
  have s: "((- 7)::int) ^ 275 mod P = 29674481611735491271267064239970524609061411412524049947056791387229545791406"
    by (rule pow_sq_mul_P [OF s, where q = "(- 251051498378198952643200630063117096381854043243833391520138833339454841566411)"]) (simp, code_simp)
  have s: "((- 7)::int) ^ 551 mod P = 82259951031310294860021347300818541055298070072850725143075797657002993120023"
    by (rule pow_sq_mul_P [OF s, where q = "(- 53233550349397452880415624602992844572679663863427009307763155091480062720125)"]) (simp, code_simp)
  have s: "((- 7)::int) ^ 1102 mod P = 23482883271473645777369779614618652689548408027911570217720786464197261332063"
    by (rule pow_sq_P [OF s, where q = "58438357820845592466146714643068381484030074451923879342967498062827601196782"]) (simp, code_simp)
  show ?thesis
    by (rule pow_sq_mul_P [OF s, where q = "(- 33336652552146891686879096213106640536842925404130608572966514225956025234487)"]) (simp, code_simp)
qed

lemma p_small_2: "((- 7)::int) ^ 564522 mod P = 1744114336159105555045918014297526003984380423634028126075528989818877579867"
proof -
  note s = p_small_1
  have s: "((- 7)::int) ^ 4410 mod P = 39922065561585754458364534728570092821832806479890295208560624562878315648056"
    by (rule pow_sq_P [OF s, where q = "43686737856746217222621038139895090492379532893689210778161754212850201321396"]) (simp, code_simp)
  have s: "((- 7)::int) ^ 8820 mod P = 45319088094012737060908926915192414387185594187464040847576466891424252078983"
    by (rule pow_sq_P [OF s, where q = "13764077746599016243356490566020481599778309090453222888461314370867958542231"]) (simp, code_simp)
  have s: "((- 7)::int) ^ 17641 mod P = 34601527882638358056763212217603946129630623932559857535698705782800815165838"
    by (rule pow_sq_mul_P [OF s, where q = "(- 124159934537885794849739513919991094651031672397916570260313194719846016827947)"]) (simp, code_simp)
  have s: "((- 7)::int) ^ 35282 mod P = 8475196200031646607354922111417087920114042230301288456545264996591707067693"
    by (rule pow_sq_P [OF s, where q = "10339788665175566757593964591799344068002276159940009348519293472202112375577"]) (simp, code_simp)
  have s: "((- 7)::int) ^ 70565 mod P = 88588986872546043902646437769344918903169752956811777135609704507554632438762"
    by (rule pow_sq_mul_P [OF s, where q = "(- 4342288473375073636995796080144883513724594926749970570428773745630070320135)"]) (simp, code_simp)
  have s: "((- 7)::int) ^ 141130 mod P = 19505545404782706455824617962496818133628052457122035395518558173069412230562"
    by (rule pow_sq_P [OF s, where q = "67776725049149262431019055803015045220370139071864209077360472976258715147614"]) (simp, code_simp)
  have s: "((- 7)::int) ^ 282261 mod P = 10012833198496017102716088431831152446744432456022004725266273591299765251177"
    by (rule pow_sq_mul_P [OF s, where q = "(- 23000397767311300511371274535155567632578969449961342983865296593916987510795)"]) (simp, code_simp)
  show ?thesis
    by (rule pow_sq_P [OF s, where q = "865834871114790430561528974469373421525050824672241940980039725508054744874"]) (simp, code_simp)
qed

lemma p_coprime: "coprime (((- 7)::int) ^ 564522 - 1) P"
proof (rule coprime_pow_cert [OF p_small_2])
  show "((1744114336159105555045918014297526003984380423634028126075528989818877579867::int) - 1) * 68004816438074239153009339380444909067988085201812819886878770128452230405596 = 1024320193708793953425656090900665526624424441537018528597109137349880653145 * P + 1"
    by code_simp
  show "(P::int) \<noteq> 0"
    by (simp add: P_def)
qed

lemma prime_P: "prime_nat (nat P)"
proof (rule pocklington_single [OF prime_Q _ _ p_fermat p_coprime])
qed (simp_all add: P_def)

section \<open>Consequences of the primality of \<open>P\<close>\<close>

lemma int_nat_P: "int (nat P) = P"
  using P_pos by simp

lemma P_prime_coprime:
  assumes "\<not> P dvd d"
  shows "coprime d P"
proof -
  have "\<not> int (nat P) dvd d" using assms by (simp only: int_nat_P simp_thms)
  with prime_P have "coprime (int (nat P)) d" by (rule prime_nat_int_coprime)
  then show ?thesis by (simp only: int_nat_P coprime_commute)
qed

lemma P_prime_dvd_mult:
  assumes "P dvd a * b"
  shows "P dvd a \<or> P dvd b"
proof -
  have "int (nat P) dvd a * b" using assms by (simp only: int_nat_P simp_thms)
  with prime_P have "int (nat P) dvd a \<or> int (nat P) dvd b" by (rule prime_nat_int_dvd_mult)
  then show ?thesis by (simp only: int_nat_P)
qed

text \<open>\<open>-7\<close> is not a cube modulo \<open>P\<close>: its power \<open>(P - 1) / 3\<close> is not \<open>1\<close>. So the
  curve has no point whose second coordinate is divisible by \<open>P\<close>.\<close>

lemma no_cube_root: "\<not> P dvd (xv * xv * xv + 7)"
proof
  assume d: "P dvd (xv * xv * xv + 7)"
  define e :: nat where "e = 38597363079105398474523661669562635951089994888546854679819194669302944890554"
  define c :: int where "c = 55594575648329892869085402983802832744385952214688224221778511981742606582254"
  have pc: "(- 7) ^ e mod P = c"
    unfolding e_def c_def by (rule p_cubic)
  have "nat P = 115792089237316195423570985008687907853269984665640564039457584007908834671663"
    unfolding P_def by simp
  then have e3: "nat P - 1 = 3 * e"
    unfolding e_def by simp
  have nx: "\<not> P dvd xv"
  proof
    assume "P dvd xv"
    then have "P dvd xv * xv * xv" by (rule dvd_mult)
    with d have "P dvd (xv * xv * xv + 7) - xv * xv * xv" by (rule dvd_diff)
    then have "P dvd 7" by simp
    then have "P \<le> 7" by (rule zdvd_imp_le) simp
    then show False by (simp add: P_def)
  qed
  have "\<not> int (nat P) dvd xv" using nx by (simp only: int_nat_P simp_thms)
  with prime_P have "xv ^ (nat P - 1) mod int (nat P) = 1" by (rule fermat_little)
  then have f: "xv ^ (3 * e) mod P = 1" by (simp only: int_nat_P e3)
  have "xv ^ 3 - (- 7) = xv * xv * xv + 7"
    by (simp add: power3_eq_cube)
  with d have "P dvd xv ^ 3 - (- 7)"
    by (simp only:)
  then have "(xv ^ 3) mod P = (- 7) mod P"
    by (simp only: mod_eq_dvd_iff)
  then have "((xv ^ 3) mod P) ^ e mod P = ((- 7) mod P) ^ e mod P"
    by (simp only:)
  then have "(xv ^ 3) ^ e mod P = (- 7) ^ e mod P"
    by (simp only: power_mod)
  then have "xv ^ (3 * e) mod P = (- 7) ^ e mod P"
    by (simp only: power_mult)
  with f pc have "c = 1" by (simp only:)
  then show False
    unfolding c_def by simp
qed

section \<open>Valid points\<close>

lemma valid_point_iff:
  "valid_point p \<longleftrightarrow>
     p = \<lparr>point_x = None, point_y = None\<rparr> \<or>
     (\<exists>xv yv. p = \<lparr>point_x = Some xv, point_y = Some yv\<rparr> \<and>
        (yv * yv) mod P = (xv * xv * xv + B) mod P)"
proof (cases p)
  case (fields xo yo)
  show ?thesis
  proof (cases xo)
    case None
    show ?thesis
    proof (cases yo)
      case None
      with \<open>xo = None\<close> fields show ?thesis
        by (simp add: valid_point_def Point_init_None)
    next
      case (Some yv)
      with \<open>xo = None\<close> fields show ?thesis
        by (simp add: valid_point_def Point_init_def is_infinity_def is_on_curve_def)
    qed
  next
    case (Some xv)
    show ?thesis
    proof (cases yo)
      case None
      with \<open>xo = Some xv\<close> fields show ?thesis
        by (simp add: valid_point_def Point_init_def is_infinity_def is_on_curve_def)
    next
      case (Some yv)
      with \<open>xo = Some xv\<close> fields show ?thesis
        by (simp add: valid_point_def Point_init_Some)
    qed
  qed
qed

section \<open>Congruences modulo the field prime\<close>

lemma cong_iff_dvd: "a mod P = b mod P \<longleftrightarrow> P dvd (a - b)"
  by (rule mod_eq_dvd_iff)

lemma curve_dvd_iff: "(yv * yv) mod P = (xv * xv * xv + B) mod P \<longleftrightarrow> P dvd (yv * yv - (xv * xv * xv + 7))"
  by (simp only: mod_eq_dvd_iff B_def)

lemma P_cancel:
  assumes "\<not> P dvd d" and "P dvd d * t"
  shows "P dvd t"
  using P_prime_dvd_mult [OF assms(2)] assms(1) by blast

text \<open>What \<open>mod_inverse\<close> returns for a unit of the field.\<close>

lemma mod_inverse_unit:
  assumes "\<not> P dvd d"
  shows "\<exists>i. mod_inverse d P = Inr i \<and> 0 \<le> i \<and> i < P \<and> P dvd (d * i - 1)"
proof -
  have "coprime d P" using assms by (rule P_prime_coprime)
  then have g: "gcd d P = 1" by (simp add: coprime_iff_gcd_eq_1)
  obtain i where i: "mod_inverse d P = Inr i" "0 \<le> i" "i < P" "(d * i) mod P = 1 mod P"
    using mod_inverse_correct [OF P_pos g] by blast
  from i(4) have "P dvd (d * i - 1)" by (simp only: mod_eq_dvd_iff)
  with i(1-3) show ?thesis by blast
qed

section \<open>The chord and the tangent stay on the curve\<close>

lemma chord_identity:
  fixes s x1 y1 x2 y2 :: int
  defines "X3 \<equiv> s * s - x1 - x2"
  defines "Y3 \<equiv> s * (x1 - X3) - y1"
  defines "L \<equiv> s * (x2 - x1) - (y2 - y1)"
  shows "(x2 - x1) * (Y3 * Y3 - (X3 * X3 * X3 + 7)) =
    ((y2 * y2 - (x2 * x2 * x2 + 7)) + 2 * y2 * L + L * L - (y1 * y1 - (x1 * x1 * x1 + 7))) * (X3 - x1)
    + (x2 - x1) * (y1 * y1 - (x1 * x1 * x1 + 7))"
  unfolding X3_def Y3_def L_def by (simp add: algebra_simps power2_eq_square power3_eq_cube)

lemma tangent_identity:
  fixes s x1 y1 :: int
  defines "X3 \<equiv> s * s - x1 - x1"
  defines "Y3 \<equiv> s * (x1 - X3) - y1"
  defines "L \<equiv> s * (2 * y1) - 3 * x1 * x1"
  shows "Y3 * Y3 - (X3 * X3 * X3 + 7) = (y1 * y1 - (x1 * x1 * x1 + 7)) + L * (X3 - x1)"
  unfolding X3_def Y3_def L_def by (simp add: algebra_simps power2_eq_square power3_eq_cube)


lemma mod_P_dvd: "P dvd (a mod P - a)"
proof -
  have "(a mod P) mod P = a mod P" by simp
  then show ?thesis by (simp only: mod_eq_dvd_iff)
qed

text \<open>Once the unreduced coordinates satisfy the curve equation, the tail of
  \<open>point_add\<close> returns the reduced point.\<close>

lemma add_with_slope_on_curve:
  fixes s x1 y1 x2 :: int
  defines "X3 \<equiv> s * s - x1 - x2"
  defines "Y3 \<equiv> s * (x1 - X3) - y1"
  assumes T: "P dvd (Y3 * Y3 - (X3 * X3 * X3 + 7))"
  shows "\<exists>x3 y3. add_with_slope s x1 y1 x2 = Inr \<lparr>point_x = Some x3, point_y = Some y3\<rparr> \<and>
           (y3 * y3) mod P = (x3 * x3 * x3 + B) mod P \<and>
           x3 = (s * s - x1 - x2) mod P \<and> y3 = (s * (x1 - x3) - y1) mod P"
proof -
  define x3 where "x3 = (s * s - x1 - x2) mod P"
  define y3 where "y3 = (s * (x1 - x3) - y1) mod P"
  have x: "x3 mod P = X3 mod P"
    by (simp add: x3_def X3_def)
  have "(x1 - x3) mod P = (x1 - X3) mod P"
    using refl x by (rule mod_diff_cong)
  with refl have "(s * (x1 - x3)) mod P = (s * (x1 - X3)) mod P"
    by (rule mod_mult_cong)
  then have "(s * (x1 - x3) - y1) mod P = (s * (x1 - X3) - y1) mod P"
    using refl by (rule mod_diff_cong)
  then have y: "y3 mod P = Y3 mod P"
    by (simp add: y3_def Y3_def)
  have "(Y3 * Y3) mod P = (X3 * X3 * X3 + B) mod P"
    using T by (simp only: curve_dvd_iff)
  then have on: "(y3 * y3) mod P = (x3 * x3 * x3 + B) mod P"
    by (simp only: curve_eq_cong [OF x y])
  have "add_with_slope s x1 y1 x2 = Point_init (Some x3) (Some y3)"
    by (simp add: add_with_slope_def Let_def x3_def y3_def)
  also have "\<dots> = Inr \<lparr>point_x = Some x3, point_y = Some y3\<rparr>"
    by (simp only: Point_init_Some on if_True simp_thms)
  finally show ?thesis
    using on x3_def y3_def by blast
qed

lemma slope_chord:
  assumes inv: "P dvd ((x2 - x1) * i - 1)" and s: "s = ((y2 - y1) * i) mod P"
  shows "P dvd (s * (x2 - x1) - (y2 - y1))"
proof -
  have "P dvd (s - (y2 - y1) * i)"
    unfolding s by (rule mod_P_dvd)
  then have "P dvd (s - (y2 - y1) * i) * (x2 - x1)"
    by (rule dvd_mult2)
  moreover have "P dvd (y2 - y1) * ((x2 - x1) * i - 1)"
    using inv by (rule dvd_mult)
  ultimately have "P dvd (s - (y2 - y1) * i) * (x2 - x1) + (y2 - y1) * ((x2 - x1) * i - 1)"
    by (rule dvd_add)
  moreover have "(s - (y2 - y1) * i) * (x2 - x1) + (y2 - y1) * ((x2 - x1) * i - 1) =
      s * (x2 - x1) - (y2 - y1)"
    by (simp add: algebra_simps)
  ultimately show ?thesis by (simp only:)
qed

lemma chord_on_curve:
  fixes s x1 y1 x2 y2 :: int
  defines "X3 \<equiv> s * s - x1 - x2"
  defines "Y3 \<equiv> s * (x1 - X3) - y1"
  assumes e1: "P dvd (y1 * y1 - (x1 * x1 * x1 + 7))" and e2: "P dvd (y2 * y2 - (x2 * x2 * x2 + 7))"
    and nd: "\<not> P dvd (x2 - x1)" and L: "P dvd (s * (x2 - x1) - (y2 - y1))"
  shows "P dvd (Y3 * Y3 - (X3 * X3 * X3 + 7))"
proof -
  define L where "L = s * (x2 - x1) - (y2 - y1)"
  have PL: "P dvd L" using assms(6) by (simp only: L_def)
  have a: "P dvd 2 * y2 * L" using PL by (rule dvd_mult)
  have b: "P dvd L * L" using PL by (rule dvd_mult)
  have "P dvd (y2 * y2 - (x2 * x2 * x2 + 7)) + 2 * y2 * L + L * L - (y1 * y1 - (x1 * x1 * x1 + 7))"
    by (rule dvd_diff [OF dvd_add [OF dvd_add [OF e2 a] b] e1])
  then have "P dvd ((y2 * y2 - (x2 * x2 * x2 + 7)) + 2 * y2 * L + L * L - (y1 * y1 - (x1 * x1 * x1 + 7))) * (X3 - x1)"
    by (rule dvd_mult2)
  moreover have "P dvd (x2 - x1) * (y1 * y1 - (x1 * x1 * x1 + 7))"
    using e1 by (rule dvd_mult)
  ultimately have "P dvd ((y2 * y2 - (x2 * x2 * x2 + 7)) + 2 * y2 * L + L * L - (y1 * y1 - (x1 * x1 * x1 + 7))) * (X3 - x1)
    + (x2 - x1) * (y1 * y1 - (x1 * x1 * x1 + 7))"
    by (rule dvd_add)
  moreover have "(x2 - x1) * (Y3 * Y3 - (X3 * X3 * X3 + 7)) =
    ((y2 * y2 - (x2 * x2 * x2 + 7)) + 2 * y2 * L + L * L - (y1 * y1 - (x1 * x1 * x1 + 7))) * (X3 - x1)
    + (x2 - x1) * (y1 * y1 - (x1 * x1 * x1 + 7))"
    unfolding X3_def Y3_def L_def by (rule chord_identity)
  ultimately have "P dvd (x2 - x1) * (Y3 * Y3 - (X3 * X3 * X3 + 7))"
    by (simp only:)
  with nd show ?thesis by (rule P_cancel)
qed

lemma tangent_on_curve:
  fixes s x1 y1 :: int
  defines "X3 \<equiv> s * s - x1 - x1"
  defines "Y3 \<equiv> s * (x1 - X3) - y1"
  assumes e1: "P dvd (y1 * y1 - (x1 * x1 * x1 + 7))" and L: "P dvd (s * (2 * y1) - 3 * x1 * x1)"
  shows "P dvd (Y3 * Y3 - (X3 * X3 * X3 + 7))"
proof -
  have "P dvd (s * (2 * y1) - 3 * x1 * x1) * (X3 - x1)"
    using L by (rule dvd_mult2)
  with e1 have "P dvd (y1 * y1 - (x1 * x1 * x1 + 7)) + (s * (2 * y1) - 3 * x1 * x1) * (X3 - x1)"
    by (rule dvd_add)
  moreover have "Y3 * Y3 - (X3 * X3 * X3 + 7) =
      (y1 * y1 - (x1 * x1 * x1 + 7)) + (s * (2 * y1) - 3 * x1 * x1) * (X3 - x1)"
    unfolding X3_def Y3_def by (rule tangent_identity)
  ultimately show ?thesis
    by (simp only:)
qed

lemma slope_tangent:
  assumes inv: "P dvd (2 * y1 * i - 1)" and s: "s = (3 * x1 * x1 * i) mod P"
  shows "P dvd (s * (2 * y1) - 3 * x1 * x1)"
proof -
  have "P dvd (s - 3 * x1 * x1 * i)"
    unfolding s by (rule mod_P_dvd)
  then have "P dvd (s - 3 * x1 * x1 * i) * (2 * y1)"
    by (rule dvd_mult2)
  moreover have "P dvd 3 * x1 * x1 * (2 * y1 * i - 1)"
    using inv by (rule dvd_mult)
  ultimately have "P dvd (s - 3 * x1 * x1 * i) * (2 * y1) + 3 * x1 * x1 * (2 * y1 * i - 1)"
    by (rule dvd_add)
  moreover have "(s - 3 * x1 * x1 * i) * (2 * y1) + 3 * x1 * x1 * (2 * y1 * i - 1) =
      s * (2 * y1) - 3 * x1 * x1"
    by (simp add: algebra_simps)
  ultimately show ?thesis by (simp only:)
qed


section \<open>Properties of \<open>point_add\<close> on valid points\<close>

lemma valid_point_on_curve: "valid_point p \<Longrightarrow> is_on_curve p = Inr True"
  by (auto simp: valid_point_iff is_on_curve_def is_infinity_def)

lemma valid_point_finite:
  "valid_point \<lparr>point_x = Some xv, point_y = Some yv\<rparr> \<longleftrightarrow> P dvd (yv * yv - (xv * xv * xv + 7))"
  by (simp add: valid_point_iff curve_dvd_iff)

lemma valid_point_infinity: "valid_point \<lparr>point_x = None, point_y = None\<rparr>"
  by (simp add: valid_point_iff)

lemma point_add_infinity_left:
  "point_add \<lparr>point_x = None, point_y = None\<rparr> p = Point_init (point_x p) (point_y p)"
  by (simp add: point_add_def is_infinity_def)

lemma point_add_infinity_right:
  "point_add \<lparr>point_x = Some xv, point_y = Some yv\<rparr> \<lparr>point_x = None, point_y = None\<rparr> =
     Point_init (Some xv) (Some yv)"
  by (simp add: point_add_def is_infinity_def)

lemma point_add_finite:
  "point_add \<lparr>point_x = Some x1, point_y = Some y1\<rparr> \<lparr>point_x = Some x2, point_y = Some y2\<rparr> =
     (if x1 = x2
      then (if y1 = y2
            then (case mod_inverse (2 * y1) P of
                    Inl e \<Rightarrow> Inl e
                  | Inr i \<Rightarrow> add_with_slope ((3 * x1 * x1 * i) mod P) x1 y1 x2)
            else Point_init None None)
      else (case mod_inverse (x2 - x1) P of
              Inl e \<Rightarrow> Inl e
            | Inr i \<Rightarrow> add_with_slope (((y2 - y1) * i) mod P) x1 y1 x2))"
  by (simp add: point_add_def is_infinity_def)

text \<open>No point of the curve has a second coordinate divisible by \<open>P\<close>.\<close>

lemma P_not_dvd_2: "\<not> P dvd 2"
proof
  assume "P dvd 2"
  then have "P \<le> 2" by (rule zdvd_imp_le) simp
  then show False by (simp add: P_def)
qed

lemma two_y_unit:
  assumes "P dvd (yv * yv - (xv * xv * xv + 7))"
  shows "\<not> P dvd 2 * yv"
proof
  assume "P dvd 2 * yv"
  then have "P dvd yv"
    using P_prime_dvd_mult [of 2 yv] P_not_dvd_2 by blast
  then have "P dvd yv * yv" by (rule dvd_mult)
  then have "P dvd yv * yv - (yv * yv - (xv * xv * xv + 7))"
    using assms by (rule dvd_diff)
  then have "P dvd (xv * xv * xv + 7)" by simp
  with no_cube_root show False by blast
qed

lemma point_double_valid:
  assumes e1: "P dvd (y1 * y1 - (x1 * x1 * x1 + 7))"
  shows "\<exists>r. point_add \<lparr>point_x = Some x1, point_y = Some y1\<rparr> \<lparr>point_x = Some x1, point_y = Some y1\<rparr> = Inr r
           \<and> valid_point r"
proof -
  have "\<not> P dvd 2 * y1" using e1 by (rule two_y_unit)
  then obtain i where i: "mod_inverse (2 * y1) P = Inr i" "P dvd (2 * y1 * i - 1)"
    using mod_inverse_unit by blast
  define s where "s = (3 * x1 * x1 * i) mod P"
  have "P dvd (s * (2 * y1) - 3 * x1 * x1)"
    using i(2) s_def by (rule slope_tangent)
  with e1 have "P dvd ((s * (x1 - (s * s - x1 - x1)) - y1) * (s * (x1 - (s * s - x1 - x1)) - y1)
      - ((s * s - x1 - x1) * (s * s - x1 - x1) * (s * s - x1 - x1) + 7))"
    by (rule tangent_on_curve)
  then obtain x3 y3 where r: "add_with_slope s x1 y1 x1 = Inr \<lparr>point_x = Some x3, point_y = Some y3\<rparr>"
      "(y3 * y3) mod P = (x3 * x3 * x3 + B) mod P"
    using add_with_slope_on_curve by blast
  have "point_add \<lparr>point_x = Some x1, point_y = Some y1\<rparr> \<lparr>point_x = Some x1, point_y = Some y1\<rparr> =
      Inr \<lparr>point_x = Some x3, point_y = Some y3\<rparr>"
    by (simp add: point_add_finite i(1) s_def [symmetric] r(1))
  moreover have "valid_point \<lparr>point_x = Some x3, point_y = Some y3\<rparr>"
    using r(2) by (simp add: valid_point_iff)
  ultimately show ?thesis by blast
qed

lemma point_add_distinct_valid:
  assumes e1: "P dvd (y1 * y1 - (x1 * x1 * x1 + 7))" and e2: "P dvd (y2 * y2 - (x2 * x2 * x2 + 7))"
    and ne: "x1 mod P \<noteq> x2 mod P"
  shows "\<exists>r. point_add \<lparr>point_x = Some x1, point_y = Some y1\<rparr> \<lparr>point_x = Some x2, point_y = Some y2\<rparr> = Inr r
           \<and> valid_point r"
proof -
  have nd: "\<not> P dvd (x2 - x1)"
    using ne by (metis mod_eq_dvd_iff)
  have xne: "x1 \<noteq> x2" using ne by auto
  obtain i where i: "mod_inverse (x2 - x1) P = Inr i" "P dvd ((x2 - x1) * i - 1)"
    using mod_inverse_unit [OF nd] by blast
  define s where "s = ((y2 - y1) * i) mod P"
  have "P dvd (s * (x2 - x1) - (y2 - y1))"
    using i(2) s_def by (rule slope_chord)
  with e1 e2 nd have "P dvd ((s * (x1 - (s * s - x1 - x2)) - y1) * (s * (x1 - (s * s - x1 - x2)) - y1)
      - ((s * s - x1 - x2) * (s * s - x1 - x2) * (s * s - x1 - x2) + 7))"
    by (rule chord_on_curve)
  then obtain x3 y3 where r: "add_with_slope s x1 y1 x2 = Inr \<lparr>point_x = Some x3, point_y = Some y3\<rparr>"
      "(y3 * y3) mod P = (x3 * x3 * x3 + B) mod P"
    using add_with_slope_on_curve by blast
  have "point_add \<lparr>point_x = Some x1, point_y = Some y1\<rparr> \<lparr>point_x = Some x2, point_y = Some y2\<rparr> =
      Inr \<lparr>point_x = Some x3, point_y = Some y3\<rparr>"
    using xne by (simp add: point_add_finite i(1) s_def [symmetric] r(1))
  moreover have "valid_point \<lparr>point_x = Some x3, point_y = Some y3\<rparr>"
    using r(2) by (simp add: valid_point_iff)
  ultimately show ?thesis by blast
qed

lemma reduced_x_compatible:
  assumes "reduced p1" and "reduced p2"
  shows "x_compatible p1 p2"
proof (cases "point_x p1")
  case None
  then show ?thesis by (simp add: x_compatible_def)
next
  case s1: (Some x1)
  show ?thesis
  proof (cases "point_x p2")
    case None
    then show ?thesis by (simp add: x_compatible_def s1)
  next
    case s2: (Some x2)
    from assms have "x1 mod P = x1" "x2 mod P = x2"
      by (simp_all add: reduced_def s1 s2)
    then show ?thesis
      by (simp add: x_compatible_def s1 s2)
  qed
qed

lemma point_add_closed:
  assumes v1: "valid_point p1" and v2: "valid_point p2" and c: "x_compatible p1 p2"
  shows "\<exists>r. point_add p1 p2 = Inr r \<and> valid_point r"
proof -
  consider (inf1) "p1 = \<lparr>point_x = None, point_y = None\<rparr>"
    | (inf2) x1 y1 where "p1 = \<lparr>point_x = Some x1, point_y = Some y1\<rparr>" "p2 = \<lparr>point_x = None, point_y = None\<rparr>"
    | (fin) x1 y1 x2 y2 where "p1 = \<lparr>point_x = Some x1, point_y = Some y1\<rparr>"
        "p2 = \<lparr>point_x = Some x2, point_y = Some y2\<rparr>"
    using v1 v2 by (auto simp: valid_point_iff)
  then show ?thesis
  proof cases
    case inf1
    then have "point_add p1 p2 = Inr p2"
      using v2 by (simp add: point_add_infinity_left valid_point_def)
    with v2 show ?thesis by blast
  next
    case inf2
    then have "point_add p1 p2 = Inr p1"
      using v1 by (simp add: point_add_infinity_right valid_point_def)
    with v1 show ?thesis by blast
  next
    case fin
    have e1: "P dvd (y1 * y1 - (x1 * x1 * x1 + 7))"
      using v1 by (simp only: fin valid_point_finite)
    have e2: "P dvd (y2 * y2 - (x2 * x2 * x2 + 7))"
      using v2 by (simp only: fin valid_point_finite)
    show ?thesis
    proof (cases "x1 = x2")
      case True
      show ?thesis
      proof (cases "y1 = y2")
        case True
        with \<open>x1 = x2\<close> fin point_double_valid [OF e1] show ?thesis by simp
      next
        case False
        with \<open>x1 = x2\<close> have "point_add p1 p2 = Inr \<lparr>point_x = None, point_y = None\<rparr>"
          by (simp add: fin point_add_finite Point_init_None)
        with valid_point_infinity show ?thesis by blast
      qed
    next
      case False
      with c have "x1 mod P \<noteq> x2 mod P"
        by (simp add: x_compatible_def fin)
      from point_add_distinct_valid [OF e1 e2 this] fin show ?thesis by simp
    qed
  qed
qed


subsection \<open>Commutativity\<close>

lemma add_with_slope_swap:
  assumes L: "P dvd (s * (x2 - x1) - (y2 - y1))"
  shows "add_with_slope s x1 y1 x2 = add_with_slope s x2 y2 x1"
proof -
  define x3 where "x3 = (s * s - x1 - x2) mod P"
  have x3': "(s * s - x2 - x1) mod P = x3"
    by (simp add: x3_def algebra_simps)
  have "(s * (x1 - x3) - y1) - (s * (x2 - x3) - y2) = - (s * (x2 - x1) - (y2 - y1))"
    by (simp add: algebra_simps)
  moreover have "P dvd - (s * (x2 - x1) - (y2 - y1))"
    using L by (simp only: dvd_minus_iff)
  ultimately have "P dvd (s * (x1 - x3) - y1) - (s * (x2 - x3) - y2)"
    by (simp only:)
  then have y3: "(s * (x1 - x3) - y1) mod P = (s * (x2 - x3) - y2) mod P"
    by (simp only: mod_eq_dvd_iff)
  show ?thesis
    by (simp only: add_with_slope_def Let_def x3' x3_def [symmetric] y3)
qed

lemma inverse_negated:
  assumes nd: "\<not> P dvd d" and i: "P dvd (d * i - 1)" and j: "P dvd ((- d) * j - 1)"
  shows "P dvd (i + j)"
proof -
  have "P dvd (d * i - 1) - ((- d) * j - 1)"
    using i j by (rule dvd_diff)
  moreover have "(d * i - 1) - ((- d) * j - 1) = d * (i + j)"
    by (simp add: algebra_simps)
  ultimately have "P dvd d * (i + j)" by (simp only:)
  with nd show ?thesis by (rule P_cancel)
qed

lemma point_add_distinct_commute:
  assumes ne: "x1 mod P \<noteq> x2 mod P"
  shows "point_add \<lparr>point_x = Some x1, point_y = Some y1\<rparr> \<lparr>point_x = Some x2, point_y = Some y2\<rparr> =
         point_add \<lparr>point_x = Some x2, point_y = Some y2\<rparr> \<lparr>point_x = Some x1, point_y = Some y1\<rparr>"
proof -
  have nd: "\<not> P dvd (x2 - x1)"
    using ne by (metis mod_eq_dvd_iff)
  then have nd': "\<not> P dvd (x1 - x2)"
    by (metis dvd_minus_iff minus_diff_eq)
  have xne: "x1 \<noteq> x2" "x2 \<noteq> x1" using ne by auto
  obtain i where i: "mod_inverse (x2 - x1) P = Inr i" "P dvd ((x2 - x1) * i - 1)"
    using mod_inverse_unit [OF nd] by blast
  obtain j where j: "mod_inverse (x1 - x2) P = Inr j" "P dvd ((x1 - x2) * j - 1)"
    using mod_inverse_unit [OF nd'] by blast
  have "P dvd ((- (x2 - x1)) * j - 1)"
    using j(2) by simp
  with nd i(2) have ij: "P dvd (i + j)" by (rule inverse_negated)
  define s where "s = ((y2 - y1) * i) mod P"
  have "(y2 - y1) * i - (y1 - y2) * j = (y2 - y1) * (i + j)"
    by (simp add: algebra_simps)
  moreover have "P dvd (y2 - y1) * (i + j)"
    using ij by (rule dvd_mult)
  ultimately have "P dvd (y2 - y1) * i - (y1 - y2) * j"
    by (simp only:)
  then have s': "((y1 - y2) * j) mod P = s"
    by (simp only: s_def mod_eq_dvd_iff [symmetric])
  have "P dvd (s * (x2 - x1) - (y2 - y1))"
    using i(2) s_def by (rule slope_chord)
  then have "add_with_slope s x1 y1 x2 = add_with_slope s x2 y2 x1"
    by (rule add_with_slope_swap)
  then show ?thesis
    using xne by (simp add: point_add_finite i(1) j(1) s' s_def [symmetric])
qed

lemma point_add_commute:
  assumes v1: "valid_point p1" and v2: "valid_point p2" and c: "x_compatible p1 p2"
  shows "point_add p1 p2 = point_add p2 p1"
proof -
  consider (inf1) "p1 = \<lparr>point_x = None, point_y = None\<rparr>"
    | (inf2) x1 y1 where "p1 = \<lparr>point_x = Some x1, point_y = Some y1\<rparr>" "p2 = \<lparr>point_x = None, point_y = None\<rparr>"
    | (fin) x1 y1 x2 y2 where "p1 = \<lparr>point_x = Some x1, point_y = Some y1\<rparr>"
        "p2 = \<lparr>point_x = Some x2, point_y = Some y2\<rparr>"
    using v1 v2 by (auto simp: valid_point_iff)
  then show ?thesis
  proof cases
    case inf1
    show ?thesis
    proof (cases "is_infinity p2")
      case True
      then have "p2 = \<lparr>point_x = None, point_y = None\<rparr>"
        by (cases p2) (simp add: is_infinity_def)
      with inf1 show ?thesis by simp
    next
      case False
      with inf1 show ?thesis
        by (simp add: point_add_def is_infinity_def)
    qed
  next
    case inf2
    then show ?thesis
      by (simp add: point_add_def is_infinity_def)
  next
    case fin
    show ?thesis
    proof (cases "x1 = x2")
      case True
      then show ?thesis
        by (cases "y1 = y2") (simp_all add: fin point_add_finite)
    next
      case False
      with c have "x1 mod P \<noteq> x2 mod P"
        by (simp add: x_compatible_def fin)
      then show ?thesis
        unfolding fin by (rule point_add_distinct_commute)
    qed
  qed
qed

subsection \<open>Adding the negated point\<close>

lemma negated_on_curve:
  assumes "(yv * yv) mod P = (xv * xv * xv + B) mod P"
  shows "(((P - yv) mod P) * ((P - yv) mod P)) mod P = (xv * xv * xv + B) mod P"
proof -
  have "(P - yv) * (P - yv) - yv * yv = P * (P - 2 * yv)"
    by (simp add: algebra_simps)
  then have "P dvd (P - yv) * (P - yv) - yv * yv"
    by simp
  then have "((P - yv) * (P - yv)) mod P = (yv * yv) mod P"
    by (simp only: mod_eq_dvd_iff)
  moreover have "(((P - yv) mod P) * ((P - yv) mod P)) mod P = ((P - yv) * (P - yv)) mod P"
    by (simp only: mod_mult_eq)
  ultimately show ?thesis
    using assms by (simp only:)
qed

lemma negated_differs:
  assumes "(yv * yv) mod P = (xv * xv * xv + B) mod P"
  shows "yv \<noteq> (P - yv) mod P"
proof
  assume eq: "yv = (P - yv) mod P"
  have "P dvd ((P - yv) mod P - (P - yv))" by (rule mod_P_dvd)
  then have "P dvd (yv - (P - yv))" using eq by simp
  then have "P dvd (2 * yv - P)" by (simp add: algebra_simps)
  then have "P dvd (2 * yv - P) + P" by (rule dvd_add) simp
  then have "P dvd 2 * yv" by simp
  moreover have "\<not> P dvd 2 * yv"
    using assms by (intro two_y_unit) (simp only: curve_dvd_iff [symmetric])
  ultimately show False by blast
qed

lemma point_add_negated:
  assumes "Point_init (Some xv) (Some yv) = Inr p"
  shows "\<exists>q r. Point_init (Some xv) (Some ((P - yv) mod P)) = Inr q \<and>
           point_add p q = Inr r \<and> is_infinity r"
proof -
  have p: "p = \<lparr>point_x = Some xv, point_y = Some yv\<rparr>"
    and on: "(yv * yv) mod P = (xv * xv * xv + B) mod P"
    using assms by (rule Point_init_Some_Inr)+
  define q where "q = \<lparr>point_x = Some xv, point_y = Some ((P - yv) mod P)\<rparr>"
  have "Point_init (Some xv) (Some ((P - yv) mod P)) = Inr q"
    by (simp only: Point_init_Some negated_on_curve [OF on] q_def if_True simp_thms)
  moreover have "point_add p q = Inr \<lparr>point_x = None, point_y = None\<rparr>"
    using negated_differs [OF on] by (simp add: p q_def point_add_finite Point_init_None)
  moreover have "is_infinity \<lparr>point_x = None, point_y = None\<rparr>"
    by (simp add: is_infinity_def)
  ultimately show ?thesis by blast
qed


subsection \<open>Reduced points\<close>

lemma Point_init_Inr:
  assumes "Point_init xo yo = Inr r"
  shows "r = \<lparr>point_x = xo, point_y = yo\<rparr>"
  using assms by (auto simp: Point_init_def Let_def split: if_splits sum.splits)

lemma point_add_reduced:
  assumes "point_add p1 p2 = Inr r" and "reduced p1" and "reduced p2"
  shows "reduced r"
proof (cases "is_infinity p1")
  case True
  with assms(1) have "Point_init (point_x p2) (point_y p2) = Inr r"
    by (simp add: point_add_def)
  then have "r = \<lparr>point_x = point_x p2, point_y = point_y p2\<rparr>"
    by (rule Point_init_Inr)
  with assms(3) show ?thesis by (simp add: reduced_def)
next
  case n1: False
  show ?thesis
  proof (cases "is_infinity p2")
    case True
    with n1 assms(1) have "Point_init (point_x p1) (point_y p1) = Inr r"
      by (simp add: point_add_def)
    then have "r = \<lparr>point_x = point_x p1, point_y = point_y p1\<rparr>"
      by (rule Point_init_Inr)
    with assms(2) show ?thesis by (simp add: reduced_def)
  next
    case n2: False
    show ?thesis
    proof (cases "is_infinity r")
      case True
      then show ?thesis by (simp add: reduced_def is_infinity_def)
    next
      case False
      with n1 n2 assms(1) have "\<exists>x3 y3. point_x r = Some x3 \<and> point_y r = Some y3 \<and>
          0 \<le> x3 \<and> x3 < P \<and> 0 \<le> y3 \<and> y3 < P"
        by (auto simp: point_add_def Point_init_None is_infinity_def
            split: option.splits if_splits sum.splits dest: add_with_slope_range)
      then show ?thesis by (auto simp: reduced_def)
    qed
  qed
qed

subsection \<open>Points whose first coordinates agree only modulo \<open>P\<close>\<close>

text \<open>Every element of \<open>[0, P)\<close> has 78 digits at most, so it can be formatted.\<close>

lemma str_int_ok_field:
  assumes "0 \<le> k" and "k < P"
  shows "str_int_ok k"
proof -
  have "P < 10 ^ 78" by (simp add: P_def)
  also have "(10::int) ^ 78 \<le> 10 ^ int_max_str_digits"
    by (rule power_increasing) (simp_all add: int_max_str_digits_def)
  finally have "P < 10 ^ int_max_str_digits" .
  with assms have "\<bar>k\<bar> < 10 ^ int_max_str_digits" by linarith
  then show ?thesis by (simp only: str_int_ok_def)
qed

text \<open>The inverse of a multiple of \<open>P\<close> is reported as \<open>0\<close>, so the slope of the chord
  between two such points is \<open>0\<close>.\<close>

lemma mod_inverse_multiple:
  assumes "P dvd d"
  shows "mod_inverse d P = Inr 0"
proof -
  have "d mod P = 0" using assms by simp
  moreover have "mod_inverse (d mod P) P = mod_inverse d P"
    using P_pos by (rule mod_inverse_mod)
  moreover have "mod_inverse 0 P = Inr 0"
    by (rule mod_inverse_zero) (simp add: P_def)
  ultimately show ?thesis by (simp only:)
qed

lemma point_add_congruent_x:
  assumes "x1 \<noteq> x2" and "P dvd (x2 - x1)"
  shows "point_add \<lparr>point_x = Some x1, point_y = Some y1\<rparr> \<lparr>point_x = Some x2, point_y = Some y2\<rparr> =
           add_with_slope 0 x1 y1 x2"
  using assms(1) by (simp add: point_add_finite mod_inverse_multiple [OF assms(2)])

lemma add_with_slope_raise_cert:
  assumes "s * s - x1 - x2 = q3 * P + x3" "0 \<le> x3" "x3 < P"
    and "s * (x1 - x3) - y1 = q4 * P + y3" "0 \<le> y3" "y3 < P"
    and "y3 * y3 = q5 * P + r5" "0 \<le> r5" "r5 < P"
    and "x3 * x3 * x3 + B = q6 * P + r6" "0 \<le> r6" "r6 < P"
    and "r5 \<noteq> r6"
  shows "add_with_slope s x1 y1 x2 = Inl (ValueError (Some x3) (Some y3))"
proof -
  have x3: "(s * s - x1 - x2) mod P = x3"
    using assms(1-3) by (rule mod_cert)
  have y3: "(s * (x1 - x3) - y1) mod P = y3"
    using assms(4-6) by (rule mod_cert)
  have l: "(y3 * y3) mod P = r5"
    using assms(7-9) by (rule mod_cert)
  have r: "(x3 * x3 * x3 + B) mod P = r6"
    using assms(10-12) by (rule mod_cert)
  have off: "(y3 * y3) mod P \<noteq> (x3 * x3 * x3 + B) mod P"
    using assms(13) by (simp only: l r simp_thms)
  have ok: "str_int_ok x3 \<and> str_int_ok y3"
    using assms(2,3,5,6) by (simp only: str_int_ok_field simp_thms)
  show ?thesis
    by (simp only: add_with_slope_def Let_def x3 y3 Point_init_Some off ok if_False if_True simp_thms)
qed

text \<open>The generator and the generator shifted by \<open>P\<close>: both are valid Points, and the
  chord through them, of slope \<open>0\<close>, ends off the curve.\<close>

lemma valid_pointI:
  assumes "(yv * yv) mod P = (xv * xv * xv + B) mod P"
  shows "valid_point \<lparr>point_x = Some xv, point_y = Some yv\<rparr>"
  using assms by (simp add: valid_point_iff)

lemma G_valid: "valid_point \<lparr>point_x = Some GX, point_y = Some GY\<rparr>"
  using G_on_curve by (rule valid_pointI)

lemma G_shifted_valid: "valid_point \<lparr>point_x = Some (GX + P), point_y = Some GY\<rparr>"
  using G_shifted_on_curve by (rule valid_pointI)

lemma G_shifted_negated_valid: "valid_point \<lparr>point_x = Some (GX + P), point_y = Some (P - GY)\<rparr>"
proof (rule valid_pointI)
  have "(P - GY) * (P - GY) - GY * GY = P * (P - 2 * GY)"
    by (simp add: algebra_simps)
  then have "P dvd (P - GY) * (P - GY) - GY * GY"
    by simp
  then have "((P - GY) * (P - GY)) mod P = (GY * GY) mod P"
    by (simp only: mod_eq_dvd_iff)
  with G_shifted_on_curve
  show "((P - GY) * (P - GY)) mod P = ((GX + P) * (GX + P) * (GX + P) + B) mod P"
    by (simp only:)
qed

lemma G2_valid: "valid_point \<lparr>point_x = Some G2X, point_y = Some G2Y\<rparr>"
proof -
  let ?g = "\<lparr>point_x = Some GX, point_y = Some GY\<rparr>"
  have "x_compatible ?g ?g" by (simp add: x_compatible_def)
  with G_valid G_valid obtain r where "point_add ?g ?g = Inr r" "valid_point r"
    using point_add_closed by blast
  with G_plus_G show ?thesis by simp
qed

lemma G_G2_reduced:
  "reduced \<lparr>point_x = Some GX, point_y = Some GY\<rparr>"
  "reduced \<lparr>point_x = Some G2X, point_y = Some G2Y\<rparr>"
  by (simp_all add: reduced_def GX_def GY_def G2X_def G2Y_def P_def)

lemma shifted_chord_x:
  "0 * 0 - GX - (GX + P) = (- 2) * P + 5659563192761508084413547218350839200768777758085375688457209287130601213183"
  by code_simp

lemma shifted_chord_residue:
  "5659563192761508084413547218350839200768777758085375688457209287130601213183 * 5659563192761508084413547218350839200768777758085375688457209287130601213183 * 5659563192761508084413547218350839200768777758085375688457209287130601213183 + B = 1565560482480535216891569125098323065246572323679065880210015859523131790102665804069468432414659868888328599476013650379204339582026466916747150732886 * P + 85390468201969347753721669118161700075581850768680653695516784157673027190076"
  by code_simp

lemma G_plus_shifted:
  "add_with_slope 0 GX GY (GX + P) =
     Inl (ValueError (Some 5659563192761508084413547218350839200768777758085375688457209287130601213183)
                     (Some 83121579216557378445487899878180864668798711284981320763518679672151497189239))"
proof (rule add_with_slope_raise_cert)
  show "0 * 0 - GX - (GX + P) = (- 2) * P + 5659563192761508084413547218350839200768777758085375688457209287130601213183"
    by (rule shifted_chord_x)
  show "0 * (GX - 5659563192761508084413547218350839200768777758085375688457209287130601213183) - GY = (- 1) * P + 83121579216557378445487899878180864668798711284981320763518679672151497189239"
    by code_simp
  show "83121579216557378445487899878180864668798711284981320763518679672151497189239 * 83121579216557378445487899878180864668798711284981320763518679672151497189239 = 59668989280381719403007809328625722294513782095040461153687201807501407064273 * P + 32748224938747404814623910738487752935528512903530129802856995983256684603122"
    by code_simp
  show "5659563192761508084413547218350839200768777758085375688457209287130601213183 * 5659563192761508084413547218350839200768777758085375688457209287130601213183 * 5659563192761508084413547218350839200768777758085375688457209287130601213183 + B = 1565560482480535216891569125098323065246572323679065880210015859523131790102665804069468432414659868888328599476013650379204339582026466916747150732886 * P + 85390468201969347753721669118161700075581850768680653695516784157673027190076"
    by (rule shifted_chord_residue)
qed (simp_all add: P_def)

lemma shifted_plus_G:
  "add_with_slope 0 (GX + P) (P - GY) GX =
     Inl (ValueError (Some 5659563192761508084413547218350839200768777758085375688457209287130601213183) (Some GY))"
proof (rule add_with_slope_raise_cert)
  show "0 * 0 - (GX + P) - GX = (- 2) * P + 5659563192761508084413547218350839200768777758085375688457209287130601213183"
    using shifted_chord_x by (simp only: algebra_simps)
  show "0 * (GX + P - 5659563192761508084413547218350839200768777758085375688457209287130601213183) - (P - GY) = (- 1) * P + GY"
    by simp
  show "GY * GY = 9217920084583157935602994580951900810186344190718383666107426471107247357458 * P + 32748224938747404814623910738487752935528512903530129802856995983256684603122"
    by code_simp
  show "5659563192761508084413547218350839200768777758085375688457209287130601213183 * 5659563192761508084413547218350839200768777758085375688457209287130601213183 * 5659563192761508084413547218350839200768777758085375688457209287130601213183 + B = 1565560482480535216891569125098323065246572323679065880210015859523131790102665804069468432414659868888328599476013650379204339582026466916747150732886 * P + 85390468201969347753721669118161700075581850768680653695516784157673027190076"
    by (rule shifted_chord_residue)
qed (simp_all add: P_def GY_def)

section \<open>The claims\<close>

text \<open>Claim C3, as stated, asks for \<open>(a * b) mod m = 1\<close> for every \<open>m > 0\<close>. With
  \<open>m = 1\<close> every residue is \<open>0\<close>, so the equation fails there although the
  congruence \<open>a * b \<equiv> 1 (mod m)\<close> holds.\<close>

theorem C3_counterexample:
  "(0::int) < 1 \<and> gcd (5::int) 1 = 1 \<and> mod_inverse 5 1 = Inr 0 \<and> (5 * 0) mod (1::int) \<noteq> 1"
  by (simp add: mod_inverse_def loop_input_def euclid_loop.simps)

text \<open>Claim C3 (amended): for all integers \<open>a\<close>, \<open>m\<close> with \<open>m > 0\<close> and
  \<open>gcd a m = 1\<close>, \<open>mod_inverse a m\<close> returns an integer \<open>b\<close> with \<open>0 \<le> b < m\<close>
  and \<open>a * b\<close> congruent to \<open>1\<close> modulo \<open>m\<close> (so \<open>(a * b) mod m = 1\<close> whenever
  \<open>m > 1\<close>).\<close>

theorem C3_mod_inverse_congruent:
  assumes "0 < m" and "gcd a m = 1"
  shows "\<exists>b. mod_inverse a m = Inr b \<and> 0 \<le> b \<and> b < m \<and> (a * b) mod m = 1 mod m \<and>
           (1 < m \<longrightarrow> (a * b) mod m = 1)"
proof -
  obtain b where b: "mod_inverse a m = Inr b" "0 \<le> b" "b < m" "(a * b) mod m = 1 mod m"
    using mod_inverse_correct [OF assms] by blast
  have "1 < m \<longrightarrow> (a * b) mod m = 1"
  proof
    assume "1 < m"
    then have "1 mod m = 1" by (intro mod_pos_pos_trivial) simp_all
    with b(4) show "(a * b) mod m = 1" by (simp only:)
  qed
  with b show ?thesis by blast
qed

theorem C3_mod_inverse_congruent_witness:
  "(0::int) < 7 \<and> gcd (-4::int) 7 = 1 \<and>
   (\<exists>b. mod_inverse (-4) 7 = Inr b \<and> 0 \<le> b \<and> b < 7 \<and> (-4 * b) mod 7 = 1 mod 7 \<and>
        (1 < (7::int) \<longrightarrow> (-4 * b) mod 7 = 1))"
proof -
  have h1: "(0::int) < 7" by simp
  have h2: "gcd (-4::int) 7 = 1" by code_simp
  show ?thesis
    using C3_mod_inverse_congruent [OF h1 h2] h1 h2 by blast
qed

text \<open>Claim C9, as stated, says that \<open>mod_inverse\<close> first normalises its input into
  \<open>[0, m)\<close> and then runs the loop. The code rewrites a negative input only: for
  \<open>a = 24\<close>, \<open>m = 7\<close> the loop is entered with \<open>24\<close>, which is neither in \<open>[0, 7)\<close> nor
  the normalised value \<open>3\<close>.\<close>

theorem C9_counterexample:
  "loop_input 24 7 = 24 \<and> \<not> (24::int) < 7 \<and> ((24 mod 7) + 7) mod (7::int) = 3 \<and>
   mod_inverse 24 7 = Inr (euclid_loop 24 7 1 0 mod 7)"
  by (simp add: mod_inverse_def loop_input_def)

text \<open>Claim C9 (amended): only a negative input is rewritten, to
  \<open>((a mod m) + m) mod m\<close>, before the loop; a non-negative \<open>a\<close> (also \<open>a \<ge> m\<close>) enters
  the loop unchanged. For every integer \<open>a\<close> and every modulus \<open>m > 0\<close> (in particular
  when \<open>gcd a m = 1\<close>) the result is nevertheless the one for the normalised input:
  \<open>mod_inverse a m = mod_inverse (((a mod m) + m) mod m) m\<close>.\<close>

theorem C9_only_negative_normalised:
  "(a < 0 \<longrightarrow> loop_input a m = (a mod m + m) mod m) \<and>
   (0 \<le> a \<longrightarrow> loop_input a m = a) \<and>
   (0 < m \<longrightarrow> mod_inverse a m = Inr (euclid_loop (loop_input a m) m 1 0 mod m)) \<and>
   (0 < m \<longrightarrow> mod_inverse a m = mod_inverse ((a mod m + m) mod m) m)"
proof -
  have "0 < m \<longrightarrow> mod_inverse a m = mod_inverse ((a mod m + m) mod m) m"
  proof
    assume m: "0 < m"
    have "(a mod m + m) mod m = a mod m" by simp
    then show "mod_inverse a m = mod_inverse ((a mod m + m) mod m) m"
      using mod_inverse_mod [OF m, of a] by (simp only:)
  qed
  moreover have "0 < m \<longrightarrow> mod_inverse a m = Inr (euclid_loop (loop_input a m) m 1 0 mod m)"
    by (simp add: mod_inverse_def Let_def)
  moreover have "a < 0 \<longrightarrow> loop_input a m = (a mod m + m) mod m"
    by (simp add: loop_input_def)
  moreover have "0 \<le> a \<longrightarrow> loop_input a m = a"
    by (simp add: loop_input_def)
  ultimately show ?thesis by blast
qed

theorem C9_only_negative_normalised_witness:
  "(-4::int) < 0 \<and> loop_input (-4) 7 = (-4 mod 7 + 7) mod 7 \<and> (0::int) < 7 \<and>
   mod_inverse (-4) 7 = mod_inverse ((-4 mod 7 + 7) mod 7) 7 \<and>
   (0::int) \<le> 24 \<and> loop_input 24 7 = 24 \<and>
   mod_inverse 24 7 = Inr (euclid_loop (loop_input 24 7) 7 1 0 mod 7) \<and>
   mod_inverse 24 7 = mod_inverse ((24 mod 7 + 7) mod 7) 7 \<and> mod_inverse 24 7 = Inr 5"
proof -
  have h1: "(-4::int) < 0" by simp
  have h2: "(0::int) < 7" by simp
  have h3: "(0::int) \<le> 24" by simp
  have h4: "mod_inverse 24 7 = Inr 5" by code_simp
  show ?thesis
    using C9_only_negative_normalised [of "-4" 7] C9_only_negative_normalised [of 24 7] h1 h2 h3 h4
    by blast
qed

text \<open>Claim C10: for every modulus \<open>m > 1\<close>, \<open>mod_inverse 0 m\<close> returns \<open>0\<close> and raises
  nothing, although the returned value is no inverse: \<open>0 * 0\<close> is not \<open>1\<close> modulo
  \<open>m\<close>.\<close>

theorem C10_mod_inverse_zero:
  assumes "1 < m"
  shows "mod_inverse 0 m = Inr 0 \<and> (0 * 0) mod m \<noteq> 1"
proof
  show "mod_inverse 0 m = Inr 0"
    using assms by (rule mod_inverse_zero)
  show "(0 * 0) mod m \<noteq> 1"
    by simp
qed

theorem C10_mod_inverse_zero_witness:
  "(1::int) < P \<and> mod_inverse 0 P = Inr 0 \<and> (0 * 0) mod P \<noteq> 1"
proof -
  have h: "1 < P" by (simp add: P_def)
  show ?thesis
    using C10_mod_inverse_zero [OF h] h by blast
qed

text \<open>Claim C5, as stated, says that for all integers the error raised off the curve
  carries the offending coordinates. The message is formatted before the error is
  raised, and a coordinate of more than 4300 decimal digits cannot be formatted: for
  \<open>x = 1 + P * 10\<^sup>4\<^sup>3\<^sup>0\<^sup>0\<close>, \<open>y = 1\<close> (off the curve) the error is the interpreter's, and
  names no coordinate.\<close>

theorem C5_counterexample:
  "(1 ^ 2) mod P \<noteq> ((1 + P * 10 ^ int_max_str_digits) ^ 3 + 7) mod P \<and>
   Point_init (Some (1 + P * 10 ^ int_max_str_digits)) (Some 1) = Inl ValueError_digit_limit \<and>
   Point_init (Some (1 + P * 10 ^ int_max_str_digits)) (Some 1) \<noteq>
     Inl (ValueError (Some (1 + P * 10 ^ int_max_str_digits)) (Some 1))"
proof -
  define k :: int where "k = 10 ^ int_max_str_digits"
  define xv where "xv = 1 + P * k"
  have k0: "0 \<le> k" by (simp add: k_def)
  have xm: "xv mod P = 1 mod P"
    by (simp add: xv_def)
  have small: "(1 * 1) mod P \<noteq> (1 * 1 * 1 + B) mod P"
    by (simp add: P_def B_def)
  have off: "(1 * 1) mod P \<noteq> (xv * xv * xv + B) mod P"
    using small by (simp only: curve_eq_cong [OF xm refl] simp_thms)
  have "1 * k \<le> P * k"
    using k0 by (intro mult_right_mono) (simp_all add: P_def)
  then have "k \<le> P * k" by (simp only: mult_1)
  then have "k \<le> xv" unfolding xv_def by linarith
  then have "k \<le> \<bar>xv\<bar>" by linarith
  then have long: "\<not> str_int_ok xv"
    by (simp add: str_int_ok_def k_def)
  have init: "Point_init (Some xv) (Some 1) = Inl ValueError_digit_limit"
    by (simp only: Point_init_Some off long if_False simp_thms)
  have "(1 ^ 2) mod P \<noteq> (xv ^ 3 + 7) mod P"
    using off by (simp only: power2_eq_square power3_eq_cube B_def simp_thms)
  with init have "(1 ^ 2) mod P \<noteq> (xv ^ 3 + 7) mod P \<and>
      Point_init (Some xv) (Some 1) = Inl ValueError_digit_limit \<and>
      Point_init (Some xv) (Some 1) \<noteq> Inl (ValueError (Some xv) (Some 1))"
    by simp
  then show ?thesis
    unfolding xv_def k_def .
qed

text \<open>Claim C5 (amended): for all integers \<open>x\<close>, \<open>y\<close>, the construction \<open>Point(x, y)\<close>
  raises an error if and only if \<open>y\<^sup>2\<close> is not congruent to \<open>x\<^sup>3 + 7\<close> modulo \<open>P\<close>, and
  the error is a \<open>ValueError\<close>. It is the not-on-curve error carrying both
  coordinates whenever both have at most 4300 decimal digits
  (\<open>\<bar>x\<bar>, \<bar>y\<bar> < 10\<^sup>4\<^sup>3\<^sup>0\<^sup>0\<close>), and otherwise the error of the interpreter's digit limit,
  raised while the message is formatted. When the congruence holds the construction
  succeeds and \<open>is_on_curve\<close> is true of the constructed point.\<close>

theorem C5_construction_validates:
  "((\<exists>e. Point_init (Some xv) (Some yv) = Inl e) \<longleftrightarrow> (yv ^ 2) mod P \<noteq> (xv ^ 3 + 7) mod P) \<and>
   (\<bar>xv\<bar> < 10 ^ int_max_str_digits \<and> \<bar>yv\<bar> < 10 ^ int_max_str_digits \<longrightarrow>
      (Point_init (Some xv) (Some yv) = Inl (ValueError (Some xv) (Some yv))
        \<longleftrightarrow> (yv ^ 2) mod P \<noteq> (xv ^ 3 + 7) mod P)) \<and>
   (\<not> (\<bar>xv\<bar> < 10 ^ int_max_str_digits \<and> \<bar>yv\<bar> < 10 ^ int_max_str_digits) \<longrightarrow>
      (Point_init (Some xv) (Some yv) = Inl ValueError_digit_limit
        \<longleftrightarrow> (yv ^ 2) mod P \<noteq> (xv ^ 3 + 7) mod P)) \<and>
   ((yv ^ 2) mod P = (xv ^ 3 + 7) mod P \<longrightarrow>
      (\<exists>p. Point_init (Some xv) (Some yv) = Inr p \<and> point_x p = Some xv \<and> point_y p = Some yv \<and>
           is_on_curve p = Inr True))"
proof -
  have pw: "yv ^ 2 = yv * yv" "xv ^ 3 + 7 = xv * xv * xv + B"
    by (simp_all add: power2_eq_square power3_eq_cube B_def)
  have ok: "str_int_ok xv \<and> str_int_ok yv \<longleftrightarrow>
      \<bar>xv\<bar> < 10 ^ int_max_str_digits \<and> \<bar>yv\<bar> < 10 ^ int_max_str_digits"
    by (simp only: str_int_ok_def)
  show ?thesis
  proof (cases "(yv * yv) mod P = (xv * xv * xv + B) mod P")
    case True
    have "Point_init (Some xv) (Some yv) = Inr \<lparr>point_x = Some xv, point_y = Some yv\<rparr>"
      by (simp only: Point_init_Some True if_True simp_thms)
    moreover have "is_on_curve \<lparr>point_x = Some xv, point_y = Some yv\<rparr> = Inr True"
      by (simp add: is_on_curve_def is_infinity_def Let_def True)
    ultimately show ?thesis
      unfolding pw using True by auto
  next
    case False
    show ?thesis
    proof (cases "str_int_ok xv \<and> str_int_ok yv")
      case True
      then have "Point_init (Some xv) (Some yv) = Inl (ValueError (Some xv) (Some yv))"
        by (simp only: Point_init_Some False if_False if_True simp_thms)
      then show ?thesis
        unfolding pw using False True [unfolded ok] by auto
    next
      case nok: False
      then have "Point_init (Some xv) (Some yv) = Inl ValueError_digit_limit"
        by (simp only: Point_init_Some False if_False simp_thms)
      then show ?thesis
        unfolding pw using False nok [unfolded ok] by auto
    qed
  qed
qed

theorem C5_construction_validates_witness:
  "(GY ^ 2) mod P = (GX ^ 3 + 7) mod P \<and>
   (\<exists>p. Point_init (Some GX) (Some GY) = Inr p \<and> point_x p = Some GX \<and> point_y p = Some GY \<and>
        is_on_curve p = Inr True) \<and>
   \<bar>1::int\<bar> < 10 ^ int_max_str_digits \<and>
   (1 ^ 2) mod P \<noteq> (1 ^ 3 + 7) mod P \<and>
   Point_init (Some 1) (Some 1) = Inl (ValueError (Some 1) (Some 1)) \<and>
   \<not> (\<bar>1 + P * 10 ^ int_max_str_digits\<bar> < 10 ^ int_max_str_digits \<and> \<bar>1::int\<bar> < 10 ^ int_max_str_digits) \<and>
   Point_init (Some (1 + P * 10 ^ int_max_str_digits)) (Some 1) = Inl ValueError_digit_limit"
proof -
  define k :: int where "k = 10 ^ int_max_str_digits"
  define xv where "xv = 1 + P * k"
  have h1: "(GY ^ 2) mod P = (GX ^ 3 + 7) mod P"
    using G_on_curve by (simp only: power2_eq_square power3_eq_cube B_def)
  have h2: "((1::int) ^ 2) mod P \<noteq> (1 ^ 3 + 7) mod P"
    by (simp add: P_def)
  have "0 < int_max_str_digits"
    by (simp add: int_max_str_digits_def)
  then have k1: "1 < k"
    unfolding k_def by (intro one_less_power) simp_all
  then have h3: "\<bar>1::int\<bar> < k" by simp
  have "1 * k \<le> P * k"
    using k1 by (intro mult_right_mono) (simp_all add: P_def)
  then have "k \<le> P * k" by (simp only: mult_1)
  then have "k \<le> xv" unfolding xv_def by linarith
  then have "k \<le> \<bar>xv\<bar>" by linarith
  then have h4: "\<not> (\<bar>xv\<bar> < k \<and> \<bar>1::int\<bar> < k)" by simp
  have xm: "xv mod P = 1 mod P"
    by (simp add: xv_def)
  have "(1 * 1) mod P \<noteq> (1 * 1 * 1 + B) mod P"
    by (simp add: P_def B_def)
  then have "(1 * 1) mod P \<noteq> (xv * xv * xv + B) mod P"
    by (simp only: curve_eq_cong [OF xm refl] simp_thms)
  then have h5: "(1 ^ 2) mod P \<noteq> (xv ^ 3 + 7) mod P"
    by (simp only: power2_eq_square power3_eq_cube B_def simp_thms)
  have "(GY ^ 2) mod P = (GX ^ 3 + 7) mod P \<and>
   (\<exists>p. Point_init (Some GX) (Some GY) = Inr p \<and> point_x p = Some GX \<and> point_y p = Some GY \<and>
        is_on_curve p = Inr True) \<and>
   \<bar>1::int\<bar> < k \<and>
   (1 ^ 2) mod P \<noteq> (1 ^ 3 + 7) mod P \<and>
   Point_init (Some 1) (Some 1) = Inl (ValueError (Some 1) (Some 1)) \<and>
   \<not> (\<bar>xv\<bar> < k \<and> \<bar>1::int\<bar> < k) \<and>
   Point_init (Some xv) (Some 1) = Inl ValueError_digit_limit"
    using C5_construction_validates [of GX GY] C5_construction_validates [of 1 1]
      C5_construction_validates [of xv 1] h1 h2 h3 h4 h5
    unfolding k_def [symmetric]
    by blast
  then show ?thesis
    unfolding xv_def k_def .
qed

text \<open>Claim C4, as stated, says a constructed finite point has both coordinates in
  \<open>[0, P)\<close>. The constructor reduces nothing: the generator shifted by \<open>P\<close> in its
  first coordinate is accepted and stored as given.\<close>

theorem C4_counterexample:
  "Point_init (Some (GX + P)) (Some GY) = Inr \<lparr>point_x = Some (GX + P), point_y = Some GY\<rparr> \<and>
   \<not> GX + P < P"
proof
  show "Point_init (Some (GX + P)) (Some GY) = Inr \<lparr>point_x = Some (GX + P), point_y = Some GY\<rparr>"
    by (simp only: Point_init_Some G_shifted_on_curve if_True simp_thms)
  show "\<not> GX + P < P"
    by (simp add: GX_def)
qed

text \<open>Claim C4 (amended): a finite Point that is successfully constructed holds its
  coordinates exactly as supplied and they satisfy the curve congruence; the
  coordinates lie in \<open>[0, P)\<close> for every finite Point that \<open>point_add\<close> returns from
  two finite Points.\<close>

theorem C4_coordinates:
  "(Point_init (Some xv) (Some yv) = Inr p \<longrightarrow>
      point_x p = Some xv \<and> point_y p = Some yv \<and> (yv * yv) mod P = (xv * xv * xv + B) mod P) \<and>
   (\<not> is_infinity p1 \<and> \<not> is_infinity p2 \<and> point_add p1 p2 = Inr r \<and> \<not> is_infinity r \<longrightarrow>
      (\<exists>x3 y3. point_x r = Some x3 \<and> point_y r = Some y3 \<and>
         0 \<le> x3 \<and> x3 < P \<and> 0 \<le> y3 \<and> y3 < P))"
proof -
  have "Point_init (Some xv) (Some yv) = Inr p \<longrightarrow>
      point_x p = Some xv \<and> point_y p = Some yv \<and> (yv * yv) mod P = (xv * xv * xv + B) mod P"
    by (auto dest: Point_init_Some_Inr)
  moreover have "\<not> is_infinity p1 \<and> \<not> is_infinity p2 \<and> point_add p1 p2 = Inr r \<and> \<not> is_infinity r \<longrightarrow>
      (\<exists>x3 y3. point_x r = Some x3 \<and> point_y r = Some y3 \<and>
         0 \<le> x3 \<and> x3 < P \<and> 0 \<le> y3 \<and> y3 < P)"
    by (auto simp: point_add_def Point_init_None is_infinity_def
        split: option.splits if_splits sum.splits dest: add_with_slope_range)
  ultimately show ?thesis by blast
qed

theorem C4_coordinates_witness:
  "Point_init (Some GX) (Some GY) = Inr \<lparr>point_x = Some GX, point_y = Some GY\<rparr> \<and>
   (GY * GY) mod P = (GX * GX * GX + B) mod P \<and>
   (\<exists>r. point_add \<lparr>point_x = Some GX, point_y = Some GY\<rparr> \<lparr>point_x = Some GX, point_y = Some GY\<rparr> = Inr r \<and>
      \<not> is_infinity r \<and>
      (\<exists>x3 y3. point_x r = Some x3 \<and> point_y r = Some y3 \<and>
         0 \<le> x3 \<and> x3 < P \<and> 0 \<le> y3 \<and> y3 < P))"
proof -
  let ?g = "\<lparr>point_x = Some GX, point_y = Some GY\<rparr>"
  let ?r = "\<lparr>point_x = Some G2X, point_y = Some G2Y\<rparr>"
  have h0: "Point_init (Some GX) (Some GY) = Inr ?g"
    using G_eq by (simp add: G_def)
  have h1: "\<not> is_infinity ?g" by (simp add: is_infinity_def)
  have h2: "\<not> is_infinity ?r" by (simp add: is_infinity_def)
  show ?thesis
    using C4_coordinates [of GX GY ?g ?g ?g ?r] h0 h1 h2 G_plus_G by blast
qed


text \<open>Claim C8: for every valid finite Point \<open>(x, y)\<close>, the Point
  \<open>(x, (P - y) mod P)\<close> can be constructed, and \<open>point_add\<close> of the two is the point at
  infinity. The two second coordinates differ because no point of the curve has a
  second coordinate divisible by \<open>P\<close>: \<open>P\<close> is an odd prime and \<open>-7\<close> is not a cube
  modulo \<open>P\<close>.\<close>

theorem C8_add_negated:
  assumes "Point_init (Some xv) (Some yv) = Inr p"
  shows "\<exists>q. Point_init (Some xv) (Some ((P - yv) mod P)) = Inr q \<and>
           point_add p q = Inr \<lparr>point_x = None, point_y = None\<rparr> \<and>
           is_infinity \<lparr>point_x = None, point_y = None\<rparr>"
proof -
  obtain q r where q: "Point_init (Some xv) (Some ((P - yv) mod P)) = Inr q"
    and r: "point_add p q = Inr r" "is_infinity r"
    using point_add_negated [OF assms] by blast
  from r(2) have "r = \<lparr>point_x = None, point_y = None\<rparr>"
    by (cases r) (simp add: is_infinity_def)
  with q r show ?thesis by blast
qed

theorem C8_add_negated_witness:
  "Point_init (Some GX) (Some GY) = Inr \<lparr>point_x = Some GX, point_y = Some GY\<rparr> \<and>
   (\<exists>q. Point_init (Some GX) (Some ((P - GY) mod P)) = Inr q \<and>
      point_add \<lparr>point_x = Some GX, point_y = Some GY\<rparr> q = Inr \<lparr>point_x = None, point_y = None\<rparr> \<and>
      is_infinity \<lparr>point_x = None, point_y = None\<rparr>)"
proof -
  have h: "Point_init (Some GX) (Some GY) = Inr \<lparr>point_x = Some GX, point_y = Some GY\<rparr>"
    using G_eq by (simp only: G_def)
  from C8_add_negated [OF h] h show ?thesis by blast
qed

text \<open>Claim C7, as stated, says \<open>point_add\<close> is commutative on all valid Points. The
  constructor accepts coordinates outside \<open>[0, P)\<close>, and \<open>point_add\<close> compares first
  coordinates as integers: for the generator \<open>(GX, GY)\<close> and the valid Point
  \<open>(GX + P, P - GY)\<close> the slope is computed from the inverse of \<open>P\<close> or \<open>-P\<close>, which is
  reported as \<open>0\<close>, and the two orders raise errors that carry different
  coordinates.\<close>

theorem C7_counterexample:
  "valid_point \<lparr>point_x = Some GX, point_y = Some GY\<rparr> \<and>
   valid_point \<lparr>point_x = Some (GX + P), point_y = Some (P - GY)\<rparr> \<and>
   point_add \<lparr>point_x = Some GX, point_y = Some GY\<rparr> \<lparr>point_x = Some (GX + P), point_y = Some (P - GY)\<rparr> =
     Inl (ValueError (Some 5659563192761508084413547218350839200768777758085375688457209287130601213183)
                     (Some 83121579216557378445487899878180864668798711284981320763518679672151497189239)) \<and>
   point_add \<lparr>point_x = Some (GX + P), point_y = Some (P - GY)\<rparr> \<lparr>point_x = Some GX, point_y = Some GY\<rparr> =
     Inl (ValueError (Some 5659563192761508084413547218350839200768777758085375688457209287130601213183)
                     (Some GY)) \<and>
   point_add \<lparr>point_x = Some GX, point_y = Some GY\<rparr> \<lparr>point_x = Some (GX + P), point_y = Some (P - GY)\<rparr> \<noteq>
     point_add \<lparr>point_x = Some (GX + P), point_y = Some (P - GY)\<rparr> \<lparr>point_x = Some GX, point_y = Some GY\<rparr>"
proof -
  let ?g = "\<lparr>point_x = Some GX, point_y = Some GY\<rparr>"
  let ?h = "\<lparr>point_x = Some (GX + P), point_y = Some (P - GY)\<rparr>"
  have ne: "GX \<noteq> GX + P" "GX + P \<noteq> GX"
    using P_pos by simp_all
  have "P dvd (GX + P - GX)" by simp
  with ne(1) have "point_add ?g ?h = add_with_slope 0 GX GY (GX + P)"
    by (rule point_add_congruent_x)
  then have a: "point_add ?g ?h =
      Inl (ValueError (Some 5659563192761508084413547218350839200768777758085375688457209287130601213183)
                      (Some 83121579216557378445487899878180864668798711284981320763518679672151497189239))"
    by (simp only: G_plus_shifted)
  have "P dvd (GX - (GX + P))" by simp
  with ne(2) have "point_add ?h ?g = add_with_slope 0 (GX + P) (P - GY) GX"
    by (rule point_add_congruent_x)
  then have b: "point_add ?h ?g =
      Inl (ValueError (Some 5659563192761508084413547218350839200768777758085375688457209287130601213183) (Some GY))"
    by (simp only: shifted_plus_G)
  have "(83121579216557378445487899878180864668798711284981320763518679672151497189239::int) \<noteq> GY"
    by (simp add: GY_def)
  then have c: "point_add ?g ?h \<noteq> point_add ?h ?g"
    by (simp only: a b) simp
  from G_valid G_shifted_negated_valid a b c show ?thesis by blast
qed

text \<open>Claim C7 (amended): \<open>point_add\<close> is commutative on all valid Points whose first
  coordinates are equal or differ modulo \<open>P\<close>; in particular on all valid Points with
  coordinates in \<open>[0, P)\<close>. Both orders return the same Point.\<close>

theorem C7_commutative_compatible:
  assumes "valid_point p1" and "valid_point p2"
    and "x_compatible p1 p2 \<or> reduced p1 \<and> reduced p2"
  shows "point_add p1 p2 = point_add p2 p1 \<and> (\<exists>r. point_add p1 p2 = Inr r)"
proof -
  from assms(3) have c: "x_compatible p1 p2"
    using reduced_x_compatible by blast
  from assms(1,2) c have "point_add p1 p2 = point_add p2 p1"
    by (rule point_add_commute)
  moreover from assms(1,2) c have "\<exists>r. point_add p1 p2 = Inr r"
    using point_add_closed by blast
  ultimately show ?thesis ..
qed

theorem C7_commutative_compatible_witness:
  "valid_point \<lparr>point_x = Some GX, point_y = Some GY\<rparr> \<and>
   valid_point \<lparr>point_x = Some G2X, point_y = Some G2Y\<rparr> \<and>
   reduced \<lparr>point_x = Some GX, point_y = Some GY\<rparr> \<and>
   reduced \<lparr>point_x = Some G2X, point_y = Some G2Y\<rparr> \<and>
   point_add \<lparr>point_x = Some GX, point_y = Some GY\<rparr> \<lparr>point_x = Some G2X, point_y = Some G2Y\<rparr> =
     point_add \<lparr>point_x = Some G2X, point_y = Some G2Y\<rparr> \<lparr>point_x = Some GX, point_y = Some GY\<rparr> \<and>
   (\<exists>r. point_add \<lparr>point_x = Some GX, point_y = Some GY\<rparr> \<lparr>point_x = Some G2X, point_y = Some G2Y\<rparr> = Inr r)"
  using C7_commutative_compatible [of "\<lparr>point_x = Some GX, point_y = Some GY\<rparr>"
      "\<lparr>point_x = Some G2X, point_y = Some G2Y\<rparr>"] G_valid G2_valid G_G2_reduced
  by blast

text \<open>Claim C1, as stated, says \<open>point_add\<close> is total and closed on all valid Points.
  For the generator \<open>(GX, GY)\<close> and the valid Point \<open>(GX + P, GY)\<close> the first
  coordinates differ as integers, the slope is \<open>0\<close>, and the constructor rejects the
  result: \<open>point_add\<close> raises the not-on-curve error.\<close>

theorem C1_counterexample:
  "valid_point \<lparr>point_x = Some GX, point_y = Some GY\<rparr> \<and>
   valid_point \<lparr>point_x = Some (GX + P), point_y = Some GY\<rparr> \<and>
   is_on_curve \<lparr>point_x = Some (GX + P), point_y = Some GY\<rparr> = Inr True \<and>
   point_add \<lparr>point_x = Some GX, point_y = Some GY\<rparr> \<lparr>point_x = Some (GX + P), point_y = Some GY\<rparr> =
     Inl (ValueError (Some 5659563192761508084413547218350839200768777758085375688457209287130601213183)
                     (Some 83121579216557378445487899878180864668798711284981320763518679672151497189239))"
proof -
  let ?g = "\<lparr>point_x = Some GX, point_y = Some GY\<rparr>"
  let ?h = "\<lparr>point_x = Some (GX + P), point_y = Some GY\<rparr>"
  have ne: "GX \<noteq> GX + P"
    using P_pos by simp
  have "P dvd (GX + P - GX)" by simp
  with ne have "point_add ?g ?h = add_with_slope 0 GX GY (GX + P)"
    by (rule point_add_congruent_x)
  then have a: "point_add ?g ?h =
      Inl (ValueError (Some 5659563192761508084413547218350839200768777758085375688457209287130601213183)
                      (Some 83121579216557378445487899878180864668798711284981320763518679672151497189239))"
    by (simp only: G_plus_shifted)
  have "is_on_curve ?h = Inr True"
    using G_shifted_valid by (rule valid_point_on_curve)
  with G_valid G_shifted_valid a show ?thesis by blast
qed

text \<open>Claim C1 (amended): for every pair of valid Points whose first coordinates are
  equal or differ modulo \<open>P\<close>, in particular for every pair of valid Points with
  coordinates in \<open>[0, P)\<close>, \<open>point_add\<close> returns a Point without raising, the returned
  Point is valid and \<open>is_on_curve\<close> is true of it; when both arguments have their
  coordinates in \<open>[0, P)\<close>, so has the result.\<close>

theorem C1_closed_when_compatible:
  assumes "valid_point p1" and "valid_point p2"
    and "x_compatible p1 p2 \<or> reduced p1 \<and> reduced p2"
  shows "\<exists>r. point_add p1 p2 = Inr r \<and> valid_point r \<and> is_on_curve r = Inr True \<and>
           (reduced p1 \<and> reduced p2 \<longrightarrow> reduced r)"
proof -
  from assms(3) have c: "x_compatible p1 p2"
    using reduced_x_compatible by blast
  with assms(1,2) obtain r where r: "point_add p1 p2 = Inr r" "valid_point r"
    using point_add_closed by blast
  from r(2) have "is_on_curve r = Inr True"
    by (rule valid_point_on_curve)
  moreover have "reduced p1 \<and> reduced p2 \<longrightarrow> reduced r"
    using r(1) point_add_reduced by blast
  ultimately show ?thesis
    using r by blast
qed

theorem C1_closed_when_compatible_witness:
  "valid_point \<lparr>point_x = Some GX, point_y = Some GY\<rparr> \<and>
   valid_point \<lparr>point_x = Some G2X, point_y = Some G2Y\<rparr> \<and>
   reduced \<lparr>point_x = Some GX, point_y = Some GY\<rparr> \<and>
   reduced \<lparr>point_x = Some G2X, point_y = Some G2Y\<rparr> \<and>
   (\<exists>r. point_add \<lparr>point_x = Some GX, point_y = Some GY\<rparr> \<lparr>point_x = Some G2X, point_y = Some G2Y\<rparr> = Inr r \<and>
      valid_point r \<and> is_on_curve r = Inr True \<and> reduced r)"
  using C1_closed_when_compatible [of "\<lparr>point_x = Some GX, point_y = Some GY\<rparr>"
      "\<lparr>point_x = Some G2X, point_y = Some G2Y\<rparr>"] G_valid G2_valid G_G2_reduced
  by blast

end
